(* ===== verification/Prelude.thy ===== *)
theory Prelude
  imports Main "HOL-Library.Word" "HOL-Library.Char_ord" "HOL-Library.List_Lexorder"
    "HOL-Library.Sublist"
begin

text \<open>
  Shared ground of the development: the types every component uses (byte strings, UUIDs,
  instants), the 64-bit wrap-around of Go's \<open>int\<close>, the error values that the services
  return, the collections of facts that component proofs draw on, and a few general list
  lemmas.

  A Go \<open>string\<close> and a Go \<open>[]byte\<close> are both sequences of bytes, and so is HOL's
  \<^typ>\<open>string\<close>, whose characters are the 256 byte values.
\<close>

section \<open>Types shared by the components\<close>

type_synonym bytes = string

text \<open>\<open>uuid.UUID\<close> is an array of 16 bytes; \<open>uuid.Nil\<close> is the zero array.\<close>

type_synonym uuid = "128 word"

abbreviation uuid_nil :: uuid where "uuid_nil \<equiv> 0"

text \<open>\<open>time.Time\<close> and \<open>time.Duration\<close> count nanoseconds.\<close>

type_synonym instant = int
type_synonym duration = int

abbreviation ns_second :: duration where "ns_second \<equiv> 1000000000"
abbreviation ns_minute :: duration where "ns_minute \<equiv> 60000000000"
abbreviation ns_hour :: duration where "ns_hour \<equiv> 3600000000000"

section \<open>Fact collections\<close>

named_theorems frame \<open>which part of the state an operation leaves alone\<close>
named_theorems tick \<open>how an operation moves the call counter\<close>
named_theorems inv_step \<open>operations that keep an invariant\<close>

section \<open>Errors\<close>

text \<open>
  The sentinel errors of the packages, the failures of the services behind them, and the
  texts made with \<open>fmt.Errorf\<close>. \<open>EPanic\<close> is a run-time panic (an index out of range),
  which the HTTP stack recovers from.
\<close>

datatype err =
    EDb                     \<comment> \<open>a query or a connection failed\<close>
  | EConstraint string      \<comment> \<open>a constraint of the schema rejected a row\<close>
  | ENotFound               \<comment> \<open>\<open>store.ErrNotFound\<close>\<close>
  | EUnauthorized           \<comment> \<open>\<open>auth.ErrUnauthorized\<close>\<close>
  | EVaultLocked            \<comment> \<open>\<open>auth.ErrVaultLocked\<close>\<close>
  | EAuthBackend err        \<comment> \<open>\<open>auth.ErrAuthBackend\<close> wrapping a cause\<close>
  | EOpenAIRequired         \<comment> \<open>\<open>core.ErrOpenAIRequired\<close>\<close>
  | EInvalidCiphertext      \<comment> \<open>\<open>crypto.ErrInvalidCiphertext\<close>\<close>
  | EUpstream string        \<comment> \<open>a call to the model provider failed\<close>
  | ERand                   \<comment> \<open>the system's random source failed\<close>
  | EMsg string             \<comment> \<open>any other error text\<close>
  | EPanic string           \<comment> \<open>a run-time panic\<close>

text \<open>A Go result \<open>(v, err)\<close>: the error on the left, the value on the right.\<close>

type_synonym 'a res = "err + 'a"

section \<open>Go's 64-bit int\<close>

text \<open>\<open>int\<close> is 64 bits wide on the platforms the service is built for: results wrap.\<close>

definition i64 :: "int \<Rightarrow> int" where
  "i64 x = (x + 2 ^ 63) mod 2 ^ 64 - 2 ^ 63"

lemma i64_range: "- (2 ^ 63) \<le> i64 x \<and> i64 x < 2 ^ 63"
  by (simp add: i64_def)

lemma i64_id: "- (2 ^ 63) \<le> x \<Longrightarrow> x < 2 ^ 63 \<Longrightarrow> i64 x = x"
  by (simp add: i64_def)

lemma i64_sint: "i64 x = sint (word_of_int x :: 64 word)"
  by (simp add: i64_def sint_sbintrunc' signed_take_bit_eq_take_bit_shift take_bit_eq_mod)

section \<open>Lists\<close>

lemma distinct_map_filterI: "distinct (map f xs) \<Longrightarrow> distinct (map f (filter p xs))"
  by (induction xs) auto

lemma subseq_set: "subseq xs ys \<Longrightarrow> set xs \<subseteq> set ys"
  by (induction rule: list_emb.induct) auto

lemma sorted_wrt_subseq: "subseq xs ys \<Longrightarrow> sorted_wrt P ys \<Longrightarrow> sorted_wrt P xs"
  by (induction rule: list_emb.induct) (auto dest: subseq_set)

lemma insort_key_map: "insort_key f (g x) (map g ys) = map g (insort_key (f \<circ> g) x ys)"
  by (induction ys) auto

lemma sort_key_map: "sort_key f (map g xs) = map g (sort_key (f \<circ> g) xs)"
  by (induction xs) (simp_all add: insort_key_map o_def)

end
