(* ===== verification/Gostr.thy ===== *)
theory Gostr
  imports Prelude
begin

text \<open>
  The parts of Go's \<open>strings\<close>, \<open>unicode\<close> and \<open>unicode/utf8\<close> packages that the program
  uses, on byte strings: decoding and encoding of UTF-8 with the replacement rune for
  invalid bytes, \<open>[]rune(s)\<close> and \<open>string(rs)\<close>, \<open>TrimSpace\<close>, \<open>ToLower\<close>, prefixes and
  suffixes. The lower-case mapping of runes outside ASCII is a parameter (Unicode's tables).
  The lemmas give the round trip between runes and bytes and the laws of trimming.
\<close>

section \<open>Bytes and runes\<close>

type_synonym rune = nat

abbreviation byte :: "char \<Rightarrow> nat" where "byte \<equiv> of_char"
abbreviation chr :: "nat \<Rightarrow> char" where "chr \<equiv> char_of"

definition rune_error :: rune where "rune_error = 65533"

definition scalar :: "rune \<Rightarrow> bool" where
  "scalar r \<longleftrightarrow> r < 55296 \<or> (57344 \<le> r \<and> r \<le> 1114111)"

definition cont :: "nat \<Rightarrow> bool" where
  "cont b \<longleftrightarrow> 128 \<le> b \<and> b \<le> 191"

text \<open>\<open>utf8.DecodeRuneInString\<close>: the first rune and its width in bytes.\<close>

definition decode_rune :: "string \<Rightarrow> rune \<times> nat" where
  "decode_rune s = (case s of
     [] \<Rightarrow> (rune_error, 0)
   | c0 # t \<Rightarrow>
      (let p0 = byte c0 in
       if p0 < 128 then (p0, 1)
       else if p0 < 194 \<or> p0 > 244 then (rune_error, 1)
       else if p0 \<le> 223 then
         (case t of
            c1 # _ \<Rightarrow> if cont (byte c1)
                      then ((p0 - 192) * 64 + (byte c1 - 128), 2) else (rune_error, 1)
          | [] \<Rightarrow> (rune_error, 1))
       else if p0 \<le> 239 then
         (case t of
            c1 # c2 # _ \<Rightarrow>
              (let lo = (if p0 = 224 then 160 else 128); hi = (if p0 = 237 then 159 else 191) in
               if lo \<le> byte c1 \<and> byte c1 \<le> hi \<and> cont (byte c2)
               then ((p0 - 224) * 4096 + (byte c1 - 128) * 64 + (byte c2 - 128), 3)
               else (rune_error, 1))
          | _ \<Rightarrow> (rune_error, 1))
       else
         (case t of
            c1 # c2 # c3 # _ \<Rightarrow>
              (let lo = (if p0 = 240 then 144 else 128); hi = (if p0 = 244 then 143 else 191) in
               if lo \<le> byte c1 \<and> byte c1 \<le> hi \<and> cont (byte c2) \<and> cont (byte c3)
               then ((p0 - 240) * 262144 + (byte c1 - 128) * 4096
                     + (byte c2 - 128) * 64 + (byte c3 - 128), 4)
               else (rune_error, 1))
          | _ \<Rightarrow> (rune_error, 1))))"

text \<open>\<open>utf8.AppendRune\<close>: surrogates and values out of range are written as the error rune.\<close>

definition encode_scalar :: "rune \<Rightarrow> string" where
  "encode_scalar r =
     (if r < 128 then [chr r]
      else if r < 2048 then [chr (192 + r div 64), chr (128 + r mod 64)]
      else if r < 65536 then
        [chr (224 + r div 4096), chr (128 + r div 64 mod 64), chr (128 + r mod 64)]
      else
        [chr (240 + r div 262144), chr (128 + r div 4096 mod 64),
         chr (128 + r div 64 mod 64), chr (128 + r mod 64)])"

definition encode_rune :: "rune \<Rightarrow> string" where
  "encode_rune r = encode_scalar (if scalar r then r else rune_error)"

lemma decode_rune_Nil [simp]: "decode_rune [] = (rune_error, 0)"
  by (simp add: decode_rune_def)

lemma decode_width_pos: "s \<noteq> [] \<Longrightarrow> 1 \<le> snd (decode_rune s)"
  by (cases s) (auto simp: decode_rune_def Let_def split: list.splits)

lemma decode_width_Cons: "Suc n - snd (decode_rune (c # s)) < Suc n"
  using decode_width_pos [of "c # s"] by simp

lemma decode_width_le: "snd (decode_rune s) \<le> length s"
  by (cases s) (auto simp: decode_rune_def Let_def split: list.splits)

text \<open>\<open>[]rune(s)\<close> and \<open>string(rs)\<close>.\<close>

function runes :: "string \<Rightarrow> rune list" where
  "runes s = (if s = [] then []
              else fst (decode_rune s) # runes (drop (snd (decode_rune s)) s))"
  by pat_completeness auto
termination
proof (relation "measure length")
  fix s :: string
  assume "s \<noteq> []"
  then show "(drop (snd (decode_rune s)) s, s) \<in> measure length"
    using decode_width_pos [of s] by (cases s) auto
qed simp

declare runes.simps [simp del]

definition of_runes :: "rune list \<Rightarrow> string" where
  "of_runes rs = concat (map encode_rune rs)"

text \<open>\<open>utf8.RuneCountInString\<close>.\<close>

definition rune_count :: "string \<Rightarrow> nat" where
  "rune_count s = length (runes s)"

lemma runes_Nil [simp]: "runes [] = []"
  by (simp add: runes.simps)

lemma runes_nonempty: "s \<noteq> [] \<Longrightarrow> runes s \<noteq> []"
  by (simp add: runes.simps [of s])

lemma rune_count_0 [simp]: "rune_count s = 0 \<longleftrightarrow> s = []"
  by (cases "s = []") (auto simp: rune_count_def runes_nonempty)

lemma rune_count_le: "rune_count s \<le> length s"
proof (induction s rule: runes.induct)
  case (1 s)
  show ?case
  proof (cases "s = []")
    case False
    with decode_width_pos [of s] decode_width_le [of s] 1 show ?thesis
      by (auto simp: rune_count_def runes.simps [of s])
  qed (simp add: rune_count_def)
qed

section \<open>The UTF-8 round trip\<close>

lemma scalar_rune_error [simp]: "scalar rune_error"
  by (simp add: scalar_def rune_error_def)

lemma byte_chr [simp]: "n < 256 \<Longrightarrow> byte (chr n) = (n::nat)"
  by (simp add: of_char_of)

lemma encode_scalar_nonempty [simp]: "encode_scalar r \<noteq> []"
  by (simp add: encode_scalar_def)

lemma decode_bytes2:
  "2 \<le> a \<Longrightarrow> a < 32 \<Longrightarrow> c < 64 \<Longrightarrow>
   decode_rune (chr (192 + a) # chr (128 + c) # t) = (a * 64 + c, 2)"
  by (simp add: decode_rune_def Let_def cont_def)

lemma decode_bytes3:
  "a < 16 \<Longrightarrow> b < 64 \<Longrightarrow> c < 64 \<Longrightarrow> (a = 0 \<longrightarrow> 32 \<le> b) \<Longrightarrow> (a = 13 \<longrightarrow> b \<le> 31) \<Longrightarrow>
   decode_rune (chr (224 + a) # chr (128 + b) # chr (128 + c) # t) = (a * 4096 + b * 64 + c, 3)"
  by (auto simp: decode_rune_def Let_def cont_def)

lemma decode_bytes4:
  "a < 5 \<Longrightarrow> b < 64 \<Longrightarrow> c < 64 \<Longrightarrow> d < 64 \<Longrightarrow> (a = 0 \<longrightarrow> 16 \<le> b) \<Longrightarrow> (a = 4 \<longrightarrow> b \<le> 15) \<Longrightarrow>
   decode_rune (chr (240 + a) # chr (128 + b) # chr (128 + c) # chr (128 + d) # t)
     = (a * 262144 + b * 4096 + c * 64 + d, 4)"
  by (auto simp: decode_rune_def Let_def cont_def)

lemma decode_encode2:
  assumes "128 \<le> r" "r < 2048"
  shows "decode_rune (encode_scalar r @ t) = (r, 2)"
proof -
  have "2 \<le> r div 64" "r div 64 < 32" "r mod 64 < 64" using assms by auto
  from decode_bytes2 [OF this, of t] assms show ?thesis by (simp add: encode_scalar_def)
qed

lemma decode_encode3:
  assumes "2048 \<le> r" "r < 65536" "scalar r"
  shows "decode_rune (encode_scalar r @ t) = (r, 3)"
proof -
  define q where "q = r div 64"
  have r: "r = q * 64 + r mod 64" by (simp add: q_def)
  have d: "r div 4096 = q div 64" by (simp add: q_def flip: div_mult2_eq)
  have q: "q = q div 64 * 64 + q mod 64" by simp
  have b: "q div 64 < 16" "q mod 64 < 64" "r mod 64 < 64"
    using assms d by auto
  have s: "r < 55296 \<or> 57344 \<le> r" using assms by (auto simp: scalar_def)
  have "q div 64 = 0 \<longrightarrow> 32 \<le> q mod 64" using assms(1) r q b by linarith
  moreover have "q div 64 = 13 \<longrightarrow> q mod 64 \<le> 31" using s r q b by linarith
  ultimately have "decode_rune (chr (224 + q div 64) # chr (128 + q mod 64) # chr (128 + r mod 64) # t)
      = (q div 64 * 64 * 64 + q mod 64 * 64 + r mod 64, 3)"
    using decode_bytes3 [OF b, of t] by simp
  moreover have "q div 64 * 64 * 64 + q mod 64 * 64 + r mod 64 = r"
    by (metis add_mult_distrib q r)
  ultimately show ?thesis
    using assms by (simp add: encode_scalar_def d flip: q_def)
qed

lemma decode_encode4:
  assumes "65536 \<le> r" "scalar r"
  shows "decode_rune (encode_scalar r @ t) = (r, 4)"
proof -
  define q where "q = r div 64"
  define p where "p = q div 64"
  have r: "r = q * 64 + r mod 64" by (simp add: q_def)
  have q: "q = p * 64 + q mod 64" by (simp add: p_def)
  have p: "p = p div 64 * 64 + p mod 64" by simp
  have d: "r div 4096 = p" "r div 262144 = p div 64"
    by (simp_all add: p_def q_def flip: div_mult2_eq)
  have up: "r \<le> 1114111" using assms by (auto simp: scalar_def)
  have b: "p mod 64 < 64" "q mod 64 < 64" "r mod 64 < 64" by simp_all
  have a: "p div 64 < 5" using up r q p b by linarith
  have "p div 64 = 0 \<longrightarrow> 16 \<le> p mod 64" using assms(1) r q p b by linarith
  moreover have "p div 64 = 4 \<longrightarrow> p mod 64 \<le> 15" using up r q p b by linarith
  ultimately have "decode_rune (chr (240 + p div 64) # chr (128 + p mod 64)
        # chr (128 + q mod 64) # chr (128 + r mod 64) # t)
      = (p div 64 * 262144 + p mod 64 * 4096 + q mod 64 * 64 + r mod 64, 4)"
    using decode_bytes4 [OF a b, of t] by simp
  moreover have "p div 64 * 262144 + p mod 64 * 4096 + q mod 64 * 64 + r mod 64 = r"
    using r q p by linarith
  ultimately show ?thesis
    using assms by (simp add: encode_scalar_def d flip: q_def)
qed

lemma decode_encode:
  assumes "scalar r"
  shows "decode_rune (encode_scalar r @ t) = (r, length (encode_scalar r))"
proof -
  consider "r < 128" | "128 \<le> r" "r < 2048" | "2048 \<le> r" "r < 65536" | "65536 \<le> r" by linarith
  then show ?thesis
  proof cases
    case 1
    then show ?thesis by (simp add: encode_scalar_def decode_rune_def Let_def)
  next
    case 2
    then show ?thesis using decode_encode2 by (simp add: encode_scalar_def)
  next
    case 3
    then show ?thesis using decode_encode3 assms by (simp add: encode_scalar_def)
  next
    case 4
    then show ?thesis using decode_encode4 assms by (simp add: encode_scalar_def)
  qed
qed

lemma runes_encode: "scalar r \<Longrightarrow> runes (encode_scalar r @ t) = r # runes t"
  by (simp add: runes.simps [of "encode_scalar r @ t"] decode_encode)

lemma runes_of_runes: "list_all scalar rs \<Longrightarrow> runes (of_runes rs) = rs"
  by (induction rs) (simp_all add: of_runes_def encode_rune_def runes_encode)

lemma of_runes_append [simp]: "of_runes (xs @ ys) = of_runes xs @ of_runes ys"
  by (simp add: of_runes_def)

lemma of_runes_Nil [simp]: "of_runes [] = []"
  by (simp add: of_runes_def)

lemma of_runes_eq_Nil [simp]: "of_runes rs = [] \<longleftrightarrow> rs = []"
  by (cases rs) (auto simp: of_runes_def encode_rune_def)

text \<open>Every decoded rune is a scalar value.\<close>

lemma scalar_small: "r < 55296 \<Longrightarrow> scalar r"
  by (simp add: scalar_def)

lemma decode_scalar: "scalar (fst (decode_rune s))"
proof (cases s)
  case (Cons c0 t)
  let ?p = "byte c0"
  consider "?p < 128 \<or> ?p < 194 \<or> ?p > 244" | "194 \<le> ?p" "?p \<le> 223"
    | "224 \<le> ?p" "?p \<le> 239" | "240 \<le> ?p" "?p \<le> 244" by linarith
  then show ?thesis
  proof cases
    case 1
    then show ?thesis by (auto simp: Cons decode_rune_def Let_def intro: scalar_small)
  next
    case 2
    then show ?thesis
      by (auto simp: Cons decode_rune_def Let_def cont_def intro!: scalar_small split: list.splits)
  next
    case 3
    then show ?thesis
      by (simp add: Cons decode_rune_def Let_def cont_def split: list.split)
        (auto simp: scalar_def)
  next
    case 4
    then show ?thesis
      by (simp add: Cons decode_rune_def Let_def cont_def split: list.split)
        (auto simp: scalar_def)
  qed
qed simp

lemma runes_scalar: "list_all scalar (runes s)"
proof (induction s rule: runes.induct)
  case (1 s)
  then show ?case by (cases "s = []") (simp_all add: runes.simps [of s] decode_scalar)
qed

text \<open>A string is valid UTF-8 when it is the encoding of the runes read from it.\<close>

definition valid_utf8 :: "string \<Rightarrow> bool" where
  "valid_utf8 s \<longleftrightarrow> of_runes (runes s) = s"

lemma valid_utf8_of_runes: "list_all scalar rs \<Longrightarrow> valid_utf8 (of_runes rs)"
  by (simp add: valid_utf8_def runes_of_runes)

lemma runes_append_of_runes:
  "list_all scalar rs \<Longrightarrow> runes (of_runes rs @ t) = rs @ runes t"
  by (induction rs) (simp_all add: of_runes_def encode_rune_def runes_encode)

lemma runes_append: "valid_utf8 s \<Longrightarrow> runes (s @ t) = runes s @ runes t"
  using runes_append_of_runes [OF runes_scalar, of s t] by (simp add: valid_utf8_def)

lemma valid_utf8_append: "valid_utf8 s \<Longrightarrow> valid_utf8 t \<Longrightarrow> valid_utf8 (s @ t)"
  by (simp add: valid_utf8_def runes_append)

definition ascii :: "string \<Rightarrow> bool" where
  "ascii s \<longleftrightarrow> list_all (\<lambda>c. byte c < 128) s"

lemma runes_ascii_Cons: "byte c < 128 \<Longrightarrow> runes (c # t) = byte c # runes t"
  by (simp add: runes.simps [of "c # t"] decode_rune_def)

lemma runes_ascii: "ascii s \<Longrightarrow> runes s = map byte s"
  by (induction s) (simp_all add: ascii_def runes_ascii_Cons)

lemma valid_utf8_ascii: "ascii s \<Longrightarrow> valid_utf8 s"
proof -
  assume a: "ascii s"
  have "of_runes (map byte s) = s"
    using a by (induction s)
      (simp_all add: of_runes_def ascii_def encode_rune_def encode_scalar_def scalar_def)
  with a show ?thesis by (simp add: valid_utf8_def runes_ascii)
qed

section \<open>Trimming white space\<close>

text \<open>\<open>unicode.IsSpace\<close>.\<close>

definition space_rune :: "rune \<Rightarrow> bool" where
  "space_rune r \<longleftrightarrow>
     (9 \<le> r \<and> r \<le> 13) \<or> r = 32 \<or> r = 133 \<or> r = 160 \<or> r = 5760 \<or> (8192 \<le> r \<and> r \<le> 8202)
     \<or> r = 8232 \<or> r = 8233 \<or> r = 8239 \<or> r = 8287 \<or> r = 12288"

text \<open>
  \<open>utf8.DecodeLastRuneInString\<close>: the start of the last rune is searched at most four bytes
  back, and a rune that does not end exactly at the end of the string is an error of width 1.
\<close>

definition decode_last_rune :: "string \<Rightarrow> rune \<times> nat" where
  "decode_last_rune s =
     (if s = [] then (rune_error, 0)
      else if byte (last s) < 128 then (byte (last s), 1)
      else (case find (\<lambda>k. k \<le> length s \<and> \<not> cont (byte (s ! (length s - k)))) [2, 3, 4] of
              None \<Rightarrow> (rune_error, 1)
            | Some k \<Rightarrow>
                (let d = decode_rune (drop (length s - k) s)
                 in if snd d = k then d else (rune_error, 1))))"

lemma decode_last_width: "s \<noteq> [] \<Longrightarrow> 1 \<le> snd (decode_last_rune s)"
  by (auto simp: decode_last_rune_def Let_def split: option.split if_splits)

function trim_left :: "string \<Rightarrow> string" where
  "trim_left s =
     (if s = [] \<or> \<not> space_rune (fst (decode_rune s)) then s
      else trim_left (drop (snd (decode_rune s)) s))"
  by pat_completeness auto
termination
proof (relation "measure length")
  fix s :: string
  assume "\<not> (s = [] \<or> \<not> space_rune (fst (decode_rune s)))"
  then show "(drop (snd (decode_rune s)) s, s) \<in> measure length"
    using decode_width_pos [of s] by (cases s) auto
qed simp

function trim_right :: "string \<Rightarrow> string" where
  "trim_right s =
     (if s = [] \<or> \<not> space_rune (fst (decode_last_rune s)) then s
      else trim_right (take (length s - snd (decode_last_rune s)) s))"
  by pat_completeness auto
termination
proof (relation "measure length")
  fix s :: string
  assume "\<not> (s = [] \<or> \<not> space_rune (fst (decode_last_rune s)))"
  then show "(take (length s - snd (decode_last_rune s)) s, s) \<in> measure length"
    using decode_last_width [of s] by (cases s) auto
qed simp

declare trim_left.simps [simp del] trim_right.simps [simp del]

text \<open>\<open>strings.TrimSpace\<close>.\<close>

definition trim_space :: "string \<Rightarrow> string" where
  "trim_space s = trim_right (trim_left s)"

lemma not_space_error [simp]: "\<not> space_rune rune_error"
  by (simp add: space_rune_def rune_error_def)

lemma trim_Nil [simp]: "trim_left [] = []" "trim_right [] = []" "trim_space [] = []"
  by (simp_all add: trim_left.simps trim_right.simps trim_space_def)

lemma trim_left_suffix: "suffix (trim_left s) s"
proof (induction s rule: trim_left.induct)
  case (1 s)
  show ?case
  proof (cases "s = [] \<or> \<not> space_rune (fst (decode_rune s))")
    case True
    then show ?thesis by (simp add: trim_left.simps [of s])
  next
    case False
    with 1 have "suffix (trim_left (drop (snd (decode_rune s)) s)) (drop (snd (decode_rune s)) s)"
      by blast
    with False show ?thesis
      by (metis suffix_drop suffix_order.trans trim_left.simps)
  qed
qed

lemma trim_right_prefix: "prefix (trim_right s) s"
proof (induction s rule: trim_right.induct)
  case (1 s)
  show ?case
  proof (cases "s = [] \<or> \<not> space_rune (fst (decode_last_rune s))")
    case True
    then show ?thesis by (simp add: trim_right.simps [of s])
  next
    case False
    with 1 show ?thesis
      by (metis prefix_order.trans take_is_prefix trim_right.simps)
  qed
qed

lemma trim_space_length: "length (trim_space s) \<le> length s"
  using trim_left_suffix [of s] trim_right_prefix [of "trim_left s"]
  by (auto simp: trim_space_def dest!: suffix_length_le prefix_length_le)

lemma trim_left_stop: "trim_left s = [] \<or> \<not> space_rune (fst (decode_rune (trim_left s)))"
proof (induction s rule: trim_left.induct)
  case (1 s)
  then show ?case
    by (cases "s = [] \<or> \<not> space_rune (fst (decode_rune s))") (auto simp: trim_left.simps [of s])
qed

lemma trim_right_stop: "trim_right s = [] \<or> \<not> space_rune (fst (decode_last_rune (trim_right s)))"
proof (induction s rule: trim_right.induct)
  case (1 s)
  then show ?case
    by (cases "s = [] \<or> \<not> space_rune (fst (decode_last_rune s))") (auto simp: trim_right.simps [of s])
qed

lemma trim_left_id: "s = [] \<or> \<not> space_rune (fst (decode_rune s)) \<Longrightarrow> trim_left s = s"
  by (simp add: trim_left.simps [of s])

lemma trim_right_id: "s = [] \<or> \<not> space_rune (fst (decode_last_rune s)) \<Longrightarrow> trim_right s = s"
  by (simp add: trim_right.simps [of s])

text \<open>A rune read at the head of a string is read again when bytes are appended.\<close>

lemma space_decode_append:
  "space_rune (fst (decode_rune t)) \<Longrightarrow> fst (decode_rune (t @ u)) = fst (decode_rune t)"
proof (cases t)
  case (Cons c0 w)
  assume sp: "space_rune (fst (decode_rune t))"
  let ?p = "byte c0"
  consider "?p < 128 \<or> ?p < 194 \<or> ?p > 244" | "194 \<le> ?p" "?p \<le> 223"
    | "224 \<le> ?p" "?p \<le> 239" | "240 \<le> ?p" "?p \<le> 244" by linarith
  then show ?thesis
  proof cases
    case 1
    then show ?thesis using sp by (auto simp: Cons decode_rune_def Let_def)
  next
    case 2
    then show ?thesis using sp by (cases w) (auto simp: Cons decode_rune_def Let_def)
  next
    case 3
    then obtain c1 c2 v where "w = c1 # c2 # v"
      using sp by (auto simp: Cons decode_rune_def Let_def split: list.splits)
    with 3 show ?thesis by (simp add: Cons decode_rune_def Let_def)
  next
    case 4
    then obtain c1 c2 c3 v where "w = c1 # c2 # c3 # v"
      using sp by (auto simp: Cons decode_rune_def Let_def split: list.splits)
    with 4 show ?thesis by (simp add: Cons decode_rune_def Let_def)
  qed
qed simp

lemma trim_left_trim_right: "trim_left (trim_right (trim_left s)) = trim_right (trim_left s)"
proof (rule trim_left_id, rule ccontr)
  let ?y = "trim_right (trim_left s)"
  assume "\<not> (?y = [] \<or> \<not> space_rune (fst (decode_rune ?y)))"
  then have y: "?y \<noteq> []" "space_rune (fst (decode_rune ?y))" by auto
  obtain u where u: "trim_left s = ?y @ u"
    using trim_right_prefix [of "trim_left s"] by (auto simp: prefix_def)
  have "space_rune (fst (decode_rune (trim_left s)))"
    using y(2) space_decode_append [OF y(2), of u] u by simp
  with trim_left_stop [of s] have "trim_left s = []" by blast
  with y(1) show False by simp
qed

lemma trim_space_idem [simp]: "trim_space (trim_space s) = trim_space s"
  unfolding trim_space_def trim_left_trim_right
  by (rule trim_right_id [OF trim_right_stop])

section \<open>Case, prefixes and suffixes\<close>

text \<open>A text between two ASCII characters that are no spaces keeps its ends.\<close>

lemma trim_space_ends:
  assumes "s = a # t" "byte a < 128" "\<not> space_rune (byte a)"
    "byte (last s) < 128" "\<not> space_rune (byte (last s))"
  shows "trim_space s = s"
proof -
  have "trim_left s = s" using assms by (intro trim_left_id) (simp add: decode_rune_def)
  moreover have "trim_right s = s" using assms by (intro trim_right_id) (simp add: decode_last_rune_def)
  ultimately show ?thesis by (simp add: trim_space_def)
qed

lemma trim_space_blank: "list_all (\<lambda>c. byte c < 128 \<and> space_rune (byte c)) s \<Longrightarrow> trim_space s = []"
proof -
  have "list_all (\<lambda>c. byte c < 128 \<and> space_rune (byte c)) s \<Longrightarrow> trim_left s = []"
    by (induction s) (simp_all add: trim_left.simps [of "_ # _"] decode_rune_def)
  then show "list_all (\<lambda>c. byte c < 128 \<and> space_rune (byte c)) s \<Longrightarrow> trim_space s = []"
    by (simp add: trim_space_def)
qed

definition ascii_lower :: "rune \<Rightarrow> rune" where
  "ascii_lower r = (if 65 \<le> r \<and> r \<le> 90 then r + 32 else r)"

text \<open>
  \<open>strings.ToLower\<close>. \<open>lw\<close> is \<open>unicode.ToLower\<close> on the runes from U+0080 on. A string with a
  byte outside ASCII goes through \<open>strings.Map\<close>, which writes the error rune for invalid bytes.
\<close>

definition to_lower :: "(rune \<Rightarrow> rune) \<Rightarrow> string \<Rightarrow> string" where
  "to_lower lw s =
     (if ascii s then map (\<lambda>c. chr (ascii_lower (byte c))) s
      else of_runes (map (\<lambda>r. if r < 128 then ascii_lower r else lw r) (runes s)))"

lemma to_lower_Nil [simp]: "to_lower lw [] = []"
  by (simp add: to_lower_def ascii_def)

lemma to_lower_ascii: "ascii s \<Longrightarrow> to_lower lw s = map (\<lambda>c. chr (ascii_lower (byte c))) s"
  by (simp add: to_lower_def)

lemma ascii_Nil [simp]: "ascii []" by (simp add: ascii_def)
lemma ascii_Cons [simp]: "ascii (c # s) \<longleftrightarrow> byte c < 128 \<and> ascii s" by (simp add: ascii_def)
lemma ascii_append [simp]: "ascii (s @ t) \<longleftrightarrow> ascii s \<and> ascii t" by (simp add: ascii_def)

definition has_prefix :: "string \<Rightarrow> string \<Rightarrow> bool" where
  "has_prefix s p \<longleftrightarrow> take (length p) s = p"

definition has_suffix :: "string \<Rightarrow> string \<Rightarrow> bool" where
  "has_suffix s p \<longleftrightarrow> length p \<le> length s \<and> drop (length s - length p) s = p"

definition trim_prefix :: "string \<Rightarrow> string \<Rightarrow> string" where
  "trim_prefix s p = (if has_prefix s p then drop (length p) s else s)"

definition trim_suffix :: "string \<Rightarrow> string \<Rightarrow> string" where
  "trim_suffix s p = (if has_suffix s p then take (length s - length p) s else s)"

text \<open>\<open>strings.Contains\<close> for a single byte, and \<open>strings.TrimRight(s, "/")\<close>.\<close>

fun trim_right_char :: "char \<Rightarrow> string \<Rightarrow> string" where
  "trim_right_char c s = rev (dropWhile (\<lambda>x. x = c) (rev s))"

text \<open>The decimal digits of a natural number, as \<open>fmt\<close> and \<open>strconv\<close> print them.\<close>

fun show_nat :: "nat \<Rightarrow> string" where
  "show_nat n = (if n < 10 then [chr (48 + n)] else show_nat (n div 10) @ [chr (48 + n mod 10)])"

declare show_nat.simps [simp del]

definition show_int :: "int \<Rightarrow> string" where
  "show_int i = (if i < 0 then CHR ''-'' # show_nat (nat (- i)) else show_nat (nat i))"

end
