(* ===== verification/F64.thy ===== *)
theory F64
  imports Complex_Main "HOL-Library.Log_Nat" Prelude
begin

text \<open>
  Go's \<open>float64\<close>: IEEE 754 binary64 with round-to-nearest, ties to even. A finite value is the
  rational number it denotes; results of arithmetic are the exact result rounded to 53 bits
  (subnormals and overflow included). The comparisons are IEEE's: every one of them is false
  when an operand is NaN. The two signed zeros are one value here: no comparison tells them
  apart, and the program never divides by a zero.

  The lemmas show that rounding is monotone and idempotent, with the error bound on the unit
  interval that the scoring component needs.
\<close>

section \<open>Rounding\<close>

abbreviation pow2 :: "int \<Rightarrow> rat" where "pow2 e \<equiv> 2 powi e"

text \<open>The binary exponent of a positive number.\<close>

definition ilog2 :: "rat \<Rightarrow> int" where
  "ilog2 x = (if 1 \<le> x then int (floorlog 2 (nat \<lfloor>x\<rfloor>)) - 1
              else - int (floorlog 2 (nat (\<lceil>1 / x\<rceil> - 1))))"

definition rne :: "rat \<Rightarrow> int" where
  "rne q = (let n = \<lfloor>q\<rfloor>; d = q - of_int n in
            if d < 1 / 2 then n else if 1 / 2 < d then n + 1 else if even n then n else n + 1)"

definition ulp_exp :: "rat \<Rightarrow> int" where
  "ulp_exp x = max (ilog2 x) (- 1022) - 52"

definition round_pos :: "rat \<Rightarrow> rat" where
  "round_pos x = of_int (rne (x / pow2 (ulp_exp x))) * pow2 (ulp_exp x)"

lemma pow2_split: "pow2 (a + b) = pow2 a * pow2 b"
  by (simp add: power_int_add)

lemma pow2_less: "a < b \<Longrightarrow> pow2 a < pow2 b"
  by (simp add: power_int_strict_increasing)

lemma pow2_le: "a \<le> b \<Longrightarrow> pow2 a \<le> pow2 b"
  by (simp add: power_int_increasing)

lemma ilog2_bounds:
  assumes "0 < x"
  shows "pow2 (ilog2 x) \<le> x \<and> x < pow2 (ilog2 x + 1)"
proof (cases "1 \<le> x")
  case True
  define n where "n = nat \<lfloor>x\<rfloor>"
  define k where "k = floorlog 2 n"
  have n: "0 < n" "of_nat n \<le> x" "x < of_nat n + 1"
    using True by (auto simp: n_def) linarith+
  have b: "2 ^ (k - 1) \<le> n" "n < 2 ^ k" using floorlog_bounds [of n 2] n(1) by (auto simp: k_def)
  then have k: "0 < k" using n(1) by (cases k) auto
  have p1: "pow2 (int k - 1) = of_nat (2 ^ (k - 1))"
  proof -
    have "int k - 1 = int (k - 1)" using k by simp
    then show ?thesis by (simp only: power_int_of_nat of_nat_power of_nat_numeral)
  qed
  have p2: "pow2 (int k - 1 + 1) = of_nat (2 ^ k)" by simp
  have "(of_nat (2 ^ (k - 1)) :: rat) \<le> of_nat n" using b(1) by (rule of_nat_mono)
  then have "pow2 (int k - 1) \<le> x" unfolding p1 using n(2) by linarith
  moreover have "(of_nat (Suc n) :: rat) \<le> of_nat (2 ^ k)" using b(2) by (intro of_nat_mono) simp
  then have "x < pow2 (int k - 1 + 1)" unfolding p2 using n(3) by simp
  ultimately have "pow2 (int k - 1) \<le> x \<and> x < pow2 (int k - 1 + 1)" ..
  then show ?thesis
    using True by (simp only: ilog2_def if_True n_def [symmetric] k_def [symmetric])
next
  case False
  define c where "c = nat (\<lceil>1 / x\<rceil> - 1)"
  define k where "k = floorlog 2 c"
  have "1 < 1 / x" using False assms by simp
  then have c: "0 < c" "of_nat c < 1 / x" "1 / x \<le> of_nat c + 1"
    by (auto simp: c_def) linarith+
  have b: "2 ^ (k - 1) \<le> c" "c < 2 ^ k" using floorlog_bounds [of c 2] c(1) by (auto simp: k_def)
  then have k: "0 < k" using c(1) by (cases k) auto
  have lo: "2 ^ (k - 1) < 1 / x"
    using b(1) c(2) by (metis of_nat_le_iff of_nat_numeral of_nat_power order_le_less_trans)
  have hi: "1 / x \<le> 2 ^ k"
    using b(2) c(3) by (metis Suc_leI add.commute of_nat_Suc of_nat_le_iff of_nat_numeral
        of_nat_power order_trans)
  have "pow2 (- int k) \<le> x" using hi assms by (simp add: power_int_minus field_simps)
  moreover have "x < pow2 (1 - int k)"
  proof -
    have "1 - int k = - int (k - 1)" using k by simp
    then have "pow2 (1 - int k) = 1 / 2 ^ (k - 1)"
      by (metis power_int_minus_divide power_int_of_nat)
    moreover have "x < 1 / 2 ^ (k - 1)" using lo assms by (simp add: field_simps)
    ultimately show ?thesis by simp
  qed
  ultimately show ?thesis
    using False unfolding ilog2_def c_def [symmetric] k_def [symmetric] by (simp add: add.commute)
qed

lemma ilog2_le: "0 < x \<Longrightarrow> x < pow2 (e + 1) \<Longrightarrow> ilog2 x \<le> e"
proof (rule ccontr)
  assume a: "0 < x" "x < pow2 (e + 1)" "\<not> ilog2 x \<le> e"
  then have "pow2 (e + 1) \<le> pow2 (ilog2 x)" by (intro pow2_le) simp
  with ilog2_bounds [OF a(1)] a(2) show False by simp
qed

lemma ilog2_ge: "0 < x \<Longrightarrow> pow2 e \<le> x \<Longrightarrow> e \<le> ilog2 x"
proof (rule ccontr)
  assume a: "0 < x" "pow2 e \<le> x" "\<not> e \<le> ilog2 x"
  then have "pow2 (ilog2 x + 1) \<le> pow2 e" by (intro pow2_le) simp
  with ilog2_bounds [OF a(1)] a(2) show False by simp
qed

lemma ilog2_mono: "0 < x \<Longrightarrow> x \<le> y \<Longrightarrow> ilog2 x \<le> ilog2 y"
  using ilog2_bounds [of x] by (intro ilog2_ge) auto

lemma rne_of_int [simp]: "rne (of_int n) = n"
  by (simp add: rne_def)

lemma rne_error: "\<bar>of_int (rne q) - q\<bar> \<le> 1 / 2"
proof -
  have "of_int \<lfloor>q\<rfloor> \<le> q" "q < of_int \<lfloor>q\<rfloor> + 1" by linarith+
  then show ?thesis by (simp add: rne_def Let_def)
qed

lemma rne_mono: "p \<le> q \<Longrightarrow> rne p \<le> rne q"
proof (cases "\<lfloor>p\<rfloor> = \<lfloor>q\<rfloor>")
  case True
  assume "p \<le> q"
  with True show ?thesis by (auto simp: rne_def Let_def)
next
  case False
  assume "p \<le> q"
  with False have "\<lfloor>p\<rfloor> + 1 \<le> \<lfloor>q\<rfloor>" using floor_mono [of p q] by simp
  then show ?thesis by (auto simp: rne_def Let_def)
qed

lemma rne_le_int: "q \<le> of_int n \<Longrightarrow> rne q \<le> n"
  using rne_mono [of q "of_int n"] by simp

lemma rne_ge_int: "of_int n \<le> q \<Longrightarrow> n \<le> rne q"
  using rne_mono [of "of_int n" q] by simp

text \<open>The mantissa of a normal number lies between \<open>2^52\<close> and \<open>2^53\<close>.\<close>

lemma mantissa_upper:
  assumes "0 < x" shows "x / pow2 (ulp_exp x) \<le> 2 ^ 53"
proof -
  have "x < pow2 (ilog2 x + 1)" using ilog2_bounds [OF assms] by simp
  also have "\<dots> \<le> pow2 (ulp_exp x + 53)" by (intro pow2_le) (simp add: ulp_exp_def)
  also have "\<dots> = 2 ^ 53 * pow2 (ulp_exp x)" by (simp add: pow2_split)
  finally show ?thesis by (simp add: field_simps)
qed

lemma mantissa_lower:
  assumes "0 < x" "- 1022 \<le> ilog2 x" shows "2 ^ 52 \<le> x / pow2 (ulp_exp x)"
proof -
  have "2 ^ 52 * pow2 (ulp_exp x) = pow2 (ulp_exp x + 52)" by (simp add: pow2_split)
  also have "\<dots> = pow2 (ilog2 x)" using assms(2) by (simp add: ulp_exp_def)
  also have "\<dots> \<le> x" using ilog2_bounds [OF assms(1)] by simp
  finally show ?thesis by (simp add: field_simps)
qed

lemma round_pos_nonneg: "0 < x \<Longrightarrow> 0 \<le> round_pos x"
  using rne_ge_int [of 0 "x / pow2 (ulp_exp x)"] by (simp add: round_pos_def)

lemma round_pos_upper: "0 < x \<Longrightarrow> round_pos x \<le> pow2 (ulp_exp x + 53)"
proof -
  assume "0 < x"
  from mantissa_upper [OF this] have "rne (x / pow2 (ulp_exp x)) \<le> 2 ^ 53"
    by (intro rne_le_int) simp
  then have "(of_int (rne (x / pow2 (ulp_exp x))) :: rat) \<le> of_int (2 ^ 53)"
    by (simp only: of_int_le_iff)
  then have "round_pos x \<le> 2 ^ 53 * pow2 (ulp_exp x)"
    unfolding round_pos_def by (intro mult_right_mono) auto
  then show ?thesis by (simp add: pow2_split)
qed

lemma round_pos_lower: "0 < x \<Longrightarrow> - 1022 \<le> ilog2 x \<Longrightarrow> pow2 (ulp_exp x + 52) \<le> round_pos x"
proof -
  assume "0 < x" "- 1022 \<le> ilog2 x"
  from mantissa_lower [OF this] have "2 ^ 52 \<le> rne (x / pow2 (ulp_exp x))"
    by (intro rne_ge_int) simp
  then have "(of_int (2 ^ 52) :: rat) \<le> of_int (rne (x / pow2 (ulp_exp x)))"
    by (simp only: of_int_le_iff)
  then have "2 ^ 52 * pow2 (ulp_exp x) \<le> round_pos x"
    unfolding round_pos_def by (intro mult_right_mono) auto
  then show ?thesis by (simp add: pow2_split)
qed

lemma round_pos_mono:
  assumes "0 < x" "x \<le> y" shows "round_pos x \<le> round_pos y"
proof (cases "ulp_exp x = ulp_exp y")
  case True
  have "rne (x / pow2 (ulp_exp y)) \<le> rne (y / pow2 (ulp_exp y))"
    using assms(2) by (intro rne_mono divide_right_mono) auto
  with True show ?thesis by (simp add: round_pos_def mult_right_mono)
next
  case False
  have l: "ilog2 x \<le> ilog2 y" using assms by (rule ilog2_mono)
  with False have "ulp_exp x < ulp_exp y" "- 1022 \<le> ilog2 y" by (auto simp: ulp_exp_def)
  then have "pow2 (ulp_exp x + 53) \<le> pow2 (ulp_exp y + 52)" by (intro pow2_le) simp
  with round_pos_upper [of x] round_pos_lower [of y] assms \<open>- 1022 \<le> ilog2 y\<close>
  show ?thesis by (meson order_less_le_trans order_trans)
qed

lemma round_pos_error:
  assumes "0 < x" "x \<le> 1" shows "\<bar>round_pos x - x\<bar> \<le> pow2 (- 53)"
proof -
  let ?u = "pow2 (ulp_exp x)"
  have "ilog2 x \<le> 0" using assms by (intro ilog2_le) auto
  then have u: "?u \<le> pow2 (- 52)" by (intro pow2_le) (simp add: ulp_exp_def)
  have "round_pos x - x = (of_int (rne (x / ?u)) - x / ?u) * ?u"
    by (simp add: round_pos_def left_diff_distrib)
  then have "\<bar>round_pos x - x\<bar> = \<bar>of_int (rne (x / ?u)) - x / ?u\<bar> * ?u"
    by (simp add: abs_mult)
  also have "\<dots> \<le> 1 / 2 * ?u" using rne_error by (intro mult_right_mono) auto
  also have "\<dots> \<le> 1 / 2 * pow2 (- 52)" using u by simp
  also have "\<dots> = pow2 (- 53)" by (simp add: power_int_minus)
  finally show ?thesis .
qed

lemma round_pos_exact:
  assumes "0 < x" "x = of_int n * pow2 e" "ulp_exp x \<le> e"
  shows "round_pos x = x"
proof -
  obtain k where k: "e = ulp_exp x + int k" using assms(3) zle_iff_zadd by blast
  have m: "x / pow2 (ulp_exp x) = of_int (n * 2 ^ k)"
    by (subst assms(2)) (simp add: k pow2_split)
  have "round_pos x = of_int (n * 2 ^ k) * pow2 (ulp_exp x)"
    unfolding round_pos_def m rne_of_int ..
  also have "\<dots> = x" unfolding m [symmetric] by simp
  finally show ?thesis .
qed

lemma round_pos_idem:
  assumes "0 < x" "round_pos x \<noteq> 0" shows "round_pos (round_pos x) = round_pos x"
proof -
  let ?r = "round_pos x" let ?n = "rne (x / pow2 (ulp_exp x))"
  have r: "0 < ?r" using round_pos_nonneg [OF assms(1)] assms(2) by simp
  show ?thesis
  proof (cases "?r = pow2 (ulp_exp x + 53)")
    case True
    then have "?r = of_int 1 * pow2 (ulp_exp x + 53)" by simp
    moreover have "ilog2 ?r \<le> ulp_exp x + 53"
      using True r pow2_less [of "ulp_exp x + 53" "ulp_exp x + 53 + 1"] by (intro ilog2_le) auto
    then have "ulp_exp ?r \<le> ulp_exp x + 53" by (auto simp: ulp_exp_def)
    ultimately show ?thesis using r by (intro round_pos_exact)
  next
    case False
    with round_pos_upper [OF assms(1)] have "?r < pow2 ((ulp_exp x + 52) + 1)"
      by (simp add: algebra_simps)
    with r have "ilog2 ?r \<le> ulp_exp x + 52" by (rule ilog2_le)
    then have "ulp_exp ?r \<le> ulp_exp x" by (auto simp: ulp_exp_def)
    moreover have "?r = of_int ?n * pow2 (ulp_exp x)" by (simp add: round_pos_def)
    ultimately show ?thesis using r by (intro round_pos_exact)
  qed
qed

section \<open>The values\<close>

datatype f64 = NaN | NInf | PInf | Fin rat

text \<open>The total order used in specifications puts NaN below everything else.\<close>

fun f64_key :: "f64 \<Rightarrow> nat \<times> rat" where
  "f64_key NaN = (0, 0)"
| "f64_key NInf = (1, 0)"
| "f64_key (Fin x) = (2, x)"
| "f64_key PInf = (3, 0)"

lemma f64_key_inj: "f64_key a = f64_key b \<Longrightarrow> a = b"
  by (cases a; cases b) auto

instantiation f64 :: linorder
begin

definition less_eq_f64 :: "f64 \<Rightarrow> f64 \<Rightarrow> bool" where
  "a \<le> b \<longleftrightarrow> fst (f64_key a) < fst (f64_key b)
     \<or> (fst (f64_key a) = fst (f64_key b) \<and> snd (f64_key a) \<le> snd (f64_key b))"

definition less_f64 :: "f64 \<Rightarrow> f64 \<Rightarrow> bool" where
  "a < b \<longleftrightarrow> fst (f64_key a) < fst (f64_key b)
     \<or> (fst (f64_key a) = fst (f64_key b) \<and> snd (f64_key a) < snd (f64_key b))"

instance
proof
  fix a b c :: f64
  show "a < b \<longleftrightarrow> a \<le> b \<and> \<not> b \<le> a" "a \<le> a" "a \<le> b \<or> b \<le> a"
    by (auto simp: less_f64_def less_eq_f64_def)
  show "a \<le> b \<Longrightarrow> b \<le> c \<Longrightarrow> a \<le> c" by (auto simp: less_eq_f64_def)
  show "a \<le> b \<Longrightarrow> b \<le> a \<Longrightarrow> a = b"
    by (rule f64_key_inj) (auto simp: less_eq_f64_def intro: prod_eqI)
qed

end

text \<open>Go's \<open><\<close>, \<open>==\<close> and \<open><=\<close>: false as soon as an operand is NaN.\<close>

definition flt :: "f64 \<Rightarrow> f64 \<Rightarrow> bool" where
  "flt a b \<longleftrightarrow> a \<noteq> NaN \<and> b \<noteq> NaN \<and> a < b"

definition feq :: "f64 \<Rightarrow> f64 \<Rightarrow> bool" where
  "feq a b \<longleftrightarrow> a \<noteq> NaN \<and> a = b"

definition fle :: "f64 \<Rightarrow> f64 \<Rightarrow> bool" where
  "fle a b \<longleftrightarrow> flt a b \<or> feq a b"

lemma less_Fin [simp]: "Fin x < Fin y \<longleftrightarrow> x < y" "Fin x \<le> Fin y \<longleftrightarrow> x \<le> y"
  by (auto simp: less_f64_def less_eq_f64_def)

lemma less_special [simp]:
  "NaN < PInf" "NaN < NInf" "NInf < PInf" "NaN < Fin x" "NInf < Fin x" "Fin x < PInf"
  "\<not> a < NaN" "\<not> PInf < a" "\<not> Fin x < NInf"
  by (cases a; auto simp: less_f64_def)+

lemma fle_le: "fle a b \<longleftrightarrow> a \<noteq> NaN \<and> b \<noteq> NaN \<and> a \<le> b"
  by (auto simp: fle_def flt_def feq_def)

lemma flt_simps [simp]:
  "\<not> flt NaN a" "\<not> flt a NaN" "flt (Fin x) (Fin y) \<longleftrightarrow> x < y" "\<not> flt a a" "flt (Fin x) PInf"
  "\<not> flt PInf a"
  by (auto simp: flt_def)

lemma feq_simps [simp]: "\<not> feq NaN a" "\<not> feq a NaN" "feq (Fin x) (Fin y) \<longleftrightarrow> x = y"
  by (auto simp: feq_def)

lemma fle_Fin [simp]: "fle (Fin x) (Fin y) \<longleftrightarrow> x \<le> y" by (auto simp: fle_le)

section \<open>Arithmetic\<close>

text \<open>The nearest double of an exact result; from \<open>2^1024\<close> on it is an infinity.\<close>

definition fround :: "rat \<Rightarrow> f64" where
  "fround x =
     (if x = 0 then Fin 0
      else if 0 < x then (if 2 ^ 1024 \<le> round_pos x then PInf else Fin (round_pos x))
      else (if 2 ^ 1024 \<le> round_pos (- x) then NInf else Fin (- round_pos (- x))))"

fun fneg :: "f64 \<Rightarrow> f64" where
  "fneg NaN = NaN"
| "fneg NInf = PInf"
| "fneg PInf = NInf"
| "fneg (Fin x) = Fin (- x)"

fun fadd :: "f64 \<Rightarrow> f64 \<Rightarrow> f64" where
  "fadd (Fin x) (Fin y) = fround (x + y)"
| "fadd NaN _ = NaN"
| "fadd _ NaN = NaN"
| "fadd PInf NInf = NaN"
| "fadd NInf PInf = NaN"
| "fadd PInf _ = PInf"
| "fadd _ PInf = PInf"
| "fadd NInf _ = NInf"
| "fadd _ NInf = NInf"

definition fsub :: "f64 \<Rightarrow> f64 \<Rightarrow> f64" where
  "fsub a b = fadd a (fneg b)"

definition finf :: "bool \<Rightarrow> f64" where
  "finf pos = (if pos then PInf else NInf)"

fun fmul :: "f64 \<Rightarrow> f64 \<Rightarrow> f64" where
  "fmul (Fin x) (Fin y) = fround (x * y)"
| "fmul NaN _ = NaN"
| "fmul _ NaN = NaN"
| "fmul PInf (Fin y) = (if y = 0 then NaN else finf (0 < y))"
| "fmul NInf (Fin y) = (if y = 0 then NaN else finf (y < 0))"
| "fmul (Fin x) PInf = (if x = 0 then NaN else finf (0 < x))"
| "fmul (Fin x) NInf = (if x = 0 then NaN else finf (x < 0))"
| "fmul PInf PInf = PInf"
| "fmul NInf NInf = PInf"
| "fmul PInf NInf = NInf"
| "fmul NInf PInf = NInf"

fun fdiv :: "f64 \<Rightarrow> f64 \<Rightarrow> f64" where
  "fdiv (Fin x) (Fin y) =
     (if y = 0 then (if x = 0 then NaN else finf (0 < x)) else fround (x / y))"
| "fdiv NaN _ = NaN"
| "fdiv _ NaN = NaN"
| "fdiv PInf (Fin y) = finf (0 \<le> y)"
| "fdiv NInf (Fin y) = finf (y < 0)"
| "fdiv (Fin _) _ = Fin 0"
| "fdiv _ _ = NaN"

definition fabs :: "f64 \<Rightarrow> f64" where
  "fabs a = (if flt a (Fin 0) then fneg a else a)"

text \<open>A value that a \<open>float64\<close> can hold.\<close>

definition canon :: "f64 \<Rightarrow> bool" where
  "canon a \<longleftrightarrow> (case a of Fin x \<Rightarrow> fround x = Fin x | _ \<Rightarrow> True)"

lemma fround_0 [simp]: "fround 0 = Fin 0" by (simp add: fround_def)

lemma fround_not_NaN [simp]: "fround x \<noteq> NaN" by (simp add: fround_def)

lemma fround_nonneg: "0 \<le> x \<Longrightarrow> fle (Fin 0) (fround x)"
  by (auto simp: fround_def fle_le less_f64_def less_eq_f64_def intro: round_pos_nonneg)

lemma fround_mono: "x \<le> y \<Longrightarrow> fle (fround x) (fround y)"
proof -
  assume le: "x \<le> y"
  consider "0 < x" | "x \<le> 0" "0 \<le> y" | "y < 0" by linarith
  then show ?thesis
  proof cases
    case 1
    with le have "round_pos x \<le> round_pos y" by (intro round_pos_mono)
    with 1 le show ?thesis by (auto simp: fround_def fle_le less_eq_f64_def)
  next
    case 2
    have "fle (fround x) (Fin 0)"
      using 2 round_pos_nonneg [of "- x"] by (auto simp: fround_def fle_le less_eq_f64_def)
    moreover have "fle (Fin 0) (fround y)" using 2 by (simp add: fround_nonneg)
    ultimately show ?thesis by (auto simp: fle_le)
  next
    case 3
    with le have "round_pos (- y) \<le> round_pos (- x)" by (intro round_pos_mono) auto
    with 3 le show ?thesis by (auto simp: fround_def fle_le less_eq_f64_def)
  qed
qed

lemma canon_fround: "canon (fround x)"
proof -
  consider "x = 0" | "0 < x" | "x < 0" by linarith
  then show ?thesis
  proof cases
    case 2
    then show ?thesis
      using round_pos_idem [OF 2] round_pos_nonneg [OF 2]
      by (cases "round_pos x = 0") (auto simp: canon_def fround_def)
  next
    case 3
    then have n: "0 < - x" by simp
    show ?thesis
      using 3 round_pos_idem [OF n] round_pos_nonneg [OF n]
      by (cases "round_pos (- x) = 0") (auto simp: canon_def fround_def)
  qed (simp add: canon_def)
qed

lemma canon_Fin: "canon (Fin x) \<longleftrightarrow> fround x = Fin x"
  by (simp add: canon_def)

lemma fround_1: "fround 1 = Fin 1"
proof -
  have i: "ilog2 1 = 0"
    using ilog2_le [of 1 0] ilog2_ge [of 1 0] by simp
  have "round_pos 1 = 1"
    by (rule round_pos_exact [of 1 1 0]) (simp_all add: ulp_exp_def i)
  then show ?thesis by (simp add: fround_def)
qed

text \<open>Rounding a number of the unit interval stays there and moves it by at most \<open>2^-53\<close>.\<close>

lemma fround_unit:
  assumes "0 \<le> x" "x \<le> 1"
  obtains r where "fround x = Fin r" "0 \<le> r" "r \<le> 1" "\<bar>r - x\<bar> \<le> pow2 (- 53)"
proof -
  have "fle (fround x) (Fin 1)" using fround_mono [OF assms(2)] by (simp add: fround_1)
  moreover have "fle (Fin 0) (fround x)" using assms(1) by (rule fround_nonneg)
  ultimately obtain r where r: "fround x = Fin r" "0 \<le> r" "r \<le> 1"
    by (cases "fround x") (auto simp: fle_le less_eq_f64_def)
  moreover have "\<bar>r - x\<bar> \<le> pow2 (- 53)"
  proof (cases "x = 0")
    case False
    then have "r = round_pos x" using r(1) assms(1) by (auto simp: fround_def split: if_splits)
    with False assms show ?thesis using round_pos_error [of x] by simp
  next
    case True
    with r show ?thesis by simp
  qed
  ultimately show ?thesis by (rule that)
qed

lemma fround_just_above_1: "fround (1 + pow2 (- 53)) = Fin 1"
proof -
  let ?x = "1 + pow2 (- 53)"
  have p: "pow2 (- 53) = 1 / 2 ^ 53" by (simp add: power_int_minus field_simps)
  have i: "ilog2 ?x = 0"
    using ilog2_le [of ?x 0] ilog2_ge [of ?x 0] by (simp add: p)
  have q: "?x / pow2 (- 52) = of_int (2 ^ 52) + 1 / 2"
    by (simp add: power_int_minus field_simps)
  have "\<lfloor>(of_int (2 ^ 52) :: rat) + 1 / 2\<rfloor> = 2 ^ 52" by linarith
  then have r: "rne (of_int (2 ^ 52) + 1 / 2) = 2 ^ 52" by (simp add: rne_def)
  have u: "ulp_exp ?x = - 52" unfolding ulp_exp_def i by simp
  have "round_pos ?x = of_int (2 ^ 52) * pow2 (- 52)"
    unfolding round_pos_def u q r ..
  also have "\<dots> = 1" by (simp add: power_int_minus)
  finally have one: "round_pos ?x = 1" .
  have "?x \<noteq> 0" "0 < ?x" unfolding p by simp_all
  then show ?thesis unfolding fround_def one by simp
qed

lemma fround_le_1: "x \<le> 1 + pow2 (- 53) \<Longrightarrow> fle (fround x) (Fin 1)"
  using fround_mono [of x "1 + pow2 (- 53)"] unfolding fround_just_above_1 .

text \<open>Dyadic fractions with a short numerator are exact, the small integers among them.\<close>

lemma round_pos_dyadic:
  assumes "0 < m" "m < 2 ^ 53" "k \<le> 1074"
  shows "round_pos (of_int m / 2 ^ k) = of_int m / 2 ^ k"
proof -
  let ?x = "of_int m / 2 ^ k :: rat"
  have x: "?x = of_int m * pow2 (- int k)" by (simp add: power_int_minus divide_inverse)
  have pos: "0 < ?x" using assms(1) by simp
  have "pow2 (52 - int k + 1) = pow2 (53 + - int k)" by simp
  also have "\<dots> = 2 ^ 53 * pow2 (- int k)" by (simp only: pow2_split) simp
  also have "of_int m * pow2 (- int k) < \<dots>"
  proof (intro mult_strict_right_mono)
    have "(of_int m :: rat) < of_int (2 ^ 53)" using assms(2) by (simp only: of_int_less_iff)
    then show "(of_int m :: rat) < 2 ^ 53" by simp
  qed simp
  finally have "ilog2 ?x \<le> 52 - int k" using pos x by (intro ilog2_le) simp_all
  then have "ulp_exp ?x \<le> - int k" using assms(3) by (simp add: ulp_exp_def)
  with pos x show ?thesis by (rule round_pos_exact)
qed

lemma fround_dyadic:
  assumes "\<bar>m\<bar> < 2 ^ 53" "k \<le> 1074" shows "fround (of_int m / 2 ^ k) = Fin (of_int m / 2 ^ k)"
proof -
  have big: "\<not> 2 ^ 1024 \<le> (of_int n / 2 ^ k :: rat)" if "n < 2 ^ 53" "0 < n" for n :: int
  proof -
    have "(of_int n / 2 ^ k :: rat) \<le> of_int n" using that by (simp add: divide_le_eq)
    also have "\<dots> < of_int (2 ^ 53)" using that(1) by (simp only: of_int_less_iff)
    also have "\<dots> \<le> (2 ^ 1024 :: rat)" by simp
    finally show ?thesis by simp
  qed
  consider "m = 0" | "0 < m" | "m < 0" by linarith
  then show ?thesis
  proof cases
    case 2
    then show ?thesis using round_pos_dyadic [of m k] big [of m] assms by (simp add: fround_def)
  next
    case 3
    then have "\<not> 0 < (of_int m / 2 ^ k :: rat)" by (simp add: zero_less_divide_iff)
    then show ?thesis using 3 round_pos_dyadic [of "- m" k] big [of "- m"] assms
      by (simp add: fround_def)
  qed simp
qed

lemma fround_of_int: "\<bar>m\<bar> < 2 ^ 53 \<Longrightarrow> fround (of_int m) = Fin (of_int m)"
  using fround_dyadic [of m 0] by simp

end
