(* ===== verification/Json.thy ===== *)
theory Json
  imports Gostr F64 "HOL-Library.AList"
begin

text \<open>
  Go's \<open>encoding/json\<close> as far as the program uses it: the syntax tree of a text
  (\<^verbatim>\<open>jx\<close>, numbers kept as their literals), the parser with the scanner's grammar, escapes and
  nesting limit, the values a text decodes to when the target is \<open>any\<close> (\<^verbatim>\<open>jv\<close>), and the
  printer of \<open>json.Marshal\<close> with its HTML-safe escapes and sorted object keys. The shortest
  decimal form of a float (\<open>strconv.AppendFloat\<close>) is a parameter of the printer.
\<close>

section \<open>Values and syntax trees\<close>

datatype jv = JNull | JBool bool | JNum f64 | JStr string | JArr "jv list"
  | JObj "(string \<times> jv) list"

datatype jx = XNull | XBool bool | XNum string | XStr string | XArr "jx list"
  | XObj "(string \<times> jx) list"

text \<open>\<open>map[string]any\<close>: \<open>None\<close> is the nil map; an entry appears once.\<close>

type_synonym jmap = "(string \<times> jv) list option"

definition jmap_entries :: "jmap \<Rightarrow> (string \<times> jv) list" where
  "jmap_entries m = (case m of None \<Rightarrow> [] | Some es \<Rightarrow> es)"

text \<open>\<open>m != nil && len(m) > 0\<close>.\<close>

definition jmap_nonempty :: "jmap \<Rightarrow> bool" where
  "jmap_nonempty m \<longleftrightarrow> jmap_entries m \<noteq> []"

section \<open>Parsing\<close>

abbreviation ch_quote :: char where "ch_quote \<equiv> chr 34"
abbreviation ch_back :: char where "ch_back \<equiv> chr 92"

definition json_ws :: "char \<Rightarrow> bool" where
  "json_ws c \<longleftrightarrow> byte c = 32 \<or> byte c = 9 \<or> byte c = 10 \<or> byte c = 13"

definition skip_ws :: "string \<Rightarrow> string" where
  "skip_ws s = dropWhile json_ws s"

definition is_digit :: "char \<Rightarrow> bool" where
  "is_digit c \<longleftrightarrow> 48 \<le> byte c \<and> byte c \<le> 57"

definition hex_val :: "char \<Rightarrow> nat option" where
  "hex_val c =
     (let b = byte c in
      if 48 \<le> b \<and> b \<le> 57 then Some (b - 48)
      else if 97 \<le> b \<and> b \<le> 102 then Some (b - 87)
      else if 65 \<le> b \<and> b \<le> 70 then Some (b - 55)
      else None)"

definition hex4 :: "char \<Rightarrow> char \<Rightarrow> char \<Rightarrow> char \<Rightarrow> nat option" where
  "hex4 a b c d =
     (case (hex_val a, hex_val b, hex_val c, hex_val d) of
        (Some w, Some x, Some y, Some z) \<Rightarrow> Some (((w * 16 + x) * 16 + y) * 16 + z)
      | _ \<Rightarrow> None)"

definition simple_escape :: "char \<Rightarrow> char option" where
  "simple_escape c =
     (let b = byte c in
      if b = 34 \<or> b = 92 \<or> b = 47 then Some c
      else if b = 98 then Some (chr 8)
      else if b = 102 then Some (chr 12)
      else if b = 110 then Some (chr 10)
      else if b = 114 then Some (chr 13)
      else if b = 116 then Some (chr 9)
      else None)"

definition surrogate :: "nat \<Rightarrow> bool" where
  "surrogate r \<longleftrightarrow> 55296 \<le> r \<and> r \<le> 57343"

definition surrogate_pair :: "nat \<Rightarrow> nat \<Rightarrow> rune option" where
  "surrogate_pair hi lo =
     (if 55296 \<le> hi \<and> hi < 56320 \<and> 56320 \<le> lo \<and> lo < 57344
      then Some ((hi - 55296) * 1024 + (lo - 56320) + 65536) else None)"

definition prepend :: "string \<Rightarrow> (string \<times> string) option \<Rightarrow> (string \<times> string) option" where
  "prepend p r = (case r of None \<Rightarrow> None | Some (s, rest) \<Rightarrow> Some (p @ s, rest))"

text \<open>
  The body of a string literal, after its opening quote: the decoded text and what follows
  the closing quote. Invalid bytes and lone surrogates decode to the error rune.
\<close>

function (sequential) p_str :: "string \<Rightarrow> (string \<times> string) option" where
  "p_str [] = None"
| "p_str (c # s) =
     (if c = ch_quote then Some ([], s)
      else if c = ch_back then
        (case s of
           [] \<Rightarrow> None
         | e # s2 \<Rightarrow>
             if byte e = 117 then
               (case s2 of
                  h1 # h2 # h3 # h4 # s3 \<Rightarrow>
                    (case hex4 h1 h2 h3 h4 of
                       None \<Rightarrow> None
                     | Some r \<Rightarrow>
                         if surrogate r then
                           (case s3 of
                              b # u # g1 # g2 # g3 # g4 # s4 \<Rightarrow>
                                (case (if b = ch_back \<and> byte u = 117
                                       then (case hex4 g1 g2 g3 g4 of None \<Rightarrow> None
                                             | Some r2 \<Rightarrow> surrogate_pair r r2)
                                       else None) of
                                   Some q \<Rightarrow> prepend (encode_rune q) (p_str s4)
                                 | None \<Rightarrow> prepend (encode_rune rune_error) (p_str s3))
                            | _ \<Rightarrow> prepend (encode_rune rune_error) (p_str s3))
                         else prepend (encode_rune r) (p_str s3))
                | _ \<Rightarrow> None)
             else
               (case simple_escape e of
                  None \<Rightarrow> None
                | Some d \<Rightarrow> prepend [d] (p_str s2)))
      else if byte c < 32 then None
      else if byte c < 128 then prepend [c] (p_str s)
      else prepend (encode_rune (fst (decode_rune (c # s))))
             (p_str (drop (snd (decode_rune (c # s))) (c # s))))"
  by pat_completeness auto
termination
  by (relation "measure length") (auto simp: decode_width_Cons)

text \<open>A number literal, by the grammar of JSON.\<close>

definition p_digits :: "string \<Rightarrow> (string \<times> string) option" where
  "p_digits s = (let d = takeWhile is_digit s in if d = [] then None else Some (d, dropWhile is_digit s))"

definition p_frac :: "string \<Rightarrow> (string \<times> string) option" where
  "p_frac s = (case s of
      c # t \<Rightarrow> if byte c = 46 then prepend [c] (p_digits t) else Some ([], s)
    | [] \<Rightarrow> Some ([], []))"

definition p_exp :: "string \<Rightarrow> (string \<times> string) option" where
  "p_exp s = (case s of
      c # t \<Rightarrow>
        if byte c = 101 \<or> byte c = 69 then
          (case t of
             g # u \<Rightarrow> if byte g = 43 \<or> byte g = 45 then prepend [c, g] (p_digits u)
                      else prepend [c] (p_digits t)
           | [] \<Rightarrow> None)
        else Some ([], s)
    | [] \<Rightarrow> Some ([], []))"

definition p_int :: "string \<Rightarrow> (string \<times> string) option" where
  "p_int s = (case s of
      [] \<Rightarrow> None
    | c # t \<Rightarrow> if byte c = 48 then Some ([c], t)
               else if is_digit c then p_digits s else None)"

definition p_number :: "string \<Rightarrow> (string \<times> string) option" where
  "p_number s =
     (let (sg, t) = (case s of c # u \<Rightarrow> if byte c = 45 then ([c], u) else ([], s) | [] \<Rightarrow> ([], []))
      in case p_int t of None \<Rightarrow> None | Some (i, t1) \<Rightarrow>
         (case p_frac t1 of None \<Rightarrow> None | Some (f, t2) \<Rightarrow>
            (case p_exp t2 of None \<Rightarrow> None | Some (e, t3) \<Rightarrow> Some (sg @ i @ f @ e, t3))))"

definition p_lit :: "string \<Rightarrow> jx \<Rightarrow> string \<Rightarrow> (jx \<times> string) option" where
  "p_lit w v s = (if has_prefix s w then Some (v, drop (length w) s) else None)"

text \<open>
  Values, arrays and objects. \<open>n\<close> is fuel, \<open>d\<close> the nesting still allowed: the scanner gives up
  below ten thousand levels.
\<close>

fun p_value :: "nat \<Rightarrow> nat \<Rightarrow> string \<Rightarrow> (jx \<times> string) option"
  and p_elems :: "nat \<Rightarrow> nat \<Rightarrow> string \<Rightarrow> (jx list \<times> string) option"
  and p_members :: "nat \<Rightarrow> nat \<Rightarrow> string \<Rightarrow> ((string \<times> jx) list \<times> string) option"
where
  "p_value 0 d s = None"
| "p_value (Suc n) d s =
     (case skip_ws s of
        [] \<Rightarrow> None
      | c # t \<Rightarrow>
          if byte c = 123 then
            (case d of 0 \<Rightarrow> None | Suc d' \<Rightarrow>
               (case skip_ws t of
                  [] \<Rightarrow> None
                | e # u \<Rightarrow>
                    if byte e = 125 then Some (XObj [], u)
                    else (case p_members n d' t of None \<Rightarrow> None | Some (ms, r) \<Rightarrow> Some (XObj ms, r))))
          else if byte c = 91 then
            (case d of 0 \<Rightarrow> None | Suc d' \<Rightarrow>
               (case skip_ws t of
                  [] \<Rightarrow> None
                | e # u \<Rightarrow>
                    if byte e = 93 then Some (XArr [], u)
                    else (case p_elems n d' t of None \<Rightarrow> None | Some (vs, r) \<Rightarrow> Some (XArr vs, r))))
          else if c = ch_quote then
            (case p_str t of None \<Rightarrow> None | Some (x, r) \<Rightarrow> Some (XStr x, r))
          else if byte c = 116 then p_lit ''true'' (XBool True) (c # t)
          else if byte c = 102 then p_lit ''false'' (XBool False) (c # t)
          else if byte c = 110 then p_lit ''null'' XNull (c # t)
          else (case p_number (c # t) of None \<Rightarrow> None | Some (x, r) \<Rightarrow> Some (XNum x, r)))"
| "p_elems 0 d s = None"
| "p_elems (Suc n) d s =
     (case p_value n d s of
        None \<Rightarrow> None
      | Some (v, r) \<Rightarrow>
          (case skip_ws r of
             [] \<Rightarrow> None
           | c # t \<Rightarrow>
               if byte c = 93 then Some ([v], t)
               else if byte c = 44 then
                 (case p_elems n d t of None \<Rightarrow> None | Some (vs, r2) \<Rightarrow> Some (v # vs, r2))
               else None))"
| "p_members 0 d s = None"
| "p_members (Suc n) d s =
     (case skip_ws s of
        [] \<Rightarrow> None
      | q # t \<Rightarrow>
          if q \<noteq> ch_quote then None
          else
            (case p_str t of
               None \<Rightarrow> None
             | Some (k, r) \<Rightarrow>
                 (case skip_ws r of
                    [] \<Rightarrow> None
                  | c # u \<Rightarrow>
                      if byte c \<noteq> 58 then None
                      else
                        (case p_value n d u of
                           None \<Rightarrow> None
                         | Some (v, r2) \<Rightarrow>
                             (case skip_ws r2 of
                                [] \<Rightarrow> None
                              | e # x \<Rightarrow>
                                  if byte e = 125 then Some ([(k, v)], x)
                                  else if byte e = 44 then
                                    (case p_members n d x of None \<Rightarrow> None
                                     | Some (ms, r3) \<Rightarrow> Some ((k, v) # ms, r3))
                                  else None)))))"

definition json_max_depth :: nat where "json_max_depth = 10000"

definition json_parse :: "string \<Rightarrow> jx option" where
  "json_parse s =
     (case p_value (2 * length s + 2) json_max_depth s of
        None \<Rightarrow> None
      | Some (v, r) \<Rightarrow> if skip_ws r = [] then Some v else None)"

section \<open>Numbers\<close>

definition digits_val :: "string \<Rightarrow> int" where
  "digits_val ds = foldl (\<lambda>n c. n * 10 + (int (byte c) - 48)) 0 ds"

text \<open>The exact value of a number literal.\<close>

definition num_value :: "string \<Rightarrow> rat" where
  "num_value s =
     (let neg = (s \<noteq> [] \<and> byte (hd s) = 45);
          t = (if neg then tl s else s);
          i = takeWhile is_digit t;
          r1 = dropWhile is_digit t;
          f = (case r1 of c # u \<Rightarrow> if byte c = 46 then takeWhile is_digit u else [] | [] \<Rightarrow> []);
          r2 = (case r1 of c # u \<Rightarrow> if byte c = 46 then dropWhile is_digit u else r1 | [] \<Rightarrow> []);
          e = (case r2 of
                 [] \<Rightarrow> 0
               | _ # u \<Rightarrow>
                   (case u of
                      g # v \<Rightarrow> if byte g = 45 then - digits_val v
                               else if byte g = 43 then digits_val v else digits_val u
                    | [] \<Rightarrow> 0));
          m = of_int (digits_val (i @ f)) * (10 powi (e - int (length f)))
      in if neg then - m else m)"

text \<open>\<open>strconv.ParseFloat\<close>: a result out of range is an error.\<close>

definition parse_float :: "string \<Rightarrow> f64 option" where
  "parse_float s =
     (case fround (num_value s) of Fin x \<Rightarrow> Some (Fin x) | _ \<Rightarrow> None)"

text \<open>\<open>strconv.ParseInt(s, 10, 64)\<close> on a number literal.\<close>

definition parse_int :: "string \<Rightarrow> int option" where
  "parse_int s =
     (let neg = (s \<noteq> [] \<and> byte (hd s) = 45); t = (if neg then tl s else s) in
      if t = [] \<or> \<not> list_all is_digit t then None
      else let n = (if neg then - digits_val t else digits_val t) in
           if - (2 ^ 63) \<le> n \<and> n < 2 ^ 63 then Some n else None)"

text \<open>Decoding into \<open>any\<close>: a later key of an object replaces an earlier one.\<close>

fun to_any :: "jx \<Rightarrow> jv option"
  and to_any_list :: "jx list \<Rightarrow> jv list option"
  and to_any_obj :: "(string \<times> jx) list \<Rightarrow> (string \<times> jv) list \<Rightarrow> (string \<times> jv) list option"
where
  "to_any XNull = Some JNull"
| "to_any (XBool b) = Some (JBool b)"
| "to_any (XNum s) = (case parse_float s of None \<Rightarrow> None | Some x \<Rightarrow> Some (JNum x))"
| "to_any (XStr s) = Some (JStr s)"
| "to_any (XArr xs) = (case to_any_list xs of None \<Rightarrow> None | Some vs \<Rightarrow> Some (JArr vs))"
| "to_any (XObj ms) = (case to_any_obj ms [] of None \<Rightarrow> None | Some es \<Rightarrow> Some (JObj es))"
| "to_any_list [] = Some []"
| "to_any_list (x # xs) =
     (case to_any x of None \<Rightarrow> None | Some v \<Rightarrow>
        (case to_any_list xs of None \<Rightarrow> None | Some vs \<Rightarrow> Some (v # vs)))"
| "to_any_obj [] acc = Some acc"
| "to_any_obj ((k, x) # ms) acc =
     (case to_any x of None \<Rightarrow> None | Some v \<Rightarrow> to_any_obj ms (AList.update k v acc))"

section \<open>Printing\<close>

definition hex_digit :: "nat \<Rightarrow> char" where
  "hex_digit n = (if n < 10 then chr (48 + n) else chr (87 + n))"

text \<open>\<open>encoding/hex\<close>, lower case.\<close>

definition hex_encode :: "bytes \<Rightarrow> string" where
  "hex_encode bs = concat (map (\<lambda>c. [hex_digit (byte c div 16), hex_digit (byte c mod 16)]) bs)"

definition u_escape :: "nat \<Rightarrow> string" where
  "u_escape r = [ch_back, CHR ''u'', hex_digit (r div 4096), hex_digit (r div 256 mod 16),
                 hex_digit (r div 16 mod 16), hex_digit (r mod 16)]"

definition esc_ascii :: "char \<Rightarrow> string" where
  "esc_ascii c =
     (let b = byte c in
      if b = 34 \<or> b = 92 then [ch_back, c]
      else if b = 8 then [ch_back, CHR ''b'']
      else if b = 12 then [ch_back, CHR ''f'']
      else if b = 10 then [ch_back, CHR ''n'']
      else if b = 13 then [ch_back, CHR ''r'']
      else if b = 9 then [ch_back, CHR ''t'']
      else if b < 32 \<or> b = 60 \<or> b = 62 \<or> b = 38 then u_escape b
      else [c])"

function esc_str :: "string \<Rightarrow> string" where
  "esc_str s =
     (if s = [] then []
      else if byte (hd s) < 128 then esc_ascii (hd s) @ esc_str (tl s)
      else
        (let (r, n) = decode_rune s in
         (if r = rune_error \<and> n = 1 then u_escape rune_error
          else if r = 8232 \<or> r = 8233 then u_escape r
          else take n s)
         @ esc_str (drop (snd (decode_rune s)) s)))"
  by pat_completeness auto
termination
proof (relation "measure length", goal_cases)
  case (3 s)
  then show ?case by (cases s) (auto simp: decode_width_Cons)
qed auto

declare esc_str.simps [simp del] p_str.simps(2) [simp del]

definition json_str :: "string \<Rightarrow> string" where
  "json_str s = [ch_quote] @ esc_str s @ [ch_quote]"

fun join :: "string \<Rightarrow> string list \<Rightarrow> string" where
  "join sep [] = []"
| "join sep [x] = x"
| "join sep (x # y # xs) = x @ sep @ join sep (y # xs)"

fun json_print :: "(f64 \<Rightarrow> string) \<Rightarrow> jv \<Rightarrow> string" where
  "json_print ff JNull = ''null''"
| "json_print ff (JBool b) = (if b then ''true'' else ''false'')"
| "json_print ff (JNum x) = ff x"
| "json_print ff (JStr s) = json_str s"
| "json_print ff (JArr vs) = ''['' @ join '','' (map (json_print ff) vs) @ '']''"
| "json_print ff (JObj es) =
     ''{'' @ join '','' (map (\<lambda>(k, t). json_str k @ '':'' @ t)
        (sort_key fst (map (\<lambda>(k, v). (k, json_print ff v)) es))) @ ''}''"

text \<open>A syntax tree printed without spaces, its numbers and member order kept.\<close>

fun jx_print :: "jx \<Rightarrow> string" where
  "jx_print XNull = ''null''"
| "jx_print (XBool b) = (if b then ''true'' else ''false'')"
| "jx_print (XNum s) = s"
| "jx_print (XStr s) = json_str s"
| "jx_print (XArr xs) = ''['' @ join '','' (map jx_print xs) @ '']''"
| "jx_print (XObj ms) = ''{'' @ join '','' (map (\<lambda>(k, x). json_str k @ '':'' @ jx_print x) ms) @ ''}''"

definition jmap_print :: "(f64 \<Rightarrow> string) \<Rightarrow> jmap \<Rightarrow> string" where
  "jmap_print ff m = (case m of None \<Rightarrow> ''null'' | Some es \<Rightarrow> json_print ff (JObj es))"

text \<open>\<open>json.Marshal\<close> refuses infinities and NaN.\<close>

fun jv_finite :: "jv \<Rightarrow> bool" where
  "jv_finite (JNum x) = (case x of Fin _ \<Rightarrow> True | _ \<Rightarrow> False)"
| "jv_finite (JArr vs) = list_all jv_finite vs"
| "jv_finite (JObj es) = list_all (\<lambda>e. jv_finite (snd e)) es"
| "jv_finite _ = True"

end
