(* ===== verification/World.thy ===== *)
theory World
  imports Json
begin

text \<open>
  What the program cannot compute by itself is a parameter: the record \<open>env\<close> holds Unicode's
  lower-case table, the hash, key-derivation and AEAD primitives, the UUID package, the vector
  and full-text operators of PostgreSQL, the model provider, and an oracle for everything that
  varies from call to call (time, random bytes, new UUIDs, failing database calls), indexed by
  the number of calls made so far. The \<open>world\<close> is the database with that counter; the database
  is the schema of \<open>db/migrations\<close>, one list of rows per table.
\<close>

section \<open>Rows\<close>

type_synonym vec = "f64 list"

record vault_row =
  v_id :: uuid
  v_enc :: bool
  v_auth_mode :: string
  v_argon_time :: "int option"
  v_argon_mem :: "int option"
  v_argon_par :: "int option"
  v_salt :: "bytes option"
  v_wrapped :: "bytes option"
  v_created :: instant

record session_row =
  s_hash :: bytes
  s_vault :: uuid
  s_created :: instant
  s_last_seen :: instant
  s_expires :: instant
  s_max_until :: instant

record chunk_row =
  c_id :: uuid
  c_vault :: uuid
  c_user :: string
  c_ciphertext :: "bytes option"
  c_nonce :: "bytes option"
  c_key_id :: "string option"
  c_body :: "string option"
  c_hash :: bytes
  c_model :: string
  c_schema :: int
  c_tsv :: string
  c_session_key :: "string option"
  c_kind :: string
  c_meta :: jmap
  c_source :: "uuid option"
  c_created :: instant
  c_deleted :: "instant option"

record embed_row =
  e_chunk :: uuid
  e_vec :: vec
  e_model :: string

record doc_row =
  sd_id :: uuid
  sd_vault :: uuid
  sd_user :: string
  sd_title :: "string option"
  sd_ciphertext :: "bytes option"
  sd_nonce :: "bytes option"
  sd_key_id :: "string option"
  sd_body :: "string option"
  sd_hash :: bytes
  sd_created :: instant

record msg_row =
  m_id :: nat
  m_vault :: uuid
  m_user :: string
  m_key :: string
  m_role :: string
  m_content :: string
  m_created :: instant

record hist_row =
  h_id :: nat
  h_vault :: uuid
  h_chunk :: "uuid option"
  h_event :: string
  h_created :: instant

record token_row =
  t_id :: uuid
  t_vault :: uuid
  t_hash :: bytes
  t_scopes :: "string list"
  t_expires :: instant

record db =
  d_vaults :: "vault_row list"
  d_sessions :: "session_row list"
  d_chunks :: "chunk_row list"
  d_embeds :: "embed_row list"
  d_docs :: "doc_row list"
  d_msgs :: "msg_row list"
  d_hist :: "hist_row list"
  d_tokens :: "token_row list"
  d_tuning :: "bytes option"

section \<open>The environment and the world\<close>

record env =
  ev_lower :: "rune \<Rightarrow> rune"                 \<comment> \<open>\<open>unicode.ToLower\<close> from U+0080 on\<close>
  ev_fmt_f64 :: "f64 \<Rightarrow> string"              \<comment> \<open>shortest decimal form of a float\<close>
  ev_sha256 :: "bytes \<Rightarrow> bytes"
  ev_argon2 :: "bytes \<Rightarrow> bytes \<Rightarrow> 32 word \<Rightarrow> 32 word \<Rightarrow> 8 word \<Rightarrow> nat \<Rightarrow> bytes"
  ev_seal :: "bytes \<Rightarrow> bytes \<Rightarrow> bytes \<Rightarrow> bytes"          \<comment> \<open>key, nonce, plaintext\<close>
  ev_open :: "bytes \<Rightarrow> bytes \<Rightarrow> bytes \<Rightarrow> bytes option"   \<comment> \<open>key, nonce, ciphertext\<close>
  ev_uuid_str :: "uuid \<Rightarrow> string"
  ev_uuid_parse :: "string \<Rightarrow> uuid option"
  ev_knn :: "nat \<Rightarrow> vec \<Rightarrow> (uuid \<times> vec) list \<Rightarrow> (uuid \<times> f64) list"
    \<comment> \<open>scan of the vector index: rows nearest first, with \<open>1 - (embedding <=> q)\<close>\<close>
  ev_fts :: "nat \<Rightarrow> string \<Rightarrow> (uuid \<times> string) list \<Rightarrow> (uuid \<times> f64) list"
    \<comment> \<open>full-text matches with \<open>ts_rank_cd\<close>, best first\<close>
  ev_embed :: "nat \<Rightarrow> string \<Rightarrow> string list \<Rightarrow> vec list res"
    \<comment> \<open>the provider's embeddings for a model and texts\<close>
  ev_extract :: "nat \<Rightarrow> string \<Rightarrow> string \<Rightarrow> string list res"
    \<comment> \<open>the provider's fact extraction\<close>
  ev_fault :: "nat \<Rightarrow> bool"                  \<comment> \<open>does this database call fail\<close>
  ev_now :: "nat \<Rightarrow> instant"
  ev_uuid :: "nat \<Rightarrow> uuid"                   \<comment> \<open>\<open>uuid.New\<close>\<close>
  ev_rand :: "nat \<Rightarrow> nat \<Rightarrow> bytes option"    \<comment> \<open>\<open>crypto/rand\<close>: n random bytes\<close>

record world =
  w_db :: db
  w_tick :: nat

text \<open>The database right after the migrations, and the world of a fresh start.\<close>

definition empty_db :: db where
  "empty_db = \<lparr>d_vaults = [], d_sessions = [], d_chunks = [], d_embeds = [], d_docs = [],
     d_msgs = [], d_hist = [], d_tokens = [], d_tuning = Some ''{}''\<rparr>"

definition empty_world :: world where
  "empty_world = \<lparr>w_db = empty_db, w_tick = 0\<rparr>"

definition bump :: "world \<Rightarrow> world" where
  "bump w = w\<lparr>w_tick := Suc (w_tick w)\<rparr>"

text \<open>A read and a write of the database; a failing call changes nothing.\<close>

definition query :: "env \<Rightarrow> (instant \<Rightarrow> db \<Rightarrow> 'a res) \<Rightarrow> world \<Rightarrow> 'a res \<times> world" where
  "query env q w =
     (if ev_fault env (w_tick w) then (Inl EDb, bump w)
      else (q (ev_now env (w_tick w)) (w_db w), bump w))"

definition exec :: "env \<Rightarrow> (instant \<Rightarrow> db \<Rightarrow> (db \<times> 'a) res) \<Rightarrow> world \<Rightarrow> 'a res \<times> world" where
  "exec env f w =
     (if ev_fault env (w_tick w) then (Inl EDb, bump w)
      else (case f (ev_now env (w_tick w)) (w_db w) of
              Inl e \<Rightarrow> (Inl e, bump w)
            | Inr (d, x) \<Rightarrow> (Inr x, (bump w)\<lparr>w_db := d\<rparr>)))"

text \<open>\<open>uuid.New\<close>, \<open>rand.Read\<close>, \<open>time.Now\<close> and the provider: values of the oracle.\<close>

definition new_uuid :: "env \<Rightarrow> world \<Rightarrow> uuid \<times> world" where
  "new_uuid env w = (ev_uuid env (w_tick w), bump w)"

definition rand_bytes :: "env \<Rightarrow> nat \<Rightarrow> world \<Rightarrow> bytes res \<times> world" where
  "rand_bytes env n w =
     ((case ev_rand env (w_tick w) n of None \<Rightarrow> Inl ERand | Some b \<Rightarrow> Inr b), bump w)"

definition now :: "env \<Rightarrow> world \<Rightarrow> instant \<times> world" where
  "now env w = (ev_now env (w_tick w), bump w)"

definition oa_embed :: "env \<Rightarrow> string \<Rightarrow> string list \<Rightarrow> world \<Rightarrow> vec list res \<times> world" where
  "oa_embed env model texts w = (ev_embed env (w_tick w) model texts, bump w)"

definition oa_extract :: "env \<Rightarrow> string \<Rightarrow> string \<Rightarrow> world \<Rightarrow> string list res \<times> world" where
  "oa_extract env model payload w = (ev_extract env (w_tick w) model payload, bump w)"

lemma bump_simps [simp]: "w_db (bump w) = w_db w" "w_tick (bump w) = Suc (w_tick w)"
  by (simp_all add: bump_def)

lemma query_db [frame]: "w_db (snd (query env q w)) = w_db w"
  by (simp add: query_def)

lemma oracle_db [frame]:
  "w_db (snd (new_uuid env w)) = w_db w"
  "w_db (snd (rand_bytes env n w)) = w_db w"
  "w_db (snd (now env w)) = w_db w"
  "w_db (snd (oa_embed env m ts w)) = w_db w"
  "w_db (snd (oa_extract env m p w)) = w_db w"
  by (simp_all add: new_uuid_def rand_bytes_def now_def oa_embed_def oa_extract_def)

lemma query_Inr: "query env q w = (Inr x, w') \<Longrightarrow>
    q (ev_now env (w_tick w)) (w_db w) = Inr x \<and> w_db w' = w_db w"
  by (auto simp: query_def split: if_splits)

lemma exec_Inl: "exec env f w = (Inl e, w') \<Longrightarrow> w_db w' = w_db w"
  by (auto simp: exec_def split: if_splits sum.splits prod.splits)

lemma exec_Inr: "exec env f w = (Inr x, w') \<Longrightarrow>
    f (ev_now env (w_tick w)) (w_db w) = Inr (w_db w', x)"
  by (auto simp: exec_def split: if_splits sum.splits prod.splits)

text \<open>An invariant of the database that a write keeps is kept by the call.\<close>

lemma exec_inv:
  assumes "\<And>t d d' x. f t d = Inr (d', x) \<Longrightarrow> P d \<Longrightarrow> P d'" and "P (w_db w)"
  shows "P (w_db (snd (exec env f w)))"
  using assms by (auto simp: exec_def split: sum.split prod.split)

end
