(* ===== verification/Store.thy ===== *)
theory Store
  imports World
begin

text \<open>
  \<open>internal/store\<close>: every query of the pool, on the rows of \<open>World\<close>. A query is a function of
  the database; an insert applies the constraints of the schema (primary keys, foreign keys,
  the payload check, the unique content hash of source documents, the vector dimension) and
  fails with \<open>EConstraint\<close> when one rejects the row. \<open>InsertChunk\<close> is the one transaction: its
  statements run on a private copy of the database that becomes visible at the commit.
\<close>

section \<open>Looking rows up\<close>

definition row_at :: "('r \<Rightarrow> 'k) \<Rightarrow> 'k \<Rightarrow> 'r list \<Rightarrow> 'r option" where
  "row_at key k rows = find (\<lambda>r. key r = k) rows"

text \<open>A round trip to the server, for the readiness probe.\<close>

definition Ping :: "env \<Rightarrow> world \<Rightarrow> unit res \<times> world" where
  "Ping env w = query env (\<lambda>_ _. Inr ()) w"

section \<open>Vaults\<close>

definition GetAnyVault :: "env \<Rightarrow> world \<Rightarrow> vault_row option res \<times> world" where
  "GetAnyVault env w =
     query env (\<lambda>_ d. Inr (case sort_key v_created (d_vaults d) of [] \<Rightarrow> None | v # _ \<Rightarrow> Some v)) w"

definition GetVault :: "env \<Rightarrow> uuid \<Rightarrow> world \<Rightarrow> vault_row res \<times> world" where
  "GetVault env i w =
     query env (\<lambda>_ d. case row_at v_id i (d_vaults d) of None \<Rightarrow> Inl ENotFound | Some v \<Rightarrow> Inr v) w"

definition auth_mode_check :: "string \<Rightarrow> bool" where
  "auth_mode_check m \<longleftrightarrow> m \<in> {''session'', ''auto_unlock'', ''api_keys''}"

definition insert_vault_row :: "vault_row \<Rightarrow> db \<Rightarrow> (db \<times> unit) res" where
  "insert_vault_row v d =
     (if row_at v_id (v_id v) (d_vaults d) \<noteq> None then Inl (EConstraint ''vaults_pkey'')
      else if \<not> auth_mode_check (v_auth_mode v) then Inl (EConstraint ''vaults_auth_mode_check'')
      else Inr (d\<lparr>d_vaults := d_vaults d @ [v]\<rparr>, ()))"

definition InsertVault ::
  "env \<Rightarrow> bool \<Rightarrow> string \<Rightarrow> bytes option \<Rightarrow> bytes option \<Rightarrow> int \<Rightarrow> int \<Rightarrow> int \<Rightarrow> world
   \<Rightarrow> uuid res \<times> world" where
  "InsertVault env encEnabled authMode salt wrapped t mem par w =
     (let (i, w1) = new_uuid env w;
          (r, w2) = exec env (\<lambda>ts. insert_vault_row
             (if encEnabled then
                \<lparr>v_id = i, v_enc = True, v_auth_mode = authMode, v_argon_time = Some t,
                 v_argon_mem = Some mem, v_argon_par = Some par, v_salt = salt,
                 v_wrapped = wrapped, v_created = ts\<rparr>
              else
                \<lparr>v_id = i, v_enc = False, v_auth_mode = authMode, v_argon_time = None,
                 v_argon_mem = None, v_argon_par = None, v_salt = None,
                 v_wrapped = None, v_created = ts\<rparr>)) w1
      in (case r of Inl e \<Rightarrow> (Inl e, w2) | Inr _ \<Rightarrow> (Inr i, w2)))"

section \<open>Sessions\<close>

definition insert_session_row :: "session_row \<Rightarrow> db \<Rightarrow> (db \<times> unit) res" where
  "insert_session_row s d =
     (if row_at s_hash (s_hash s) (d_sessions d) \<noteq> None then Inl (EConstraint ''sessions_pkey'')
      else if row_at v_id (s_vault s) (d_vaults d) = None
      then Inl (EConstraint ''sessions_vault_id_fkey'')
      else Inr (d\<lparr>d_sessions := d_sessions d @ [s]\<rparr>, ()))"

definition InsertSession ::
  "env \<Rightarrow> bytes \<Rightarrow> uuid \<Rightarrow> instant \<Rightarrow> instant \<Rightarrow> instant \<Rightarrow> world \<Rightarrow> unit res \<times> world" where
  "InsertSession env tokenHash vaultID ts expiresAt maxUntil w =
     exec env (\<lambda>_. insert_session_row
       \<lparr>s_hash = tokenHash, s_vault = vaultID, s_created = ts, s_last_seen = ts,
        s_expires = expiresAt, s_max_until = maxUntil\<rparr>) w"

definition GetSessionByHash :: "env \<Rightarrow> bytes \<Rightarrow> world \<Rightarrow> session_row res \<times> world" where
  "GetSessionByHash env tokenHash w =
     query env (\<lambda>_ d. case row_at s_hash tokenHash (d_sessions d) of
                        None \<Rightarrow> Inl ENotFound | Some s \<Rightarrow> Inr s) w"

definition touch_session_rows ::
  "bytes \<Rightarrow> instant \<Rightarrow> instant \<Rightarrow> session_row list \<Rightarrow> session_row list" where
  "touch_session_rows h lastSeen expiresAt rows =
     map (\<lambda>s. if s_hash s = h then s\<lparr>s_last_seen := lastSeen, s_expires := expiresAt\<rparr> else s) rows"

definition TouchSession ::
  "env \<Rightarrow> bytes \<Rightarrow> instant \<Rightarrow> instant \<Rightarrow> world \<Rightarrow> unit res \<times> world" where
  "TouchSession env tokenHash lastSeen expiresAt w =
     exec env (\<lambda>_ d. Inr (d\<lparr>d_sessions :=
       touch_session_rows tokenHash lastSeen expiresAt (d_sessions d)\<rparr>, ())) w"

definition DeleteSession :: "env \<Rightarrow> bytes \<Rightarrow> world \<Rightarrow> unit res \<times> world" where
  "DeleteSession env tokenHash w =
     exec env (\<lambda>_ d. Inr (d\<lparr>d_sessions := filter (\<lambda>s. s_hash s \<noteq> tokenHash) (d_sessions d)\<rparr>, ())) w"

definition PurgeSessionsForVault :: "env \<Rightarrow> uuid \<Rightarrow> world \<Rightarrow> unit res \<times> world" where
  "PurgeSessionsForVault env vaultID w =
     exec env (\<lambda>_ d. Inr (d\<lparr>d_sessions := filter (\<lambda>s. s_vault s \<noteq> vaultID) (d_sessions d)\<rparr>, ())) w"

section \<open>Chunks\<close>

record chunk_insert =
  ci_id :: uuid
  ci_vault :: uuid
  ci_user :: string
  ci_ciphertext :: "bytes option"
  ci_nonce :: "bytes option"
  ci_key_id :: "string option"
  ci_body :: "string option"
  ci_hash :: bytes
  ci_model :: string
  ci_schema :: int
  ci_tsv :: string
  ci_vec :: vec
  ci_session_key :: "string option"
  ci_kind :: string
  ci_meta :: jmap
  ci_source :: "uuid option"

definition payload_xor :: "bytes option \<Rightarrow> string option \<Rightarrow> bool" where
  "payload_xor ct body \<longleftrightarrow> (ct \<noteq> None) \<noteq> (body \<noteq> None)"

definition insert_chunk_row :: "instant \<Rightarrow> chunk_insert \<Rightarrow> db \<Rightarrow> db res" where
  "insert_chunk_row ts c d =
     (if row_at c_id (ci_id c) (d_chunks d) \<noteq> None then Inl (EConstraint ''memory_chunks_pkey'')
      else if row_at v_id (ci_vault c) (d_vaults d) = None
      then Inl (EConstraint ''memory_chunks_vault_id_fkey'')
      else if \<not> payload_xor (ci_ciphertext c) (ci_body c)
      then Inl (EConstraint ''memory_chunks_payload_xor'')
      else if (case ci_source c of None \<Rightarrow> False | Some s \<Rightarrow> row_at sd_id s (d_docs d) = None)
      then Inl (EConstraint ''memory_chunks_source_document_id_fkey'')
      else Inr (d\<lparr>d_chunks := d_chunks d @ [
        \<lparr>c_id = ci_id c, c_vault = ci_vault c, c_user = ci_user c, c_ciphertext = ci_ciphertext c,
         c_nonce = ci_nonce c, c_key_id = ci_key_id c, c_body = ci_body c, c_hash = ci_hash c,
         c_model = ci_model c, c_schema = ci_schema c, c_tsv = ci_tsv c,
         c_session_key = ci_session_key c, c_kind = ci_kind c, c_meta = ci_meta c,
         c_source = ci_source c, c_created = ts, c_deleted = None\<rparr>]\<rparr>))"

definition vector_dim :: nat where "vector_dim = 1536"

definition insert_embed_row :: "chunk_insert \<Rightarrow> db \<Rightarrow> db res" where
  "insert_embed_row c d =
     (if length (ci_vec c) \<noteq> vector_dim then Inl (EConstraint ''vector dimension'')
      else if row_at e_chunk (ci_id c) (d_embeds d) \<noteq> None
      then Inl (EConstraint ''chunk_embeddings_pkey'')
      else if row_at c_id (ci_id c) (d_chunks d) = None
      then Inl (EConstraint ''chunk_embeddings_chunk_id_fkey'')
      else Inr (d\<lparr>d_embeds := d_embeds d @
        [\<lparr>e_chunk = ci_id c, e_vec = ci_vec c, e_model = ci_model c\<rparr>]\<rparr>))"

definition insert_hist_row :: "instant \<Rightarrow> nat \<Rightarrow> uuid \<Rightarrow> uuid \<Rightarrow> db \<Rightarrow> db res" where
  "insert_hist_row ts n vault chunk d =
     Inr (d\<lparr>d_hist := d_hist d @
       [\<lparr>h_id = n, h_vault = vault, h_chunk = Some chunk, h_event = ''ADD'', h_created = ts\<rparr>]\<rparr>)"

text \<open>A statement inside a transaction: it may fail, and sees and changes the private copy.\<close>

definition tx_exec :: "env \<Rightarrow> (db \<Rightarrow> db res) \<Rightarrow> db \<Rightarrow> world \<Rightarrow> db res \<times> world" where
  "tx_exec env f d w = (if ev_fault env (w_tick w) then (Inl EDb, bump w) else (f d, bump w))"

text \<open>
  \<open>InsertChunk\<close>: begin, marshal the metadata, three inserts, commit. An error of any of them rolls
  back, and so does a failing commit: the copy is dropped. \<open>now()\<close> is the start of the transaction.
\<close>

definition InsertChunk :: "env \<Rightarrow> chunk_insert \<Rightarrow> world \<Rightarrow> unit res \<times> world" where
  "InsertChunk env c w =
     (let ts = ev_now env (w_tick w) in
      case query env (\<lambda>_ d. Inr d) w of
        (Inl e, w1) \<Rightarrow> (Inl e, w1)
      | (Inr d0, w1) \<Rightarrow>
         if \<not> jv_finite (JObj (jmap_entries (ci_meta c))) then (Inl (EMsg ''json: unsupported value''), w1)
         else
         (case tx_exec env (insert_chunk_row ts c) d0 w1 of
            (Inl e, w2) \<Rightarrow> (Inl e, w2)
          | (Inr d1, w2) \<Rightarrow>
             (case tx_exec env (insert_embed_row c) d1 w2 of
                (Inl e, w3) \<Rightarrow> (Inl e, w3)
              | (Inr d2, w3) \<Rightarrow>
                 (case tx_exec env (insert_hist_row ts (w_tick w3) (ci_vault c) (ci_id c)) d2 w3 of
                    (Inl e, w4) \<Rightarrow> (Inl e, w4)
                  | (Inr d3, w4) \<Rightarrow> exec env (\<lambda>_ _. Inr (d3, ())) w4))))"

record chunk_candidate =
  cc_id :: uuid
  cc_sem :: f64
  cc_lex :: f64
  cc_raw :: f64

text \<open>The \<open>WHERE\<close> clause the two searches share.\<close>

definition live_chunk :: "uuid \<Rightarrow> string \<Rightarrow> string \<Rightarrow> bool \<Rightarrow> chunk_row \<Rightarrow> bool" where
  "live_chunk vaultID userID sessionKey onlySession c \<longleftrightarrow>
     c_vault c = vaultID \<and> c_user c = userID \<and> c_deleted c = None
     \<and> (onlySession \<and> sessionKey \<noteq> [] \<longrightarrow> c_session_key c = Some sessionKey)"

definition dense_rows ::
  "uuid \<Rightarrow> string \<Rightarrow> string \<Rightarrow> string \<Rightarrow> bool \<Rightarrow> db \<Rightarrow> (uuid \<times> vec) list" where
  "dense_rows vaultID userID modelID sessionKey onlySession d =
     map (\<lambda>e. (e_chunk e, e_vec e))
       (filter (\<lambda>e. e_model e = modelID \<and>
          (case row_at c_id (e_chunk e) (d_chunks d) of
             None \<Rightarrow> False | Some c \<Rightarrow> live_chunk vaultID userID sessionKey onlySession c))
          (d_embeds d))"

definition SearchDense ::
  "env \<Rightarrow> uuid \<Rightarrow> string \<Rightarrow> string \<Rightarrow> vec \<Rightarrow> int \<Rightarrow> string \<Rightarrow> bool \<Rightarrow> world
   \<Rightarrow> chunk_candidate list res \<times> world" where
  "SearchDense env vaultID userID modelID queryVec limit sessionKey onlySession w =
     query env (\<lambda>_ d.
       if limit < 0 then Inl EDb
       else Inr (map (\<lambda>(i, sem). \<lparr>cc_id = i, cc_sem = sem, cc_lex = Fin 0, cc_raw = Fin 0\<rparr>)
              (take (nat limit) (ev_knn env (w_tick w) queryVec
                 (dense_rows vaultID userID modelID sessionKey onlySession d))))) w"

definition lex_rows :: "uuid \<Rightarrow> string \<Rightarrow> string \<Rightarrow> bool \<Rightarrow> db \<Rightarrow> (uuid \<times> string) list" where
  "lex_rows vaultID userID sessionKey onlySession d =
     map (\<lambda>c. (c_id c, c_tsv c))
       (filter (live_chunk vaultID userID sessionKey onlySession) (d_chunks d))"

definition SearchLexical ::
  "env \<Rightarrow> uuid \<Rightarrow> string \<Rightarrow> string \<Rightarrow> int \<Rightarrow> string \<Rightarrow> bool \<Rightarrow> world
   \<Rightarrow> chunk_candidate list res \<times> world" where
  "SearchLexical env vaultID userID qtext limit sessionKey onlySession w =
     query env (\<lambda>_ d.
       if limit < 0 then Inl EDb
       else Inr (map (\<lambda>(i, r). \<lparr>cc_id = i, cc_sem = Fin 0, cc_lex = Fin 0, cc_raw = r\<rparr>)
              (take (nat limit) (ev_fts env (w_tick w) qtext
                 (lex_rows vaultID userID sessionKey onlySession d))))) w"

text \<open>The session keys of the chunks asked for: NULL is \<open>Some None\<close>, no row is \<open>None\<close>.\<close>

definition IngestSessionKeysByChunkIDs ::
  "env \<Rightarrow> uuid list \<Rightarrow> world \<Rightarrow> (uuid \<Rightarrow> string option option) res \<times> world" where
  "IngestSessionKeysByChunkIDs env ids w =
     (if ids = [] then (Inr (\<lambda>_. None), w)
      else query env (\<lambda>_ d. Inr (\<lambda>i.
        if i \<in> set ids then
          (case row_at c_id i (d_chunks d) of
             None \<Rightarrow> None
           | Some c \<Rightarrow> if c_deleted c = None then Some (c_session_key c) else None)
        else None)) w)"

record chunk_payload =
  cp_id :: uuid
  cp_ciphertext :: "bytes option"
  cp_nonce :: "bytes option"
  cp_body :: "string option"
  cp_model :: string
  cp_kind :: string
  cp_meta :: jmap
  cp_source :: "uuid option"
  cp_vault :: uuid

definition payload_of :: "chunk_row \<Rightarrow> chunk_payload" where
  "payload_of c =
     \<lparr>cp_id = c_id c, cp_ciphertext = c_ciphertext c, cp_nonce = c_nonce c, cp_body = c_body c,
      cp_model = c_model c, cp_kind = c_kind c, cp_meta = c_meta c, cp_source = c_source c,
      cp_vault = c_vault c\<rparr>"

definition GetChunkPayload :: "env \<Rightarrow> uuid \<Rightarrow> world \<Rightarrow> chunk_payload res \<times> world" where
  "GetChunkPayload env i w =
     query env (\<lambda>_ d. case row_at c_id i (d_chunks d) of
        None \<Rightarrow> Inl ENotFound
      | Some c \<Rightarrow> if c_deleted c = None then Inr (payload_of c) else Inl ENotFound) w"

record chunk_for_vault =
  cv_payload :: chunk_payload
  cv_user :: string
  cv_created :: instant
  cv_schema :: int
  cv_session_key :: "string option"

definition GetChunkForVault :: "env \<Rightarrow> uuid \<Rightarrow> uuid \<Rightarrow> world \<Rightarrow> chunk_for_vault res \<times> world" where
  "GetChunkForVault env vaultID chunkID w =
     query env (\<lambda>_ d. case row_at c_id chunkID (d_chunks d) of
        None \<Rightarrow> Inl ENotFound
      | Some c \<Rightarrow>
          if c_vault c = vaultID \<and> c_deleted c = None
          then Inr \<lparr>cv_payload = payload_of c, cv_user = c_user c, cv_created = c_created c,
                    cv_schema = c_schema c, cv_session_key = c_session_key c\<rparr>
          else Inl ENotFound) w"

definition ChunkExistsHash :: "env \<Rightarrow> uuid \<Rightarrow> string \<Rightarrow> bytes \<Rightarrow> world \<Rightarrow> bool res \<times> world" where
  "ChunkExistsHash env vault user hash w =
     query env (\<lambda>_ d. Inr (\<exists>c \<in> set (d_chunks d).
        c_vault c = vault \<and> c_user c = user \<and> c_hash c = hash \<and> c_deleted c = None)) w"

text \<open>
  \<open>SoftDeleteChunk\<close>: the row is only marked, and its embedding is then removed in a second
  statement whose failure is ignored.
\<close>

definition soft_delete_rows :: "instant \<Rightarrow> uuid \<Rightarrow> uuid \<Rightarrow> chunk_row list \<Rightarrow> chunk_row list" where
  "soft_delete_rows ts vaultID chunkID rows =
     map (\<lambda>c. if c_id c = chunkID \<and> c_vault c = vaultID \<and> c_deleted c = None
              then c\<lparr>c_deleted := Some ts\<rparr> else c) rows"

definition SoftDeleteChunk :: "env \<Rightarrow> uuid \<Rightarrow> uuid \<Rightarrow> world \<Rightarrow> unit res \<times> world" where
  "SoftDeleteChunk env vaultID chunkID w =
     (case exec env (\<lambda>ts d. Inr (d\<lparr>d_chunks := soft_delete_rows ts vaultID chunkID (d_chunks d)\<rparr>,
                     \<exists>c \<in> set (d_chunks d). c_id c = chunkID \<and> c_vault c = vaultID
                        \<and> c_deleted c = None)) w of
        (Inl e, w1) \<Rightarrow> (Inl e, w1)
      | (Inr affected, w1) \<Rightarrow>
          if \<not> affected then (Inl ENotFound, w1)
          else (Inr (), snd (exec env (\<lambda>_ d.
             Inr (d\<lparr>d_embeds := filter (\<lambda>e. e_chunk e \<noteq> chunkID) (d_embeds d)\<rparr>, ())) w1)))"

section \<open>Source documents\<close>

definition GetSourceDocumentIDByHash ::
  "env \<Rightarrow> uuid \<Rightarrow> string \<Rightarrow> bytes \<Rightarrow> world \<Rightarrow> uuid res \<times> world" where
  "GetSourceDocumentIDByHash env vaultID userID hash w =
     query env (\<lambda>_ d. case find (\<lambda>r. sd_vault r = vaultID \<and> sd_user r = userID \<and> sd_hash r = hash)
                            (d_docs d) of
        None \<Rightarrow> Inl ENotFound | Some r \<Rightarrow> Inr (sd_id r)) w"

definition insert_doc_row :: "instant \<Rightarrow> doc_row \<Rightarrow> db \<Rightarrow> (db \<times> unit) res" where
  "insert_doc_row ts r d =
     (if row_at sd_id (sd_id r) (d_docs d) \<noteq> None then Inl (EConstraint ''source_documents_pkey'')
      else if row_at v_id (sd_vault r) (d_vaults d) = None
      then Inl (EConstraint ''source_documents_vault_id_fkey'')
      else if \<not> payload_xor (sd_ciphertext r) (sd_body r)
      then Inl (EConstraint ''source_documents_payload_xor'')
      else if \<exists>x \<in> set (d_docs d). sd_vault x = sd_vault r \<and> sd_user x = sd_user r
                \<and> sd_hash x = sd_hash r
      then Inl (EConstraint ''source_documents_vault_user_hash_uq'')
      else Inr (d\<lparr>d_docs := d_docs d @ [r\<lparr>sd_created := ts\<rparr>]\<rparr>, ()))"

definition InsertSourceDocument :: "env \<Rightarrow> doc_row \<Rightarrow> world \<Rightarrow> unit res \<times> world" where
  "InsertSourceDocument env r w = exec env (\<lambda>ts. insert_doc_row ts r) w"

definition GetSourceDocumentForVault :: "env \<Rightarrow> uuid \<Rightarrow> uuid \<Rightarrow> world \<Rightarrow> doc_row res \<times> world" where
  "GetSourceDocumentForVault env vaultID docID w =
     query env (\<lambda>_ d. case row_at sd_id docID (d_docs d) of
        None \<Rightarrow> Inl ENotFound
      | Some r \<Rightarrow> if sd_vault r = vaultID then Inr r else Inl ENotFound) w"

section \<open>Session messages\<close>

definition AppendSessionMessage ::
  "env \<Rightarrow> uuid \<Rightarrow> string \<Rightarrow> string \<Rightarrow> string \<Rightarrow> string \<Rightarrow> world \<Rightarrow> unit res \<times> world" where
  "AppendSessionMessage env vault user sessionKey role content w =
     exec env (\<lambda>ts d.
       if row_at v_id vault (d_vaults d) = None
       then Inl (EConstraint ''session_messages_vault_id_fkey'')
       else Inr (d\<lparr>d_msgs := d_msgs d @ [\<lparr>m_id = w_tick w, m_vault = vault, m_user = user,
               m_key = sessionKey, m_role = role, m_content = content, m_created = ts\<rparr>]\<rparr>, ())) w"

definition in_conversation :: "uuid \<Rightarrow> string \<Rightarrow> string \<Rightarrow> msg_row \<Rightarrow> bool" where
  "in_conversation vault user sessionKey m \<longleftrightarrow>
     m_vault m = vault \<and> m_user m = user \<and> m_key m = sessionKey"

text \<open>\<open>ORDER BY created_at DESC\<close>.\<close>

definition newest_first :: "msg_row list \<Rightarrow> msg_row list" where
  "newest_first ms = sort_key (\<lambda>m. - m_created m) ms"

definition RecentSessionMessages ::
  "env \<Rightarrow> uuid \<Rightarrow> string \<Rightarrow> string \<Rightarrow> int \<Rightarrow> world \<Rightarrow> (string \<times> string) list res \<times> world" where
  "RecentSessionMessages env vault user sessionKey limit w =
     query env (\<lambda>_ d.
       if limit < 0 then Inl EDb
       else Inr (rev (map (\<lambda>m. (m_role m, m_content m))
              (take (nat limit) (newest_first
                 (filter (in_conversation vault user sessionKey) (d_msgs d))))))) w"

text \<open>
  The rows of the conversation beyond the \<open>keep\<close> newest are deleted by \<open>ctid\<close>, the physical
  position of a row: here its index in the table.
\<close>

definition prune_rows :: "uuid \<Rightarrow> string \<Rightarrow> string \<Rightarrow> nat \<Rightarrow> msg_row list \<Rightarrow> msg_row list" where
  "prune_rows vault user sessionKey keep ms =
     (let numbered = List.enumerate 0 ms;
          conv = filter (\<lambda>x. in_conversation vault user sessionKey (snd x)) numbered;
          victims = set (map fst (drop keep (sort_key (\<lambda>x. - m_created (snd x)) conv)))
      in map snd (filter (\<lambda>x. fst x \<notin> victims) numbered))"

definition PruneSessionMessages ::
  "env \<Rightarrow> uuid \<Rightarrow> string \<Rightarrow> string \<Rightarrow> int \<Rightarrow> world \<Rightarrow> unit res \<times> world" where
  "PruneSessionMessages env vault user sessionKey keep w =
     exec env (\<lambda>_ d.
       if keep < 0 then Inl EDb
       else Inr (d\<lparr>d_msgs := prune_rows vault user sessionKey (nat keep) (d_msgs d)\<rparr>, ())) w"

section \<open>Action tokens and tuning overrides\<close>

definition InsertActionToken ::
  "env \<Rightarrow> uuid \<Rightarrow> bytes \<Rightarrow> string list \<Rightarrow> instant \<Rightarrow> world \<Rightarrow> uuid res \<times> world" where
  "InsertActionToken env vault tokenHash scopes expires w =
     (let (i, w1) = new_uuid env w;
          (r, w2) = exec env (\<lambda>_ d.
             if row_at t_id i (d_tokens d) \<noteq> None then Inl (EConstraint ''action_tokens_pkey'')
             else if row_at v_id vault (d_vaults d) = None
             then Inl (EConstraint ''action_tokens_vault_id_fkey'')
             else Inr (d\<lparr>d_tokens := d_tokens d @ [\<lparr>t_id = i, t_vault = vault,
                    t_hash = tokenHash, t_scopes = scopes, t_expires = expires\<rparr>]\<rparr>, ())) w1
      in (case r of Inl e \<Rightarrow> (Inl e, w2) | Inr _ \<Rightarrow> (Inr i, w2)))"

definition ValidActionToken :: "env \<Rightarrow> bytes \<Rightarrow> world \<Rightarrow> uuid option res \<times> world" where
  "ValidActionToken env tokenHash w =
     query env (\<lambda>ts d. Inr (map_option t_vault
       (find (\<lambda>t. t_hash t = tokenHash \<and> ts < t_expires t) (d_tokens d)))) w"

definition GetServerTuning :: "env \<Rightarrow> world \<Rightarrow> bytes res \<times> world" where
  "GetServerTuning env w =
     query env (\<lambda>_ d. Inr (case d_tuning d of
        None \<Rightarrow> ''{}'' | Some b \<Rightarrow> if b = [] then ''{}'' else b)) w"

definition SetServerTuningOverrides :: "env \<Rightarrow> bytes \<Rightarrow> world \<Rightarrow> unit res \<times> world" where
  "SetServerTuningOverrides env raw w =
     exec env (\<lambda>_ d. case d_tuning d of
        None \<Rightarrow> Inl (EMsg ''server_tuning row missing'')
      | Some _ \<Rightarrow> Inr (d\<lparr>d_tuning := Some raw\<rparr>, ())) w"

section \<open>Statistics\<close>

text \<open>\<open>GROUP BY user_id\<close> with the count of each group.\<close>

definition count_by :: "('r \<Rightarrow> string) \<Rightarrow> 'r list \<Rightarrow> (string \<times> nat) list" where
  "count_by f rows = map (\<lambda>u. (u, length (filter (\<lambda>r. f r = u) rows))) (remdups (map f rows))"

record activity_row =
  a_id :: nat
  a_chunk :: "uuid option"
  a_event :: string
  a_created :: instant
  a_user :: string

record vault_stats =
  st_chunks_total :: nat
  st_chunks_by_user :: "(string \<times> nat) list"
  st_events_total :: nat
  st_events_24h :: nat
  st_events_7d :: nat
  st_msgs_total :: nat
  st_msgs_by_user :: "(string \<times> nat) list"
  st_recent :: "activity_row list"

definition clamp_recent :: "int \<Rightarrow> int" where
  "clamp_recent n = (let n1 = (if n \<le> 0 then 50 else n) in if 500 < n1 then 500 else n1)"

definition activity_of :: "db \<Rightarrow> hist_row \<Rightarrow> activity_row" where
  "activity_of d h =
     \<lparr>a_id = h_id h, a_chunk = h_chunk h, a_event = h_event h, a_created = h_created h,
      a_user = (case h_chunk h of None \<Rightarrow> []
                | Some i \<Rightarrow> (case row_at c_id i (d_chunks d) of None \<Rightarrow> [] | Some c \<Rightarrow> c_user c))\<rparr>"

definition StatsForVault :: "env \<Rightarrow> uuid \<Rightarrow> int \<Rightarrow> world \<Rightarrow> vault_stats res \<times> world" where
  "StatsForVault env vaultID recentLimit w =
     (let lim = clamp_recent recentLimit in
      case query env (\<lambda>_ d. Inr (count_by c_user
             (filter (\<lambda>c. c_vault c = vaultID \<and> c_deleted c = None) (d_chunks d)))) w of
        (Inl e, w1) \<Rightarrow> (Inl e, w1)
      | (Inr byUser, w1) \<Rightarrow>
     (case query env (\<lambda>ts d. let hs = filter (\<lambda>h. h_vault h = vaultID) (d_hist d) in
             Inr (length hs,
                  length (filter (\<lambda>h. ts - 24 * ns_hour \<le> h_created h) hs),
                  length (filter (\<lambda>h. ts - 7 * 24 * ns_hour \<le> h_created h) hs))) w1 of
        (Inl e, w2) \<Rightarrow> (Inl e, w2)
      | (Inr (n, n24, n7), w2) \<Rightarrow>
     (case query env (\<lambda>_ d. Inr (length (filter (\<lambda>m. m_vault m = vaultID) (d_msgs d)))) w2 of
        (Inl e, w3) \<Rightarrow> (Inl e, w3)
      | (Inr msgs, w3) \<Rightarrow>
     (case query env (\<lambda>_ d. Inr (count_by m_user
             (filter (\<lambda>m. m_vault m = vaultID) (d_msgs d)))) w3 of
        (Inl e, w4) \<Rightarrow> (Inl e, w4)
      | (Inr msgsBy, w4) \<Rightarrow>
     (case query env (\<lambda>_ d. Inr (map (activity_of d) (take (nat lim)
             (sort_key (\<lambda>h. - h_created h) (filter (\<lambda>h. h_vault h = vaultID) (d_hist d)))))) w4 of
        (Inl e, w5) \<Rightarrow> (Inl e, w5)
      | (Inr recent, w5) \<Rightarrow>
          (Inr \<lparr>st_chunks_total = sum_list (map snd byUser), st_chunks_by_user = byUser,
                st_events_total = n, st_events_24h = n24, st_events_7d = n7,
                st_msgs_total = msgs, st_msgs_by_user = msgsBy, st_recent = recent\<rparr>, w5))))))"

end
