(* ===== verification/Sample.thy ===== *)
theory Sample
  imports World
begin

text \<open>
  A concrete environment and a concrete database, on which the witnesses of the development
  evaluate. The cipher keeps the text and appends a tag, the hash is the identity, no database
  call fails and the calls themselves count the time: enough to meet every assumption made of
  the environment.
\<close>

definition demo_env :: env where
  "demo_env =
     \<lparr>ev_lower = id, ev_fmt_f64 = \<lambda>_. ''0'', ev_sha256 = \<lambda>b. b,
      ev_argon2 = \<lambda>pw s t m p n. replicate n (CHR ''k''),
      ev_seal = \<lambda>k n p. p @ ''#'',
      ev_open = \<lambda>k n c. if c \<noteq> [] \<and> last c = CHR ''#'' then Some (butlast c) else None,
      ev_uuid_str = \<lambda>u. show_nat (unat u), ev_uuid_parse = \<lambda>_. None,
      ev_knn = \<lambda>_ _ rows. map (\<lambda>(i, _). (i, Fin 1)) rows,
      ev_fts = \<lambda>_ _ rows. map (\<lambda>(i, _). (i, Fin 1)) rows,
      ev_embed = \<lambda>_ _ ts. Inr (map (\<lambda>_. replicate 1536 (Fin 0)) ts),
      ev_extract = \<lambda>_ _ _. Inr [],
      ev_fault = \<lambda>_. False, ev_now = \<lambda>t. int t, ev_uuid = \<lambda>t. if of_nat t + 1 = (0 :: 128 word) then 1 else of_nat t + 1,
      ev_rand = \<lambda>t n. Some (replicate n (chr (t mod 256)))\<rparr>"

definition demo_vault :: vault_row where
  "demo_vault = \<lparr>v_id = 7, v_enc = True, v_auth_mode = ''session'', v_argon_time = Some 3,
     v_argon_mem = Some 65536, v_argon_par = Some 4, v_salt = Some [], v_wrapped = Some [],
     v_created = 0\<rparr>"

definition demo_world :: world where
  "demo_world = \<lparr>w_db = empty_db\<lparr>d_vaults := [demo_vault]\<rparr>, w_tick = 0\<rparr>"

end
