(* ===== verification/Vault_Crypto.thy ===== *)
theory Vault_Crypto
  imports Sample
begin

text \<open>
  \<open>internal/crypto/vault.go\<close>: data encryption keys, their wrapping under a key derived from the
  password, and the sealing of chunks. XChaCha20-Poly1305 and Argon2id are parameters of the
  environment; what the round trips need of them is stated by \<open>aead_ok\<close>, \<open>kdf_ok\<close> and
  \<open>rand_ok\<close>, which is what their documentation promises.
\<close>

definition dekSize :: nat where "dekSize = 32"
definition xNonceSize :: nat where "xNonceSize = 24"
definition argonTime :: "32 word" where "argonTime = 3"
definition argonMemoryKB :: "32 word" where "argonMemoryKB = 65536"
definition argonThreads :: "8 word" where "argonThreads = 4"

record wrapped_dek =
  wd_salt :: bytes
  wd_time :: "32 word"
  wd_mem :: "32 word"
  wd_par :: "8 word"
  wd_blob :: bytes

definition NewDEK :: "env \<Rightarrow> world \<Rightarrow> bytes res \<times> world" where
  "NewDEK env w = rand_bytes env dekSize w"

text \<open>\<open>argon2.IDKey\<close> panics on a zero cost or a zero parallelism.\<close>

definition argon_idkey ::
  "env \<Rightarrow> bytes \<Rightarrow> bytes \<Rightarrow> 32 word \<Rightarrow> 32 word \<Rightarrow> 8 word \<Rightarrow> nat \<Rightarrow> bytes res" where
  "argon_idkey env pw salt t mem par n =
     (if t < 1 then Inl (EPanic ''argon2: number of rounds too small'')
      else if par < 1 then Inl (EPanic ''argon2: parallelism degree too low'')
      else Inr (ev_argon2 env pw salt t mem par n))"

text \<open>\<open>chacha20poly1305.NewX\<close> checks the key; its \<open>Open\<close> panics on a nonce of the wrong size.\<close>

definition new_aead :: "bytes \<Rightarrow> bytes res" where
  "new_aead key = (if length key \<noteq> dekSize then Inl (EMsg ''chacha20poly1305: bad key length'') else Inr key)"

definition aead_open :: "env \<Rightarrow> bytes \<Rightarrow> bytes \<Rightarrow> bytes \<Rightarrow> bytes res" where
  "aead_open env key nonce ct =
     (if length nonce \<noteq> xNonceSize
      then Inl (EPanic ''chacha20poly1305: bad nonce length passed to Open'')
      else case ev_open env key nonce ct of
             None \<Rightarrow> Inl (EMsg ''chacha20poly1305: message authentication failed'')
           | Some p \<Rightarrow> Inr p)"

definition WrapDEK :: "env \<Rightarrow> string \<Rightarrow> bytes \<Rightarrow> world \<Rightarrow> wrapped_dek res \<times> world" where
  "WrapDEK env password dek w =
     (case rand_bytes env 16 w of
        (Inl e, w1) \<Rightarrow> (Inl e, w1)
      | (Inr salt, w1) \<Rightarrow>
          (case argon_idkey env password salt argonTime argonMemoryKB argonThreads dekSize of
             Inl e \<Rightarrow> (Inl e, w1)
           | Inr kek \<Rightarrow>
               (case new_aead kek of
                  Inl e \<Rightarrow> (Inl e, w1)
                | Inr key \<Rightarrow>
                    (case rand_bytes env xNonceSize w1 of
                       (Inl e, w2) \<Rightarrow> (Inl e, w2)
                     | (Inr nonce, w2) \<Rightarrow>
                         (Inr \<lparr>wd_salt = salt, wd_time = argonTime, wd_mem = argonMemoryKB,
                               wd_par = argonThreads, wd_blob = nonce @ ev_seal env key nonce dek\<rparr>,
                          w2)))))"

definition UnwrapDEK :: "env \<Rightarrow> string \<Rightarrow> wrapped_dek \<Rightarrow> bytes res" where
  "UnwrapDEK env password w =
     (case argon_idkey env password (wd_salt w) (wd_time w) (wd_mem w) (wd_par w) dekSize of
        Inl e \<Rightarrow> Inl e
      | Inr kek \<Rightarrow>
          (case new_aead kek of
             Inl e \<Rightarrow> Inl e
           | Inr key \<Rightarrow>
               if length (wd_blob w) < xNonceSize then Inl EInvalidCiphertext
               else (case aead_open env key (take xNonceSize (wd_blob w)) (drop xNonceSize (wd_blob w)) of
                       Inl e \<Rightarrow> Inl EInvalidCiphertext
                     | Inr plain \<Rightarrow> Inr plain)))"

definition SealChunk :: "env \<Rightarrow> bytes \<Rightarrow> bytes \<Rightarrow> world \<Rightarrow> (bytes \<times> bytes) res \<times> world" where
  "SealChunk env dek plaintext w =
     (case new_aead dek of
        Inl e \<Rightarrow> (Inl e, w)
      | Inr key \<Rightarrow>
          (case rand_bytes env xNonceSize w of
             (Inl e, w1) \<Rightarrow> (Inl e, w1)
           | (Inr nonce, w1) \<Rightarrow> (Inr (nonce, ev_seal env key nonce plaintext), w1)))"

definition OpenChunk :: "env \<Rightarrow> bytes \<Rightarrow> bytes \<Rightarrow> bytes \<Rightarrow> bytes res" where
  "OpenChunk env dek nonce ciphertext =
     (case new_aead dek of Inl e \<Rightarrow> Inl e | Inr key \<Rightarrow> aead_open env key nonce ciphertext)"

section \<open>What the primitives promise\<close>

definition aead_ok :: "env \<Rightarrow> bool" where
  "aead_ok env \<longleftrightarrow> (\<forall>k n p. length k = dekSize \<longrightarrow> length n = xNonceSize \<longrightarrow>
     ev_open env k n (ev_seal env k n p) = Some p)"

definition kdf_ok :: "env \<Rightarrow> bool" where
  "kdf_ok env \<longleftrightarrow> (\<forall>pw s t m p n. length (ev_argon2 env pw s t m p n) = n)"

definition rand_ok :: "env \<Rightarrow> bool" where
  "rand_ok env \<longleftrightarrow> (\<forall>t n b. ev_rand env t n = Some b \<longrightarrow> length b = n)"

lemma rand_bytes_Inr:
  "rand_bytes env n w = (Inr b, w') \<Longrightarrow> rand_ok env \<Longrightarrow> length b = n"
  by (auto simp: rand_bytes_def rand_ok_def split: option.splits)

lemma crypto_db [frame]:
  "w_db (snd (NewDEK env w)) = w_db w"
  "w_db (snd (WrapDEK env pw dek w)) = w_db w"
  "w_db (snd (SealChunk env dek p w)) = w_db w"
  by (auto simp: NewDEK_def WrapDEK_def SealChunk_def rand_bytes_def split: sum.split option.split)

lemma rand_bytes_Inr_eq: "rand_bytes env n w = (Inr b, w') \<longleftrightarrow> ev_rand env (w_tick w) n = Some b \<and> w' = bump w"
  by (auto simp: rand_bytes_def split: option.split)

section \<open>Round trips\<close>

lemma unwrap_then:
  assumes "aead_ok env" "rand_ok env" and "WrapDEK env pw dek w = (Inr wd, w')"
  shows "UnwrapDEK env pw wd = Inr dek"
proof -
  obtain salt w1 where s: "rand_bytes env 16 w = (Inr salt, w1)"
    using assms(3) by (auto simp: WrapDEK_def split: prod.splits sum.splits)
  obtain kek where k: "argon_idkey env pw salt argonTime argonMemoryKB argonThreads dekSize = Inr kek"
    using assms(3) s by (auto simp: WrapDEK_def split: sum.splits)
  obtain key where a: "new_aead kek = Inr key"
    using assms(3) s k by (auto simp: WrapDEK_def split: sum.splits)
  obtain nonce w2 where n: "rand_bytes env xNonceSize w1 = (Inr nonce, w2)"
    using assms(3) s k a by (auto simp: WrapDEK_def split: prod.splits sum.splits)
  have wd: "wd = \<lparr>wd_salt = salt, wd_time = argonTime, wd_mem = argonMemoryKB,
      wd_par = argonThreads, wd_blob = nonce @ ev_seal env key nonce dek\<rparr>"
    using assms(3) s k a n by (simp add: WrapDEK_def)
  have ln: "length nonce = xNonceSize" using rand_bytes_Inr [OF n assms(2)] .
  have lk: "length key = dekSize" using a by (auto simp: new_aead_def split: if_splits)
  show ?thesis
    using ln lk k a assms(1) by (simp add: wd UnwrapDEK_def aead_open_def aead_ok_def)
qed

text \<open>With random bytes at hand a key can be wrapped under any password, and the same password unwraps
  it.\<close>

theorem unwrap_wrap:
  assumes "aead_ok env" "rand_ok env" "kdf_ok env"
    and "ev_rand env (w_tick w) 16 = Some salt" "ev_rand env (Suc (w_tick w)) xNonceSize = Some nonce"
  shows "\<exists>wd w'. WrapDEK env pw dek w = (Inr wd, w') \<and> UnwrapDEK env pw wd = Inr dek"
proof -
  obtain wd w' where "WrapDEK env pw dek w = (Inr wd, w')"
    using assms(3-5) by (simp add: WrapDEK_def rand_bytes_def argon_idkey_def new_aead_def kdf_ok_def
        argonTime_def argonThreads_def)
  then show ?thesis using unwrap_then [OF assms(1,2)] by blast
qed

lemma seal_then_open:
  assumes "aead_ok env" "rand_ok env" and "SealChunk env dek p w = (Inr (nonce, ct), w')"
  shows "OpenChunk env dek nonce ct = Inr p"
proof -
  obtain key where a: "new_aead dek = Inr key"
    using assms(3) by (auto simp: SealChunk_def split: sum.splits)
  have n: "rand_bytes env xNonceSize w = (Inr nonce, w')" and c: "ct = ev_seal env key nonce p"
    using assms(3) a by (auto simp: SealChunk_def split: prod.splits sum.splits)
  have "length key = dekSize" using a by (auto simp: new_aead_def split: if_splits)
  then show ?thesis
    using rand_bytes_Inr [OF n assms(2)] a assms(1)
    by (simp add: c OpenChunk_def aead_open_def aead_ok_def)
qed

text \<open>With a key of the right size and random bytes at hand, sealing succeeds, and what it returns
  opens to the plaintext under the same key.\<close>

theorem open_seal:
  assumes "aead_ok env" "rand_ok env" "length dek = dekSize" "ev_rand env (w_tick w) xNonceSize = Some n"
  shows "\<exists>ct. SealChunk env dek p w = (Inr (n, ct), bump w) \<and> OpenChunk env dek n ct = Inr p"
proof -
  have s: "SealChunk env dek p w = (Inr (n, ev_seal env dek n p), bump w)"
    using assms(3,4) by (simp add: SealChunk_def new_aead_def rand_bytes_def)
  from seal_then_open [OF assms(1,2) s] s show ?thesis by blast
qed

text \<open>Unwrapping fails in three ways only, and sealing only for want of a key or of random bytes.\<close>

lemma UnwrapDEK_errors:
  assumes "kdf_ok env" "UnwrapDEK env pw wd = Inl e"
  shows "e = EInvalidCiphertext \<or> wd_time wd = 0 \<or> wd_par wd = 0"
  using assms by (auto simp: UnwrapDEK_def argon_idkey_def new_aead_def kdf_ok_def
      dekSize_def word_less_1 split: if_splits sum.splits)

lemma SealChunk_total:
  "length dek = dekSize \<Longrightarrow> ev_rand env (w_tick w) xNonceSize = Some n \<Longrightarrow>
   \<exists>r w'. SealChunk env dek p w = (Inr r, w')"
  by (simp add: SealChunk_def new_aead_def rand_bytes_def)

section \<open>The sample environment\<close>

lemma demo_env_ok: "aead_ok demo_env" "rand_ok demo_env" "kdf_ok demo_env"
  by (simp_all add: aead_ok_def rand_ok_def kdf_ok_def demo_env_def)

lemma unwrap_wrap_witness:
  "\<exists>wd. fst (WrapDEK demo_env ''pw'' (replicate 32 (CHR ''d'')) empty_world) = Inr wd
     \<and> UnwrapDEK demo_env ''pw'' wd = Inr (replicate 32 (CHR ''d''))"
proof -
  have "ev_rand demo_env (w_tick empty_world) 16 = Some (replicate 16 (chr 0))"
    and "ev_rand demo_env (Suc (w_tick empty_world)) xNonceSize = Some (replicate xNonceSize (chr 1))"
    by (simp_all add: demo_env_def empty_world_def)
  from unwrap_wrap [OF demo_env_ok this] show ?thesis by (metis fst_conv)
qed

lemma open_seal_witness:
  "\<exists>n c. fst (SealChunk demo_env (replicate 32 (CHR ''d'')) ''text'' empty_world) = Inr (n, c)
     \<and> OpenChunk demo_env (replicate 32 (CHR ''d'')) n c = Inr ''text''"
proof -
  have "ev_rand demo_env (w_tick empty_world) xNonceSize = Some (replicate 24 (chr 0))"
    by (simp add: demo_env_def empty_world_def xNonceSize_def)
  moreover have "length (replicate 32 (CHR ''d'')) = dekSize" by (simp add: dekSize_def)
  ultimately obtain ct where "SealChunk demo_env (replicate 32 (CHR ''d'')) ''text'' empty_world
      = (Inr (replicate 24 (chr 0), ct), bump empty_world)"
      "OpenChunk demo_env (replicate 32 (CHR ''d'')) (replicate 24 (chr 0)) ct = Inr ''text''"
    using open_seal [OF demo_env_ok(1,2)] by blast
  then show ?thesis by (intro exI) auto
qed

end
