(* ===== verification/Auth.thy ===== *)
theory Auth
  imports Store Vault_Crypto "HOL-Library.AList"
begin

text \<open>
  \<open>internal/auth\<close>: the credential resolver of the process. The manager keeps the sessions it has
  seen in a map from the raw token, writes them through to the \<open>sessions\<close> table under the hash
  of the token, and reads them back from there when the map does not know the token. A call
  takes the manager and the world and returns them changed; the interleaving of two calls is
  the subject of \<open>Auth_Race\<close>. A Go nil slice and an empty one are both \<open>[]\<close>: the code only
  looks at the length of a key.
\<close>

section \<open>Credentials\<close>

definition AuthModeSession :: string where "AuthModeSession = ''session''"
definition AuthModeAutoUnlock :: string where "AuthModeAutoUnlock = ''auto_unlock''"
definition AuthModeAPIKeys :: string where "AuthModeAPIKeys = ''api_keys''"

definition IsValidAuthMode :: "string \<Rightarrow> bool" where
  "IsValidAuthMode s \<longleftrightarrow> s = AuthModeSession \<or> s = AuthModeAutoUnlock \<or> s = AuthModeAPIKeys"

record vault_state =
  vs_id :: uuid
  vs_dek :: bytes

record session =
  ss_vault :: uuid
  ss_dek :: bytes
  ss_expires :: instant
  ss_max :: instant
  ss_last :: instant
  ss_idle :: duration
  ss_hash :: bytes

text \<open>The interface \<open>Credential\<close>: what the handlers and the engine see of a session.\<close>

record credential =
  cr_vault :: uuid
  cr_dek :: bytes
  cr_hash :: bytes

definition sessionCredential :: "session \<Rightarrow> credential" where
  "sessionCredential s = \<lparr>cr_vault = ss_vault s, cr_dek = ss_dek s, cr_hash = ss_hash s\<rparr>"

record mgr =
  mg_sessions :: "(string \<times> session) list"
  mg_idle :: duration
  mg_max :: duration
  mg_store :: bool
  mg_state :: "vault_state option"

definition NewManagerWithStore :: "duration \<Rightarrow> duration \<Rightarrow> bool \<Rightarrow> vault_state option \<Rightarrow> mgr" where
  "NewManagerWithStore idle mx st state =
     \<lparr>mg_sessions = [], mg_idle = idle, mg_max = mx, mg_store = st, mg_state = state\<rparr>"

definition NewManager :: "duration \<Rightarrow> duration \<Rightarrow> mgr" where
  "NewManager idle mx = NewManagerWithStore idle mx False None"

definition SetVaultState :: "vault_state option \<Rightarrow> mgr \<Rightarrow> mgr" where
  "SetVaultState state m = m\<lparr>mg_state := state\<rparr>"

section \<open>Operations\<close>

definition hashToken :: "env \<Rightarrow> string \<Rightarrow> bytes" where
  "hashToken env tok = ev_sha256 env tok"

definition HashActionToken :: "env \<Rightarrow> string \<Rightarrow> bytes" where
  "HashActionToken env raw = ev_sha256 env raw"

definition NewRandomToken :: "env \<Rightarrow> world \<Rightarrow> string res \<times> world" where
  "NewRandomToken env w =
     (case rand_bytes env 32 w of (Inl e, w1) \<Rightarrow> (Inl e, w1) | (Inr b, w1) \<Rightarrow> (Inr (hex_encode b), w1))"

text \<open>\<open>Time.Sub\<close> saturates at the range of a \<open>Duration\<close>.\<close>

definition time_sub :: "instant \<Rightarrow> instant \<Rightarrow> duration" where
  "time_sub a b = max (- (2 ^ 63)) (min (2 ^ 63 - 1) (a - b))"

definition cache_put :: "string \<Rightarrow> session \<Rightarrow> mgr \<Rightarrow> mgr" where
  "cache_put tok s m = m\<lparr>mg_sessions := AList.update tok s (mg_sessions m)\<rparr>"

definition cache_del :: "string \<Rightarrow> mgr \<Rightarrow> mgr" where
  "cache_del tok m = m\<lparr>mg_sessions := AList.delete tok (mg_sessions m)\<rparr>"

definition cache_get :: "string \<Rightarrow> mgr \<Rightarrow> session option" where
  "cache_get tok m = map_of (mg_sessions m) tok"

text \<open>Filling the vault state when it is empty and a key has come.\<close>

definition fill_state :: "uuid \<Rightarrow> bytes \<Rightarrow> mgr \<Rightarrow> mgr" where
  "fill_state vault dek m =
     (case mg_state m of
        None \<Rightarrow> m
      | Some st \<Rightarrow>
          if vs_dek st = [] \<and> dek \<noteq> [] then m\<lparr>mg_state := Some \<lparr>vs_id = vault, vs_dek = dek\<rparr>\<rparr> else m)"

definition CreateSession ::
  "env \<Rightarrow> uuid \<Rightarrow> bytes \<Rightarrow> instant \<Rightarrow> mgr \<Rightarrow> world \<Rightarrow> (string res \<times> mgr) \<times> world" where
  "CreateSession env vault dek ts m w =
     (case rand_bytes env 32 w of
        (Inl e, w1) \<Rightarrow> ((Inl e, m), w1)
      | (Inr b, w1) \<Rightarrow>
          (let tok = hex_encode b;
               th = hashToken env tok;
               expiresAt = ts + mg_idle m;
               maxUntil = ts + mg_max m
           in case (if mg_store m then InsertSession env th vault ts expiresAt maxUntil w1 else (Inr (), w1)) of
                (Inl e, w2) \<Rightarrow> ((Inl e, m), w2)
              | (Inr _, w2) \<Rightarrow>
                  ((Inr tok,
                    fill_state vault dek (cache_put tok
                      \<lparr>ss_vault = vault, ss_dek = dek, ss_expires = expiresAt, ss_max = maxUntil,
                       ss_last = ts, ss_idle = mg_idle m, ss_hash = th\<rparr> m)),
                   w2)))"

text \<open>\<open>_ = m.store.DeleteSession(...)\<close>: the error is dropped.\<close>

definition drop_session :: "env \<Rightarrow> bytes \<Rightarrow> mgr \<Rightarrow> world \<Rightarrow> world" where
  "drop_session env th m w = (if mg_store m then snd (DeleteSession env th w) else w)"

text \<open>The second half of \<open>Touch\<close>: the session is at hand; it is expired or prolonged.\<close>

definition prolong ::
  "env \<Rightarrow> string \<Rightarrow> instant \<Rightarrow> session \<Rightarrow> mgr \<Rightarrow> world \<Rightarrow> (session res \<times> mgr) \<times> world" where
  "prolong env token ts s m w =
     (let th = hashToken env token in
      if ss_max s < ts then ((Inl EVaultLocked, cache_del token m), drop_session env th m w)
      else if ss_idle s < time_sub ts (ss_last s)
      then ((Inl EVaultLocked, cache_del token m), drop_session env th m w)
      else
        (let s' = s\<lparr>ss_last := ts, ss_expires := ts + ss_idle s\<rparr>;
             w' = (if mg_store m then snd (TouchSession env th (ss_last s') (ss_expires s') w) else w)
         in ((Inr s', cache_put token s' m), w')))"

definition session_of_row :: "session_row \<Rightarrow> bytes \<Rightarrow> mgr \<Rightarrow> session" where
  "session_of_row row th m =
     \<lparr>ss_vault = s_vault row, ss_dek = (case mg_state m of None \<Rightarrow> [] | Some st \<Rightarrow> vs_dek st),
      ss_expires = s_expires row, ss_max = s_max_until row, ss_last = s_last_seen row,
      ss_idle = mg_idle m, ss_hash = th\<rparr>"

definition Touch ::
  "env \<Rightarrow> string \<Rightarrow> instant \<Rightarrow> mgr \<Rightarrow> world \<Rightarrow> (session res \<times> mgr) \<times> world" where
  "Touch env token ts m w =
     (if token = [] then ((Inl EUnauthorized, m), w)
      else
        (let th = hashToken env token in
         case cache_get token m of
           Some s \<Rightarrow> prolong env token ts s m w
         | None \<Rightarrow>
             if \<not> mg_store m then ((Inl EUnauthorized, m), w)
             else
               (case GetSessionByHash env th w of
                  (Inl e, w1) \<Rightarrow> ((Inl EUnauthorized, m), w1)
                | (Inr row, w1) \<Rightarrow>
                    if s_max_until row < ts \<or> mg_idle m < time_sub ts (s_last_seen row)
                    then ((Inl EVaultLocked, m), snd (DeleteSession env th w1))
                    else
                      (let s = session_of_row row th m
                       in prolong env token ts s (cache_put token s m) w1))))"

definition Invalidate :: "env \<Rightarrow> string \<Rightarrow> mgr \<Rightarrow> world \<Rightarrow> mgr \<times> world" where
  "Invalidate env token m w =
     (let th = hashToken env token; m1 = cache_del token m in (m1, drop_session env th m1 w))"

definition InvalidateAll :: "mgr \<Rightarrow> mgr" where
  "InvalidateAll m = m\<lparr>mg_sessions := []\<rparr>"

definition Resolve :: "env \<Rightarrow> string \<Rightarrow> mgr \<Rightarrow> world \<Rightarrow> (credential res \<times> mgr) \<times> world" where
  "Resolve env bearer m w =
     (let (ts, w1) = now env w in
      case Touch env bearer ts m w1 of
        ((Inl e, m1), w2) \<Rightarrow> ((Inl e, m1), w2)
      | ((Inr s, m1), w2) \<Rightarrow> ((Inr (sessionCredential s), m1), w2))"

end
