(* ===== verification/Tuning.thy ===== *)
theory Tuning
  imports Store
begin

text \<open>
  \<open>internal/config\<close>: the runtime tuning (\<open>tuning.go\<close>), its layers (program defaults, YAML file,
  overrides in the database), the validation, and the holder that the handlers read
  (\<open>tuning_state.go\<close>). The YAML parser and the file system are parameters (\<open>tuning_io\<close>), with
  the \<open>%v\<close> form of a float that two error texts show. A \<open>json.RawMessage\<close> is its syntax tree:
  the column it is stored in is \<open>jsonb\<close>, which keeps neither spaces nor the choice of escapes.
\<close>

section \<open>The settings\<close>

record runtime_tuning =
  rt_semantic_threshold :: f64
  rt_fusion_lexical_weight :: f64
  rt_default_max_chunks :: int
  rt_k_dense_min :: int
  rt_k_dense_mult :: int
  rt_session_boost :: f64
  rt_chunk_rune_size :: int
  rt_chunk_overlap :: int
  rt_recent_messages :: int
  rt_prune_keep :: int
  rt_infer_model :: string
  rt_embedding_model :: string
  rt_max_body :: int
  rt_debug :: bool
  rt_access_log :: bool

text \<open>The same fields, each set or not.\<close>

record tuning_partial =
  tp_semantic_threshold :: "f64 option"
  tp_fusion_lexical_weight :: "f64 option"
  tp_default_max_chunks :: "int option"
  tp_k_dense_min :: "int option"
  tp_k_dense_mult :: "int option"
  tp_session_boost :: "f64 option"
  tp_chunk_rune_size :: "int option"
  tp_chunk_overlap :: "int option"
  tp_recent_messages :: "int option"
  tp_prune_keep :: "int option"
  tp_infer_model :: "string option"
  tp_embedding_model :: "string option"
  tp_max_body :: "int option"
  tp_debug :: "bool option"
  tp_access_log :: "bool option"

definition no_partial :: tuning_partial where
  "no_partial =
     \<lparr>tp_semantic_threshold = None, tp_fusion_lexical_weight = None, tp_default_max_chunks = None,
      tp_k_dense_min = None, tp_k_dense_mult = None, tp_session_boost = None,
      tp_chunk_rune_size = None, tp_chunk_overlap = None, tp_recent_messages = None,
      tp_prune_keep = None, tp_infer_model = None, tp_embedding_model = None,
      tp_max_body = None, tp_debug = None, tp_access_log = None\<rparr>"

definition DefaultRuntimeTuning :: runtime_tuning where
  "DefaultRuntimeTuning =
     \<lparr>rt_semantic_threshold = fround (25 / 100), rt_fusion_lexical_weight = fround (35 / 100),
      rt_default_max_chunks = 16, rt_k_dense_min = 60, rt_k_dense_mult = 4,
      rt_session_boost = fround (115 / 100), rt_chunk_rune_size = 2000, rt_chunk_overlap = 200,
      rt_recent_messages = 20, rt_prune_keep = 100, rt_infer_model = ''gpt-4o-mini'',
      rt_embedding_model = ''text-embedding-3-small'', rt_max_body = 2 ^ 20,
      rt_debug = False, rt_access_log = False\<rparr>"

definition PatchableTuningKeys :: "string list" where
  "PatchableTuningKeys =
     [''semantic_threshold'', ''fusion_lexical_weight'', ''retrieve_default_max_chunks'',
      ''retrieve_k_dense_min'', ''retrieve_k_dense_multiplier'', ''session_prefer_score_boost'',
      ''chunk_rune_size'', ''chunk_overlap'', ''recent_session_messages_for_infer'',
      ''prune_session_messages_keep'', ''infer_llm_model'', ''max_body_bytes'',
      ''retrieve_debug'', ''http_access_log'']"

definition or_else :: "'a option \<Rightarrow> 'a \<Rightarrow> 'a" where
  "or_else p b = (case p of None \<Rightarrow> b | Some x \<Rightarrow> x)"

definition ApplyPartial :: "runtime_tuning \<Rightarrow> tuning_partial \<Rightarrow> runtime_tuning" where
  "ApplyPartial base p =
     \<lparr>rt_semantic_threshold = or_else (tp_semantic_threshold p) (rt_semantic_threshold base),
      rt_fusion_lexical_weight = or_else (tp_fusion_lexical_weight p) (rt_fusion_lexical_weight base),
      rt_default_max_chunks = or_else (tp_default_max_chunks p) (rt_default_max_chunks base),
      rt_k_dense_min = or_else (tp_k_dense_min p) (rt_k_dense_min base),
      rt_k_dense_mult = or_else (tp_k_dense_mult p) (rt_k_dense_mult base),
      rt_session_boost = or_else (tp_session_boost p) (rt_session_boost base),
      rt_chunk_rune_size = or_else (tp_chunk_rune_size p) (rt_chunk_rune_size base),
      rt_chunk_overlap = or_else (tp_chunk_overlap p) (rt_chunk_overlap base),
      rt_recent_messages = or_else (tp_recent_messages p) (rt_recent_messages base),
      rt_prune_keep = or_else (tp_prune_keep p) (rt_prune_keep base),
      rt_infer_model = or_else (tp_infer_model p) (rt_infer_model base),
      rt_embedding_model = or_else (tp_embedding_model p) (rt_embedding_model base),
      rt_max_body = or_else (tp_max_body p) (rt_max_body base),
      rt_debug = or_else (tp_debug p) (rt_debug base),
      rt_access_log = or_else (tp_access_log p) (rt_access_log base)\<rparr>"

section \<open>Validation\<close>

datatype file_stat = StatMissing | StatErr err | StatOk
datatype file_read = ReadMissing | ReadErr err | ReadOk bytes

record tuning_io =
  ti_yaml :: "bytes \<Rightarrow> tuning_partial res"
  ti_stat :: "string \<Rightarrow> file_stat"
  ti_read :: "string \<Rightarrow> file_read"
  ti_fmt_v :: "f64 \<Rightarrow> string"

text \<open>The checks in their order; comparisons with a NaN are all false.\<close>

definition Validate :: "tuning_io \<Rightarrow> runtime_tuning \<Rightarrow> err option" where
  "Validate io t =
     (if flt (rt_semantic_threshold t) (Fin 0) \<or> flt (Fin 1) (rt_semantic_threshold t)
      then Some (EMsg (''semantic_threshold must be in [0,1], got '' @ ti_fmt_v io (rt_semantic_threshold t)))
      else if flt (rt_fusion_lexical_weight t) (Fin 0) \<or> flt (Fin 1) (rt_fusion_lexical_weight t)
      then Some (EMsg (''fusion_lexical_weight must be in [0,1], got '' @ ti_fmt_v io (rt_fusion_lexical_weight t)))
      else if rt_default_max_chunks t < 1
      then Some (EMsg ''retrieve_default_max_chunks must be >= 1'')
      else if rt_k_dense_min t < 1 then Some (EMsg ''retrieve_k_dense_min must be >= 1'')
      else if rt_k_dense_mult t < 1 then Some (EMsg ''retrieve_k_dense_multiplier must be >= 1'')
      else if flt (rt_session_boost t) (Fin 1)
      then Some (EMsg ''session_prefer_score_boost must be >= 1'')
      else if rt_chunk_rune_size t < 1 then Some (EMsg ''chunk_rune_size must be >= 1'')
      else if rt_chunk_overlap t < 0 \<or> rt_chunk_overlap t \<ge> rt_chunk_rune_size t
      then Some (EMsg ''chunk_overlap invalid'')
      else if rt_recent_messages t < 1
      then Some (EMsg ''recent_session_messages_for_infer must be >= 1'')
      else if rt_prune_keep t < 1 then Some (EMsg ''prune_session_messages_keep must be >= 1'')
      else if trim_space (rt_infer_model t) = [] then Some (EMsg ''infer_llm_model required'')
      else if trim_space (rt_embedding_model t) = [] then Some (EMsg ''embedding_model required'')
      else if rt_max_body t < 1 then Some (EMsg ''max_body_bytes must be >= 1'')
      else None)"

definition validated :: "tuning_io \<Rightarrow> runtime_tuning \<Rightarrow> runtime_tuning res" where
  "validated io t = (case Validate io t of None \<Rightarrow> Inr t | Some e \<Rightarrow> Inl e)"

section \<open>The file layer\<close>

definition MergeYAMLBytes :: "tuning_io \<Rightarrow> runtime_tuning \<Rightarrow> bytes \<Rightarrow> runtime_tuning res" where
  "MergeYAMLBytes io base b =
     (if trim_space b = [] then Inr base
      else case ti_yaml io b of Inl e \<Rightarrow> Inl e | Inr p \<Rightarrow> validated io (ApplyPartial base p))"

definition DefaultPlusFilePath :: "tuning_io \<Rightarrow> string \<Rightarrow> runtime_tuning res" where
  "DefaultPlusFilePath io path =
     (if trim_space path = [] then Inr DefaultRuntimeTuning
      else case ti_read io path of
             ReadMissing \<Rightarrow> Inr DefaultRuntimeTuning
           | ReadErr e \<Rightarrow> Inl e
           | ReadOk b \<Rightarrow> MergeYAMLBytes io DefaultRuntimeTuning b)"

definition FileLayerForSources ::
  "tuning_io \<Rightarrow> runtime_tuning \<Rightarrow> string \<Rightarrow> runtime_tuning res" where
  "FileLayerForSources io def_t filePath =
     (if trim_space filePath = [] then Inr def_t
      else case ti_stat io filePath of
             StatMissing \<Rightarrow> Inr def_t
           | StatErr e \<Rightarrow> Inl e
           | StatOk \<Rightarrow>
               (case ti_read io filePath of
                  ReadMissing \<Rightarrow> Inl (EMsg ''no such file'')
                | ReadErr e \<Rightarrow> Inl e
                | ReadOk b \<Rightarrow> MergeYAMLBytes io def_t b))"

section \<open>The database layer\<close>

text \<open>\<open>map[string]json.RawMessage\<close>: \<open>None\<close> is the nil map, entries in iteration order.\<close>

type_synonym raw_map = "(string \<times> jx) list option"

definition raw_entries :: "raw_map \<Rightarrow> (string \<times> jx) list" where
  "raw_entries m = (case m of None \<Rightarrow> [] | Some es \<Rightarrow> es)"

fun update_all :: "('k \<times> 'v) list \<Rightarrow> ('k \<times> 'v) list \<Rightarrow> ('k \<times> 'v) list" where
  "update_all [] m = m"
| "update_all ((k, v) # es) m = update_all es (AList.update k v m)"

definition decode_raw_map :: "string \<Rightarrow> raw_map res" where
  "decode_raw_map s =
     (case json_parse s of
        None \<Rightarrow> Inl (EMsg ''json: syntax error'')
      | Some XNull \<Rightarrow> Inr None
      | Some (XObj ms) \<Rightarrow> Inr (Some (update_all ms []))
      | Some _ \<Rightarrow> Inl (EMsg ''json: cannot unmarshal into map''))"

text \<open>\<open>json.Unmarshal\<close> into a pointer field: \<open>null\<close> clears it.\<close>

definition dec_float :: "jx \<Rightarrow> f64 option res" where
  "dec_float v = (case v of
      XNull \<Rightarrow> Inr None
    | XNum s \<Rightarrow> (case parse_float s of None \<Rightarrow> Inl (EMsg ''json: number'') | Some x \<Rightarrow> Inr (Some x))
    | _ \<Rightarrow> Inl (EMsg ''json: cannot unmarshal into float64''))"

definition dec_int :: "jx \<Rightarrow> int option res" where
  "dec_int v = (case v of
      XNull \<Rightarrow> Inr None
    | XNum s \<Rightarrow> (case parse_int s of None \<Rightarrow> Inl (EMsg ''json: number'') | Some x \<Rightarrow> Inr (Some x))
    | _ \<Rightarrow> Inl (EMsg ''json: cannot unmarshal into int''))"

definition dec_str :: "jx \<Rightarrow> string option res" where
  "dec_str v = (case v of
      XNull \<Rightarrow> Inr None | XStr s \<Rightarrow> Inr (Some s)
    | _ \<Rightarrow> Inl (EMsg ''json: cannot unmarshal into string''))"

definition dec_bool :: "jx \<Rightarrow> bool option res" where
  "dec_bool v = (case v of
      XNull \<Rightarrow> Inr None | XBool b \<Rightarrow> Inr (Some b)
    | _ \<Rightarrow> Inl (EMsg ''json: cannot unmarshal into bool''))"

definition set_res :: "'a option res \<Rightarrow> ('a option \<Rightarrow> tuning_partial) \<Rightarrow> tuning_partial res" where
  "set_res r f = (case r of Inl e \<Rightarrow> Inl e | Inr x \<Rightarrow> Inr (f x))"

text \<open>One turn of the loop of \<open>MergeFromJSONMap\<close>.\<close>

definition set_partial :: "string \<Rightarrow> jx \<Rightarrow> tuning_partial \<Rightarrow> tuning_partial res" where
  "set_partial k v p =
     (if k \<notin> set PatchableTuningKeys
      then Inl (EMsg (''unknown or non-overridable tuning key: '' @ k))
      else if k = ''semantic_threshold''
      then set_res (dec_float v) (\<lambda>x. p\<lparr>tp_semantic_threshold := x\<rparr>)
      else if k = ''fusion_lexical_weight''
      then set_res (dec_float v) (\<lambda>x. p\<lparr>tp_fusion_lexical_weight := x\<rparr>)
      else if k = ''retrieve_default_max_chunks''
      then set_res (dec_int v) (\<lambda>x. p\<lparr>tp_default_max_chunks := x\<rparr>)
      else if k = ''retrieve_k_dense_min''
      then set_res (dec_int v) (\<lambda>x. p\<lparr>tp_k_dense_min := x\<rparr>)
      else if k = ''retrieve_k_dense_multiplier''
      then set_res (dec_int v) (\<lambda>x. p\<lparr>tp_k_dense_mult := x\<rparr>)
      else if k = ''session_prefer_score_boost''
      then set_res (dec_float v) (\<lambda>x. p\<lparr>tp_session_boost := x\<rparr>)
      else if k = ''chunk_rune_size''
      then set_res (dec_int v) (\<lambda>x. p\<lparr>tp_chunk_rune_size := x\<rparr>)
      else if k = ''chunk_overlap''
      then set_res (dec_int v) (\<lambda>x. p\<lparr>tp_chunk_overlap := x\<rparr>)
      else if k = ''recent_session_messages_for_infer''
      then set_res (dec_int v) (\<lambda>x. p\<lparr>tp_recent_messages := x\<rparr>)
      else if k = ''prune_session_messages_keep''
      then set_res (dec_int v) (\<lambda>x. p\<lparr>tp_prune_keep := x\<rparr>)
      else if k = ''infer_llm_model''
      then set_res (dec_str v) (\<lambda>x. p\<lparr>tp_infer_model := x\<rparr>)
      else if k = ''max_body_bytes''
      then set_res (dec_int v) (\<lambda>x. p\<lparr>tp_max_body := x\<rparr>)
      else if k = ''retrieve_debug''
      then set_res (dec_bool v) (\<lambda>x. p\<lparr>tp_debug := x\<rparr>)
      else set_res (dec_bool v) (\<lambda>x. p\<lparr>tp_access_log := x\<rparr>))"

fun partial_of :: "(string \<times> jx) list \<Rightarrow> tuning_partial \<Rightarrow> tuning_partial res" where
  "partial_of [] p = Inr p"
| "partial_of ((k, v) # es) p =
     (case set_partial k v p of Inl e \<Rightarrow> Inl e | Inr p' \<Rightarrow> partial_of es p')"

definition MergeFromJSONMap ::
  "tuning_io \<Rightarrow> runtime_tuning \<Rightarrow> raw_map \<Rightarrow> runtime_tuning res" where
  "MergeFromJSONMap io base m =
     (case partial_of (raw_entries m) no_partial of
        Inl e \<Rightarrow> Inl e | Inr p \<Rightarrow> validated io (ApplyPartial base p))"

definition MergeTuningWithPartial ::
  "tuning_io \<Rightarrow> runtime_tuning \<Rightarrow> bytes \<Rightarrow> runtime_tuning res" where
  "MergeTuningWithPartial io base raw =
     (if trim_space raw = [] then Inr base
      else case decode_raw_map raw of Inl e \<Rightarrow> Inl e | Inr m \<Rightarrow> MergeFromJSONMap io base m)"

definition bytesTrimForJSON :: "bytes \<Rightarrow> bytes" where
  "bytesTrimForJSON b = (if trim_space b = [] then ''{}'' else trim_space b)"

fun override_all :: "(string \<times> jx) list \<Rightarrow> (string \<times> jx) list \<Rightarrow> (string \<times> jx) list res" where
  "override_all [] m = Inr m"
| "override_all ((k, v) # es) m =
     (if k \<notin> set PatchableTuningKeys
      then Inl (EMsg (''unknown or non-overridable tuning key: '' @ k))
      else override_all es (AList.update k v m))"

definition marshal_raw_map :: "(string \<times> jx) list \<Rightarrow> bytes" where
  "marshal_raw_map m = jx_print (XObj (sort_key fst m))"

definition MergeTuningOverrideJSON :: "bytes \<Rightarrow> raw_map \<Rightarrow> bytes res" where
  "MergeTuningOverrideJSON existing patch =
     (case decode_raw_map (bytesTrimForJSON existing) of
        Inl e \<Rightarrow> Inl e
      | Inr m \<Rightarrow>
          (case override_all (raw_entries patch) (raw_entries m) of
             Inl e \<Rightarrow> Inl e
           | Inr m' \<Rightarrow> Inr (marshal_raw_map m')))"

definition MergeTuningFull ::
  "tuning_io \<Rightarrow> runtime_tuning \<Rightarrow> string \<Rightarrow> bytes \<Rightarrow> (runtime_tuning \<times> runtime_tuning) res" where
  "MergeTuningFull io def_t filePath dbOverrides =
     (case FileLayerForSources io def_t filePath of
        Inl e \<Rightarrow> Inl e
      | Inr fileLayer \<Rightarrow>
          (case MergeTuningWithPartial io fileLayer dbOverrides of
             Inl e \<Rightarrow> Inl e
           | Inr eff \<Rightarrow>
               (case Validate io eff of
                  Some e \<Rightarrow> Inl e
                | None \<Rightarrow> Inr (eff, fileLayer))))"

definition PatchJSONToMap :: "bytes \<Rightarrow> raw_map res" where
  "PatchJSONToMap b = (if b = [] then Inr None else decode_raw_map b)"

section \<open>Where a value comes from\<close>

definition floatsClose :: "f64 \<Rightarrow> f64 \<Rightarrow> bool" where
  "floatsClose a b \<longleftrightarrow> feq a b \<or> flt (fabs (fsub a b)) (fround (1 / 10 ^ 9))"

definition tripletFloat :: "f64 \<Rightarrow> f64 \<Rightarrow> f64 \<Rightarrow> string" where
  "tripletFloat def_t fileL eff =
     (if \<not> floatsClose eff fileL then ''db'' else if \<not> floatsClose fileL def_t then ''file'' else ''def'')"

text \<open>\<open>tripletInt\<close>, \<open>tripletStr\<close>, \<open>tripletBool\<close> and \<open>tripletI64\<close> are the same code.\<close>

definition triplet :: "'a \<Rightarrow> 'a \<Rightarrow> 'a \<Rightarrow> string" where
  "triplet def_t fileL eff =
     (if eff \<noteq> fileL then ''db'' else if fileL \<noteq> def_t then ''file'' else ''def'')"

definition ComputeSources ::
  "runtime_tuning \<Rightarrow> runtime_tuning \<Rightarrow> runtime_tuning \<Rightarrow> (string \<times> string) list" where
  "ComputeSources d f e =
     [(''semantic_threshold'', tripletFloat (rt_semantic_threshold d) (rt_semantic_threshold f) (rt_semantic_threshold e)),
      (''fusion_lexical_weight'', tripletFloat (rt_fusion_lexical_weight d) (rt_fusion_lexical_weight f) (rt_fusion_lexical_weight e)),
      (''retrieve_default_max_chunks'', triplet (rt_default_max_chunks d) (rt_default_max_chunks f) (rt_default_max_chunks e)),
      (''retrieve_k_dense_min'', triplet (rt_k_dense_min d) (rt_k_dense_min f) (rt_k_dense_min e)),
      (''retrieve_k_dense_multiplier'', triplet (rt_k_dense_mult d) (rt_k_dense_mult f) (rt_k_dense_mult e)),
      (''session_prefer_score_boost'', tripletFloat (rt_session_boost d) (rt_session_boost f) (rt_session_boost e)),
      (''chunk_rune_size'', triplet (rt_chunk_rune_size d) (rt_chunk_rune_size f) (rt_chunk_rune_size e)),
      (''chunk_overlap'', triplet (rt_chunk_overlap d) (rt_chunk_overlap f) (rt_chunk_overlap e)),
      (''recent_session_messages_for_infer'', triplet (rt_recent_messages d) (rt_recent_messages f) (rt_recent_messages e)),
      (''prune_session_messages_keep'', triplet (rt_prune_keep d) (rt_prune_keep f) (rt_prune_keep e)),
      (''infer_llm_model'', triplet (rt_infer_model d) (rt_infer_model f) (rt_infer_model e)),
      (''embedding_model'', triplet (rt_embedding_model d) (rt_embedding_model f) (rt_embedding_model e)),
      (''max_body_bytes'', triplet (rt_max_body d) (rt_max_body f) (rt_max_body e)),
      (''retrieve_debug'', triplet (rt_debug d) (rt_debug f) (rt_debug e)),
      (''http_access_log'', triplet (rt_access_log d) (rt_access_log f) (rt_access_log e))]"

datatype tuning_value = TVFloat f64 | TVInt int | TVStr string | TVBool bool

definition MergedAPIMap :: "runtime_tuning \<Rightarrow> (string \<times> tuning_value) list" where
  "MergedAPIMap t =
     [(''semantic_threshold'', TVFloat (rt_semantic_threshold t)),
      (''fusion_lexical_weight'', TVFloat (rt_fusion_lexical_weight t)),
      (''retrieve_default_max_chunks'', TVInt (rt_default_max_chunks t)),
      (''retrieve_k_dense_min'', TVInt (rt_k_dense_min t)),
      (''retrieve_k_dense_multiplier'', TVInt (rt_k_dense_mult t)),
      (''session_prefer_score_boost'', TVFloat (rt_session_boost t)),
      (''chunk_rune_size'', TVInt (rt_chunk_rune_size t)),
      (''chunk_overlap'', TVInt (rt_chunk_overlap t)),
      (''recent_session_messages_for_infer'', TVInt (rt_recent_messages t)),
      (''prune_session_messages_keep'', TVInt (rt_prune_keep t)),
      (''infer_llm_model'', TVStr (rt_infer_model t)),
      (''embedding_model'', TVStr (rt_embedding_model t)),
      (''max_body_bytes'', TVInt (rt_max_body t)),
      (''retrieve_debug'', TVBool (rt_debug t)),
      (''http_access_log'', TVBool (rt_access_log t))]"

section \<open>The holder of the effective tuning\<close>

record tuning_state =
  tn_def :: runtime_tuning
  tn_file :: string
  tn_layer :: runtime_tuning
  tn_db :: bytes
  tn_current :: runtime_tuning
  tn_loader :: "(world \<Rightarrow> bytes res \<times> world) option"

text \<open>A failing reload leaves the state as it was.\<close>

definition Reload :: "tuning_io \<Rightarrow> tuning_state \<Rightarrow> world \<Rightarrow> (unit res \<times> tuning_state) \<times> world" where
  "Reload io s w =
     (case (case tn_loader s of None \<Rightarrow> (Inr [], w) | Some l \<Rightarrow> l w) of
        (Inl e, w1) \<Rightarrow> ((Inl e, s), w1)
      | (Inr b, w1) \<Rightarrow>
          (case MergeTuningFull io (tn_def s) (tn_file s) b of
             Inl e \<Rightarrow> ((Inl e, s), w1)
           | Inr (eff, fileL) \<Rightarrow>
               ((Inr (), s\<lparr>tn_current := eff, tn_layer := fileL, tn_db := b\<rparr>), w1)))"

definition zero_tuning :: runtime_tuning where
  "zero_tuning =
     \<lparr>rt_semantic_threshold = Fin 0, rt_fusion_lexical_weight = Fin 0, rt_default_max_chunks = 0,
      rt_k_dense_min = 0, rt_k_dense_mult = 0, rt_session_boost = Fin 0, rt_chunk_rune_size = 0,
      rt_chunk_overlap = 0, rt_recent_messages = 0, rt_prune_keep = 0, rt_infer_model = [],
      rt_embedding_model = [], rt_max_body = 0, rt_debug = False, rt_access_log = False\<rparr>"

definition NewTuningState ::
  "tuning_io \<Rightarrow> string \<Rightarrow> (world \<Rightarrow> bytes res \<times> world) option \<Rightarrow> world
   \<Rightarrow> tuning_state res \<times> world" where
  "NewTuningState io tuningFile dbLoader w =
     (case Reload io \<lparr>tn_def = DefaultRuntimeTuning, tn_file = tuningFile, tn_layer = zero_tuning,
             tn_db = [], tn_current = zero_tuning, tn_loader = dbLoader\<rparr> w of
        ((Inl e, _), w1) \<Rightarrow> (Inl e, w1)
      | ((Inr _, s), w1) \<Rightarrow> (Inr s, w1))"

definition Current :: "tuning_state \<Rightarrow> runtime_tuning" where
  "Current s = tn_current s"

record tuning_snapshot =
  sn_effective :: runtime_tuning
  sn_file :: runtime_tuning
  sn_def :: runtime_tuning
  sn_db :: bytes
  sn_sources :: "(string \<times> string) list"

definition APISnapshot :: "tuning_state \<Rightarrow> tuning_snapshot" where
  "APISnapshot s =
     \<lparr>sn_effective = tn_current s, sn_file = tn_layer s, sn_def = tn_def s, sn_db = tn_db s,
      sn_sources = ComputeSources (tn_def s) (tn_layer s) (tn_current s)\<rparr>"

end
