(* ===== verification/Chunk_Body.thy ===== *)
theory Chunk_Body
  imports Json
begin

text \<open>
  \<open>internal/core/chunkbody.go\<close>: the logical content of a memory row. A row holds either a plain
  text (format 1) or the JSON object that \<open>FormatChunkV2JSON\<close> writes (format 2);
  \<open>ParseChunkPlaintext\<close> tells them apart by trying. Decoding into the Go struct follows
  \<open>encoding/json\<close>: keys match without regard to case, \<open>null\<close> leaves a scalar field alone, a
  value of the wrong type is an error, and an object for the map field is merged into what an
  earlier one left there.
\<close>

definition chunkFormatV2 :: int where "chunkFormatV2 = 2"

definition ExcerptRunes :: "string \<Rightarrow> int \<Rightarrow> string" where
  "ExcerptRunes s mx =
     (if mx < 1 \<or> s = [] then s
      else if int (length (runes s)) \<le> mx then s
      else of_runes (take (nat mx) (runes s)))"

record chunk_body =
  cb_abstract :: string
  cb_body :: string
  cb_kind :: string
  cb_meta :: jmap
  cb_ver :: int
  cb_raw :: string

definition legacy_body :: "string \<Rightarrow> chunk_body" where
  "legacy_body plain =
     \<lparr>cb_abstract = [], cb_body = plain, cb_kind = [], cb_meta = None, cb_ver = 1, cb_raw = plain\<rparr>"

section \<open>Decoding\<close>

record chunk_wire =
  cw_v :: int
  cw_a :: string
  cw_b :: string
  cw_k :: string
  cw_m :: jmap

text \<open>Field names match under simple case folding; the Kelvin sign folds to \<open>k\<close>.\<close>

definition kelvin :: string where "kelvin = map chr [226, 132, 170]"

definition name_is :: "char \<Rightarrow> char \<Rightarrow> string \<Rightarrow> bool" where
  "name_is lo up k \<longleftrightarrow> k = [lo] \<or> k = [up]"

definition dec_string_field :: "jx \<Rightarrow> string \<Rightarrow> string option" where
  "dec_string_field x old = (case x of XNull \<Rightarrow> Some old | XStr s \<Rightarrow> Some s | _ \<Rightarrow> None)"

definition dec_int_field :: "jx \<Rightarrow> int \<Rightarrow> int option" where
  "dec_int_field x old = (case x of XNull \<Rightarrow> Some old | XNum s \<Rightarrow> parse_int s | _ \<Rightarrow> None)"

definition dec_map_field :: "jx \<Rightarrow> jmap \<Rightarrow> jmap option" where
  "dec_map_field x old =
     (case x of
        XNull \<Rightarrow> Some None
      | XObj ms \<Rightarrow> map_option Some (to_any_obj ms (jmap_entries old))
      | _ \<Rightarrow> None)"

definition wire_field :: "string \<Rightarrow> jx \<Rightarrow> chunk_wire \<Rightarrow> chunk_wire option" where
  "wire_field k x w =
     (if name_is CHR ''v'' CHR ''V'' k then map_option (\<lambda>y. w\<lparr>cw_v := y\<rparr>) (dec_int_field x (cw_v w))
      else if name_is CHR ''a'' CHR ''A'' k then map_option (\<lambda>y. w\<lparr>cw_a := y\<rparr>) (dec_string_field x (cw_a w))
      else if name_is CHR ''b'' CHR ''B'' k then map_option (\<lambda>y. w\<lparr>cw_b := y\<rparr>) (dec_string_field x (cw_b w))
      else if name_is CHR ''k'' CHR ''K'' k \<or> k = kelvin
      then map_option (\<lambda>y. w\<lparr>cw_k := y\<rparr>) (dec_string_field x (cw_k w))
      else if name_is CHR ''m'' CHR ''M'' k then map_option (\<lambda>y. w\<lparr>cw_m := y\<rparr>) (dec_map_field x (cw_m w))
      else Some w)"

fun wire_of :: "(string \<times> jx) list \<Rightarrow> chunk_wire \<Rightarrow> chunk_wire option" where
  "wire_of [] w = Some w"
| "wire_of ((k, x) # ms) w = (case wire_field k x w of None \<Rightarrow> None | Some w' \<Rightarrow> wire_of ms w')"

definition empty_wire :: chunk_wire where
  "empty_wire = \<lparr>cw_v = 0, cw_a = [], cw_b = [], cw_k = [], cw_m = None\<rparr>"

definition unmarshal_wire :: "string \<Rightarrow> chunk_wire option" where
  "unmarshal_wire s =
     (case json_parse s of
        Some (XObj ms) \<Rightarrow> wire_of ms empty_wire
      | Some XNull \<Rightarrow> Some empty_wire
      | _ \<Rightarrow> None)"

definition ParseChunkPlaintext :: "string \<Rightarrow> chunk_body" where
  "ParseChunkPlaintext plain =
     (let s = trim_space plain in
      if s = []
      then \<lparr>cb_abstract = [], cb_body = [], cb_kind = [], cb_meta = None, cb_ver = 1, cb_raw = []\<rparr>
      else if byte (hd s) \<noteq> 123 then legacy_body plain
      else case unmarshal_wire plain of
             None \<Rightarrow> legacy_body plain
           | Some w \<Rightarrow>
               if cw_v w \<noteq> chunkFormatV2 then legacy_body plain
               else \<lparr>cb_abstract = cw_a w, cb_body = cw_b w, cb_kind = cw_k w, cb_meta = cw_m w,
                     cb_ver = 2, cb_raw = []\<rparr>)"

section \<open>Encoding\<close>

definition FormatChunkV2JSON :: "(f64 \<Rightarrow> string) \<Rightarrow> string \<Rightarrow> string \<Rightarrow> string \<Rightarrow> jmap \<Rightarrow> string res" where
  "FormatChunkV2JSON ff abstract body kind metadata =
     (if \<not> jv_finite (JObj (jmap_entries metadata)) then Inl (EMsg ''json: unsupported value'')
      else Inr (''{'' @ json_str ''v'' @ '':'' @ show_int chunkFormatV2
        @ '','' @ json_str ''a'' @ '':'' @ json_str abstract
        @ '','' @ json_str ''b'' @ '':'' @ json_str body
        @ '','' @ json_str ''k'' @ '':'' @ json_str kind
        @ (if jmap_nonempty metadata
           then '','' @ json_str ''m'' @ '':'' @ json_print ff (JObj (jmap_entries metadata)) else [])
        @ ''}''))"

section \<open>Reading a body\<close>

definition EmbedSource :: "chunk_body \<Rightarrow> string" where
  "EmbedSource c = (if trim_space (cb_abstract c) \<noteq> [] then cb_abstract c else cb_body c)"

definition LexicalSource :: "chunk_body \<Rightarrow> string" where
  "LexicalSource c =
     (let a = trim_space (cb_abstract c); b = trim_space (cb_body c) in
      if a = [] then b else if b = [] then a else a @ [chr 10, chr 10] @ b)"

text \<open>The primary text, the secondary text and the text whose tokens count.\<close>

definition SnippetForContentMode ::
  "(rune \<Rightarrow> rune) \<Rightarrow> chunk_body \<Rightarrow> string \<Rightarrow> string \<times> string \<times> string" where
  "SnippetForContentMode lw c mode0 =
     (let m1 = to_lower lw (trim_space mode0);
          mode = (if m1 = [] then ''abstract'' else m1)
      in if mode = ''full'' then (cb_body c, [], cb_body c)
         else if mode = ''both'' then (cb_abstract c, cb_body c, LexicalSource c)
         else if trim_space (cb_abstract c) \<noteq> [] then (cb_abstract c, [], cb_abstract c)
         else (cb_body c, [], cb_body c))"

definition FullBodyAvailable :: "chunk_body \<Rightarrow> bool" where
  "FullBodyAvailable c \<longleftrightarrow> trim_space (cb_body c) \<noteq> []"

definition SameAbstractAndBody :: "chunk_body \<Rightarrow> bool" where
  "SameAbstractAndBody c \<longleftrightarrow>
     (let a = trim_space (cb_abstract c); b = trim_space (cb_body c) in a = [] \<or> a = b)"

definition estTok :: "string \<Rightarrow> int" where
  "estTok s = (if s = [] then 0 else let n = int (rune_count s) div 4 in if n < 1 then 1 else n)"

definition EstimatedReturnTokens :: "(rune \<Rightarrow> rune) \<Rightarrow> chunk_body \<Rightarrow> string \<Rightarrow> int" where
  "EstimatedReturnTokens lw c resolvedMode =
     (let m = to_lower lw (trim_space resolvedMode) in
      if m = ''both'' then estTok (cb_abstract c) + estTok (cb_body c)
      else if m = ''full'' then estTok (cb_body c)
      else if trim_space (cb_abstract c) \<noteq> [] then estTok (cb_abstract c)
      else estTok (cb_body c))"

lemma estTok_nonneg: "0 \<le> estTok s"
  by (simp add: estTok_def Let_def)

lemma EstimatedReturnTokens_nonneg: "0 \<le> EstimatedReturnTokens lw c m"
  by (simp add: EstimatedReturnTokens_def Let_def estTok_nonneg)

end
