(* ===== verification/Ingest.thy ===== *)
theory Ingest
  imports Auth Tuning Chunk_Body
begin

text \<open>
  The write side of \<open>internal/core\<close>: \<open>IngestWithDebug\<close> of \<open>engine.go\<close> with its three paths
  (explicit items, facts inferred by the model, plain text cut into pieces) and the helpers of
  \<open>ingest_work.go\<close>. A Go result with a partial list beside an error is a triple. A panic of
  \<open>vecs[0]\<close> is the error \<open>EPanic\<close>.
\<close>

section \<open>The engine and its input\<close>

record engine =
  en_enc :: bool                            \<comment> \<open>\<open>Cfg.Encryption == EncryptionOn\<close>\<close>
  en_key :: string                          \<comment> \<open>\<open>Cfg.OpenAIAPIKey\<close>\<close>
  en_oa :: bool                             \<comment> \<open>\<open>OA != nil\<close>\<close>
  en_tuning :: "tuning_state option"

definition en_tn :: "engine \<Rightarrow> runtime_tuning" where
  "en_tn e = (case en_tuning e of None \<Rightarrow> DefaultRuntimeTuning | Some s \<Rightarrow> Current s)"

record ingest_item =
  it_abstract :: string
  it_text :: string
  it_body :: string
  it_kind :: string
  it_meta :: jmap

record ingest_input =
  in_vault :: uuid
  in_user :: string
  in_session_key :: string
  in_text :: string
  in_abstract :: string
  in_kind :: string
  in_meta :: jmap
  in_items :: "ingest_item list"
  in_source :: "(string \<times> string) option"   \<comment> \<open>text and title of \<open>SourceDocumentIn\<close>\<close>
  in_infer :: bool
  in_infer_target :: string
  in_messages :: "(string \<times> string) list"
  in_session :: "session option"

datatype item_summary = Summary string nat nat

record ingest_debug =
  id_segments :: "string list"
  id_facts :: "string list"
  id_summary :: "item_summary list"

definition no_debug :: ingest_debug where
  "no_debug = \<lparr>id_segments = [], id_facts = [], id_summary = []\<rparr>"

type_synonym ingest_result = "uuid list \<times> ingest_debug option \<times> err option"

text \<open>\<open>session == nil || len(session.DEK) == 0\<close>.\<close>

definition no_dek :: "session option \<Rightarrow> bool" where
  "no_dek s \<longleftrightarrow> (case s of None \<Rightarrow> True | Some x \<Rightarrow> ss_dek x = [])"

definition dek_of :: "session option \<Rightarrow> bytes" where
  "dek_of s = (case s of None \<Rightarrow> [] | Some x \<Rightarrow> ss_dek x)"

section \<open>Work items\<close>

record work_item =
  wk_abstract :: string
  wk_body :: string
  wk_kind :: string
  wk_meta :: jmap
  wk_source :: "uuid option"
  wk_source_text :: string

definition new_work :: "string \<Rightarrow> string \<Rightarrow> string \<Rightarrow> jmap \<Rightarrow> work_item" where
  "new_work abstract body kind meta =
     \<lparr>wk_abstract = abstract, wk_body = body, wk_kind = kind, wk_meta = meta, wk_source = None,
      wk_source_text = []\<rparr>"

abbreviation newline :: string where "newline \<equiv> [chr 10]"

text \<open>The text whose hash identifies a memory.\<close>

definition dedup_text :: "env \<Rightarrow> string \<Rightarrow> string \<Rightarrow> string \<Rightarrow> uuid option \<Rightarrow> string" where
  "dedup_text env kind abstract body sourceID =
     to_lower (ev_lower env) (trim_space kind) @ newline
     @ to_lower (ev_lower env) (trim_space abstract) @ newline
     @ (case sourceID of
          Some i \<Rightarrow> ev_uuid_str env i
        | None \<Rightarrow> to_lower (ev_lower env) (trim_space body))"

definition contentDedupKey :: "env \<Rightarrow> string \<Rightarrow> string \<Rightarrow> string \<Rightarrow> uuid option \<Rightarrow> bytes" where
  "contentDedupKey env kind abstract body sourceID =
     ev_sha256 env (dedup_text env kind abstract body sourceID)"

definition needsV2Format :: "work_item \<Rightarrow> bool" where
  "needsV2Format w \<longleftrightarrow> trim_space (wk_abstract w) \<noteq> [] \<or> trim_space (wk_kind w) \<noteq> []
     \<or> jmap_nonempty (wk_meta w)"

definition item_work :: "ingest_item \<Rightarrow> work_item" where
  "item_work it =
     (let b1 = trim_space (it_body it);
          b = (if b1 = [] then trim_space (it_text it) else b1)
      in new_work (trim_space (it_abstract it)) b (trim_space (it_kind it)) (it_meta it))"

definition collectExplicitStructuredWork :: "ingest_input \<Rightarrow> work_item list" where
  "collectExplicitStructuredWork inp =
     (if in_items inp \<noteq> []
      then filter (\<lambda>w. \<not> (wk_abstract w = [] \<and> wk_body w = [])) (map item_work (in_items inp))
      else
        (let abs = trim_space (in_abstract inp); kind = trim_space (in_kind inp);
             t = trim_space (in_text inp); hasMeta = jmap_nonempty (in_meta inp)
         in if abs = [] \<and> kind = [] \<and> \<not> hasMeta then []
            else [new_work abs t kind (in_meta inp)]))"

section \<open>Source documents\<close>

text \<open>The payload columns of a row: sealed when encryption is on, the text itself when it is off.\<close>

record payload =
  py_ciphertext :: "bytes option"
  py_nonce :: "bytes option"
  py_key_id :: "string option"
  py_body :: "string option"

definition seal_payload :: "env \<Rightarrow> engine \<Rightarrow> session option \<Rightarrow> string \<Rightarrow> world \<Rightarrow> payload res \<times> world" where
  "seal_payload env e sess plain w =
     (if en_enc e then
        if sess = None then (Inl (EPanic ''nil pointer dereference''), w) else
        (case SealChunk env (dek_of sess) plain w of
           (Inl er, w1) \<Rightarrow> (Inl er, w1)
         | (Inr (nonce, ct), w1) \<Rightarrow>
             (Inr \<lparr>py_ciphertext = Some ct, py_nonce = Some nonce, py_key_id = Some ''v1'',
                   py_body = None\<rparr>, w1))
      else (Inr \<lparr>py_ciphertext = None, py_nonce = None, py_key_id = None, py_body = Some plain\<rparr>, w))"

definition too_big :: "runtime_tuning \<Rightarrow> string \<Rightarrow> bool" where
  "too_big tn s \<longleftrightarrow> 0 < rt_max_body tn \<and> rt_max_body tn < int (length s)"

definition upsertSourceDocument ::
  "env \<Rightarrow> engine \<Rightarrow> ingest_input \<Rightarrow> string \<Rightarrow> string \<Rightarrow> runtime_tuning \<Rightarrow> world \<Rightarrow> uuid res \<times> world" where
  "upsertSourceDocument env e inp txt title tn w =
     (if too_big tn txt then (Inl (EMsg ''source document exceeds max_body_bytes''), w)
      else
        (let h = ev_sha256 env txt in
         case GetSourceDocumentIDByHash env (in_vault inp) (in_user inp) h w of
           (Inr i, w1) \<Rightarrow> (Inr i, w1)
         | (Inl er, w1) \<Rightarrow>
             if er \<noteq> ENotFound then (Inl er, w1)
             else
               (let (i, w2) = new_uuid env w1 in
                case seal_payload env e (in_session inp) txt w2 of
                  (Inl er2, w3) \<Rightarrow> (Inl er2, w3)
                | (Inr p, w3) \<Rightarrow>
                    (case InsertSourceDocument env
                       \<lparr>sd_id = i, sd_vault = in_vault inp, sd_user = in_user inp,
                        sd_title = (if title = [] then None else Some title),
                        sd_ciphertext = py_ciphertext p, sd_nonce = py_nonce p,
                        sd_key_id = py_key_id p, sd_body = py_body p, sd_hash = h,
                        sd_created = 0\<rparr> w3 of
                       (Inl er3, w4) \<Rightarrow> (Inl er3, w4)
                     | (Inr _, w4) \<Rightarrow> (Inr i, w4)))))"

definition attachSharedSource ::
  "env \<Rightarrow> engine \<Rightarrow> ingest_input \<Rightarrow> work_item list \<Rightarrow> world \<Rightarrow> work_item list res \<times> world" where
  "attachSharedSource env e inp work w =
     (case in_source inp of
        None \<Rightarrow> (Inr work, w)
      | Some (txt, title) \<Rightarrow>
          (let full = trim_space txt in
           if full = [] then (Inr work, w)
           else if \<not> list_ex (\<lambda>x. trim_space (wk_body x) = []) work then (Inr work, w)
           else
             (case upsertSourceDocument env e inp full (trim_space title) (en_tn e) w of
                (Inl er, w1) \<Rightarrow> (Inl er, w1)
              | (Inr i, w1) \<Rightarrow>
                  (Inr (map (\<lambda>x. if trim_space (wk_body x) \<noteq> [] then x
                                 else x\<lparr>wk_source := Some i, wk_source_text := full\<rparr>) work), w1))))"

section \<open>Storing one memory\<close>

definition session_key_of :: "ingest_input \<Rightarrow> string" where
  "session_key_of inp = (let sk = trim_space (in_session_key inp) in if sk = [] then ''default'' else sk)"

definition item_tsv :: "work_item \<Rightarrow> string" where
  "item_tsv x =
     (if wk_source x \<noteq> None \<and> wk_source_text x \<noteq> [] then
        (let a = trim_space (wk_abstract x); ex = ExcerptRunes (wk_source_text x) 2000
         in if a = [] then ex else a @ newline @ newline @ ex)
      else LexicalSource \<lparr>cb_abstract = wk_abstract x, cb_body = wk_body x, cb_kind = wk_kind x,
             cb_meta = wk_meta x, cb_ver = 2, cb_raw = []\<rparr>)"

definition item_embed_src :: "work_item \<Rightarrow> string" where
  "item_embed_src x =
     (let a = trim_space (wk_abstract x) in
      if a = [] then (if wk_source x \<noteq> None then ExcerptRunes (wk_source_text x) 2000 else wk_body x)
      else a)"

definition item_plain :: "env \<Rightarrow> work_item \<Rightarrow> (string \<times> int) res" where
  "item_plain env x =
     (let bodyForJSON = (if wk_source x \<noteq> None then [] else wk_body x) in
      if needsV2Format x then
        (case FormatChunkV2JSON (ev_fmt_f64 env) (wk_abstract x) bodyForJSON (wk_kind x) (wk_meta x) of
           Inl er \<Rightarrow> Inl er | Inr j \<Rightarrow> Inr (j, 2))
      else Inr (bodyForJSON, 1))"

text \<open>\<open>vecs[0]\<close>.\<close>

definition first_vec :: "vec list \<Rightarrow> vec res" where
  "first_vec vecs = (case vecs of [] \<Rightarrow> Inl (EPanic ''index out of range'') | v # _ \<Rightarrow> Inr v)"

text \<open>Seal the payload and insert the row: the common tail of the two persisting functions.\<close>

definition insert_memory ::
  "env \<Rightarrow> engine \<Rightarrow> ingest_input \<Rightarrow> (payload \<Rightarrow> chunk_insert) \<Rightarrow> string \<Rightarrow> world \<Rightarrow> unit res \<times> world" where
  "insert_memory env e inp ci plain w =
     (case seal_payload env e (in_session inp) plain w of
        (Inl er, w1) \<Rightarrow> (Inl er, w1)
      | (Inr p, w1) \<Rightarrow> InsertChunk env (ci p) w1)"

text \<open>The row of a memory, but for its payload.\<close>

definition memory_row ::
  "ingest_input \<Rightarrow> uuid \<Rightarrow> bytes \<Rightarrow> string \<Rightarrow> int \<Rightarrow> string \<Rightarrow> vec \<Rightarrow> string \<Rightarrow> jmap \<Rightarrow> uuid option
   \<Rightarrow> payload \<Rightarrow> chunk_insert" where
  "memory_row inp i h model schemaVer tsv v kind meta source p =
     \<lparr>ci_id = i, ci_vault = in_vault inp, ci_user = in_user inp,
      ci_ciphertext = py_ciphertext p, ci_nonce = py_nonce p,
      ci_key_id = py_key_id p, ci_body = py_body p, ci_hash = h,
      ci_model = model, ci_schema = schemaVer, ci_tsv = tsv,
      ci_vec = v, ci_session_key = Some (session_key_of inp),
      ci_kind = kind, ci_meta = meta, ci_source = source\<rparr>"

definition persistStructuredItem ::
  "env \<Rightarrow> engine \<Rightarrow> ingest_input \<Rightarrow> work_item \<Rightarrow> bytes \<Rightarrow> runtime_tuning \<Rightarrow> world
   \<Rightarrow> (uuid \<times> item_summary) res \<times> world" where
  "persistStructuredItem env e inp x h tn w =
     (let tsv = item_tsv x; embedSrc = item_embed_src x in
      case item_plain env x of
        Inl er \<Rightarrow> (Inl er, w)
      | Inr (plain, schemaVer) \<Rightarrow>
          if too_big tn plain then (Inl (EMsg ''memory payload exceeds max_body_bytes''), w)
          else
            (case oa_embed env (rt_embedding_model tn) [embedSrc] w of
               (Inl er, w1) \<Rightarrow> (Inl er, w1)
             | (Inr vecs, w1) \<Rightarrow>
                 (let (i, w2) = new_uuid env w1 in
                  case first_vec vecs of
                    Inl er \<Rightarrow> (Inl er, w2)
                  | Inr v \<Rightarrow>
                      (case insert_memory env e inp
                         (memory_row inp i h (rt_embedding_model tn) schemaVer tsv v (wk_kind x)
                            (wk_meta x) (wk_source x))
                         plain w2 of
                         (Inl er, w3) \<Rightarrow> (Inl er, w3)
                       | (Inr _, w3) \<Rightarrow>
                           (Inr (i, Summary (wk_kind x) (length embedSrc) (length tsv)), w3)))))"

text \<open>\<open>uuid.Nil\<close> without an error means that nothing was stored.\<close>

definition persistV1TextChunk ::
  "env \<Rightarrow> engine \<Rightarrow> ingest_input \<Rightarrow> string \<Rightarrow> runtime_tuning \<Rightarrow> world \<Rightarrow> uuid res \<times> world" where
  "persistV1TextChunk env e inp f0 tn w =
     (let f = trim_space f0 in
      if f = [] then (Inr uuid_nil, w)
      else if too_big tn f then (Inl (EMsg ''memory payload exceeds max_body_bytes''), w)
      else
        (let h = ev_sha256 env (to_lower (ev_lower env) f) in
         case ChunkExistsHash env (in_vault inp) (in_user inp) h w of
           (Inl er, w1) \<Rightarrow> (Inl er, w1)
         | (Inr True, w1) \<Rightarrow> (Inr uuid_nil, w1)
         | (Inr False, w1) \<Rightarrow>
             (case oa_embed env (rt_embedding_model tn) [f] w1 of
                (Inl er, w2) \<Rightarrow> (Inl er, w2)
              | (Inr vecs, w2) \<Rightarrow>
                  (let (i, w3) = new_uuid env w2 in
                   case first_vec vecs of
                     Inl er \<Rightarrow> (Inl er, w3)
                   | Inr v \<Rightarrow>
                       (case insert_memory env e inp
                          (memory_row inp i h (rt_embedding_model tn) 1 f v [] None None) f w3 of
                          (Inl er, w4) \<Rightarrow> (Inl er, w4)
                        | (Inr _, w4) \<Rightarrow> (Inr i, w4))))))"

section \<open>The loops\<close>

text \<open>\<open>seen\<close> holds the keys of this call; \<open>ins\<close> and \<open>dbg\<close> grow as items are stored.\<close>

fun structured_loop ::
  "env \<Rightarrow> engine \<Rightarrow> ingest_input \<Rightarrow> work_item list \<Rightarrow> bytes list \<Rightarrow> uuid list \<Rightarrow> ingest_debug option
   \<Rightarrow> world \<Rightarrow> ingest_result \<times> world" where
  "structured_loop env e inp [] seen ins dbg w = ((ins, dbg, None), w)"
| "structured_loop env e inp (x # xs) seen ins dbg w =
     (if trim_space (wk_abstract x) = [] \<and> trim_space (wk_body x) = []
      then structured_loop env e inp xs seen ins dbg w
      else
        (let h = contentDedupKey env (wk_kind x) (wk_abstract x) (wk_body x) (wk_source x) in
         if h \<in> set seen then structured_loop env e inp xs seen ins dbg w
         else
           (case ChunkExistsHash env (in_vault inp) (in_user inp) h w of
              (Inl er, w1) \<Rightarrow> ((ins, dbg, Some er), w1)
            | (Inr True, w1) \<Rightarrow> structured_loop env e inp xs (h # seen) ins dbg w1
            | (Inr False, w1) \<Rightarrow>
                (case persistStructuredItem env e inp x h (en_tn e) w1 of
                   (Inl er, w2) \<Rightarrow> ((ins, dbg, Some er), w2)
                 | (Inr (i, summary), w2) \<Rightarrow>
                     structured_loop env e inp xs (h # seen) (ins @ [i])
                       (map_option (\<lambda>d. d\<lparr>id_summary := id_summary d @ [summary]\<rparr>) dbg) w2))))"

definition prune_after :: "env \<Rightarrow> engine \<Rightarrow> ingest_input \<Rightarrow> world \<Rightarrow> world" where
  "prune_after env e inp w =
     (let keep0 = rt_prune_keep (en_tn e); keep = (if keep0 < 1 then 100 else keep0)
      in snd (PruneSessionMessages env (in_vault inp) (in_user inp) (in_session_key inp) keep w))"

definition ingestStructuredWork ::
  "env \<Rightarrow> engine \<Rightarrow> ingest_input \<Rightarrow> work_item list \<Rightarrow> bool \<Rightarrow> world \<Rightarrow> ingest_result \<times> world" where
  "ingestStructuredWork env e inp work wantDebug w =
     (case structured_loop env e inp work [] [] (if wantDebug then Some no_debug else None) w of
        ((ins, dbg, Some er), w1) \<Rightarrow> ((ins, dbg, Some er), w1)
      | ((ins, dbg, None), w1) \<Rightarrow> ((ins, dbg, None), prune_after env e inp w1))"

fun text_loop ::
  "env \<Rightarrow> engine \<Rightarrow> ingest_input \<Rightarrow> string list \<Rightarrow> bytes list \<Rightarrow> uuid list \<Rightarrow> ingest_debug option
   \<Rightarrow> world \<Rightarrow> ingest_result \<times> world" where
  "text_loop env e inp [] seen ins dbg w = ((ins, dbg, None), w)"
| "text_loop env e inp (f0 # fs) seen ins dbg w =
     (let f = trim_space f0 in
      if f = [] then text_loop env e inp fs seen ins dbg w
      else
        (let h = ev_sha256 env (to_lower (ev_lower env) f) in
         if h \<in> set seen then text_loop env e inp fs seen ins dbg w
         else
           (case persistV1TextChunk env e inp f (en_tn e) w of
              (Inl er, w1) \<Rightarrow> ((ins, dbg, Some er), w1)
            | (Inr i, w1) \<Rightarrow>
                text_loop env e inp fs (h # seen) (if i = uuid_nil then ins else ins @ [i]) dbg w1)))"

text \<open>\<open>chunkText\<close>: windows of \<open>sz\<close> runes that overlap; the last one ends the loop. The step is
  at least 1 in every call, which is what the first test stands for.\<close>

function chunk_windows :: "nat \<Rightarrow> nat \<Rightarrow> nat \<Rightarrow> rune list \<Rightarrow> rune list list" where
  "chunk_windows sz step i rs =
     (if step = 0 \<or> length rs \<le> i then []
      else
        (let stop = min (i + sz) (length rs) in
         take (stop - i) (drop i rs)
           # (if stop = length rs then [] else chunk_windows sz step (i + step) rs)))"
  by pat_completeness auto
termination
  by (relation "measure (\<lambda>(sz, step, i, rs). length rs - i)") auto

declare chunk_windows.simps [simp del]

definition chunkText :: "string \<Rightarrow> int \<Rightarrow> int \<Rightarrow> string list" where
  "chunkText s sz overlap =
     (if s = [] then []
      else if int (length (runes s)) \<le> sz then [s]
      else
        (let step0 = sz - overlap; step = (if step0 < 1 then sz else step0)
         in map of_runes (chunk_windows (nat sz) (nat step) 0 (runes s))))"

text \<open>The prompt for the model: the recent messages and the text.\<close>

definition infer_payload :: "(string \<times> string) list \<Rightarrow> string \<Rightarrow> string" where
  "infer_payload msgs txt = concat (map (\<lambda>(r, c). r @ '': '' @ c @ newline) msgs) @ txt"

definition infer_work :: "(rune \<Rightarrow> rune) \<Rightarrow> ingest_input \<Rightarrow> string list \<Rightarrow> work_item list" where
  "infer_work lw inp facts =
     (let toBody = to_lower lw (trim_space (in_infer_target inp)) = ''body'' in
      map (\<lambda>f. if toBody then new_work [] f (trim_space (in_kind inp)) (in_meta inp)
               else new_work f [] (trim_space (in_kind inp)) (in_meta inp))
        (filter (\<lambda>f. f \<noteq> []) (map trim_space facts)))"

section \<open>IngestWithDebug\<close>

definition ingest_infer :: "env \<Rightarrow> engine \<Rightarrow> ingest_input \<Rightarrow> bool \<Rightarrow> world \<Rightarrow> ingest_result \<times> world" where
  "ingest_infer env e inp wantDebug w =
     (let tn = en_tn e;
          lim = (if rt_recent_messages tn < 1 then 20 else rt_recent_messages tn);
          (r, w1) = RecentSessionMessages env (in_vault inp) (in_user inp) (in_session_key inp) lim w;
          msgs = (case r of Inl _ \<Rightarrow> [] | Inr ms \<Rightarrow> ms);
          model0 = trim_space (rt_infer_model tn);
          model = (if model0 = [] then ''gpt-4o-mini'' else model0)
      in case oa_extract env model (infer_payload msgs (in_text inp)) w1 of
           (Inl er, w2) \<Rightarrow> (([], None, Some er), w2)
         | (Inr facts, w2) \<Rightarrow>
             (case ingestStructuredWork env e inp (infer_work (ev_lower env) inp facts) wantDebug w2 of
                ((_, _, Some er), w3) \<Rightarrow> (([], None, Some er), w3)
              | ((ids, dbg, None), w3) \<Rightarrow>
                  ((ids, map_option (\<lambda>d. d\<lparr>id_facts := facts\<rparr>) dbg, None), w3)))"

definition ingest_text :: "env \<Rightarrow> engine \<Rightarrow> ingest_input \<Rightarrow> bool \<Rightarrow> world \<Rightarrow> ingest_result \<times> world" where
  "ingest_text env e inp wantDebug w =
     (let tn = en_tn e;
          sz = (if rt_chunk_rune_size tn < 1 then 2000 else rt_chunk_rune_size tn);
          over = (if rt_chunk_overlap tn < 0 \<or> rt_chunk_overlap tn \<ge> sz then 200
                  else rt_chunk_overlap tn);
          facts = chunkText (in_text inp) sz over;
          dbg = (if wantDebug then Some (no_debug\<lparr>id_segments := facts\<rparr>) else None)
      in case text_loop env e inp facts [] [] dbg w of
           ((ins, d, Some er), w1) \<Rightarrow> ((ins, d, Some er), w1)
         | ((ins, d, None), w1) \<Rightarrow> ((ins, d, None), prune_after env e inp w1))"

definition IngestWithDebug :: "env \<Rightarrow> engine \<Rightarrow> ingest_input \<Rightarrow> bool \<Rightarrow> world \<Rightarrow> ingest_result \<times> world" where
  "IngestWithDebug env e inp wantDebug w =
     (if \<not> en_oa e \<or> en_key e = [] then (([], None, Some EOpenAIRequired), w)
      else if en_enc e \<and> no_dek (in_session inp)
      then (([], None, Some (EMsg ''vault must be unlocked'')), w)
      else
        (let work = collectExplicitStructuredWork inp in
         if work \<noteq> [] then
           (case attachSharedSource env e inp work w of
              (Inl er, w1) \<Rightarrow> (([], None, Some er), w1)
            | (Inr work', w1) \<Rightarrow> ingestStructuredWork env e inp work' wantDebug w1)
         else if in_infer inp then ingest_infer env e inp wantDebug w
         else ingest_text env e inp wantDebug w))"

definition Ingest :: "env \<Rightarrow> engine \<Rightarrow> ingest_input \<Rightarrow> world \<Rightarrow> uuid list \<times> err option \<times> world" where
  "Ingest env e inp w =
     (case IngestWithDebug env e inp False w of ((ids, _, er), w1) \<Rightarrow> (ids, er, w1))"

end
