(* ===== verification/Scoring.thy ===== *)
theory Scoring
  imports Store "HOL-Library.Multiset"
begin

text \<open>
  \<open>internal/core/scoring.go\<close>: the fusion of semantic and lexical scores and the ranking of the
  candidates. Arithmetic is binary64, one rounding for each operation (no fused multiply-add).
  The Go maps are partial functions; the sort is the code's own exchange sort on indices. What
  it needs of a comparison is the locale \<open>ranking\<close>, of which the comparison of the code is an
  instance.
\<close>

section \<open>Scores\<close>

definition NormalizeLexical :: "f64 \<Rightarrow> f64" where
  "NormalizeLexical raw = (if fle raw (Fin 0) then Fin 0 else fdiv raw (fadd raw (Fin 1)))"

definition Sigmoid :: "(f64 \<Rightarrow> f64) \<Rightarrow> f64 \<Rightarrow> f64" where
  "Sigmoid mathExp x = fdiv (Fin 1) (fadd (Fin 1) (mathExp (fneg x)))"

record scored_chunk =
  sc_id :: uuid
  sc_score :: f64

record fusion_row =
  fr_id :: uuid
  fr_sem :: f64
  fr_lex :: f64
  fr_fused :: f64

text \<open>The state of the loop over the dense candidates: three maps and the order of first sight.\<close>

record fusion_maps =
  fm_scores :: "uuid \<Rightarrow> f64 option"
  fm_sem :: "uuid \<Rightarrow> f64 option"
  fm_lex :: "uuid \<Rightarrow> f64 option"
  fm_order :: "uuid list"

definition map_get :: "(uuid \<Rightarrow> f64 option) \<Rightarrow> uuid \<Rightarrow> f64" where
  "map_get m i = (case m i of None \<Rightarrow> Fin 0 | Some x \<Rightarrow> x)"

definition lex_norms :: "chunk_candidate list \<Rightarrow> uuid \<Rightarrow> f64 option" where
  "lex_norms lexical = fold (\<lambda>c m. m(cc_id c \<mapsto> NormalizeLexical (cc_raw c))) lexical Map.empty"

definition clamp_weight :: "f64 \<Rightarrow> f64" where
  "clamp_weight lexWeight =
     (let lw1 = (if flt lexWeight (Fin 0) then Fin 0 else lexWeight)
      in if flt (Fin 1) lw1 then Fin 1 else lw1)"

definition fused_score :: "f64 \<Rightarrow> f64 \<Rightarrow> f64 \<Rightarrow> f64" where
  "fused_score lw sem lx = fadd (fmul (fsub (Fin 1) lw) sem) (fmul lw lx)"

definition fusion_step ::
  "(uuid \<Rightarrow> f64 option) \<Rightarrow> f64 \<Rightarrow> f64 \<Rightarrow> chunk_candidate \<Rightarrow> fusion_maps \<Rightarrow> fusion_maps" where
  "fusion_step lexNorm semThreshold lw c fm =
     (if flt (cc_sem c) semThreshold then fm
      else
        (let lx = map_get lexNorm (cc_id c); sc = fused_score lw (cc_sem c) lx
         in \<lparr>fm_scores = (fm_scores fm)(cc_id c \<mapsto> sc),
             fm_sem = (fm_sem fm)(cc_id c \<mapsto> cc_sem c),
             fm_lex = (fm_lex fm)(cc_id c \<mapsto> lx),
             fm_order = (if fm_scores fm (cc_id c) = None then fm_order fm @ [cc_id c]
                         else fm_order fm)\<rparr>))"

definition no_maps :: fusion_maps where
  "no_maps = \<lparr>fm_scores = Map.empty, fm_sem = Map.empty, fm_lex = Map.empty, fm_order = []\<rparr>"

definition fusion_rows :: "fusion_maps \<Rightarrow> fusion_row list" where
  "fusion_rows fm = map (\<lambda>i. \<lparr>fr_id = i, fr_sem = map_get (fm_sem fm) i, fr_lex = map_get (fm_lex fm) i,
     fr_fused = map_get (fm_scores fm) i\<rparr>) (fm_order fm)"

section \<open>The exchange sort\<close>

text \<open>Two nested loops over indices; a later element that is better changes places.\<close>

definition cmp_swap :: "('a \<Rightarrow> 'a \<Rightarrow> bool) \<Rightarrow> nat \<Rightarrow> nat \<Rightarrow> 'a list \<Rightarrow> 'a list" where
  "cmp_swap better i j xs = (if better (xs ! j) (xs ! i) then xs[i := xs ! j, j := xs ! i] else xs)"

definition exchange_row :: "('a \<Rightarrow> 'a \<Rightarrow> bool) \<Rightarrow> nat \<Rightarrow> 'a list \<Rightarrow> 'a list" where
  "exchange_row better i xs = fold (cmp_swap better i) [Suc i..<length xs] xs"

definition exchange_sort :: "('a \<Rightarrow> 'a \<Rightarrow> bool) \<Rightarrow> 'a list \<Rightarrow> 'a list" where
  "exchange_sort better xs = fold (exchange_row better) [0..<length xs] xs"

text \<open>Higher fused score first; ties by the text of the id.\<close>

definition rank_better :: "(uuid \<Rightarrow> string) \<Rightarrow> fusion_row \<Rightarrow> fusion_row \<Rightarrow> bool" where
  "rank_better us a b \<longleftrightarrow> flt (fr_fused b) (fr_fused a)
     \<or> feq (fr_fused a) (fr_fused b) \<and> us (fr_id a) < us (fr_id b)"

definition RankChunksFusionDetail ::
  "(uuid \<Rightarrow> string) \<Rightarrow> chunk_candidate list \<Rightarrow> chunk_candidate list \<Rightarrow> f64 \<Rightarrow> f64 \<Rightarrow> fusion_row list" where
  "RankChunksFusionDetail us dense lexical semThreshold lexWeight =
     exchange_sort (rank_better us) (fusion_rows
       (fold (fusion_step (lex_norms lexical) semThreshold (clamp_weight lexWeight)) dense no_maps))"

definition RankChunks ::
  "(uuid \<Rightarrow> string) \<Rightarrow> chunk_candidate list \<Rightarrow> chunk_candidate list \<Rightarrow> f64 \<Rightarrow> f64 \<Rightarrow> scored_chunk list" where
  "RankChunks us dense lexical semThreshold lexWeight =
     map (\<lambda>r. \<lparr>sc_id = fr_id r, sc_score = fr_fused r\<rparr>)
       (RankChunksFusionDetail us dense lexical semThreshold lexWeight)"

section \<open>What a comparison must satisfy\<close>

lemma cmp_swap_mset: "i < length xs \<Longrightarrow> j < length xs \<Longrightarrow> mset (cmp_swap better i j xs) = mset xs"
  by (simp add: cmp_swap_def mset_swap)

lemma cmp_swap_length [simp]: "length (cmp_swap better i j xs) = length xs"
  by (simp add: cmp_swap_def)

lemma fold_cmp_swap_length [simp]: "length (fold (cmp_swap better i) js xs) = length xs"
  by (induction js arbitrary: xs) simp_all

lemma exchange_row_length [simp]: "length (exchange_row better i xs) = length xs"
  by (simp add: exchange_row_def)

lemma fold_cmp_swap_mset:
  "i < length xs \<Longrightarrow> \<forall>j \<in> set js. j < length xs \<Longrightarrow> mset (fold (cmp_swap better i) js xs) = mset xs"
  by (induction js arbitrary: xs) (simp_all add: cmp_swap_mset)

lemma exchange_row_mset: "i < length xs \<Longrightarrow> mset (exchange_row better i xs) = mset xs"
  by (simp add: exchange_row_def fold_cmp_swap_mset)

lemma exchange_sort_mset: "mset (exchange_sort better xs) = mset xs"
proof -
  have "mset (fold (exchange_row better) is xs) = mset xs" if "\<forall>i \<in> set is. i < length xs" for "is"
    using that by (induction "is" arbitrary: xs) (simp_all add: exchange_row_mset)
  then show ?thesis by (simp add: exchange_sort_def)
qed

locale ranking =
  fixes better :: "'a \<Rightarrow> 'a \<Rightarrow> bool"
  assumes asym: "better a b \<Longrightarrow> \<not> better b a"
    and trans: "better a b \<Longrightarrow> better b c \<Longrightarrow> better a c"
begin

text \<open>After the inner loop over \<open>i+1..<k\<close> no element there beats the one at \<open>i\<close>.\<close>

lemma row_inv:
  assumes "i < length xs" "k \<le> length xs" "i < k"
  shows "\<forall>j. i < j \<and> j < k \<longrightarrow>
    \<not> better (fold (cmp_swap better i) [Suc i..<k] xs ! j) (fold (cmp_swap better i) [Suc i..<k] xs ! i)"
  using assms(2,3)
proof (induction k)
  case (Suc k)
  note step = Suc.prems
  let ?ys = "fold (cmp_swap better i) [Suc i..<k] xs"
  have ih: "\<not> better (?ys ! j) (?ys ! i)" if "i < j" "j < k" for j using Suc that by simp
  have l: "length ?ys = length xs" by simp
  show ?case
  proof (intro allI impI)
    fix j assume j: "i < j \<and> j < Suc k"
    have f: "fold (cmp_swap better i) [Suc i..<Suc k] xs = cmp_swap better i k ?ys"
      using j by simp
    show "\<not> better (fold (cmp_swap better i) [Suc i..<Suc k] xs ! j) (fold (cmp_swap better i) [Suc i..<Suc k] xs ! i)"
    proof (cases "better (?ys ! k) (?ys ! i)")
      case True
      then have c: "cmp_swap better i k ?ys = ?ys[i := ?ys ! k, k := ?ys ! i]" by (simp add: cmp_swap_def)
      show ?thesis
      proof (cases "j = k")
        case True
        then show ?thesis unfolding f c using asym \<open>better (?ys ! k) (?ys ! i)\<close> step j l assms(1) by simp
      next
        case False
        then show ?thesis
          unfolding f c using ih [of j] trans [of "?ys ! j" "?ys ! k" "?ys ! i"] True j step l assms(1)
          by (auto simp: nth_list_update)
      qed
    next
      case False
      then have "cmp_swap better i k ?ys = ?ys" by (simp add: cmp_swap_def)
      then show ?thesis unfolding f using ih j False by (cases "j = k") auto
    qed
  qed
qed simp

lemma cmp_swap_before: "p < i \<Longrightarrow> p < j \<Longrightarrow> cmp_swap better i j xs ! p = xs ! p"
  by (simp add: cmp_swap_def)

lemma exchange_row_before:
  assumes "p < i" shows "exchange_row better i xs ! p = xs ! p"
proof -
  have "fold (cmp_swap better i) js ys ! p = ys ! p" if "\<forall>j \<in> set js. p < j" for js ys
    using that assms by (induction js arbitrary: ys) (simp_all add: cmp_swap_before)
  then show ?thesis using assms by (simp add: exchange_row_def)
qed

lemma take_eqI: "length xs = length ys \<Longrightarrow> (\<And>p. p < n \<Longrightarrow> xs ! p = ys ! p) \<Longrightarrow> take n xs = take n ys"
  by (rule nth_equalityI) auto

lemma exchange_row_drop_set:
  assumes "i < length xs" "n \<le> i"
  shows "set (drop n (exchange_row better i xs)) = set (drop n xs)"
proof -
  let ?ys = "exchange_row better i xs"
  have t: "take n ?ys = take n xs"
    using assms exchange_row_before by (intro take_eqI) auto
  have "mset (take n ?ys) + mset (drop n ?ys) = mset (take n xs) + mset (drop n xs)"
    using exchange_row_mset [OF assms(1)] by (metis append_take_drop_id mset_append)
  then show ?thesis using t by (metis add_left_cancel set_mset_mset)
qed

text \<open>After the outer loop has passed \<open>k\<close>, no element beats one of the first \<open>k\<close> before it.\<close>

lemma sort_inv:
  "k \<le> length xs \<Longrightarrow> length (fold (exchange_row better) [0..<k] xs) = length xs \<and>
   (\<forall>p < k. \<forall>y \<in> set (drop (Suc p) (fold (exchange_row better) [0..<k] xs)).
     \<not> better y (fold (exchange_row better) [0..<k] xs ! p))"
proof (induction k)
  case (Suc k)
  let ?ys = "fold (exchange_row better) [0..<k] xs" let ?zs = "exchange_row better k ?ys"
  have ih: "\<not> better y (?ys ! p)" if "p < k" "y \<in> set (drop (Suc p) ?ys)" for p y
    using Suc that by simp
  have l: "length ?ys = length xs" using Suc by simp
  have f: "fold (exchange_row better) [0..<Suc k] xs = ?zs" by simp
  have k: "k < length ?ys" using Suc.prems l by simp
  have "\<not> better y (?zs ! p)" if pk: "p < Suc k" and y: "y \<in> set (drop (Suc p) ?zs)" for p y
  proof (cases "p = k")
    case True
    obtain q where q: "k < q" "q < length ?ys" "y = ?zs ! q"
      using y True k by (auto simp: in_set_conv_nth) (metis add_Suc_right less_add_Suc1 less_diff_conv add.commute)
    show ?thesis
      using row_inv [OF k order_refl k] q True unfolding exchange_row_def by simp
  next
    case False
    then have "p < k" using pk by simp
    moreover from this have "?zs ! p = ?ys ! p" by (rule exchange_row_before)
    moreover have "set (drop (Suc p) ?zs) = set (drop (Suc p) ?ys)"
      using \<open>p < k\<close> by (intro exchange_row_drop_set [OF k]) simp
    ultimately show ?thesis using ih y by simp
  qed
  then show ?case unfolding f using l by simp
qed simp

lemma exchange_sort_sorted: "sorted_wrt (\<lambda>a b. \<not> better b a) (exchange_sort better xs)"
proof -
  let ?ys = "exchange_sort better xs"
  have l: "length ?ys = length xs" using exchange_sort_mset [of better xs] by (metis size_mset)
  have "\<not> better (?ys ! q) (?ys ! p)" if "p < q" "q < length ?ys" for p q
  proof -
    have "?ys ! q = drop (Suc p) ?ys ! (q - Suc p)" using that by simp
    moreover have "q - Suc p < length (drop (Suc p) ?ys)" using that by simp
    ultimately have "?ys ! q \<in> set (drop (Suc p) ?ys)" by (metis nth_mem)
    moreover have "p < length xs" using that l by simp
    ultimately show ?thesis using sort_inv [of "length xs" xs] unfolding exchange_sort_def by blast
  qed
  then show ?thesis by (simp add: sorted_wrt_iff_nth_less)
qed

end

text \<open>The comparison of the code is one, NaN scores included: they beat nothing and nothing beats
  them.\<close>

lemma rank_better_iff: "rank_better us a b \<longleftrightarrow> fr_fused a \<noteq> NaN \<and> fr_fused b \<noteq> NaN
    \<and> (fr_fused b < fr_fused a \<or> fr_fused a = fr_fused b \<and> us (fr_id a) < us (fr_id b))"
  by (cases "fr_fused a = NaN"; cases "fr_fused b = NaN") (simp_all add: rank_better_def flt_def feq_def)

interpretation fusion_ranking: ranking "rank_better us" for us :: "uuid \<Rightarrow> string"
proof
  show "\<not> rank_better us b a" if "rank_better us a b" for a b
    using that unfolding rank_better_iff by (metis less_asym less_irrefl)
  show "rank_better us a c" if "rank_better us a b" "rank_better us b c" for a b c
    using that unfolding rank_better_iff by (metis less_trans)
qed

section \<open>The ranking of the code\<close>

text \<open>What the loop over the candidates leaves in its maps, candidate by candidate.\<close>

definition maps_ok :: "(uuid \<Rightarrow> f64 option) \<Rightarrow> f64 \<Rightarrow> f64 \<Rightarrow> chunk_candidate list \<Rightarrow> fusion_maps \<Rightarrow> bool" where
  "maps_ok lexNorm thr lw cs fm \<longleftrightarrow> distinct (fm_order fm)
     \<and> (\<forall>i. i \<in> set (fm_order fm) \<longleftrightarrow> fm_scores fm i \<noteq> None)
     \<and> (\<forall>i \<in> set (fm_order fm). \<exists>c \<in> set cs. cc_id c = i \<and> \<not> flt (cc_sem c) thr
          \<and> fm_sem fm i = Some (cc_sem c) \<and> fm_lex fm i = Some (map_get lexNorm i)
          \<and> fm_scores fm i = Some (fused_score lw (cc_sem c) (map_get lexNorm i)))
     \<and> (\<forall>c \<in> set cs. \<not> flt (cc_sem c) thr \<longrightarrow> cc_id c \<in> set (fm_order fm))"

lemma maps_ok_step:
  assumes "maps_ok lexNorm thr lw cs fm"
  shows "maps_ok lexNorm thr lw (cs @ [c]) (fusion_step lexNorm thr lw c fm)"
proof (cases "flt (cc_sem c) thr")
  case True
  then show ?thesis using assms by (auto simp: maps_ok_def fusion_step_def)
next
  case False
  then show ?thesis
    using assms unfolding maps_ok_def fusion_step_def by (auto simp: Let_def)
qed

lemma maps_ok_fold: "maps_ok lexNorm thr lw cs (fold (fusion_step lexNorm thr lw) cs no_maps)"
proof (induction cs rule: rev_induct)
  case Nil
  then show ?case by (simp add: maps_ok_def no_maps_def)
next
  case (snoc c cs)
  then show ?case by (simp add: maps_ok_step)
qed

lemma exchange_sort_set [simp]: "set (exchange_sort better xs) = set xs"
  by (metis exchange_sort_mset set_mset_mset)

lemma exchange_sort_distinct: "distinct (map f (exchange_sort better xs)) \<longleftrightarrow> distinct (map f xs)"
  by (metis exchange_sort_mset mset_eq_imp_distinct_iff mset_map)

lemma fusion_rows_ok:
  assumes "maps_ok lexNorm thr lw cs fm"
  shows "distinct (map fr_id (fusion_rows fm))"
    and "r \<in> set (fusion_rows fm) \<Longrightarrow> \<exists>c \<in> set cs. cc_id c = fr_id r \<and> \<not> flt (cc_sem c) thr
      \<and> fr_sem r = cc_sem c \<and> fr_lex r = map_get lexNorm (fr_id r)
      \<and> fr_fused r = fused_score lw (cc_sem c) (fr_lex r)"
    and "c \<in> set cs \<Longrightarrow> \<not> flt (cc_sem c) thr \<Longrightarrow> cc_id c \<in> fr_id ` set (fusion_rows fm)"
proof -
  show "distinct (map fr_id (fusion_rows fm))"
    using assms by (simp add: maps_ok_def fusion_rows_def o_def)
  show "\<exists>c \<in> set cs. cc_id c = fr_id r \<and> \<not> flt (cc_sem c) thr
      \<and> fr_sem r = cc_sem c \<and> fr_lex r = map_get lexNorm (fr_id r)
      \<and> fr_fused r = fused_score lw (cc_sem c) (fr_lex r)" if "r \<in> set (fusion_rows fm)"
  proof -
    from that obtain i where i: "i \<in> set (fm_order fm)" "r = \<lparr>fr_id = i, fr_sem = map_get (fm_sem fm) i,
        fr_lex = map_get (fm_lex fm) i, fr_fused = map_get (fm_scores fm) i\<rparr>"
      by (auto simp: fusion_rows_def)
    with assms obtain c where "c \<in> set cs" "cc_id c = i" "\<not> flt (cc_sem c) thr"
        "fm_sem fm i = Some (cc_sem c)" "fm_lex fm i = Some (map_get lexNorm i)"
        "fm_scores fm i = Some (fused_score lw (cc_sem c) (map_get lexNorm i))"
      unfolding maps_ok_def by blast
    with i show ?thesis by (intro bexI [of _ c]) (simp_all add: map_get_def)
  qed
  show "cc_id c \<in> fr_id ` set (fusion_rows fm)" if "c \<in> set cs" "\<not> flt (cc_sem c) thr"
    using assms that by (auto simp: maps_ok_def fusion_rows_def image_image)
qed

lemma ranking_rows:
  assumes "rows = RankChunksFusionDetail us dense lexical thr w"
  shows "distinct (map fr_id rows)"
    and "fr_id ` set rows = cc_id ` {c \<in> set dense. \<not> flt (cc_sem c) thr}"
    and "r \<in> set rows \<Longrightarrow> \<exists>c \<in> set dense. cc_id c = fr_id r \<and> \<not> flt (cc_sem c) thr \<and> fr_sem r = cc_sem c
         \<and> fr_lex r = map_get (lex_norms lexical) (fr_id r)
         \<and> fr_fused r = fused_score (clamp_weight w) (cc_sem c) (fr_lex r)"
    and "sorted_wrt (\<lambda>a b. \<not> rank_better us b a) rows"
proof -
  let ?fm = "fold (fusion_step (lex_norms lexical) thr (clamp_weight w)) dense no_maps"
  note ok = fusion_rows_ok [OF maps_ok_fold [of "lex_norms lexical" thr "clamp_weight w" dense]]
  have "fr_id ` set (fusion_rows ?fm) = cc_id ` {c \<in> set dense. \<not> flt (cc_sem c) thr}"
    using ok(2,3) by (force simp: image_iff)
  then show "fr_id ` set rows = cc_id ` {c \<in> set dense. \<not> flt (cc_sem c) thr}"
    by (simp add: assms RankChunksFusionDetail_def)
  show "distinct (map fr_id rows)"
    using ok(1) by (simp add: assms RankChunksFusionDetail_def exchange_sort_distinct)
  show "\<exists>c \<in> set dense. cc_id c = fr_id r \<and> \<not> flt (cc_sem c) thr \<and> fr_sem r = cc_sem c
      \<and> fr_lex r = map_get (lex_norms lexical) (fr_id r)
      \<and> fr_fused r = fused_score (clamp_weight w) (cc_sem c) (fr_lex r)" if "r \<in> set rows"
    using ok(2) that by (simp add: assms RankChunksFusionDetail_def)
  show "sorted_wrt (\<lambda>a b. \<not> rank_better us b a) rows"
    unfolding assms RankChunksFusionDetail_def by (rule fusion_ranking.exchange_sort_sorted)
qed

text \<open>C35. The ranking holds exactly the candidates past the semantic gate, each once, with the score
  that the fusion gives it, ordered so that no later row beats an earlier one.\<close>

theorem ranking_correct:
  assumes "rows = RankChunksFusionDetail us dense lexical thr w"
  shows "distinct (map fr_id rows)
    \<and> fr_id ` set rows = cc_id ` {c \<in> set dense. \<not> flt (cc_sem c) thr}
    \<and> (\<forall>r \<in> set rows. \<exists>c \<in> set dense. cc_id c = fr_id r \<and> fr_sem r = cc_sem c
         \<and> fr_lex r = map_get (lex_norms lexical) (fr_id r)
         \<and> fr_fused r = fused_score (clamp_weight w) (cc_sem c) (fr_lex r))
    \<and> sorted_wrt (\<lambda>a b. \<not> rank_better us b a) rows"
  using ranking_rows [OF assms] by blast

lemma ranking_correct_witness:
  "fr_id ` set (RankChunksFusionDetail (\<lambda>_. []) [\<lparr>cc_id = 5, cc_sem = Fin (1 / 2), cc_lex = Fin 0, cc_raw = Fin 0\<rparr>,
     \<lparr>cc_id = 6, cc_sem = Fin 0, cc_lex = Fin 0, cc_raw = Fin 0\<rparr>] [] (Fin (1 / 4)) (Fin 0)) = {5 :: uuid}"
proof -
  let ?d = "[\<lparr>cc_id = 5 :: uuid, cc_sem = Fin (1 / 2), cc_lex = Fin 0, cc_raw = Fin 0\<rparr>,
     \<lparr>cc_id = 6, cc_sem = Fin 0, cc_lex = Fin 0, cc_raw = Fin 0\<rparr>]"
  have "{c \<in> set ?d. \<not> flt (cc_sem c) (Fin (1 / 4))} = {?d ! 0}"
    by (auto simp: flt_def)
  then show ?thesis using ranking_correct [OF refl, of "\<lambda>_. []" ?d "[]" "Fin (1 / 4)" "Fin 0"] by simp
qed

text \<open>A NaN similarity, which pgvector returns for a zero vector, is not below any threshold: the
  semantic gate lets it through.\<close>

theorem nan_passes_gate:
  assumes "c \<in> set dense" and "cc_sem c = NaN"
  shows "cc_id c \<in> fr_id ` set (RankChunksFusionDetail us dense lexical thr w)"
  using ranking_rows(2) [OF refl, of us dense lexical thr w] assms by auto

section \<open>Bounds of the scores\<close>

lemma fround_between:
  assumes "canon (Fin u)" "0 \<le> x" "x \<le> u"
  obtains r where "fround x = Fin r" "0 \<le> r" "r \<le> u"
proof -
  have "fle (Fin 0) (fround x)" using assms(2) by (rule fround_nonneg)
  moreover have "fle (fround x) (Fin u)" using fround_mono [OF assms(3)] assms(1) by (simp add: canon_Fin)
  ultimately show thesis using that by (cases "fround x") (auto simp: fle_le less_eq_f64_def)
qed

lemma NormalizeLexical_bounds:
  assumes "canon (Fin x)"
  obtains y where "NormalizeLexical (Fin x) = Fin y" "0 \<le> y" "y \<le> 1"
proof (cases "x \<le> 0")
  case True
  then show thesis using that [of 0] by (simp add: NormalizeLexical_def)
next
  case False
  then have n: "NormalizeLexical (Fin x) = fdiv (Fin x) (fround (x + 1))" by (simp add: NormalizeLexical_def)
  have le: "fle (Fin x) (fround (x + 1))" using fround_mono [of x "x + 1"] assms by (simp add: canon_Fin)
  show thesis
  proof (cases "fround (x + 1)")
    case (Fin d)
    then have d: "x \<le> d" using le by simp
    have "0 \<le> x / d" "x / d \<le> 1" using False d by simp_all
    then obtain r where "fround (x / d) = Fin r" "0 \<le> r" "r \<le> 1"
      using fround_between [of 1 "x / d"] by (auto simp: canon_Fin fround_1)
    then show ?thesis using that n Fin False d by simp
  next
    case PInf
    then show ?thesis using that [of 0] n by simp
  next
    case NInf
    then show ?thesis using le by (auto simp: fle_le less_eq_f64_def)
  next
    case NaN
    then show ?thesis by simp
  qed
qed

lemma fused_score_bounds:
  assumes "canon (Fin l)" "0 \<le> l" "l \<le> 1" "0 \<le> s" "s \<le> 1" "0 \<le> x" "x \<le> 1"
  shows "fle (Fin 0) (fused_score (Fin l) (Fin s) (Fin x)) \<and> fle (fused_score (Fin l) (Fin s) (Fin x)) (Fin 1)"
proof -
  obtain r where r: "fround (1 - l) = Fin r" "0 \<le> r" "r \<le> 1" "\<bar>r - (1 - l)\<bar> \<le> pow2 (- 53)"
    using fround_unit [of "1 - l"] assms(2,3) by auto
  have "canon (Fin r)" using r(1) canon_fround [of "1 - l"] by simp
  then obtain p where p: "fround (r * s) = Fin p" "0 \<le> p" "p \<le> r"
    using fround_between [of r "r * s"] r(2) assms(4,5) by (auto simp: mult_left_le)
  obtain q where q: "fround (l * x) = Fin q" "0 \<le> q" "q \<le> l"
    using fround_between [OF assms(1), of "l * x"] assms(2,6,7) by (auto simp: mult_left_le)
  have f: "fused_score (Fin l) (Fin s) (Fin x) = fround (p + q)"
    by (simp add: fused_score_def fsub_def r(1) p(1) q(1))
  have "p + q \<le> 1 + pow2 (- 53)" using p(3) q(3) r(4) by linarith
  then show ?thesis unfolding f using fround_le_1 fround_nonneg p(2) q(2) by simp
qed

lemma clamp_weight_bounds:
  assumes "canon w" "w \<noteq> NaN"
  obtains l where "clamp_weight w = Fin l" "canon (Fin l)" "0 \<le> l" "l \<le> 1"
proof (cases w)
  case (Fin x)
  then show thesis
    using that [of 0] that [of 1] that [of x] assms(1)
    by (cases "x < 0"; cases "1 < x") (auto simp: clamp_weight_def canon_Fin fround_1)
qed (use that [of 0] that [of 1] assms in \<open>auto simp: clamp_weight_def canon_Fin fround_1 flt_def\<close>)

lemma lex_norms_range: "lex_norms lexical i = Some y \<Longrightarrow> \<exists>c \<in> set lexical. y = NormalizeLexical (cc_raw c)"
proof (induction lexical rule: rev_induct)
  case (snoc c cs)
  then show ?case by (auto simp: lex_norms_def split: if_splits)
qed (simp add: lex_norms_def)

text \<open>With cosine similarities at most 1, a gate that is not negative and finite lexical ranks,
  every fused score lies between 0 and 1, rounding included.\<close>

theorem fused_in_unit_interval:
  assumes "\<forall>c \<in> set dense. \<exists>s. cc_sem c = Fin s \<and> s \<le> 1"
    and "\<forall>c \<in> set lexical. \<exists>x. cc_raw c = Fin x \<and> canon (Fin x)"
    and "0 \<le> t" and "canon w" "w \<noteq> NaN"
    and "r \<in> set (RankChunksFusionDetail us dense lexical (Fin t) w)"
  shows "fle (Fin 0) (fr_fused r) \<and> fle (fr_fused r) (Fin 1)"
proof -
  obtain c where c: "c \<in> set dense" "fr_sem r = cc_sem c" "\<not> flt (fr_sem r) (Fin t)"
      "fr_lex r = map_get (lex_norms lexical) (fr_id r)"
      "fr_fused r = fused_score (clamp_weight w) (fr_sem r) (fr_lex r)"
    using ranking_rows(3) [OF refl assms(6)] by metis
  obtain s where s: "fr_sem r = Fin s" "0 \<le> s" "s \<le> 1" using assms(1,3) c by fastforce
  obtain l where l: "clamp_weight w = Fin l" "canon (Fin l)" "0 \<le> l" "l \<le> 1"
    using clamp_weight_bounds [OF assms(4,5)] by blast
  obtain x where x: "fr_lex r = Fin x" "0 \<le> x" "x \<le> 1"
  proof (cases "lex_norms lexical (fr_id r)")
    case None
    then show thesis using that [of 0] c(4) by (simp add: map_get_def)
  next
    case (Some y)
    then obtain d z where d: "d \<in> set lexical" "y = NormalizeLexical (cc_raw d)" "cc_raw d = Fin z" "canon (Fin z)"
      using lex_norms_range assms(2) by blast
    then obtain y' where "NormalizeLexical (Fin z) = Fin y'" "0 \<le> y'" "y' \<le> 1"
      using NormalizeLexical_bounds [OF d(4)] by blast
    then show thesis using that c(4) Some d by (simp add: map_get_def)
  qed
  show ?thesis using fused_score_bounds [OF l(2-4) s(2,3) x(2,3)] unfolding c(5) s(1) l(1) x(1) .
qed

lemma fused_in_unit_interval_witness:
  "fle (fused_score (Fin (1 / 2)) (Fin 1) (Fin 0)) (Fin 1)
   \<and> list_all (\<lambda>r. fle (fr_fused r) (Fin 1)) (RankChunksFusionDetail (\<lambda>_. [])
        [\<lparr>cc_id = 1, cc_sem = Fin 1, cc_lex = Fin 0, cc_raw = Fin 0\<rparr>] [] (Fin 0) (Fin 1))"
proof
  have "canon (Fin (1 / 2))" using fround_dyadic [of 1 1] by (simp add: canon_Fin)
  then show "fle (fused_score (Fin (1 / 2)) (Fin 1) (Fin 0)) (Fin 1)"
    using fused_score_bounds [of "1 / 2" 1 0] by simp
  show "list_all (\<lambda>r. fle (fr_fused r) (Fin 1)) (RankChunksFusionDetail (\<lambda>_. [])
      [\<lparr>cc_id = 1, cc_sem = Fin 1, cc_lex = Fin 0, cc_raw = Fin 0\<rparr>] [] (Fin 0) (Fin 1))"
    unfolding list_all_iff by (intro ballI) (erule fused_in_unit_interval [THEN conjunct2, rotated -1];
        simp add: canon_Fin fround_1)
qed

lemma nan_passes_gate_witness:
  "(5 :: uuid) \<in> fr_id ` set (RankChunksFusionDetail (\<lambda>_. [])
     [\<lparr>cc_id = 5, cc_sem = NaN, cc_lex = Fin 0, cc_raw = Fin 0\<rparr>] [] (Fin 1) (Fin 0))"
  using nan_passes_gate [of "\<lparr>cc_id = 5, cc_sem = NaN, cc_lex = Fin 0, cc_raw = Fin 0\<rparr>"] by simp

end
