(* ===== verification/Retrieve.thy ===== *)
theory Retrieve
  imports Ingest Scoring
begin

text \<open>
  The read side of \<open>internal/core/engine.go\<close>: \<open>RetrieveWithDebug\<close> (search, fusion, session boost,
  packing under a token budget), \<open>GetChunkByID\<close>, and the way a stored payload becomes a chunk body.
  \<open>sort.Slice\<close> is written out as the insertion sort that the standard library uses on short slices;
  on longer ones it promises a sorted slice only, which is the same list whenever the comparison
  orders the elements (\<open>Retrieve_Laws\<close>).
\<close>

section \<open>The session preference\<close>

record retrieve_opts =
  ro_session_key :: string
  ro_session_mode :: string
  ro_content_mode :: string

text \<open>The element goes back over those it beats; the list holds the sorted prefix, last one first.\<close>

fun insert_back :: "('a \<Rightarrow> 'a \<Rightarrow> bool) \<Rightarrow> 'a \<Rightarrow> 'a list \<Rightarrow> 'a list" where
  "insert_back better x [] = [x]"
| "insert_back better x (y # ys) = (if better x y then y # insert_back better x ys else x # y # ys)"

definition sort_slice :: "('a \<Rightarrow> 'a \<Rightarrow> bool) \<Rightarrow> 'a list \<Rightarrow> 'a list" where
  "sort_slice better xs = rev (fold (insert_back better) xs [])"

definition score_better :: "(uuid \<Rightarrow> string) \<Rightarrow> scored_chunk \<Rightarrow> scored_chunk \<Rightarrow> bool" where
  "score_better us a b \<longleftrightarrow>
     (if feq (sc_score a) (sc_score b) then us (sc_id a) < us (sc_id b)
      else flt (sc_score b) (sc_score a))"

definition boosted :: "string \<Rightarrow> (uuid \<Rightarrow> string option option) \<Rightarrow> uuid \<Rightarrow> bool" where
  "boosted sessionKey byChunk i \<longleftrightarrow> byChunk i = Some (Some sessionKey)"

definition boost_scores ::
  "f64 \<Rightarrow> string \<Rightarrow> (uuid \<Rightarrow> string option option) \<Rightarrow> scored_chunk list \<Rightarrow> scored_chunk list" where
  "boost_scores boost sessionKey byChunk s =
     map (\<lambda>c. if boosted sessionKey byChunk (sc_id c) then c\<lparr>sc_score := fmul (sc_score c) boost\<rparr> else c) s"

definition boostSessionPreference ::
  "env \<Rightarrow> engine \<Rightarrow> scored_chunk list \<Rightarrow> string \<Rightarrow> (uuid \<Rightarrow> string option option) \<Rightarrow> scored_chunk list" where
  "boostSessionPreference env e ranked sessionKey byChunk =
     (case en_tuning e of
        None \<Rightarrow> ranked
      | Some s \<Rightarrow>
          if sessionKey = [] \<or> ranked = [] then ranked
          else
            (let boost0 = rt_session_boost (Current s);
                 boost = (if flt boost0 (Fin 1) then fround (115 / 100) else boost0)
             in sort_slice (score_better (ev_uuid_str env)) (boost_scores boost sessionKey byChunk ranked)))"

section \<open>From a payload to a body\<close>

definition nonce_of :: "bytes option \<Rightarrow> bytes" where
  "nonce_of n = (case n of None \<Rightarrow> [] | Some b \<Rightarrow> b)"

definition decryptPayloadString :: "env \<Rightarrow> session option \<Rightarrow> chunk_payload \<Rightarrow> string res" where
  "decryptPayloadString env sess p =
     (case cp_body p of
        Some s \<Rightarrow> Inr s
      | None \<Rightarrow>
          if nonce_of (cp_ciphertext p) = [] then Inl (EMsg ''empty payload'')
          else if no_dek sess then Inl (EMsg ''missing dek'')
          else OpenChunk env (dek_of sess) (nonce_of (cp_nonce p)) (nonce_of (cp_ciphertext p)))"

definition sourceDocumentPlaintext :: "env \<Rightarrow> engine \<Rightarrow> session option \<Rightarrow> doc_row \<Rightarrow> string res" where
  "sourceDocumentPlaintext env e sess d =
     (case sd_body d of
        Some s \<Rightarrow> Inr s
      | None \<Rightarrow>
          if nonce_of (sd_ciphertext d) = [] then Inl (EMsg ''empty source document payload'')
          else if en_enc e \<and> no_dek sess then Inl (EMsg ''vault must be unlocked'')
          else if sess = None then Inl (EPanic ''nil pointer dereference'')
          else OpenChunk env (dek_of sess) (nonce_of (sd_nonce d)) (nonce_of (sd_ciphertext d)))"

text \<open>The kind and the metadata of the row complete what the payload says.\<close>

definition merge_meta :: "chunk_payload \<Rightarrow> chunk_body \<Rightarrow> chunk_body" where
  "merge_meta p cb0 =
     (let cb = (if trim_space (cp_kind p) \<noteq> [] \<and> trim_space (cb_kind cb0) = []
                then cb0\<lparr>cb_kind := cp_kind p\<rparr> else cb0)
      in if jmap_nonempty (cp_meta p)
         then (case cb_meta cb of
                 None \<Rightarrow> cb\<lparr>cb_meta := cp_meta p\<rparr>
               | Some m \<Rightarrow> cb\<lparr>cb_meta := Some (update_all (jmap_entries (cp_meta p)) m)\<rparr>)
         else cb)"

definition payloadToChunkBody ::
  "env \<Rightarrow> engine \<Rightarrow> session option \<Rightarrow> chunk_payload \<Rightarrow> world \<Rightarrow> chunk_body res \<times> world" where
  "payloadToChunkBody env e sess p w =
     (case decryptPayloadString env sess p of
        Inl er \<Rightarrow> (Inl er, w)
      | Inr plain \<Rightarrow>
          (let cb = merge_meta p (ParseChunkPlaintext plain) in
           case cp_source p of
             None \<Rightarrow> (Inr cb, w)
           | Some i \<Rightarrow>
               if cp_vault p = uuid_nil then (Inr cb, w)
               else
                 (case GetSourceDocumentForVault env (cp_vault p) i w of
                    (Inl er, w1) \<Rightarrow> (Inl er, w1)
                  | (Inr srow, w1) \<Rightarrow>
                      (case sourceDocumentPlaintext env e sess srow of
                         Inl er \<Rightarrow> (Inl er, w1)
                       | Inr full \<Rightarrow>
                           (Inr (if trim_space (cb_body cb) = [] then cb\<lparr>cb_body := full\<rparr> else cb), w1)))))"

section \<open>Snippets\<close>

record snippet =
  sp_id :: string
  sp_text :: string
  sp_score :: f64
  sp_abstract :: string
  sp_full :: string
  sp_available :: bool
  sp_kind :: string

definition resolveRetrieveContentMode :: "(rune \<Rightarrow> rune) \<Rightarrow> string \<Rightarrow> chunk_body \<Rightarrow> string" where
  "resolveRetrieveContentMode lw req cb =
     (let r = to_lower lw (trim_space req) in
      if r = [] \<or> r = ''auto'' \<or> r = ''default''
      then (if trim_space (cb_abstract cb) \<noteq> [] then ''abstract'' else ''full'')
      else r)"

definition buildRetrieveSnippet :: "string \<Rightarrow> chunk_body \<Rightarrow> f64 \<Rightarrow> string \<Rightarrow> snippet" where
  "buildRetrieveSnippet i cb score resMode =
     (let s = \<lparr>sp_id = i, sp_text = [], sp_score = score, sp_abstract = [], sp_full = [],
               sp_available = False, sp_kind = cb_kind cb\<rparr> in
      if resMode = ''full'' then s\<lparr>sp_text := cb_body cb\<rparr>
      else if resMode = ''both'' then
        s\<lparr>sp_text := (if trim_space (cb_abstract cb) = [] then cb_body cb else trim_space (cb_abstract cb)),
          sp_abstract := cb_abstract cb, sp_full := cb_body cb,
          sp_available := (trim_space (cb_body cb) \<noteq> [])\<rparr>
      else if trim_space (cb_abstract cb) \<noteq> [] then
        s\<lparr>sp_text := cb_abstract cb, sp_abstract := cb_abstract cb,
          sp_available := (trim_space (cb_body cb) \<noteq> [] \<and> trim_space (cb_abstract cb) \<noteq> trim_space (cb_body cb))\<rparr>
      else s\<lparr>sp_text := cb_body cb\<rparr>)"

definition estimateTokens :: "string \<Rightarrow> int" where
  "estimateTokens s = (if s = [] then 0 else max 1 (int (rune_count s) div 4))"

section \<open>Debug information\<close>

record dense_debug_row =
  dd_id :: string
  dd_sem :: f64
  dd_passed :: bool

record lexical_debug_row =
  ld_id :: string
  ld_raw :: f64
  ld_norm :: f64

record fused_debug_row =
  fd_id :: string
  fd_sem :: f64
  fd_lex :: f64
  fd_fused :: f64
  fd_boosted :: bool
  fd_final :: f64

text \<open>The reason of a skip is always the same text.\<close>

record packing_debug =
  pk_included :: "(string \<times> int) list"
  pk_over_budget :: "(string \<times> int) list"
  pk_over_count :: "string list"
  pk_stopped :: bool

record retrieve_params =
  rp_sem_threshold :: f64
  rp_lex_weight :: f64
  rp_model :: string
  rp_k_dense :: int
  rp_max_chunks :: int
  rp_max_tokens :: int
  rp_session_mode :: string
  rp_session_key :: string
  rp_content_mode :: string

record retrieve_debug =
  rd_params :: retrieve_params
  rd_dense :: "dense_debug_row list"
  rd_lexical :: "lexical_debug_row list"
  rd_fused :: "fused_debug_row list"
  rd_packing :: packing_debug

definition no_packing :: packing_debug where
  "no_packing = \<lparr>pk_included = [], pk_over_budget = [], pk_over_count = [], pk_stopped = False\<rparr>"

section \<open>Packing\<close>

text \<open>
  The last loop of \<open>RetrieveWithDebug\<close>: a chunk that cannot be read is passed over, one that does
  not fit the budget is skipped, and the loop stops at \<open>maxChunks\<close> snippets. A panic of a callee is
  not an error that the loop could pass over: it ends the call. The debug rows are built along and
  dropped by the caller when nobody asked for them; token counts are sums of lengths of texts in
  memory and do not reach the end of the int range.
\<close>

definition is_panic :: "err \<Rightarrow> bool" where
  "is_panic er \<longleftrightarrow> (case er of EPanic _ \<Rightarrow> True | _ \<Rightarrow> False)"

fun pack_loop ::
  "env \<Rightarrow> engine \<Rightarrow> session option \<Rightarrow> string \<Rightarrow> int \<Rightarrow> int \<Rightarrow> scored_chunk list \<Rightarrow> int
   \<Rightarrow> snippet list \<Rightarrow> packing_debug \<Rightarrow> world \<Rightarrow> (snippet list \<times> packing_debug) res \<times> world" where
  "pack_loop env e sess reqCM maxChunks maxTokens [] used out pk w = (Inr (out, pk), w)"
| "pack_loop env e sess reqCM maxChunks maxTokens (r # rs) used out pk w =
     (if maxChunks \<le> int (length out) then
        (Inr (out, pk\<lparr>pk_over_count := pk_over_count pk @ map (\<lambda>c. ev_uuid_str env (sc_id c)) (r # rs),
                      pk_stopped := True\<rparr>), w)
      else
        (case GetChunkPayload env (sc_id r) w of
           (Inl _, w1) \<Rightarrow> pack_loop env e sess reqCM maxChunks maxTokens rs used out pk w1
         | (Inr payload, w1) \<Rightarrow>
             (case payloadToChunkBody env e sess payload w1 of
                (Inl er, w2) \<Rightarrow>
                  if is_panic er then (Inl er, w2)
                  else pack_loop env e sess reqCM maxChunks maxTokens rs used out pk w2
              | (Inr cb, w2) \<Rightarrow>
                  (let i = ev_uuid_str env (sc_id r);
                       resMode = resolveRetrieveContentMode (ev_lower env) reqCM cb;
                       est = EstimatedReturnTokens (ev_lower env) cb resMode
                   in if 0 < maxTokens \<and> maxTokens < used + est
                      then pack_loop env e sess reqCM maxChunks maxTokens rs used out
                             (pk\<lparr>pk_over_budget := pk_over_budget pk @ [(i, est)]\<rparr>) w2
                      else pack_loop env e sess reqCM maxChunks maxTokens rs (used + est)
                             (out @ [buildRetrieveSnippet i cb (sc_score r) resMode])
                             (pk\<lparr>pk_included := pk_included pk @ [(i, est)]\<rparr>) w2))))"

section \<open>RetrieveWithDebug\<close>

definition effective_max_chunks :: "runtime_tuning \<Rightarrow> int \<Rightarrow> int" where
  "effective_max_chunks tn maxChunks =
     (if maxChunks \<le> 0
      then (if rt_default_max_chunks tn \<le> 0 then 8 else rt_default_max_chunks tn)
      else maxChunks)"

definition k_dense :: "runtime_tuning \<Rightarrow> int \<Rightarrow> int" where
  "k_dense tn limit =
     (let mult = (if rt_k_dense_mult tn < 1 then 4 else rt_k_dense_mult tn); k = i64 (limit * mult); m = rt_k_dense_min tn
      in if 0 < m \<and> k < m then m else k)"

definition or_default :: "string \<Rightarrow> string \<Rightarrow> string" where
  "or_default d s = (if s = [] then d else s)"

definition dense_debug :: "env \<Rightarrow> f64 \<Rightarrow> chunk_candidate \<Rightarrow> dense_debug_row" where
  "dense_debug env semT c =
     \<lparr>dd_id = ev_uuid_str env (cc_id c), dd_sem = cc_sem c, dd_passed = fle semT (cc_sem c)\<rparr>"

definition lexical_debug :: "env \<Rightarrow> chunk_candidate \<Rightarrow> lexical_debug_row" where
  "lexical_debug env c =
     \<lparr>ld_id = ev_uuid_str env (cc_id c), ld_raw = cc_raw c, ld_norm = NormalizeLexical (cc_raw c)\<rparr>"

definition fused_debug ::
  "env \<Rightarrow> fusion_row list \<Rightarrow> bool \<Rightarrow> string \<Rightarrow> (uuid \<Rightarrow> string option option) \<Rightarrow> scored_chunk \<Rightarrow> fused_debug_row" where
  "fused_debug env rows prefer sKey keyMap sc =
     (let fr = (case row_at fr_id (sc_id sc) rows of
                  None \<Rightarrow> \<lparr>fr_id = uuid_nil, fr_sem = Fin 0, fr_lex = Fin 0, fr_fused = Fin 0\<rparr> | Some r \<Rightarrow> r)
      in \<lparr>fd_id = ev_uuid_str env (sc_id sc), fd_sem = fr_sem fr, fd_lex = fr_lex fr, fd_fused = fr_fused fr,
          fd_boosted = (prefer \<and> boosted sKey keyMap (sc_id sc)), fd_final = sc_score sc\<rparr>)"

text \<open>The ranking after the boost, with the keys it was based on: an error of the look-up leaves the
  ranking as it is, and an empty map stands for the nil map.\<close>

definition prefer_session ::
  "env \<Rightarrow> engine \<Rightarrow> bool \<Rightarrow> string \<Rightarrow> scored_chunk list \<Rightarrow> world
   \<Rightarrow> (scored_chunk list \<times> (uuid \<Rightarrow> string option option)) \<times> world" where
  "prefer_session env e prefer sKey ranked w =
     (if prefer \<and> ranked \<noteq> [] then
        (case IngestSessionKeysByChunkIDs env (map sc_id ranked) w of
           (Inl _, w1) \<Rightarrow> ((ranked, \<lambda>_. None), w1)
         | (Inr keyMap, w1) \<Rightarrow> ((boostSessionPreference env e ranked sKey keyMap, keyMap), w1))
      else ((ranked, \<lambda>_. None), w))"

definition RetrieveWithDebug ::
  "env \<Rightarrow> engine \<Rightarrow> uuid \<Rightarrow> string \<Rightarrow> string \<Rightarrow> int \<Rightarrow> int \<Rightarrow> session option \<Rightarrow> retrieve_opts \<Rightarrow> bool \<Rightarrow> world
   \<Rightarrow> (snippet list \<times> retrieve_debug option) res \<times> world" where
  "RetrieveWithDebug env e vaultID userID qtext maxChunks0 maxTokens sess opts wantDebug w =
     (if en_enc e \<and> no_dek sess then (Inl (EMsg ''vault must be unlocked''), w)
      else if \<not> en_oa e \<or> en_key e = [] then (Inl EOpenAIRequired, w)
      else
        (let tn = en_tn e;
             maxChunks = effective_max_chunks tn maxChunks0;
             kDense = k_dense tn maxChunks;
             model = rt_embedding_model tn
         in case oa_embed env model [qtext] w of
              (Inl er, w1) \<Rightarrow> (Inl er, w1)
            | (Inr vecs, w1) \<Rightarrow>
                if vecs = [] then (Inl (EMsg ''empty embedding''), w1)
                else
                  (let mode = or_default ''all'' (to_lower (ev_lower env) (trim_space (ro_session_mode opts)));
                       sKey = trim_space (ro_session_key opts);
                       onlySession = (mode = ''only'' \<and> sKey \<noteq> []);
                       prefer = (mode = ''prefer'' \<and> sKey \<noteq> []);
                       semT = rt_semantic_threshold tn;
                       lw = rt_fusion_lexical_weight tn
                   in case SearchDense env vaultID userID model (hd vecs) kDense sKey onlySession w1 of
                        (Inl er, w2) \<Rightarrow> (Inl er, w2)
                      | (Inr dense, w2) \<Rightarrow>
                          (case SearchLexical env vaultID userID qtext kDense sKey onlySession w2 of
                             (Inl er, w3) \<Rightarrow> (Inl er, w3)
                           | (Inr lexical, w3) \<Rightarrow>
                               (let rows = RankChunksFusionDetail (ev_uuid_str env) dense lexical semT lw;
                                    ranked0 = map (\<lambda>r. \<lparr>sc_id = fr_id r, sc_score = fr_fused r\<rparr>) rows;
                                    (pref, w4) = prefer_session env e prefer sKey ranked0 w3; ranked = fst pref; keyMap = snd pref;
                                    reqCM = or_default ''auto'' (to_lower (ev_lower env) (trim_space (ro_content_mode opts)))
                                in case pack_loop env e sess reqCM maxChunks maxTokens ranked 0 [] no_packing w4 of
                                     (Inl er, w5) \<Rightarrow> (Inl er, w5)
                                   | (Inr (out, pk), w5) \<Rightarrow>
                                       (Inr (out, if wantDebug then Some
                                          \<lparr>rd_params = \<lparr>rp_sem_threshold = semT, rp_lex_weight = lw, rp_model = model,
                                             rp_k_dense = kDense, rp_max_chunks = maxChunks,
                                             rp_max_tokens = maxTokens, rp_session_mode = mode,
                                             rp_session_key = sKey, rp_content_mode = reqCM\<rparr>,
                                           rd_dense = map (dense_debug env semT) dense,
                                           rd_lexical = map (lexical_debug env) lexical,
                                           rd_fused = map (fused_debug env rows prefer sKey keyMap) ranked,
                                           rd_packing = pk\<rparr> else None), w5))))))"

definition Retrieve ::
  "env \<Rightarrow> engine \<Rightarrow> uuid \<Rightarrow> string \<Rightarrow> string \<Rightarrow> int \<Rightarrow> int \<Rightarrow> session option \<Rightarrow> retrieve_opts \<Rightarrow> world
   \<Rightarrow> snippet list res \<times> world" where
  "Retrieve env e vaultID userID qtext maxChunks maxTokens sess opts w =
     (case RetrieveWithDebug env e vaultID userID qtext maxChunks maxTokens sess opts False w of
        (Inl er, w1) \<Rightarrow> (Inl er, w1) | (Inr (snips, _), w1) \<Rightarrow> (Inr snips, w1))"

section \<open>GetChunkByID\<close>

record chunk_get_result =
  cg_id :: string
  cg_user :: string
  cg_text :: string
  cg_abstract :: string
  cg_kind :: string
  cg_meta :: jmap
  cg_source :: string
  cg_model :: string
  cg_created :: instant
  cg_session_key :: "string option"
  cg_schema :: int

definition GetChunkByID ::
  "env \<Rightarrow> engine \<Rightarrow> uuid \<Rightarrow> uuid \<Rightarrow> session option \<Rightarrow> world \<Rightarrow> chunk_get_result res \<times> world" where
  "GetChunkByID env e vaultID chunkID sess w =
     (if en_enc e \<and> no_dek sess then (Inl (EMsg ''vault must be unlocked''), w)
      else
        (case GetChunkForVault env vaultID chunkID w of
           (Inl er, w1) \<Rightarrow> (Inl er, w1)
         | (Inr row, w1) \<Rightarrow>
             (let p = cv_payload row in
              case payloadToChunkBody env e sess p w1 of
                (Inl er, w2) \<Rightarrow> (Inl er, w2)
              | (Inr cb, w2) \<Rightarrow>
                  (Inr \<lparr>cg_id = ev_uuid_str env (cp_id p), cg_user = cv_user row, cg_text = cb_body cb,
                        cg_abstract = cb_abstract cb, cg_kind = cb_kind cb, cg_meta = cb_meta cb,
                        cg_source = (case cp_source p of None \<Rightarrow> [] | Some i \<Rightarrow> ev_uuid_str env i),
                        cg_model = cp_model p, cg_created = cv_created row,
                        cg_session_key = cv_session_key row, cg_schema = cv_schema row\<rparr>, w2))))"

end
