(* ===== verification/Boot.thy ===== *)
theory Boot
  imports Retrieve
begin

text \<open>
  The start of the service: \<open>internal/config/config.go\<close> (settings from the process environment) and
  \<open>cmd/gvsvd/main.go\<close> (the checks and the unlocking that happen before the first request is served).
  The process environment, the password file, the connection to the database, the migrations of
  \<open>goose\<close> and the listening socket belong to the operating system: the record \<open>os\<close>. The texts of
  errors are cut where the code quotes a value with \<open>%q\<close>; log lines of the start are left out.
\<close>

section \<open>The process environment\<close>

record os =
  os_env :: "string \<Rightarrow> string"              \<comment> \<open>\<open>os.Getenv\<close>: empty when unset\<close>
  os_file :: "string \<Rightarrow> bytes res"           \<comment> \<open>\<open>os.ReadFile\<close>\<close>
  os_pool :: "string \<Rightarrow> unit res"            \<comment> \<open>\<open>store.NewPool\<close> on a connection string\<close>
  os_migrate :: "string \<Rightarrow> db \<Rightarrow> unit res \<times> db"
  os_listen :: "string \<Rightarrow> unit res"

definition getEnv :: "os \<Rightarrow> string \<Rightarrow> string \<Rightarrow> string" where
  "getEnv os k d = (if os_env os k \<noteq> [] then os_env os k else d)"

text \<open>
  \<open>strconv.ParseUint(s, 10, 64)\<close> reads digit by digit and stops at the first that does not fit or is
  no digit, whichever comes first; \<open>strconv.Atoi\<close> adds a sign. A value out of range comes back
  clamped, beside the error: the flag is false.
\<close>

datatype digits = Digits int | NotDigits | TooLarge

fun scan_uint :: "string \<Rightarrow> int \<Rightarrow> digits" where
  "scan_uint [] n = Digits n"
| "scan_uint (c # s) n =
     (if \<not> is_digit c then NotDigits
      else let n' = n * 10 + (int (byte c) - 48) in if 2 ^ 64 \<le> n' then TooLarge else scan_uint s n')"

definition parse_uint :: "string \<Rightarrow> digits" where
  "parse_uint s = (if s = [] then NotDigits else scan_uint s 0)"

definition Atoi :: "string \<Rightarrow> int \<times> bool" where
  "Atoi s =
     (let neg = (s \<noteq> [] \<and> hd s = CHR ''-'');
          t = (if s \<noteq> [] \<and> (hd s = CHR ''-'' \<or> hd s = CHR ''+'') then tl s else s)
      in case parse_uint t of
           NotDigits \<Rightarrow> (0, False)
         | TooLarge \<Rightarrow> (if neg then - (2 ^ 63) else 2 ^ 63 - 1, False)
         | Digits n \<Rightarrow>
             if neg then (if 2 ^ 63 < n then (- (2 ^ 63), False) else (- n, True))
             else (if 2 ^ 63 \<le> n then (2 ^ 63 - 1, False) else (n, True)))"

definition parseBoolEnv :: "(rune \<Rightarrow> rune) \<Rightarrow> os \<Rightarrow> string \<Rightarrow> bool \<Rightarrow> bool" where
  "parseBoolEnv lw os key d =
     (let v = to_lower lw (trim_space (os_env os key)) in
      if v = [] then d
      else if v \<in> {''1'', ''t'', ''true'', ''yes'', ''y'', ''on''} then True
      else if v \<in> {''0'', ''f'', ''false'', ''no'', ''n'', ''off''} then False
      else d)"

definition normalizeListenAddr :: "string \<Rightarrow> string" where
  "normalizeListenAddr addr =
     (let a = trim_space addr in
      if a = [] then '':8080''
      else if CHR '':'' \<in> set a then a
      else if snd (Atoi a) then '':'' @ a
      else a)"

section \<open>Settings\<close>

datatype encryption_mode = EncryptionOff | EncryptionOn

record config =
  cf_http_addr :: string
  cf_tuning_file :: string
  cf_debug_auth :: bool
  cf_debug_full :: bool
  cf_db_url :: string
  cf_enc :: encryption_mode
  cf_api_key :: string
  cf_base_url :: string
  cf_embed_url :: string
  cf_idle :: duration
  cf_max :: duration
  cf_dim :: nat

text \<open>A count from the environment that must be positive, and its unit: the product is a 64-bit \<open>Duration\<close>.\<close>

definition env_count :: "os \<Rightarrow> string \<Rightarrow> string \<Rightarrow> int \<Rightarrow> int" where
  "env_count os key d n = (let x = fst (Atoi (getEnv os key d)) in if x \<le> 0 then n else x)"

definition parse_encryption :: "string \<Rightarrow> encryption_mode res" where
  "parse_encryption raw =
     (if raw \<in> {''off'', ''false'', ''0''} then Inr EncryptionOff
      else if raw \<in> {''on'', ''true'', ''1''} then Inr EncryptionOn
      else Inl (EMsg ''GV_ENCRYPTION must be off or on, got ''))"

definition Load :: "(rune \<Rightarrow> rune) \<Rightarrow> os \<Rightarrow> config res" where
  "Load lw os =
     (case parse_encryption (to_lower lw (trim_space (getEnv os ''GV_ENCRYPTION'' ''on''))) of
        Inl e \<Rightarrow> Inl e
      | Inr enc \<Rightarrow>
          Inr \<lparr>cf_http_addr = normalizeListenAddr (getEnv os ''GV_HTTP_ADDR'' '':8080''),
               cf_tuning_file = getEnv os ''GV_Tuning_FILE'' ''configs/gvsvd.yaml'',
               cf_debug_auth = parseBoolEnv lw os ''GV_DEBUG_AUTH'' False,
               cf_debug_full = parseBoolEnv lw os ''GV_DEBUG_AUTH_FULL'' False,
               cf_db_url = os_env os ''DATABASE_URL'',
               cf_enc = enc,
               cf_api_key = os_env os ''OPENAI_API_KEY'',
               cf_base_url = getEnv os ''OPENAI_BASE_URL'' ''https://api.openai.com/v1'',
               cf_embed_url = trim_space (os_env os ''OPENAI_EMBEDDINGS_URL''),
               cf_idle = i64 (env_count os ''GV_SESSION_IDLE_MINUTES'' ''60'' 60 * ns_minute),
               cf_max = i64 (env_count os ''GV_SESSION_MAX_HOURS'' ''12'' 12 * ns_hour),
               cf_dim = 1536\<rparr>)"

text \<open>Encryption without a provider key is looked at and let pass.\<close>

definition ValidateConfig :: "config \<Rightarrow> unit res" where
  "ValidateConfig c = (if cf_db_url c = [] then Inl (EMsg ''DATABASE_URL is required'') else Inr ())"

section \<open>Checks and unlocking at the start\<close>

definition assertEncryptionMode :: "env \<Rightarrow> config \<Rightarrow> world \<Rightarrow> unit res \<times> world" where
  "assertEncryptionMode env c w =
     (case GetAnyVault env w of
        (Inl e, w1) \<Rightarrow> (Inl e, w1)
      | (Inr None, w1) \<Rightarrow> (Inr (), w1)
      | (Inr (Some v), w1) \<Rightarrow>
          if v_enc v \<noteq> (cf_enc c = EncryptionOn)
          then (Inl (EMsg ''GV_ENCRYPTION does not match existing vault: refusing to start''), w1)
          else (Inr (), w1))"

text \<open>\<open>strings.TrimRight(s, \"\r\n\")\<close>.\<close>

definition trim_newlines :: "string \<Rightarrow> string" where
  "trim_newlines s = rev (dropWhile (\<lambda>c. c = chr 13 \<or> c = chr 10) (rev s))"

definition readAutoUnlockPassword :: "os \<Rightarrow> string res" where
  "readAutoUnlockPassword os =
     (let p = trim_space (os_env os ''GHOSTVAULT_PASSWORD_FILE'') in
      if p \<noteq> [] then
        (case os_file os p of
           Inl e \<Rightarrow> Inl e
         | Inr b \<Rightarrow>
             if trim_newlines b = [] then Inl (EMsg (''GHOSTVAULT_PASSWORD_FILE='' @ p @ '' is empty''))
             else Inr (trim_newlines b))
      else if os_env os ''GHOSTVAULT_PASSWORD'' \<noteq> [] then Inr (os_env os ''GHOSTVAULT_PASSWORD'')
      else Inl (EMsg ''auto_unlock requires GHOSTVAULT_PASSWORD_FILE (preferred) or GHOSTVAULT_PASSWORD''))"

text \<open>
  The wrapped key of a vault row; the conversions from \<open>int32\<close> wrap. \<open>None\<close> when a parameter of the
  key derivation is missing. The same lines serve the start and the unlock handler.
\<close>

definition row_wrapped_dek :: "vault_row \<Rightarrow> wrapped_dek option" where
  "row_wrapped_dek v =
     (case (v_argon_time v, v_argon_mem v, v_argon_par v) of
        (Some t, Some m, Some p) \<Rightarrow>
          Some \<lparr>wd_salt = (case v_salt v of None \<Rightarrow> [] | Some b \<Rightarrow> b),
                wd_time = word_of_int t, wd_mem = word_of_int m, wd_par = word_of_int p,
                wd_blob = (case v_wrapped v of None \<Rightarrow> [] | Some b \<Rightarrow> b)\<rparr>
      | _ \<Rightarrow> None)"

text \<open>\<open>var vaultState auth.VaultState\<close>: no vault, no key.\<close>

definition no_vault_state :: vault_state where
  "no_vault_state = \<lparr>vs_id = uuid_nil, vs_dek = []\<rparr>"

definition initAuthMode :: "env \<Rightarrow> os \<Rightarrow> vault_state \<Rightarrow> world \<Rightarrow> vault_state res \<times> world" where
  "initAuthMode env os st w =
     (case GetAnyVault env w of
        (Inl e, w1) \<Rightarrow> (Inl e, w1)
      | (Inr None, w1) \<Rightarrow> (Inr st, w1)
      | (Inr (Some v), w1) \<Rightarrow>
          (let st1 = st\<lparr>vs_id := v_id v\<rparr>; mode = v_auth_mode v in
           if mode = AuthModeSession \<or> mode = [] then
             (case PurgeSessionsForVault env (v_id v) w1 of
                (Inl e, w2) \<Rightarrow> (Inl e, w2)
              | (Inr _, w2) \<Rightarrow> (Inr st1, w2))
           else if mode = AuthModeAutoUnlock then
             (if \<not> v_enc v then (Inr st1, w1)
              else (case readAutoUnlockPassword os of
                      Inl e \<Rightarrow> (Inl e, w1)
                    | Inr pw \<Rightarrow>
                        (case row_wrapped_dek v of
                           None \<Rightarrow> (Inl (EMsg ''auto_unlock: vault row missing KDF parameters''), w1)
                         | Some wd \<Rightarrow>
                             (case UnwrapDEK env pw wd of
                                Inl e \<Rightarrow>
                                  (Inl (if is_panic e then e
                                        else EMsg ''auto_unlock: invalid password (DEK unwrap failed)''), w1)
                              | Inr dek \<Rightarrow> (Inr (st1\<lparr>vs_dek := dek\<rparr>), w1)))))
           else if mode = AuthModeAPIKeys
           then (Inl (EMsg ''auth_mode=api_keys is not yet implemented on this build; re-init the vault with a supported mode''), w1)
           else (Inl (EMsg ''unknown auth_mode''), w1)))"

section \<open>The process\<close>

text \<open>
  \<open>api.Server\<close>. The manager, the tuning and the settings are shared with the engine by pointer, so the
  engine is a view of the server; the store is the world, the cipher and the provider are in \<open>env\<close>.
\<close>

record server =
  sv_cfg :: config
  sv_mgr :: mgr
  sv_tn :: tuning_state

definition sv_engine :: "server \<Rightarrow> engine" where
  "sv_engine s = \<lparr>en_enc = (cf_enc (sv_cfg s) = EncryptionOn), en_key = cf_api_key (sv_cfg s),
     en_oa = True, en_tuning = Some (sv_tn s)\<rparr>"

definition migrate :: "os \<Rightarrow> string \<Rightarrow> world \<Rightarrow> unit res \<times> world" where
  "migrate os dsn w = (case os_migrate os dsn (w_db w) of (r, d) \<Rightarrow> (r, w\<lparr>w_db := d\<rparr>))"

text \<open>\<open>run\<close> up to the point where requests are served.\<close>

definition boot :: "env \<Rightarrow> os \<Rightarrow> tuning_io \<Rightarrow> world \<Rightarrow> server res \<times> world" where
  "boot env os io w =
     (case Load (ev_lower env) os of
        Inl e \<Rightarrow> (Inl e, w)
      | Inr cfg \<Rightarrow>
     (case ValidateConfig cfg of
        Inl e \<Rightarrow> (Inl e, w)
      | Inr _ \<Rightarrow>
     (case os_pool os (cf_db_url cfg) of
        Inl e \<Rightarrow> (Inl e, w)
      | Inr _ \<Rightarrow>
     (case migrate os (cf_db_url cfg) w of
        (Inl e, w1) \<Rightarrow> (Inl e, w1)
      | (Inr _, w1) \<Rightarrow>
     (case assertEncryptionMode env cfg w1 of
        (Inl e, w2) \<Rightarrow> (Inl e, w2)
      | (Inr _, w2) \<Rightarrow>
     (case initAuthMode env os no_vault_state w2 of
        (Inl e, w3) \<Rightarrow> (Inl e, w3)
      | (Inr st, w3) \<Rightarrow>
     (case NewTuningState io (cf_tuning_file cfg) (Some (GetServerTuning env)) w3 of
        (Inl e, w4) \<Rightarrow> (Inl e, w4)
      | (Inr tn, w4) \<Rightarrow>
     (case os_listen os (cf_http_addr cfg) of
        Inl e \<Rightarrow> (Inl e, w4)
      | Inr _ \<Rightarrow>
          (Inr \<lparr>sv_cfg = cfg, sv_mgr = NewManagerWithStore (cf_idle cfg) (cf_max cfg) True (Some st),
                sv_tn = tn\<rparr>, w4)))))))))"

text \<open>The hang-up signal reloads the tuning, a failing reload is logged; the end of the process forgets the
  sessions in memory, not their rows.\<close>

definition on_hup :: "tuning_io \<Rightarrow> server \<Rightarrow> world \<Rightarrow> server \<times> world" where
  "on_hup io s w = (case Reload io (sv_tn s) w of ((_, tn), w1) \<Rightarrow> (s\<lparr>sv_tn := tn\<rparr>, w1))"

definition shut_down :: "server \<Rightarrow> server" where
  "shut_down s = s\<lparr>sv_mgr := InvalidateAll (sv_mgr s)\<rparr>"

end
