(* ===== verification/Json_Struct.thy ===== *)
theory Json_Struct
  imports Chunk_Body Tuning
begin

text \<open>
  Decoding a request body with \<open>json.NewDecoder(r.Body).Decode(&v)\<close>. The decoder takes the first JSON
  value of the body and never looks at what follows it; the body may be cut by
  \<open>http.MaxBytesReader\<close>, which delivers the bytes up to its limit and then fails. Members of an
  object go to the struct field whose tag matches under simple case folding, \<open>null\<close> leaves scalars
  alone, and a value of the wrong type is an error of the whole call. A repeated array member replaces
  the earlier one; Go's reuse of the earlier elements' memory is not modelled.
\<close>

section \<open>Field names\<close>

text \<open>Only the long s and the Kelvin sign fold to an ASCII letter.\<close>

definition fold_rune :: "rune \<Rightarrow> rune" where
  "fold_rune r = (if r = 383 then 115 else if r = 8490 then 107 else ascii_lower r)"

definition fold_name :: "string \<Rightarrow> rune list" where
  "fold_name s = map fold_rune (runes s)"

type_synonym 'a field = "string \<times> (jx \<Rightarrow> 'a \<Rightarrow> 'a option)"

definition field_for :: "'a field list \<Rightarrow> string \<Rightarrow> (jx \<Rightarrow> 'a \<Rightarrow> 'a option) option" where
  "field_for fs k = map_option snd (find (\<lambda>f. fold_name k = fold_name (fst f)) fs)"

fun dec_members :: "'a field list \<Rightarrow> (string \<times> jx) list \<Rightarrow> 'a \<Rightarrow> 'a option" where
  "dec_members fs [] x = Some x"
| "dec_members fs ((k, v) # ms) x =
     (case field_for fs k of
        None \<Rightarrow> dec_members fs ms x
      | Some f \<Rightarrow> (case f v x of None \<Rightarrow> None | Some x' \<Rightarrow> dec_members fs ms x'))"

definition dec_struct :: "'a field list \<Rightarrow> jx \<Rightarrow> 'a \<Rightarrow> 'a option" where
  "dec_struct fs v x =
     (case v of XNull \<Rightarrow> Some x | XObj ms \<Rightarrow> dec_members fs ms x | _ \<Rightarrow> None)"

section \<open>Values\<close>

definition dec_bool_field :: "jx \<Rightarrow> bool \<Rightarrow> bool option" where
  "dec_bool_field v old = (case v of XNull \<Rightarrow> Some old | XBool b \<Rightarrow> Some b | _ \<Rightarrow> None)"

fun dec_all :: "(jx \<Rightarrow> 'b option) \<Rightarrow> jx list \<Rightarrow> 'b list option" where
  "dec_all f [] = Some []"
| "dec_all f (v # vs) =
     (case f v of None \<Rightarrow> None | Some x \<Rightarrow> map_option ((#) x) (dec_all f vs))"

definition dec_list_field :: "(jx \<Rightarrow> 'b option) \<Rightarrow> jx \<Rightarrow> 'b list option" where
  "dec_list_field f v = (case v of XNull \<Rightarrow> Some [] | XArr vs \<Rightarrow> dec_all f vs | _ \<Rightarrow> None)"

text \<open>A pointer to a struct: \<open>null\<close> clears it, an object is decoded into what it points to.\<close>

definition dec_ptr_field :: "'b \<Rightarrow> (jx \<Rightarrow> 'b \<Rightarrow> 'b option) \<Rightarrow> jx \<Rightarrow> 'b option \<Rightarrow> 'b option option" where
  "dec_ptr_field zero f v old =
     (case v of
        XNull \<Rightarrow> Some None
      | _ \<Rightarrow> map_option Some (f v (case old of None \<Rightarrow> zero | Some x \<Rightarrow> x)))"

definition setting :: "(jx \<Rightarrow> 'b \<Rightarrow> 'b option) \<Rightarrow> ('a \<Rightarrow> 'b) \<Rightarrow> ('b \<Rightarrow> 'a \<Rightarrow> 'a) \<Rightarrow> jx \<Rightarrow> 'a \<Rightarrow> 'a option" where
  "setting dec get put v x = map_option (\<lambda>y. put y x) (dec v (get x))"

definition dec_raw_map :: "jx \<Rightarrow> raw_map \<Rightarrow> raw_map option" where
  "dec_raw_map v old =
     (case v of XNull \<Rightarrow> Some None | XObj ms \<Rightarrow> Some (Some (update_all ms (raw_entries old))) | _ \<Rightarrow> None)"

section \<open>The body\<close>

text \<open>\<open>io.EOF\<close> is kept apart: two handlers accept an empty body.\<close>

datatype 'a decoded = Eof | Bad err | Decoded 'a

definition body_too_large :: err where
  "body_too_large = EMsg ''http: request body too large''"

definition closes_itself :: "jx \<Rightarrow> bool" where
  "closes_itself v \<longleftrightarrow> (case v of XArr _ \<Rightarrow> True | XObj _ \<Rightarrow> True | _ \<Rightarrow> False)"

definition first_value :: "int option \<Rightarrow> bytes \<Rightarrow> jx decoded" where
  "first_value limit b =
     (let over = (case limit of None \<Rightarrow> False | Some n \<Rightarrow> n < int (length b));
          s = (case limit of None \<Rightarrow> b | Some n \<Rightarrow> take (nat n) b)
      in case p_value (2 * length s + 2) json_max_depth s of
           Some (v, r) \<Rightarrow>
             if over \<and> r = [] \<and> \<not> closes_itself v then Bad body_too_large else Decoded v
         | None \<Rightarrow>
             if skip_ws s = [] then (if over then Bad body_too_large else Eof)
             else Bad (EMsg ''json: syntax error''))"

definition decode_body :: "(jx \<Rightarrow> 'a \<Rightarrow> 'a option) \<Rightarrow> 'a \<Rightarrow> int option \<Rightarrow> bytes \<Rightarrow> 'a decoded" where
  "decode_body f zero limit b =
     (case first_value limit b of
        Eof \<Rightarrow> Eof
      | Bad e \<Rightarrow> Bad e
      | Decoded v \<Rightarrow>
          (case f v zero of None \<Rightarrow> Bad (EMsg ''json: cannot unmarshal'') | Some x \<Rightarrow> Decoded x))"

end
