(* ===== verification/Http.thy ===== *)
theory Http
  imports Boot Json_Struct
begin

text \<open>
  What surrounds the handlers of \<open>internal/api\<close>: requests and answers, \<open>problem.go\<close>, \<open>middleware.go\<close>
  and the masking of tokens in logs (\<open>internal/authdebug/mask.go\<close>). A handler takes a request, the
  server and the world, and gives its answer or a panic, the lines it logged, and both states. The
  router of \<open>chi\<close> is not modelled: the route it chose is part of the request. The text of an error
  (\<open>err.Error()\<close>) stays the error value, and durations are left out of log lines.
\<close>

section \<open>Requests and answers\<close>

datatype route =
    Healthz | Readyz | VaultInit | VaultInfo | VaultUnlock | VaultLock | TokensActions
  | IngestRoute | RetrieveRoute | ChunkGet string | ChunkDelete string | Stats
  | TuningGet | TuningReload | TuningPatch

record request =
  rq_route :: route
  rq_method :: string
  rq_path :: string
  rq_remote :: string
  rq_header :: "string \<Rightarrow> string"           \<comment> \<open>\<open>Header.Get\<close>: empty when absent\<close>
  rq_body :: bytes
  rq_limit :: "int option"                 \<comment> \<open>set by \<open>MaxBytes\<close>\<close>
  rq_rid :: string                         \<comment> \<open>the context's request id, set by \<open>RequestID\<close>\<close>

datatype detail = DText string | DErr err

record problem =
  pb_title :: string
  pb_status :: nat
  pb_detail :: detail
  pb_code :: string

datatype stat_value = SVNat nat | SVStr string | SVTime instant

datatype reply =
    RInitialized
  | RInit uuid bool string
  | RUnlock string uuid bool string
  | RToken string int
  | RIngest "string list" "ingest_debug option"
  | RRetrieve "snippet list" nat "string option" "retrieve_debug option"
  | RChunk chunk_get_result
  | RStats uuid bool vault_stats "(string \<times> stat_value) list list"
  | RTuning "(string \<times> tuning_value) list" "(string \<times> string) list" string bytes "string option"

datatype body = NoBody | Plain string | ProblemBody problem | ReplyBody reply

record response =
  rs_status :: nat
  rs_body :: body

datatype log_line =
    LogProblem nat string string detail                  \<comment> \<open>status, code, request id, detail\<close>
  | LogDenied string string nat string detail string     \<comment> \<open>method, path, status, code, detail, request id\<close>
  | LogAuth string string string string string string err string bool nat bool string string
      \<comment> \<open>request id, path, method, remote, forwarded for, agent, error, class, authorization set and
          its length, session header set, fingerprint, token\<close>
  | LogAuthNote string
  | LogAuthWarning string
  | LogAccess string string nat string string            \<comment> \<open>method, path, status, remote, request id\<close>

datatype outcome = Answer response | Panic string

type_synonym handled = "(outcome \<times> log_line list \<times> server) \<times> world"

section \<open>Problems\<close>

definition redactedServerDetail :: detail where
  "redactedServerDetail =
     DText ''An unexpected error occurred. Try again later or contact the operator if it persists.''"

definition WriteProblem :: "request \<Rightarrow> nat \<Rightarrow> string \<Rightarrow> detail \<Rightarrow> string \<Rightarrow> response \<times> log_line list" where
  "WriteProblem r status title det code =
     (let out = (if 500 \<le> status then redactedServerDetail else det)
      in (\<lparr>rs_status = status,
           rs_body = ProblemBody \<lparr>pb_title = title, pb_status = status, pb_detail = out, pb_code = code\<rparr>\<rparr>,
          (if 500 \<le> status then [LogProblem status code (rq_rid r) det] else [])
          @ (if status = 401 \<or> status = 403
             then [LogDenied (rq_method r) (rq_path r) status code out (rq_rid r)] else [])))"

text \<open>How a handler ends: with a problem, or with an answer.\<close>

definition problem :: "request \<Rightarrow> nat \<Rightarrow> string \<Rightarrow> detail \<Rightarrow> string \<Rightarrow> server \<Rightarrow> world \<Rightarrow> handled" where
  "problem r status title det code s w =
     (let (p, ls) = WriteProblem r status title det code in ((Answer p, ls, s), w))"

text \<open>The error of a callee: a panic of the callee is none that the handler gets to see.\<close>

definition failed :: "request \<Rightarrow> nat \<Rightarrow> string \<Rightarrow> err \<Rightarrow> string \<Rightarrow> server \<Rightarrow> world \<Rightarrow> handled" where
  "failed r status title e code s w =
     (case e of EPanic m \<Rightarrow> ((Panic m, [], s), w) | _ \<Rightarrow> problem r status title (DErr e) code s w)"

definition status_only :: "nat \<Rightarrow> server \<Rightarrow> world \<Rightarrow> handled" where
  "status_only st s w = ((Answer \<lparr>rs_status = st, rs_body = NoBody\<rparr>, [], s), w)"

text \<open>
  \<open>json.Encoder\<close> refuses NaN and the infinities, and a raw message that is not JSON; nothing is
  written then, the status line is out already. A nil raw message is \<open>null\<close>.
\<close>

definition finite_f64 :: "f64 \<Rightarrow> bool" where
  "finite_f64 x \<longleftrightarrow> (case x of Fin _ \<Rightarrow> True | _ \<Rightarrow> False)"

definition debug_finite :: "retrieve_debug \<Rightarrow> bool" where
  "debug_finite d \<longleftrightarrow>
     finite_f64 (rp_sem_threshold (rd_params d)) \<and> finite_f64 (rp_lex_weight (rd_params d))
     \<and> list_all (\<lambda>x. finite_f64 (dd_sem x)) (rd_dense d)
     \<and> list_all (\<lambda>x. finite_f64 (ld_raw x) \<and> finite_f64 (ld_norm x)) (rd_lexical d)
     \<and> list_all (\<lambda>x. finite_f64 (fd_sem x) \<and> finite_f64 (fd_lex x) \<and> finite_f64 (fd_fused x)
          \<and> finite_f64 (fd_final x)) (rd_fused d)"

definition encodes :: "reply \<Rightarrow> bool" where
  "encodes v \<longleftrightarrow>
     (case v of
        RRetrieve snips _ _ dbg \<Rightarrow>
          list_all (\<lambda>x. finite_f64 (sp_score x)) snips \<and> (case dbg of None \<Rightarrow> True | Some d \<Rightarrow> debug_finite d)
      | RTuning t _ _ raw _ \<Rightarrow>
          list_all (\<lambda>(_, x). case x of TVFloat y \<Rightarrow> finite_f64 y | _ \<Rightarrow> True) t
          \<and> (raw = [] \<or> json_parse raw \<noteq> None)
      | RChunk c \<Rightarrow> jv_finite (JObj (jmap_entries (cg_meta c)))
      | _ \<Rightarrow> True)"

definition writeJSON :: "nat \<Rightarrow> reply \<Rightarrow> server \<Rightarrow> world \<Rightarrow> handled" where
  "writeJSON status v s w =
     ((Answer \<lparr>rs_status = status, rs_body = (if encodes v then ReplyBody v else NoBody)\<rparr>, [], s), w)"

section \<open>Tokens in requests and logs\<close>

definition has_bearer :: "env \<Rightarrow> request \<Rightarrow> bool" where
  "has_bearer env r \<longleftrightarrow> has_prefix (to_lower (ev_lower env) (rq_header r ''Authorization'')) ''bearer ''"

definition bearer_of :: "request \<Rightarrow> string" where
  "bearer_of r = trim_space (drop 7 (rq_header r ''Authorization''))"

definition sessionFromRequest :: "env \<Rightarrow> request \<Rightarrow> string" where
  "sessionFromRequest env r =
     (let h = rq_header r ''X-Ghost-Session'' in
      if h \<noteq> [] then h else if has_bearer env r then bearer_of r else [])"

definition Fingerprint :: "env \<Rightarrow> string \<Rightarrow> string" where
  "Fingerprint env token =
     (let t = trim_space token in
      if t = [] then ''<empty>'' else hex_encode (take 8 (ev_sha256 env t)))"

definition ellipsis :: string where "ellipsis = map chr [226, 128, 166]"

definition ForLog :: "string \<Rightarrow> bool \<Rightarrow> string" where
  "ForLog token revealFull =
     (let t = trim_space token; n = length t in
      if t = [] then ''<empty>''
      else if revealFull then t
      else if n \<le> 8 then ''<len='' @ show_nat n @ ''>''
      else take 4 t @ ellipsis @ drop (n - 4) t @ ''(len='' @ show_nat n @ '')'')"

definition reason_class :: "err \<Rightarrow> string" where
  "reason_class e =
     (case e of
        EVaultLocked \<Rightarrow> ''vault_locked_or_session_expired''
      | EUnauthorized \<Rightarrow> ''unauthorized_bad_or_unknown_token''
      | _ \<Rightarrow> ''other'')"

definition authDebugLog :: "env \<Rightarrow> config \<Rightarrow> request \<Rightarrow> err \<Rightarrow> log_line list" where
  "authDebugLog env c r e =
     (if \<not> cf_debug_auth c then []
      else
        (let raw = sessionFromRequest env r;
             authz = rq_header r ''Authorization'';
             xff = rq_header r ''X-Forwarded-For''
         in [LogAuth (rq_rid r) (rq_path r) (rq_method r) (rq_remote r)
               (if xff = [] then ''(none)'' else xff) (rq_header r ''User-Agent'') e (reason_class e)
               (authz \<noteq> []) (length authz) (rq_header r ''X-Ghost-Session'' \<noteq> [])
               (Fingerprint env raw) (ForLog raw (cf_debug_full c)),
             LogAuthNote (rq_rid r)]
            @ (if cf_debug_full c \<and> trim_space raw \<noteq> [] then [LogAuthWarning (rq_rid r)] else [])))"

definition writeAuthProblem :: "env \<Rightarrow> request \<Rightarrow> err \<Rightarrow> server \<Rightarrow> world \<Rightarrow> handled" where
  "writeAuthProblem env r e s w =
     (let (p, ls) =
        (case e of
           EAuthBackend _ \<Rightarrow>
             WriteProblem r 500 ''Internal Server Error'' (DText ''authentication backend unavailable'') ''auth_backend''
         | EVaultLocked \<Rightarrow>
             WriteProblem r 401 ''Unauthorized'' (DText ''vault is locked or session expired'') ''auth''
         | _ \<Rightarrow>
             WriteProblem r 401 ''Unauthorized'' (DText ''invalid or missing credentials'') ''auth'')
      in ((Answer p, authDebugLog env (sv_cfg s) r e @ ls, s), w))"

section \<open>Middleware\<close>

type_synonym handler = "request \<Rightarrow> server \<Rightarrow> world \<Rightarrow> handled"

definition RequestID :: "env \<Rightarrow> handler \<Rightarrow> handler" where
  "RequestID env next r s w =
     (let given = rq_header r ''X-Request-ID'' in
      if given \<noteq> [] then next (r\<lparr>rq_rid := given\<rparr>) s w
      else (let (u, w1) = new_uuid env w in next (r\<lparr>rq_rid := ev_uuid_str env u\<rparr>) s w1))"

definition MaxBytes :: "int \<Rightarrow> handler \<Rightarrow> handler" where
  "MaxBytes n next r s w = next (r\<lparr>rq_limit := Some n\<rparr>) s w"

definition MaxBytesTuning :: "handler \<Rightarrow> handler" where
  "MaxBytesTuning next r s w = MaxBytes (rt_max_body (Current (sv_tn s))) next r s w"

text \<open>The line is written after the handler returned; a panic passes by it.\<close>

definition AccessLog :: "bool \<Rightarrow> handler \<Rightarrow> handler" where
  "AccessLog enabled next r s w =
     (if \<not> enabled then next r s w
      else (case next r s w of
              ((Answer a, ls, s1), w1) \<Rightarrow>
                ((Answer a, ls @ [LogAccess (rq_method r) (rq_path r) (rs_status a) (rq_remote r) (rq_rid r)], s1), w1)
            | ((Panic m, ls, s1), w1) \<Rightarrow> ((Panic m, ls, s1), w1)))"

definition AccessLogTuning :: "handler \<Rightarrow> handler" where
  "AccessLogTuning next r s w = AccessLog (rt_access_log (Current (sv_tn s))) next r s w"

definition Recoverer :: "handler \<Rightarrow> request \<Rightarrow> server \<Rightarrow> world \<Rightarrow> (response \<times> log_line list \<times> server) \<times> world" where
  "Recoverer next r s w =
     (case next r s w of
        ((Answer a, ls, s1), w1) \<Rightarrow> ((a, ls, s1), w1)
      | ((Panic m, ls, s1), w1) \<Rightarrow>
          (let (p, ls') = WriteProblem r 500 ''Internal Server Error'' (DText ''panic recovered'') ''internal''
           in ((p, ls @ ls', s1), w1)))"

end
