(* ===== verification/Json_Roundtrip.thy ===== *)
theory Json_Roundtrip
  imports Json
begin

text \<open>
  The printer and the parser of \<open>Json\<close> agree: the text of a syntax tree parses back to the
  tree, whatever follows it. Strings go through the printer's escapes and the parser's
  decoding; the fuel of the parser is bounded by the length of the text.
\<close>

section \<open>Strings\<close>

lemma hex_val_digit [simp]: "n < 16 \<Longrightarrow> hex_val (hex_digit n) = Some n"
  by (auto simp: hex_val_def hex_digit_def Let_def)

lemma hex4_u_escape: "r < 65536 \<Longrightarrow>
    hex4 (hex_digit (r div 4096)) (hex_digit (r div 256 mod 16)) (hex_digit (r div 16 mod 16))
      (hex_digit (r mod 16)) = Some r"
proof -
  assume "r < 65536"
  moreover have "((r div 4096 * 16 + r div 256 mod 16) * 16 + r div 16 mod 16) * 16 + r mod 16 = r"
  proof -
    have d: "r div 4096 = r div 16 div 16 div 16" "r div 256 = r div 16 div 16"
      by (simp_all flip: div_mult2_eq)
    show ?thesis unfolding d div_mult_mod_eq ..
  qed
  ultimately show ?thesis by (simp add: hex4_def)
qed

lemma p_str_quote: "p_str (ch_quote # s) = Some ([], s)"
  by (simp add: p_str.simps(2))

lemma chr_neq: "m < 256 \<Longrightarrow> n < 256 \<Longrightarrow> m \<noteq> n \<Longrightarrow> chr m \<noteq> chr n"
  by (metis byte_chr)

lemma p_str_u_escape:
  assumes "r < 55296 \<or> 57343 < r" "r < 65536"
  shows "p_str (u_escape r @ s) = prepend (encode_rune r) (p_str s)"
proof -
  have "ch_back \<noteq> ch_quote" by (simp add: chr_neq)
  moreover have "\<not> surrogate r" using assms by (auto simp: surrogate_def)
  moreover have "byte (CHR ''u'') = (117::nat)" by simp
  ultimately show ?thesis
    by (simp add: u_escape_def p_str.simps(2) hex4_u_escape [OF assms(2)])
qed

lemma byte_eq_iff: "n < 256 \<Longrightarrow> byte c = (n::nat) \<longleftrightarrow> c = chr n"
  by (metis byte_chr char_of_char)

lemma p_str_esc_ascii:
  assumes "byte c < (128::nat)"
  shows "p_str (esc_ascii c @ s) = prepend [c] (p_str s)"
proof -
  have bq: "ch_back \<noteq> ch_quote" by (simp add: chr_neq)
  have e: "p_str (ch_back # e # s) = prepend [d] (p_str s)"
    if "simple_escape e = Some d" "byte e \<noteq> (117::nat)" for e d
    using bq that by (simp add: p_str.simps(2))
  have c: "chr (byte c) = c" by simp
  consider "byte c = (34::nat) \<or> byte c = (92::nat)" | "byte c = (8::nat)" | "byte c = (12::nat)"
    | "byte c = (10::nat)" | "byte c = (13::nat)" | "byte c = (9::nat)"
    | "byte c \<notin> {34, 92, 8, 12, 10, 13, 9::nat}"
      "byte c < (32::nat) \<or> byte c = (60::nat) \<or> byte c = (62::nat) \<or> byte c = (38::nat)"
    | "byte c \<notin> {34, 92, 8, 12, 10, 13, 9::nat}"
      "\<not> (byte c < (32::nat) \<or> byte c = (60::nat) \<or> byte c = (62::nat) \<or> byte c = (38::nat))"
    by auto
  then show ?thesis
  proof cases
    case 1
    then have "esc_ascii c = [ch_back, c]" "simple_escape c = Some c" "byte c \<noteq> (117::nat)"
      by (auto simp: esc_ascii_def simple_escape_def Let_def)
    then show ?thesis using e [of c c] by simp
  next
    case 2
    then show ?thesis using e [of "CHR ''b''" "chr 8"] c
      by (simp add: esc_ascii_def simple_escape_def)
  next
    case 3
    then show ?thesis using e [of "CHR ''f''" "chr 12"] c
      by (simp add: esc_ascii_def simple_escape_def)
  next
    case 4
    then show ?thesis using e [of "CHR ''n''" "chr 10"] c
      by (simp add: esc_ascii_def simple_escape_def)
  next
    case 5
    then show ?thesis using e [of "CHR ''r''" "chr 13"] c
      by (simp add: esc_ascii_def simple_escape_def)
  next
    case 6
    then show ?thesis using e [of "CHR ''t''" "chr 9"] c
      by (simp add: esc_ascii_def simple_escape_def)
  next
    case 7
    then have "esc_ascii c = u_escape (byte c)" by (auto simp: esc_ascii_def Let_def)
    moreover have "encode_rune (byte c) = [c]"
      using assms by (simp add: encode_rune_def encode_scalar_def scalar_def)
    ultimately show ?thesis using p_str_u_escape [of "byte c" s] assms by simp
  next
    case 8
    then have "esc_ascii c = [c]" by (auto simp: esc_ascii_def Let_def)
    moreover have "c \<noteq> ch_quote" "c \<noteq> ch_back" using 8(1) by auto
    moreover have "\<not> byte c < (32::nat)" using 8(2) by blast
    ultimately show ?thesis using assms by (simp add: p_str.simps(2))
  qed
qed

lemma encode_scalar_hd: "byte (hd (encode_scalar r)) < (128::nat) \<longleftrightarrow> r < 128" if "scalar r"
proof -
  have "r \<le> 1114111" using that by (auto simp: scalar_def)
  then show ?thesis by (auto simp: encode_scalar_def)
qed

lemma esc_str_encode:
  assumes "scalar r"
  shows "esc_str (encode_scalar r @ t) =
    (if r < 128 then esc_ascii (chr r) else if r = 8232 \<or> r = 8233 then u_escape r
     else encode_scalar r) @ esc_str t"
proof (cases "r < 128")
  case True
  then have "encode_scalar r = [chr r]" by (simp add: encode_scalar_def)
  then show ?thesis using True by (simp add: esc_str.simps [of "chr r # t"])
next
  case False
  have hd: "\<not> byte (hd (encode_scalar r @ t)) < (128::nat)"
    using encode_scalar_hd [OF assms] False by simp
  have "length (encode_scalar r) \<noteq> 1" using False by (simp add: encode_scalar_def)
  with hd False show ?thesis
    by (simp add: esc_str.simps [of "encode_scalar r @ t"] decode_encode [OF assms])
qed

lemma p_str_multibyte:
  assumes "scalar r" "\<not> r < 128"
  shows "p_str (encode_scalar r @ t) = prepend (encode_scalar r) (p_str t)"
proof -
  obtain c u where cu: "encode_scalar r @ t = c # u"
    by (cases "encode_scalar r @ t") auto
  have "\<not> byte c < (128::nat)" using encode_scalar_hd [OF assms(1)] assms(2) cu
    by (metis encode_scalar_nonempty hd_append2 list.sel(1))
  then have n: "c \<noteq> ch_quote" "c \<noteq> ch_back" "\<not> byte c < (32::nat)" "\<not> byte c < (128::nat)" by auto
  have d: "decode_rune (c # u) = (r, length (encode_scalar r))"
    using decode_encode [OF assms(1), of t] cu by simp
  have "drop (length (encode_scalar r)) (c # u) = t" using cu by (metis append_eq_conv_conj)
  then show ?thesis
    unfolding cu using n assms(1) by (simp add: p_str.simps(2) d encode_rune_def)
qed

lemma p_str_esc_runes:
  "list_all scalar rs \<Longrightarrow>
   p_str (esc_str (of_runes rs) @ ch_quote # rest) = Some (of_runes rs, rest)"
proof (induction rs)
  case Nil
  then show ?case by (simp add: esc_str.simps [of "[]"] p_str_quote)
next
  case (Cons r rs)
  then have r: "scalar r" and ih: "p_str (esc_str (of_runes rs) @ ch_quote # rest) = Some (of_runes rs, rest)"
    by simp_all
  have o: "of_runes (r # rs) = encode_scalar r @ of_runes rs"
    using r by (simp add: of_runes_def encode_rune_def)
  consider "r < 128" | "r = 8232 \<or> r = 8233" | "\<not> r < 128" "r \<noteq> 8232 \<and> r \<noteq> 8233" by linarith
  then show ?case
  proof cases
    case 1
    then have "encode_scalar r = [chr r]" by (simp add: encode_scalar_def)
    then show ?thesis using 1 p_str_esc_ascii [of "chr r"] ih esc_str_encode [OF r, of "of_runes rs"]
      by (simp add: o prepend_def)
  next
    case 2
    then have "encode_rune r = encode_scalar r" using r by (simp add: encode_rune_def)
    then show ?thesis using 2 p_str_u_escape [of r] ih
      by (auto simp: o esc_str_encode [OF r] prepend_def)
  next
    case 3
    then show ?thesis using p_str_multibyte [OF r] ih
      by (simp add: o esc_str_encode [OF r] prepend_def)
  qed
qed

lemma p_str_esc: "valid_utf8 s \<Longrightarrow> p_str (esc_str s @ ch_quote # rest) = Some (s, rest)"
  using p_str_esc_runes [OF runes_scalar, of s rest] by (simp add: valid_utf8_def)

section \<open>Numbers\<close>

text \<open>What may follow a number: nothing that would prolong it.\<close>

definition stops :: "string \<Rightarrow> bool" where
  "stops s \<longleftrightarrow> (case s of [] \<Rightarrow> True
     | c # _ \<Rightarrow> \<not> is_digit c \<and> byte c \<notin> {46, 101, 69::nat})"

definition num_literal :: "string \<Rightarrow> bool" where
  "num_literal s \<longleftrightarrow> p_number s = Some (s, [])"

lemma takeWhile_stops: "stops t \<Longrightarrow> takeWhile is_digit (s @ t) = takeWhile is_digit s
    \<and> dropWhile is_digit (s @ t) = dropWhile is_digit s @ t"
  by (induction s) (auto simp: stops_def split: list.splits)

lemma p_digits_stops: "stops t \<Longrightarrow> p_digits s = Some (x, r) \<Longrightarrow> p_digits (s @ t) = Some (x, r @ t)"
  by (auto simp: p_digits_def Let_def takeWhile_stops split: if_splits)

lemma p_int_stops: "stops t \<Longrightarrow> p_int s = Some (x, r) \<Longrightarrow> p_int (s @ t) = Some (x, r @ t)"
  using p_digits_stops [of t s x r]
  by (auto simp: p_int_def split: list.splits if_splits)

lemma prepend_Some: "prepend p r = Some (x, y) \<longleftrightarrow> (\<exists>z. r = Some (z, y) \<and> x = p @ z)"
  by (cases r) (auto simp: prepend_def)

lemma p_frac_stops:
  assumes "stops t" "p_frac s = Some (x, r)" shows "p_frac (s @ t) = Some (x, r @ t)"
proof (cases s)
  case Nil
  then show ?thesis using assms by (cases t) (auto simp: p_frac_def stops_def)
next
  case (Cons c u)
  then show ?thesis using assms p_digits_stops [OF assms(1), of u]
    by (auto simp: p_frac_def prepend_Some split: if_splits)
qed

lemma p_exp_stops:
  assumes "stops t" "p_exp s = Some (x, r)" shows "p_exp (s @ t) = Some (x, r @ t)"
proof (cases s)
  case Nil
  then show ?thesis using assms by (cases t) (auto simp: p_exp_def stops_def)
next
  case (Cons c u)
  show ?thesis
  proof (cases "byte c = (101::nat) \<or> byte c = (69::nat)")
    case True
    then obtain g v where u: "u = g # v" using assms(2) Cons
      by (cases u) (auto simp: p_exp_def split: if_splits)
    show ?thesis
      using assms(2) True p_digits_stops [OF assms(1), of v] p_digits_stops [OF assms(1), of u]
      unfolding Cons u p_exp_def by (auto simp: prepend_Some split: if_splits)
  next
    case False
    then show ?thesis using assms(2) Cons by (auto simp: p_exp_def)
  qed
qed

lemma p_number_stops:
  assumes "stops t" "p_number s = Some (x, r)" shows "p_number (s @ t) = Some (x, r @ t)"
proof -
  let ?sg = "\<lambda>s. case s of c # u \<Rightarrow> if byte c = (45::nat) then ([c], u) else ([], s) | [] \<Rightarrow> ([], [])"
  obtain sg u where u: "?sg s = (sg, u)" by fastforce
  from assms(2) u obtain i t1 f t2 e where
    p: "p_int u = Some (i, t1)" "p_frac t1 = Some (f, t2)" "p_exp t2 = Some (e, r)" "x = sg @ i @ f @ e"
    by (auto simp: p_number_def split: option.splits)
  from p(1) have "u \<noteq> []" by (auto simp: p_int_def)
  with u have "?sg (s @ t) = (sg, u @ t)" by (auto split: list.splits if_splits)
  then show ?thesis
    using p_int_stops [OF assms(1) p(1)] p_frac_stops [OF assms(1) p(2)]
      p_exp_stops [OF assms(1) p(3)] p(4) by (simp add: p_number_def)
qed

lemma p_number_literal: "num_literal s \<Longrightarrow> stops t \<Longrightarrow> p_number (s @ t) = Some (s, t)"
  using p_number_stops [of t s s "[]"] by (simp add: num_literal_def)

lemma num_literal_hd:
  assumes "num_literal s" shows "\<exists>c u. s = c # u \<and> (is_digit c \<or> byte c = (45::nat))"
proof (cases s)
  case Nil
  then show ?thesis using assms by (simp add: num_literal_def p_number_def p_int_def)
next
  case (Cons c u)
  have "p_int (c # u) \<noteq> None \<Longrightarrow> is_digit c"
    by (auto simp: p_int_def is_digit_def split: if_splits)
  then show ?thesis using assms Cons
    by (auto simp: num_literal_def p_number_def split: if_splits option.splits)
qed

section \<open>Trees\<close>

text \<open>A tree that a text can denote, with at most \<open>d\<close> levels of nesting.\<close>

fun jx_ok :: "nat \<Rightarrow> jx \<Rightarrow> bool" where
  "jx_ok d XNull = True"
| "jx_ok d (XBool b) = True"
| "jx_ok d (XNum s) = num_literal s"
| "jx_ok d (XStr s) = valid_utf8 s"
| "jx_ok d (XArr xs) = (0 < d \<and> (\<forall>x \<in> set xs. jx_ok (d - 1) x))"
| "jx_ok d (XObj ms) = (0 < d \<and> (\<forall>m \<in> set ms. valid_utf8 (fst m) \<and> jx_ok (d - 1) (snd m)))"

lemma skip_ws_id: "\<not> json_ws c \<Longrightarrow> skip_ws (c # s) = c # s"
  by (simp add: skip_ws_def)

lemma json_ws_chr [simp]: "n < 256 \<Longrightarrow> json_ws (chr n) \<longleftrightarrow> n \<in> {32, 9, 10, 13}"
  by (auto simp: json_ws_def)

definition reads :: "nat \<Rightarrow> jx \<Rightarrow> bool" where
  "reads d x \<longleftrightarrow> (\<forall>n rest. 2 * length (jx_print x) \<le> n \<longrightarrow> stops rest \<longrightarrow>
     p_value n d (jx_print x @ rest) = Some (x, rest))"

lemma jx_print_length: "jx_ok d x \<Longrightarrow> 1 \<le> length (jx_print x)"
proof (cases x)
  case (XNum s)
  then show "jx_ok d x \<Longrightarrow> 1 \<le> length (jx_print x)" using num_literal_hd [of s] by auto
qed (auto simp: json_str_def)

lemma stops_sep [simp]: "stops ('','' @ s)" "stops ('']'' @ s)" "stops (''}'' @ s)"
    "stops (CHR '','' # s)" "stops (CHR '']'' # s)" "stops (CHR ''}'' # s)"
  by (simp_all add: stops_def is_digit_def)

lemma p_elems_print:
  assumes "\<forall>x \<in> set xs. reads d x" "xs \<noteq> []" "2 * length (join '','' (map jx_print xs)) + 1 \<le> n"
  shows "p_elems n d (join '','' (map jx_print xs) @ '']'' @ rest) = Some (xs, rest)"
  using assms
proof (induction xs arbitrary: n)
  case (Cons x xs)
  then obtain n' where n: "n = Suc n'" by (cases n) auto
  have r: "reads d x" using Cons.prems(1) by simp
  show ?case
  proof (cases xs)
    case Nil
    then show ?thesis
      using r Cons.prems(3) by (simp add: n reads_def skip_ws_id json_ws_def)
  next
    case (Cons y ys)
    then have j: "join '','' (map jx_print (x # xs)) = jx_print x @ '','' @ join '','' (map jx_print xs)"
      by simp
    have len: "2 * length (jx_print x) \<le> n'" "2 * length (join '','' (map jx_print xs)) + 1 \<le> n'"
      using Cons.prems(3) unfolding j n by auto
    have "p_elems n' d (join '','' (map jx_print xs) @ '']'' @ rest) = Some (xs, rest)"
      using Cons.IH Cons.prems(1) Cons len(2) by simp
    then show ?thesis
      using r len(1) unfolding j n reads_def by (simp add: skip_ws_id json_ws_def)
  qed
qed simp

abbreviation jx_member :: "string \<times> jx \<Rightarrow> string" where
  "jx_member m \<equiv> (\<lambda>(k, x). json_str k @ '':'' @ jx_print x) m"

lemma p_members_print:
  assumes "\<forall>m \<in> set ms. valid_utf8 (fst m) \<and> reads d (snd m)" "ms \<noteq> []"
    "2 * length (join '','' (map jx_member ms)) + 1 \<le> n"
  shows "p_members n d (join '','' (map jx_member ms) @ ''}'' @ rest) = Some (ms, rest)"
  using assms
proof (induction ms arbitrary: n)
  case (Cons m ms)
  obtain k x where m: "m = (k, x)" by (cases m)
  from Cons obtain n' where n: "n = Suc n'" by (cases n) auto
  have r: "reads d x" and k: "valid_utf8 k" using Cons.prems(1) m by auto
  have q: "\<not> json_ws ch_quote" by simp
  show ?case
  proof (cases ms)
    case Nil
    have "2 * length (jx_print x) \<le> n'" using Cons.prems(3) unfolding Nil n m by simp
    then show ?thesis
      using r q unfolding Nil n m reads_def
      by (simp add: json_str_def skip_ws_id p_str_esc [OF k] json_ws_def)
  next
    case (Cons y ys)
    then have j: "join '','' (map jx_member ((k, x) # ms))
        = json_str k @ '':'' @ jx_print x @ '','' @ join '','' (map jx_member ms)" by simp
    have len: "2 * length (jx_print x) \<le> n'" "2 * length (join '','' (map jx_member ms)) + 1 \<le> n'"
      using Cons.prems(3) unfolding m j by (auto simp: n)
    have "p_members n' d (join '','' (map jx_member ms) @ ''}'' @ rest) = Some (ms, rest)"
      using Cons.IH Cons.prems(1) Cons len(2) by simp
    then show ?thesis
      using r len(1) q unfolding m j n reads_def
      by (simp add: json_str_def skip_ws_id p_str_esc [OF k] json_ws_def)
  qed
qed simp

lemma jx_print_hd:
  assumes "jx_ok d x"
  shows "\<exists>c u. jx_print x = c # u \<and> \<not> json_ws c \<and> byte c \<notin> {93, 125::nat}"
proof (cases x)
  case (XNum s)
  then obtain c u where "s = c # u" "is_digit c \<or> byte c = (45::nat)"
    using assms num_literal_hd [of s] by auto
  then show ?thesis using XNum by (auto simp: is_digit_def json_ws_def)
qed (auto simp: json_str_def json_ws_def)

lemma join_hd: "xs \<noteq> [] \<Longrightarrow> hd xs = c # u \<Longrightarrow> \<exists>v. join sep xs = c # v"
  by (cases "(sep, xs)" rule: join.cases) auto

lemma reads_num: assumes "num_literal s" shows "reads d (XNum s)"
  unfolding reads_def
proof (intro allI impI)
  fix n rest assume n: "2 * length (jx_print (XNum s)) \<le> n" and st: "stops rest"
  obtain c u where cu: "s = c # u" "is_digit c \<or> byte c = (45::nat)"
    using num_literal_hd [OF assms] by blast
  then obtain n' where "n = Suc n'" using n by (cases n) auto
  moreover have "\<not> json_ws c" "byte c \<notin> {123, 91, 116, 102, 110::nat}"
    using cu(2) by (auto simp: json_ws_def is_digit_def)
  moreover have "c \<noteq> ch_quote" using cu(2) by (auto simp: is_digit_def)
  ultimately show "p_value n d (jx_print (XNum s) @ rest) = Some (XNum s, rest)"
    using p_number_literal [OF assms st] by (simp add: cu(1) skip_ws_id)
qed

lemma reads_str: assumes "valid_utf8 s" shows "reads d (XStr s)"
  unfolding reads_def
proof (intro allI impI)
  fix n rest assume "2 * length (jx_print (XStr s)) \<le> n"
  then obtain n' where "n = Suc n'" by (cases n) (auto simp: json_str_def)
  then show "p_value n d (jx_print (XStr s) @ rest) = Some (XStr s, rest)"
    by (simp add: json_str_def skip_ws_id p_str_esc [OF assms])
qed

lemma reads_arr:
  assumes "\<forall>x \<in> set xs. reads d x \<and> jx_ok d x" shows "reads (Suc d) (XArr xs)"
  unfolding reads_def
proof (intro allI impI)
  fix n rest assume len: "2 * length (jx_print (XArr xs)) \<le> n"
  then obtain n' where n: "n = Suc n'" by (cases n) auto
  show "p_value n (Suc d) (jx_print (XArr xs) @ rest) = Some (XArr xs, rest)"
  proof (cases xs)
    case Nil
    then show ?thesis by (simp add: n skip_ws_id json_ws_def)
  next
    case (Cons y ys)
    obtain c u where cu: "jx_print y = c # u" "\<not> json_ws c" "byte c \<notin> {93, 125::nat}"
      using jx_print_hd [of d y] assms Cons by auto
    obtain v where v: "join '','' (map jx_print xs) = c # v"
      using join_hd [of "map jx_print xs" c u] cu(1) Cons by auto
    have "2 * length (join '','' (map jx_print xs)) + 1 \<le> n'" using len n by simp
    from p_elems_print [OF _ _ this, of d rest] assms Cons
    have "p_elems n' d (join '','' (map jx_print xs) @ '']'' @ rest) = Some (xs, rest)" by auto
    then show ?thesis using cu(2,3) v by (simp add: n skip_ws_id json_ws_def)
  qed
qed

lemma reads_obj:
  assumes "\<forall>m \<in> set ms. valid_utf8 (fst m) \<and> reads d (snd m)" shows "reads (Suc d) (XObj ms)"
  unfolding reads_def
proof (intro allI impI)
  fix n rest assume len: "2 * length (jx_print (XObj ms)) \<le> n"
  then obtain n' where n: "n = Suc n'" by (cases n) auto
  show "p_value n (Suc d) (jx_print (XObj ms) @ rest) = Some (XObj ms, rest)"
  proof (cases ms)
    case Nil
    then show ?thesis by (simp add: n skip_ws_id json_ws_def)
  next
    case (Cons y ys)
    obtain v where v: "join '','' (map jx_member ms) = ch_quote # v"
      using join_hd [of "map jx_member ms" ch_quote] Cons by (cases y) (auto simp: json_str_def)
    have "2 * length (join '','' (map jx_member ms)) + 1 \<le> n'" using len n by simp
    from p_members_print [OF assms _ this, of rest] Cons
    have "p_members n' d (join '','' (map jx_member ms) @ ''}'' @ rest) = Some (ms, rest)" by simp
    then show ?thesis using v by (simp add: n skip_ws_id json_ws_def)
  qed
qed

lemma reads_word: assumes "x \<in> {XNull, XBool True, XBool False}" shows "reads d x"
  unfolding reads_def
proof (intro allI impI)
  fix n rest assume "2 * length (jx_print x) \<le> n"
  then obtain n' where n: "n = Suc n'" using assms by (cases n) auto
  show "p_value n d (jx_print x @ rest) = Some (x, rest)"
    using assms by (auto simp: n p_lit_def has_prefix_def skip_ws_id json_ws_def simp flip: byte_eq_iff)
qed

lemma reads_ok: "jx_ok d x \<Longrightarrow> reads d x"
proof (induction x arbitrary: d)
  case XNull
  show ?case using reads_word [of XNull] by simp
next
  case (XBool b)
  show ?case using reads_word [of "XBool b"] by (cases b) simp_all
next
  case (XNum s) then show ?case by (simp add: reads_num)
next
  case (XStr s) then show ?case by (simp add: reads_str)
next
  case (XArr xs)
  then obtain d' where "d = Suc d'" by (cases d) auto
  then show ?case using XArr by (auto intro!: reads_arr)
next
  case (XObj ms)
  then obtain d' where d: "d = Suc d'" by (cases d) auto
  have "reads d' (snd m)" if "m \<in> set ms" for m
    using XObj.IH [of m "snd m" d'] XObj.prems that d by (cases m) auto
  then show ?case using XObj.prems d by (auto intro!: reads_obj)
qed

lemma json_parse_print:
  assumes "jx_ok json_max_depth x" shows "json_parse (jx_print x) = Some x"
  using reads_ok [OF assms] unfolding reads_def json_parse_def
  by (auto dest!: spec [of _ "2 * length (jx_print x) + 2"] spec [of _ "[]"] simp: stops_def skip_ws_def)

section \<open>What the parser returns\<close>

lemma valid_utf8_encode [simp]: "valid_utf8 (encode_rune r)"
proof -
  have "valid_utf8 (of_runes [if scalar r then r else rune_error])"
    by (rule valid_utf8_of_runes) simp
  then show ?thesis by (simp add: of_runes_def encode_rune_def split: if_splits)
qed

lemma encode_rune_ascii: "byte c < (128::nat) \<Longrightarrow> encode_rune (byte c) = [c]"
  by (simp add: encode_rune_def encode_scalar_def scalar_def)

lemma simple_escape_ascii: "simple_escape e = Some d \<Longrightarrow> byte d < (128::nat)"
  by (auto simp: simple_escape_def Let_def split: if_splits)

definition str_step :: "nat \<Rightarrow> string \<Rightarrow> string \<Rightarrow> bool" where
  "str_step n x r \<longleftrightarrow> x = [] \<or>
     (\<exists>q z s. length s \<le> n \<and> p_str s = Some (z, r) \<and> x = encode_rune q @ z)"

lemma str_step_rune: "prepend (encode_rune q) (p_str s) = Some (x, r) \<Longrightarrow> length s \<le> n \<Longrightarrow> str_step n x r"
  by (auto simp: prepend_Some str_step_def)

lemma str_step_ascii:
  "prepend [c] (p_str s) = Some (x, r) \<Longrightarrow> byte c < (128::nat) \<Longrightarrow> length s \<le> n \<Longrightarrow> str_step n x r"
  using str_step_rune [of "byte c" s x r n] by (simp add: encode_rune_ascii)

text \<open>After an escape for a surrogate comes its partner or not: one rune is read either way.\<close>

lemma surrogate_case_split:
  assumes "(case s3 of
      b # u # g1 # g2 # g3 # g4 # s4 \<Rightarrow>
        (case f b u g1 g2 g3 g4 of Some q \<Rightarrow> h q s4 | None \<Rightarrow> d)
    | _ \<Rightarrow> d) = y"
  shows "d = y \<or> (\<exists>q s4. length s4 \<le> length s3 \<and> h q s4 = y)"
proof (rule ccontr)
  assume n: "\<not> ?thesis"
  then have "h q s4 \<noteq> y" if "length s4 \<le> length s3" for q s4 using that by blast
  with n assms show False by (auto split: list.splits option.splits)
qed

lemma p_str_step:
  assumes "p_str (c # s) = Some (x, r)" shows "str_step (length s) x r"
proof -
  consider "c = ch_quote" | "c = ch_back" "c \<noteq> ch_quote" | "c \<noteq> ch_back" "c \<noteq> ch_quote" by blast
  then show ?thesis
  proof cases
    case 1
    then show ?thesis using assms by (simp add: p_str_quote str_step_def)
  next
    case 2
    obtain e s2 where s: "s = e # s2" using assms 2 by (cases s) (auto simp: p_str.simps(2))
    show ?thesis
    proof (cases "byte e = (117::nat)")
      case True
      obtain h1 h2 h3 h4 s3 where s2: "s2 = h1 # h2 # h3 # h4 # s3"
        using assms 2 True unfolding s p_str.simps(2) by (simp split: list.splits)
      obtain q where q: "hex4 h1 h2 h3 h4 = Some q"
        using assms 2 True unfolding s s2 p_str.simps(2) by (simp split: option.splits)
      show ?thesis
      proof (cases "surrogate q")
        case sur: True
        have "prepend (encode_rune rune_error) (p_str s3) = Some (x, r)
          \<or> (\<exists>q s4. length s4 \<le> length s3 \<and> prepend (encode_rune q) (p_str s4) = Some (x, r))"
          by (rule surrogate_case_split)
            (use assms 2 True q sur in \<open>simp add: s s2 p_str.simps(2)\<close>)
        then show ?thesis using str_step_rune by (auto simp: s s2)
      next
        case False
        then have "prepend (encode_rune q) (p_str s3) = Some (x, r)"
          using assms 2 True q unfolding s s2 p_str.simps(2) by simp
        then show ?thesis using str_step_rune by (simp add: s s2)
      qed
    next
      case False
      then obtain d where d: "simple_escape e = Some d" "prepend [d] (p_str s2) = Some (x, r)"
        using assms 2 unfolding s p_str.simps(2) by (auto split: option.splits)
      then show ?thesis using str_step_ascii [OF d(2) simple_escape_ascii [OF d(1)]] s by simp
    qed
  next
    case 3
    show ?thesis
    proof (cases "byte c < (128::nat)")
      case True
      then have "prepend [c] (p_str s) = Some (x, r)"
        using assms 3 by (simp add: p_str.simps(2) split: if_splits)
      then show ?thesis using str_step_ascii True by simp
    next
      case False
      then have "prepend (encode_rune (fst (decode_rune (c # s))))
          (p_str (drop (snd (decode_rune (c # s))) (c # s))) = Some (x, r)"
        using assms 3 by (simp add: p_str.simps(2))
      then show ?thesis
        by (rule str_step_rune) (use decode_width_pos [of "c # s"] in simp)
    qed
  qed
qed

lemma p_str_valid: "p_str s = Some (x, r) \<Longrightarrow> valid_utf8 x"
proof (induction s arbitrary: x rule: length_induct)
  case (1 s)
  then obtain c t where s: "s = c # t" by (cases s) auto
  have "str_step (length t) x r" using 1(2) unfolding s by (rule p_str_step)
  then consider "x = []" | q z s' where "length s' \<le> length t" "p_str s' = Some (z, r)" "x = encode_rune q @ z"
    by (auto simp: str_step_def)
  then show ?case
  proof cases
    case 1
    then show ?thesis by (simp add: valid_utf8_ascii)
  next
    case 2
    then show ?thesis using "1.IH" [rule_format, of s' z] s by (auto intro!: valid_utf8_append)
  qed
qed

definition no_digit :: "string \<Rightarrow> bool" where
  "no_digit t \<longleftrightarrow> t = [] \<or> \<not> is_digit (hd t)"

lemma p_digits_self: "p_digits s = Some (x, r) \<Longrightarrow> list_all is_digit x \<and> x \<noteq> [] \<and> no_digit r"
  by (auto simp: p_digits_def Let_def list_all_iff no_digit_def hd_dropWhile
      dest: set_takeWhileD split: if_splits)

lemma p_digits_all: "list_all is_digit x \<Longrightarrow> x \<noteq> [] \<Longrightarrow> no_digit t \<Longrightarrow> p_digits (x @ t) = Some (x, t)"
  by (cases t; cases x)
    (auto simp: p_digits_def no_digit_def list_all_iff Let_def takeWhile_tail
      takeWhile_eq_all_conv [THEN iffD2] dropWhile_append)

lemma p_exp_self:
  assumes "p_exp s = Some (x, r)"
  shows "p_exp x = Some (x, []) \<and> (x = [] \<or> byte (hd x) = (101::nat) \<or> byte (hd x) = (69::nat))"
proof (cases s)
  case Nil
  then show ?thesis using assms by (simp add: p_exp_def)
next
  case (Cons c t)
  show ?thesis
  proof (cases "byte c = (101::nat) \<or> byte c = (69::nat)")
    case True
    then obtain g u where t: "t = g # u" using assms Cons
      by (cases t) (auto simp: p_exp_def split: if_splits)
    have d: "p_digits d = Some (d, [])" if "p_digits v = Some (d, r)" for v d
      using p_digits_self [OF that] p_digits_all [of d "[]"] by (simp add: no_digit_def)
    show ?thesis
    proof (cases "byte g = (43::nat) \<or> byte g = (45::nat)")
      case sign: True
      then obtain z where "p_digits u = Some (z, r)" "x = c # g # z"
        using assms True unfolding Cons t p_exp_def by (auto simp: prepend_Some split: if_splits)
      then show ?thesis using d True sign by (auto simp: p_exp_def prepend_def)
    next
      case sign: False
      then obtain z where z: "p_digits (g # u) = Some (z, r)" "x = c # z"
        using assms True unfolding Cons t p_exp_def by (auto simp: prepend_Some split: if_splits)
      then obtain v where "z = g # v"
        by (auto simp: p_digits_def Let_def split: if_splits)
      then show ?thesis using d [OF z(1)] z(2) True sign by (auto simp: p_exp_def prepend_def)
    qed
  next
    case False
    then show ?thesis using assms Cons by (auto simp: p_exp_def)
  qed
qed

lemma p_frac_self:
  assumes "p_frac s = Some (x, r)" "no_digit e"
  shows "(e = [] \<or> byte (hd e) \<noteq> (46::nat) \<longrightarrow> p_frac (x @ e) = Some (x, e))
    \<and> (x = [] \<or> byte (hd x) = (46::nat))"
proof (cases s)
  case Nil
  then show ?thesis using assms by (cases e) (auto simp: p_frac_def)
next
  case (Cons c t)
  show ?thesis
  proof (cases "byte c = (46::nat)")
    case True
    then obtain z where z: "p_digits t = Some (z, r)" "x = c # z"
      using assms Cons by (auto simp: p_frac_def prepend_Some)
    then show ?thesis
      using p_digits_self [OF z(1)] p_digits_all [of z e] assms(2) True
      by (simp add: p_frac_def prepend_def)
  next
    case False
    then show ?thesis using assms Cons by (cases e) (auto simp: p_frac_def)
  qed
qed

lemma p_int_self:
  assumes "p_int s = Some (x, r)" "no_digit t"
  shows "p_int (x @ t) = Some (x, t) \<and> (\<exists>c v. x = c # v \<and> is_digit c)"
proof (cases s)
  case (Cons c u)
  show ?thesis
  proof (cases "byte c = (48::nat)")
    case True
    then show ?thesis using assms Cons by (auto simp: p_int_def is_digit_def)
  next
    case False
    then have d: "p_digits s = Some (x, r)" using assms Cons by (auto simp: p_int_def split: if_splits)
    then obtain v where "x = c # v" using Cons
      by (auto simp: p_digits_def Let_def split: if_splits)
    then show ?thesis
      using p_digits_self [OF d] p_digits_all [of x t] assms(2) False by (simp add: p_int_def)
  qed
qed (use assms in \<open>simp add: p_int_def\<close>)

lemma p_number_literal_of:
  assumes "p_number s = Some (x, r)" shows "num_literal x"
proof -
  let ?sg = "\<lambda>s. case s of c # u \<Rightarrow> if byte c = (45::nat) then ([c], u) else ([], s) | [] \<Rightarrow> ([], [])"
  obtain sg u where u: "?sg s = (sg, u)" by fastforce
  from assms u obtain i t1 f t2 e where
    p: "p_int u = Some (i, t1)" "p_frac t1 = Some (f, t2)" "p_exp t2 = Some (e, r)" "x = sg @ i @ f @ e"
    by (auto simp: p_number_def split: option.splits)
  have e: "p_exp e = Some (e, [])" and en: "e = [] \<or> byte (hd e) = (101::nat) \<or> byte (hd e) = (69::nat)"
    using p_exp_self [OF p(3)] by simp_all
  have ed: "no_digit e" using en by (auto simp: no_digit_def is_digit_def)
  have f: "p_frac (f @ e) = Some (f, e)" and fn: "f = [] \<or> byte (hd f) = (46::nat)"
    using p_frac_self [OF p(2) ed] en by auto
  have fd: "no_digit (f @ e)" using fn ed by (cases f) (auto simp: no_digit_def is_digit_def)
  have i: "p_int (i @ f @ e) = Some (i, f @ e)" and ih: "\<exists>c v. i = c # v \<and> is_digit c"
    using p_int_self [OF p(1) fd] by simp_all
  have sg: "sg = [] \<or> (\<exists>c. sg = [c] \<and> byte c = (45::nat))"
    using u by (auto split: list.splits if_splits)
  have "?sg (sg @ i @ f @ e) = (sg, i @ f @ e)"
    using sg ih by (auto simp: is_digit_def)
  then show ?thesis
    using e f i p(4) by (simp add: num_literal_def p_number_def)
qed

lemma p_lit_Some: "p_lit w v s = Some (x, r) \<Longrightarrow> x = v"
  by (simp add: p_lit_def split: if_splits)

lemma p_all_ok:
  "(\<forall>d s x r. p_value n d s = Some (x, r) \<longrightarrow> jx_ok d x)
   \<and> (\<forall>d s xs r. p_elems n d s = Some (xs, r) \<longrightarrow> (\<forall>x \<in> set xs. jx_ok d x))
   \<and> (\<forall>d s ms r. p_members n d s = Some (ms, r) \<longrightarrow>
        (\<forall>m \<in> set ms. valid_utf8 (fst m) \<and> jx_ok d (snd m)))"
proof (induction n)
  case (Suc n)
  have v: "p_value n d s = Some (x, r) \<Longrightarrow> jx_ok d x"
    and e: "p_elems n d s = Some (xs, r) \<Longrightarrow> y \<in> set xs \<Longrightarrow> jx_ok d y"
    and m: "p_members n d s = Some (ms, r) \<Longrightarrow> (k, y) \<in> set ms \<Longrightarrow> valid_utf8 k \<and> jx_ok d y"
    for d s x r xs y ms k using Suc by (blast, blast, fastforce)
  have "jx_ok d x" if "p_value (Suc n) d s = Some (x, r)" for d s x r
    using that by (auto dest: e p_str_valid p_number_literal_of dest!: p_lit_Some
        split: if_splits list.splits option.splits nat.splits) (use m in blast)+
  moreover have "jx_ok d y" if "p_elems (Suc n) d s = Some (xs, r)" "y \<in> set xs" for d s xs r y
    using that by (auto split: if_splits list.splits option.splits) (use v e in blast)+
  moreover have "valid_utf8 (fst y) \<and> jx_ok d (snd y)"
    if "p_members (Suc n) d s = Some (ms, r)" "y \<in> set ms" for d s ms r y
    using that by (cases y, auto split: if_splits list.splits option.splits)
      (use v m p_str_valid in blast)+
  ultimately show ?case by blast
qed simp

lemma json_parse_ok: "json_parse s = Some x \<Longrightarrow> jx_ok json_max_depth x"
  using p_all_ok [of "2 * length s + 2", THEN conjunct1, rule_format, of json_max_depth s x]
  unfolding json_parse_def
  by (auto simp del: p_value.simps p_elems.simps p_members.simps split: option.splits if_splits)

text \<open>So a text that parses can be printed, stored and parsed again without loss.\<close>

lemma json_reparse: "json_parse s = Some x \<Longrightarrow> json_parse (jx_print x) = Some x"
  by (rule json_parse_print [OF json_parse_ok])

end
