(* ===== verification/Chunk_Codec.thy ===== *)
theory Chunk_Codec
  imports Chunk_Body Json_Roundtrip
begin

text \<open>
  Format 2 is read back as it was written: what \<open>FormatChunkV2JSON\<close> prints, \<open>ParseChunkPlaintext\<close>
  takes apart again, the metadata with its keys in the printed order. Format 1 has no marker of
  its own, so a plain text that happens to be such an object is read as one.
\<close>

section \<open>Metadata as a syntax tree\<close>

text \<open>The tree that \<open>json.Marshal\<close> prints for a value: object keys sorted, floats in \<open>ff\<close>'s form.\<close>

fun to_jx :: "(f64 \<Rightarrow> string) \<Rightarrow> jv \<Rightarrow> jx" where
  "to_jx ff JNull = XNull"
| "to_jx ff (JBool b) = XBool b"
| "to_jx ff (JNum x) = XNum (ff x)"
| "to_jx ff (JStr s) = XStr s"
| "to_jx ff (JArr vs) = XArr (map (to_jx ff) vs)"
| "to_jx ff (JObj es) = XObj (sort_key fst (map (\<lambda>(k, v). (k, to_jx ff v)) es))"

text \<open>A value that the printer and the number format handle: texts in UTF-8, each key once, each
  number printed as a literal that denotes it.\<close>

fun jv_ok :: "(f64 \<Rightarrow> string) \<Rightarrow> nat \<Rightarrow> jv \<Rightarrow> bool" where
  "jv_ok ff d JNull = True"
| "jv_ok ff d (JBool b) = True"
| "jv_ok ff d (JNum x) = (num_literal (ff x) \<and> parse_float (ff x) = Some x)"
| "jv_ok ff d (JStr s) = valid_utf8 s"
| "jv_ok ff d (JArr vs) = (0 < d \<and> (\<forall>v \<in> set vs. jv_ok ff (d - 1) v))"
| "jv_ok ff d (JObj es) = (0 < d \<and> distinct (map fst es)
     \<and> (\<forall>e \<in> set es. valid_utf8 (fst e) \<and> jv_ok ff (d - 1) (snd e)))"

text \<open>The same value with the entries of every object sorted.\<close>

fun jv_sorted :: "jv \<Rightarrow> jv" where
  "jv_sorted (JArr vs) = JArr (map jv_sorted vs)"
| "jv_sorted (JObj es) = JObj (sort_key fst (map (\<lambda>(k, v). (k, jv_sorted v)) es))"
| "jv_sorted v = v"

lemma sort_fst_map: "sort_key fst (map (\<lambda>(k, v). (k, f v)) es) = map (\<lambda>(k, v). (k, f v)) (sort_key fst es)"
proof -
  have c: "fst \<circ> (\<lambda>(k, v). (k, f v)) = fst" by auto
  show ?thesis using sort_key_map [of fst "\<lambda>(k, v). (k, f v)" es] unfolding c .
qed

lemma json_print_tree: "json_print ff v = jx_print (to_jx ff v)"
proof (induction v)
  case (JArr vs)
  then have e: "map (json_print ff) vs = map (\<lambda>v. jx_print (to_jx ff v)) vs" by simp
  show ?case by (simp add: e o_def)
next
  case (JObj es)
  then have e: "map (\<lambda>(k, v). (k, json_print ff v)) es = map (\<lambda>(k, v). (k, jx_print (to_jx ff v))) es"
    by force
  show ?case
    unfolding json_print.simps to_jx.simps jx_print.simps e sort_fst_map map_map
    by (simp add: o_def split_def)
qed simp_all

lemma to_jx_ok: "jv_ok ff d v \<Longrightarrow> jx_ok d (to_jx ff v)"
proof (induction v arbitrary: d)
  case (JObj es)
  then show ?case by (fastforce simp: sort_fst_map)
qed auto

lemma to_any_list_map: "\<forall>v \<in> set vs. to_any (f v) = Some (g v) \<Longrightarrow> to_any_list (map f vs) = Some (map g vs)"
  by (induction vs) auto

lemma AList_update_fresh: "k \<notin> fst ` set m \<Longrightarrow> AList.update k v m = m @ [(k, v)]"
  by (induction m) auto

lemma to_any_obj_map:
  "\<forall>e \<in> set es. to_any (f (snd e)) = Some (g (snd e)) \<Longrightarrow> distinct (map fst (acc @ es)) \<Longrightarrow>
   to_any_obj (map (\<lambda>(k, v). (k, f v)) es) acc = Some (acc @ map (\<lambda>(k, v). (k, g v)) es)"
proof (induction es arbitrary: acc)
  case (Cons e es)
  obtain k v where e: "e = (k, v)" by (cases e)
  have "k \<notin> fst ` set acc" using Cons.prems(2) e by auto
  moreover have "distinct (map fst ((acc @ [(k, g v)]) @ es))" using Cons.prems(2) e by auto
  ultimately show ?case
    using Cons.prems(1) Cons.IH [of "acc @ [(k, g v)]"] e by (simp add: AList_update_fresh)
qed simp

lemma sort_fst_distinct: "distinct (map fst es) \<Longrightarrow> distinct (map fst (sort_key fst es))"
  by (metis distinct_map distinct_sort set_sort)

lemma to_any_to_jx: "jv_ok ff d v \<Longrightarrow> to_any (to_jx ff v) = Some (jv_sorted v)"
proof (induction v arbitrary: d)
  case (JArr vs)
  then have "\<forall>v \<in> set vs. to_any (to_jx ff v) = Some (jv_sorted v)" by auto
  then show ?case using to_any_list_map [of vs "to_jx ff" jv_sorted] by simp
next
  case (JObj es)
  then have "\<forall>e \<in> set (sort_key fst es). to_any (to_jx ff (snd e)) = Some (jv_sorted (snd e))"
    by fastforce
  then show ?case
    using to_any_obj_map [of "sort_key fst es" "to_jx ff" jv_sorted "[]"] JObj.prems
    by (simp add: sort_fst_map sort_fst_distinct)
qed auto

section \<open>The round trip\<close>

definition v2_tree :: "(f64 \<Rightarrow> string) \<Rightarrow> string \<Rightarrow> string \<Rightarrow> string \<Rightarrow> jmap \<Rightarrow> jx" where
  "v2_tree ff a b k m = XObj
     ([(''v'', XNum ''2''), (''a'', XStr a), (''b'', XStr b), (''k'', XStr k)]
      @ (if jmap_nonempty m then [(''m'', to_jx ff (JObj (jmap_entries m)))] else []))"

lemma FormatChunkV2JSON_tree:
  "FormatChunkV2JSON ff a b k m = Inr s \<Longrightarrow> s = jx_print (v2_tree ff a b k m)"
proof -
  have "show_int 2 = ''2''" by code_simp
  then show "FormatChunkV2JSON ff a b k m = Inr s \<Longrightarrow> s = jx_print (v2_tree ff a b k m)"
    by (auto simp: FormatChunkV2JSON_def v2_tree_def chunkFormatV2_def json_print_tree simp del: to_jx.simps
        split: if_splits)
qed

text \<open>An empty map is not printed and comes back as the nil map.\<close>

definition meta_sorted :: "jmap \<Rightarrow> jmap" where
  "meta_sorted m = (if jmap_nonempty m
     then Some (sort_key fst (map (\<lambda>(k, v). (k, jv_sorted v)) (jmap_entries m))) else None)"

definition body_ok :: "(f64 \<Rightarrow> string) \<Rightarrow> string \<Rightarrow> string \<Rightarrow> string \<Rightarrow> jmap \<Rightarrow> bool" where
  "body_ok ff a b k m \<longleftrightarrow> valid_utf8 a \<and> valid_utf8 b \<and> valid_utf8 k
     \<and> jv_ok ff (json_max_depth - 1) (JObj (jmap_entries m))"

lemma v2_tree_ok: "body_ok ff a b k m \<Longrightarrow> jx_ok json_max_depth (v2_tree ff a b k m)"
proof -
  assume b: "body_ok ff a b k m"
  have "num_literal ''2''" unfolding num_literal_def by code_simp
  moreover have "jx_ok (json_max_depth - 1) (to_jx ff (JObj (jmap_entries m)))"
    using b to_jx_ok unfolding body_ok_def by blast
  moreover have "0 < json_max_depth" by (simp add: json_max_depth_def)
  ultimately show ?thesis
    using b by (simp add: v2_tree_def body_ok_def valid_utf8_ascii del: to_jx.simps)
qed

lemma dec_map_tree: "jv_ok ff d (JObj es) \<Longrightarrow>
    dec_map_field (to_jx ff (JObj es)) None = Some (Some (sort_key fst (map (\<lambda>(k, v). (k, jv_sorted v)) es)))"
  using to_any_to_jx [of ff d "JObj es"]
  by (auto simp: dec_map_field_def jmap_entries_def split: option.splits)

lemma unmarshal_v2:
  assumes "body_ok ff a b k m"
  shows "unmarshal_wire (jx_print (v2_tree ff a b k m))
    = Some \<lparr>cw_v = 2, cw_a = a, cw_b = b, cw_k = k, cw_m = meta_sorted m\<rparr>"
proof -
  have two: "parse_int ''2'' = Some 2" by code_simp
  have m: "dec_map_field (to_jx ff (JObj (jmap_entries m))) None
      = Some (Some (sort_key fst (map (\<lambda>(k, v). (k, jv_sorted v)) (jmap_entries m))))"
    using assms unfolding body_ok_def by (blast intro: dec_map_tree)
  show ?thesis
    using two m json_parse_print [OF v2_tree_ok [OF assms]]
    by (simp add: unmarshal_wire_def v2_tree_def empty_wire_def wire_field_def name_is_def kelvin_def
        dec_int_field_def dec_string_field_def meta_sorted_def del: to_jx.simps)
qed

lemma v2_print_ends:
  "\<exists>t. jx_print (v2_tree ff a b k m) = CHR ''{'' # t" "last (jx_print (v2_tree ff a b k m)) = CHR ''}''"
  by (simp_all add: v2_tree_def del: to_jx.simps)

lemma parse_format_v2:
  assumes "FormatChunkV2JSON ff a b k m = Inr s" and "body_ok ff a b k m"
  shows "ParseChunkPlaintext s = \<lparr>cb_abstract = a, cb_body = b, cb_kind = k, cb_meta = meta_sorted m,
     cb_ver = 2, cb_raw = []\<rparr>"
proof -
  have s: "s = jx_print (v2_tree ff a b k m)" using FormatChunkV2JSON_tree [OF assms(1)] .
  obtain t where t: "s = CHR ''{'' # t" using v2_print_ends(1) s by blast
  have "trim_space s = s"
    using v2_print_ends(2) [of ff a b k m] s
    by (intro trim_space_ends [OF t]) (simp_all add: space_rune_def)
  then show ?thesis
    using unmarshal_v2 [OF assms(2)] t unfolding s [symmetric]
    by (simp add: ParseChunkPlaintext_def chunkFormatV2_def)
qed

text \<open>C39. A structured memory is read back as it was written: abstract, body, kind and metadata, the
  metadata with its keys in printed order.\<close>

theorem chunk_v2_roundtrip:
  assumes "FormatChunkV2JSON ff a b k m = Inr s" and "body_ok ff a b k m"
  shows "ParseChunkPlaintext s = \<lparr>cb_abstract = a, cb_body = b, cb_kind = k, cb_meta = meta_sorted m,
     cb_ver = 2, cb_raw = []\<rparr>"
  using assms by (rule parse_format_v2)

text \<open>A text that does not begin with an opening brace is its own body.\<close>

lemma plain_text_kept:
  assumes "trim_space p \<noteq> []" and "byte (hd (trim_space p)) \<noteq> 123"
  shows "ParseChunkPlaintext p = legacy_body p \<and> cb_body (ParseChunkPlaintext p) = p"
  using assms by (simp_all add: ParseChunkPlaintext_def legacy_body_def)

text \<open>A plain text may be taken for format 2: the memory text \<^verbatim>\<open>{"v":2}\<close> comes back empty.\<close>

theorem plain_text_mistaken:
  "cb_body (ParseChunkPlaintext (''{'' @ json_str ''v'' @ '':2}'')) = []
   \<and> cb_ver (ParseChunkPlaintext (''{'' @ json_str ''v'' @ '':2}'')) = 2"
proof -
  let ?x = "XObj [(''v'', XNum ''2'')]"
  have n: "num_literal ''2''" "parse_int ''2'' = Some 2" unfolding num_literal_def by code_simp+
  have "jx_ok json_max_depth ?x" using n by (simp add: json_max_depth_def valid_utf8_ascii)
  from json_parse_print [OF this]
  have "unmarshal_wire (jx_print ?x) = Some (empty_wire\<lparr>cw_v := 2\<rparr>)"
    using n by (simp add: unmarshal_wire_def wire_field_def name_is_def dec_int_field_def)
  moreover have "trim_space (jx_print ?x) = jx_print ?x"
    by (rule trim_space_ends [of _ "CHR ''{''" "tl (jx_print ?x)"]) (simp_all add: space_rune_def)
  ultimately have "ParseChunkPlaintext (jx_print ?x)
      = \<lparr>cb_abstract = [], cb_body = [], cb_kind = [], cb_meta = None, cb_ver = 2, cb_raw = []\<rparr>"
    by (simp add: ParseChunkPlaintext_def chunkFormatV2_def empty_wire_def)
  then show ?thesis by simp
qed

section \<open>Excerpts and token estimates\<close>

text \<open>An excerpt has at most the wanted number of runes, and cuts only at a rune.\<close>

theorem excerpt_bounds:
  assumes "1 \<le> n" and "valid_utf8 s"
  shows "int (rune_count (ExcerptRunes s n)) \<le> n \<and> prefix (ExcerptRunes s n) s \<and> valid_utf8 (ExcerptRunes s n)"
proof (cases "int (length (runes s)) \<le> n")
  case True
  then show ?thesis using assms by (auto simp: ExcerptRunes_def rune_count_def)
next
  case False
  let ?rs = "take (nat n) (runes s)"
  have ok: "list_all scalar ?rs"
    using runes_scalar [of s] by (auto simp: list_all_iff dest: in_set_takeD)
  have "s = of_runes (?rs @ drop (nat n) (runes s))"
    using assms(2) by (simp only: append_take_drop_id valid_utf8_def)
  then have "prefix (of_runes ?rs) s" by (metis of_runes_append prefixI)
  with ok False assms show ?thesis
    by (auto simp: ExcerptRunes_def rune_count_def runes_of_runes valid_utf8_of_runes)
qed

lemma excerpt_ascii:
  assumes "ascii s" "1 \<le> n" shows "ExcerptRunes s n = take (nat n) s"
proof -
  have a: "of_runes (map byte t) = t" if "ascii t" for t
    using valid_utf8_ascii [OF that] by (simp add: valid_utf8_def runes_ascii [OF that])
  have t: "ascii (take (nat n) s)" using assms(1) by (auto simp: ascii_def list_all_iff dest: in_set_takeD)
  show ?thesis
    using assms(2) a [OF t] by (auto simp: ExcerptRunes_def runes_ascii [OF assms(1)] take_map)
qed

lemma excerpt_bounds_witness:
  "ExcerptRunes ''memory'' 3 = ''mem'' \<and> prefix (ExcerptRunes ''memory'' 3) ''memory''"
proof -
  have v: "valid_utf8 ''memory''" by (simp add: valid_utf8_ascii)
  have "ExcerptRunes ''memory'' 3 = take (nat 3) ''memory''" by (rule excerpt_ascii) simp_all
  then have "ExcerptRunes ''memory'' 3 = ''mem''" by simp
  moreover have "prefix (ExcerptRunes ''memory'' 3) ''memory''"
    using excerpt_bounds [OF _ v, of 3] by simp
  ultimately show ?thesis by simp
qed

lemma chunk_v2_roundtrip_witness:
  "\<exists>s. FormatChunkV2JSON (\<lambda>_. ''0'') ''a'' ''b'' ''k'' (Some [(''n'', JNum (Fin 0))]) = Inr s
     \<and> ParseChunkPlaintext s = \<lparr>cb_abstract = ''a'', cb_body = ''b'', cb_kind = ''k'',
         cb_meta = Some [(''n'', JNum (Fin 0))], cb_ver = 2, cb_raw = []\<rparr>"
proof -
  let ?m = "Some [(''n'', JNum (Fin 0))]"
  have n: "num_literal ''0''" unfolding num_literal_def by code_simp
  have "num_value ''0'' = 0" by code_simp
  then have p: "parse_float ''0'' = Some (Fin 0)" by (simp add: parse_float_def)
  have ok: "body_ok (\<lambda>_. ''0'') ''a'' ''b'' ''k'' ?m"
    using n p by (simp add: body_ok_def jmap_entries_def json_max_depth_def valid_utf8_ascii)
  obtain s where s: "FormatChunkV2JSON (\<lambda>_. ''0'') ''a'' ''b'' ''k'' ?m = Inr s"
    by (simp add: FormatChunkV2JSON_def jmap_entries_def)
  have "meta_sorted ?m = ?m" by (simp add: meta_sorted_def jmap_nonempty_def jmap_entries_def)
  with chunk_v2_roundtrip [OF s ok] s show ?thesis by simp
qed

end
