(* ===== verification/Bridge.thy ===== *)
theory Bridge
  imports Http Chunk_Codec
begin

text \<open>
  The MCP server's side of the HTTP API: \<open>internal/mcpbridge/bridge.go\<close> (three tools that turn their
  arguments into requests and answers into results) and \<open>bearer.go\<close> (where the token comes from). The
  transport, an \<open>http.Client\<close> and what is behind it, is an argument that changes a state of any type, so that it
  can be the modelled service itself. Requests that cannot be built or read fail like the transport.
  The registration with the MCP library is only the check before it and the names of the tools.
\<close>

section \<open>Settings\<close>

record bridge_config =
  bc_base :: string
  bc_bearer :: string
  bc_reload :: string
  bc_vault :: string
  bc_user :: string

definition bridge_base :: "bridge_config \<Rightarrow> string" where
  "bridge_base c = trim_right_char CHR ''/'' (trim_space (bc_base c))"

text \<open>The file is read again for every request; when it cannot be read the first token is kept.\<close>

definition bearerForGV :: "os \<Rightarrow> bridge_config \<Rightarrow> string" where
  "bearerForGV os c =
     (let tok = trim_space (bc_bearer c); p = trim_space (bc_reload c) in
      if p = [] then tok
      else (case os_file os p of
              Inl _ \<Rightarrow> tok
            | Inr b \<Rightarrow> if trim_space b \<noteq> [] then trim_space b else tok))"

definition envTruthy :: "env \<Rightarrow> os \<Rightarrow> string \<Rightarrow> bool" where
  "envTruthy env os k \<longleftrightarrow>
     to_lower (ev_lower env) (trim_space (os_env os k)) \<in> {''1'', ''t'', ''true'', ''yes'', ''y'', ''on''}"

text \<open>\<open>strings.EqualFold\<close>.\<close>

definition EqualFold :: "string \<Rightarrow> string \<Rightarrow> bool" where
  "EqualFold s t \<longleftrightarrow> fold_name s = fold_name t"

definition applyVaultUserDefaults :: "bridge_config \<Rightarrow> string \<Rightarrow> string \<Rightarrow> string \<times> string" where
  "applyVaultUserDefaults c vaultID userID =
     (let v = trim_space vaultID; dv = trim_space (bc_vault c); du = trim_space (bc_user c)
      in (if (v = [] \<or> EqualFold v ''default'') \<and> dv \<noteq> [] then dv else vaultID,
          if trim_space userID = [] \<and> du \<noteq> [] then du else userID))"

text \<open>\<open>file\<close> says whether \<open>os.Stat\<close> finds a path that is no directory.\<close>

definition token_path :: "os \<Rightarrow> (string \<Rightarrow> bool) \<Rightarrow> string \<Rightarrow> string" where
  "token_path os is_file flag =
     (let p0 = trim_space flag;
          p1 = (if p0 = [] then trim_space (os_env os ''GHOSTVAULT_TOKEN_FILE'') else p0)
      in if p1 = [] \<and> is_file ''.ghostvault-bearer'' then ''.ghostvault-bearer'' else p1)"

definition BearerFromEnvAndFile :: "os \<Rightarrow> (string \<Rightarrow> bool) \<Rightarrow> string \<Rightarrow> string \<Rightarrow> string res" where
  "BearerFromEnvAndFile os is_file bearerStr tokenFileFlag =
     (let tok = trim_space bearerStr; path = token_path os is_file tokenFileFlag in
      if tok \<noteq> [] then Inr tok
      else if path = []
      then Inl (EMsg ''set GHOSTVAULT_BEARER_TOKEN or -bearer, or run gvctl unlock -write-token-file .ghostvault-bearer (or set GHOSTVAULT_TOKEN_FILE)'')
      else (case os_file os path of
              Inl e \<Rightarrow> Inl e
            | Inr b \<Rightarrow> if trim_space b = [] then Inl (EMsg ''bearer token file is empty'') else Inr (trim_space b)))"

definition TokenReloadPathIfFileBased :: "os \<Rightarrow> (string \<Rightarrow> bool) \<Rightarrow> string \<Rightarrow> string \<Rightarrow> string" where
  "TokenReloadPathIfFileBased os is_file bearerStr tokenFileFlag =
     (if trim_space bearerStr \<noteq> [] then [] else token_path os is_file tokenFileFlag)"

section \<open>Arguments of the tools, as JSON\<close>

record search_in =
  si_vault :: string
  si_user :: string
  si_query :: string
  si_max_chunks :: int
  si_max_tokens :: int
  si_session_key :: string
  si_session_mode :: string
  si_content_mode :: string

record save_in =
  ma_vault :: string
  ma_user :: string
  ma_session_key :: string
  ma_text :: string
  ma_abstract :: string
  ma_kind :: string
  ma_meta :: jmap
  ma_items :: "ingest_item list"
  ma_source :: "(string \<times> string) option"
  ma_infer :: bool
  ma_infer_target :: string
  ma_messages :: "(string \<times> string) list"
  ma_idempotency :: string

text \<open>\<open>omitempty\<close>.\<close>

definition omit_str :: "string \<Rightarrow> string \<Rightarrow> (string \<times> jx) list" where
  "omit_str k v = (if v = [] then [] else [(k, XStr v)])"

definition omit_int :: "string \<Rightarrow> int \<Rightarrow> (string \<times> jx) list" where
  "omit_int k n = (if n = 0 then [] else [(k, XNum (show_int n))])"

definition omit_bool :: "string \<Rightarrow> bool \<Rightarrow> (string \<times> jx) list" where
  "omit_bool k b = (if b then [(k, XBool True)] else [])"

definition omit_list :: "string \<Rightarrow> jx list \<Rightarrow> (string \<times> jx) list" where
  "omit_list k vs = (if vs = [] then [] else [(k, XArr vs)])"

definition omit_map :: "(f64 \<Rightarrow> string) \<Rightarrow> string \<Rightarrow> jmap \<Rightarrow> (string \<times> jx) list" where
  "omit_map ff k m = (if jmap_nonempty m then [(k, to_jx ff (JObj (jmap_entries m)))] else [])"

definition search_tree :: "search_in \<Rightarrow> jx" where
  "search_tree a = XObj
     (omit_str ''vault_id'' (si_vault a) @ omit_str ''user_id'' (si_user a) @ [(''query'', XStr (si_query a))]
      @ omit_int ''max_chunks'' (si_max_chunks a) @ omit_int ''max_tokens'' (si_max_tokens a)
      @ omit_str ''session_key'' (si_session_key a) @ omit_str ''session_mode'' (si_session_mode a)
      @ omit_str ''content_mode'' (si_content_mode a))"

definition item_tree :: "(f64 \<Rightarrow> string) \<Rightarrow> ingest_item \<Rightarrow> jx" where
  "item_tree ff i = XObj
     (omit_str ''abstract'' (it_abstract i) @ omit_str ''text'' (it_text i) @ omit_str ''body'' (it_body i)
      @ omit_str ''kind'' (it_kind i) @ omit_map ff ''metadata'' (it_meta i))"

definition source_tree :: "string \<times> string \<Rightarrow> jx" where
  "source_tree s = XObj (omit_str ''text'' (fst s) @ omit_str ''title'' (snd s))"

definition message_tree :: "string \<times> string \<Rightarrow> jx" where
  "message_tree m = XObj [(''role'', XStr (fst m)), (''content'', XStr (snd m))]"

definition save_tree :: "(f64 \<Rightarrow> string) \<Rightarrow> save_in \<Rightarrow> jx" where
  "save_tree ff a = XObj
     (omit_str ''vault_id'' (ma_vault a) @ omit_str ''user_id'' (ma_user a) @ omit_str ''session_key'' (ma_session_key a)
      @ omit_str ''text'' (ma_text a) @ omit_str ''abstract'' (ma_abstract a) @ omit_str ''kind'' (ma_kind a)
      @ omit_map ff ''metadata'' (ma_meta a) @ omit_list ''items'' (map (item_tree ff) (ma_items a))
      @ (case ma_source a of None \<Rightarrow> [] | Some s \<Rightarrow> [(''source_document'', source_tree s)])
      @ omit_bool ''infer'' (ma_infer a) @ omit_str ''infer_target'' (ma_infer_target a)
      @ omit_list ''messages'' (map message_tree (ma_messages a)) @ omit_str ''idempotency_key'' (ma_idempotency a))"

definition marshal_search :: "search_in \<Rightarrow> bytes" where
  "marshal_search a = jx_print (search_tree a)"

text \<open>\<open>json.Marshal\<close> fails on numbers that JSON cannot write.\<close>

definition marshal_save :: "(f64 \<Rightarrow> string) \<Rightarrow> save_in \<Rightarrow> bytes res" where
  "marshal_save ff a =
     (if jv_finite (JObj (jmap_entries (ma_meta a))) \<and> list_all (\<lambda>i. jv_finite (JObj (jmap_entries (it_meta i)))) (ma_items a)
      then Inr (jx_print (save_tree ff a)) else Inl (EMsg ''json: unsupported value''))"

section \<open>Calls\<close>

record http_call =
  hc_method :: string
  hc_url :: string
  hc_authorization :: string
  hc_content_type :: string
  hc_body :: bytes

type_synonym 'w transport = "http_call \<Rightarrow> 'w \<Rightarrow> (nat \<times> bytes) res \<times> 'w"

datatype bridge_log = LogCall string string string string | LogFullBearer | LogRejected string string

definition debug_lines :: "env \<Rightarrow> os \<Rightarrow> string \<Rightarrow> string \<Rightarrow> string \<Rightarrow> bridge_log list" where
  "debug_lines env os method url tok =
     (if \<not> envTruthy env os ''GHOSTVAULT_DEBUG_AUTH'' then []
      else (let reveal = envTruthy env os ''GHOSTVAULT_DEBUG_AUTH_FULL'' in
            LogCall method url (Fingerprint env tok) (ForLog tok reveal)
              # (if reveal \<and> tok \<noteq> [] then [LogFullBearer] else [])))"

definition rejected_lines :: "env \<Rightarrow> os \<Rightarrow> string \<Rightarrow> string \<Rightarrow> nat \<Rightarrow> bridge_log list" where
  "rejected_lines env os method url code =
     (if code = 401 \<and> envTruthy env os ''GHOSTVAULT_DEBUG_AUTH'' then [LogRejected method url] else [])"

definition max_answer :: nat where "max_answer = 4 * 2 ^ 20"

definition bridge_send ::
  "env \<Rightarrow> os \<Rightarrow> 'w transport \<Rightarrow> string \<Rightarrow> http_call \<Rightarrow> 'w \<Rightarrow> ((bytes \<times> nat) res \<times> bridge_log list) \<times> 'w" where
  "bridge_send env os tr tok call w =
     (let dbg = debug_lines env os (hc_method call) (hc_url call) tok in
      case tr call w of
        (Inl e, w1) \<Rightarrow> ((Inl e, dbg), w1)
      | (Inr (code, raw), w1) \<Rightarrow>
          ((Inr (take max_answer raw, code), dbg @ rejected_lines env os (hc_method call) (hc_url call) code), w1))"

definition post ::
  "env \<Rightarrow> os \<Rightarrow> bridge_config \<Rightarrow> 'w transport \<Rightarrow> string \<Rightarrow> bytes \<Rightarrow> 'w \<Rightarrow> ((bytes \<times> nat) res \<times> bridge_log list) \<times> 'w" where
  "post env os c tr url body =
     (let tok = bearerForGV os c in
      bridge_send env os tr tok \<lparr>hc_method = ''POST'', hc_url = url, hc_authorization = ''Bearer '' @ tok,
        hc_content_type = ''application/json'', hc_body = body\<rparr>)"

definition get_call ::
  "env \<Rightarrow> os \<Rightarrow> bridge_config \<Rightarrow> 'w transport \<Rightarrow> string \<Rightarrow> 'w \<Rightarrow> ((bytes \<times> nat) res \<times> bridge_log list) \<times> 'w" where
  "get_call env os c tr url =
     (let tok = bearerForGV os c in
      bridge_send env os tr tok \<lparr>hc_method = ''GET'', hc_url = url, hc_authorization = ''Bearer '' @ tok,
        hc_content_type = [], hc_body = []\<rparr>)"

definition cut_message :: "string \<Rightarrow> string" where
  "cut_message raw = (let m = trim_space raw in if 4000 < length m then take 4000 m @ ellipsis else m)"

definition toolResultFromHTTP :: "nat \<Rightarrow> bytes \<Rightarrow> jv res" where
  "toolResultFromHTTP code raw =
     (if 200 \<le> code \<and> code < 300 then
        (case Option.bind (json_parse raw) to_any of
           None \<Rightarrow> Inl (EMsg ''ghostvault: invalid JSON response'')
         | Some v \<Rightarrow> Inr v)
      else Inl (EMsg (''ghostvault HTTP '' @ show_nat code @ '': '' @ cut_message raw)))"

section \<open>The tools\<close>

type_synonym 'w tool_result = "(jv res \<times> bridge_log list) \<times> 'w"

definition tool_answer :: "((bytes \<times> nat) res \<times> bridge_log list) \<times> 'w \<Rightarrow> 'w tool_result" where
  "tool_answer x =
     (case x of
        ((Inl e, ls), w) \<Rightarrow> ((Inl e, ls), w)
      | ((Inr (raw, code), ls), w) \<Rightarrow> ((toolResultFromHTTP code raw, ls), w))"

definition memory_search :: "env \<Rightarrow> os \<Rightarrow> bridge_config \<Rightarrow> 'w transport \<Rightarrow> search_in \<Rightarrow> 'w \<Rightarrow> 'w tool_result" where
  "memory_search env os c tr a w =
     (let (v, u) = applyVaultUserDefaults c (si_vault a) (si_user a)
      in tool_answer (post env os c tr (bridge_base c @ ''/v1/retrieve'') (marshal_search (a\<lparr>si_vault := v, si_user := u\<rparr>)) w))"

definition memory_save :: "env \<Rightarrow> os \<Rightarrow> bridge_config \<Rightarrow> 'w transport \<Rightarrow> save_in \<Rightarrow> 'w \<Rightarrow> 'w tool_result" where
  "memory_save env os c tr a w =
     (let (v, u) = applyVaultUserDefaults c (ma_vault a) (ma_user a)
      in case marshal_save (ev_fmt_f64 env) (a\<lparr>ma_vault := v, ma_user := u\<rparr>) of
           Inl e \<Rightarrow> ((Inl e, []), w)
         | Inr body \<Rightarrow> tool_answer (post env os c tr (bridge_base c @ ''/v1/ingest'') body w))"

definition memory_stats :: "env \<Rightarrow> os \<Rightarrow> bridge_config \<Rightarrow> 'w transport \<Rightarrow> 'w \<Rightarrow> 'w tool_result" where
  "memory_stats env os c tr w = tool_answer (get_call env os c tr (bridge_base c @ ''/v1/stats'') w)"

definition RegisterTools :: "bridge_config \<Rightarrow> string list res" where
  "RegisterTools c =
     (if bridge_base c = [] \<or> trim_space (bc_bearer c) = []
      then Inl (EMsg ''mcpbridge: Config.BaseURL and Config.BearerToken are required'')
      else Inr [''memory_search'', ''memory_save'', ''memory_stats''])"

definition NewMCPServer :: "bridge_config \<Rightarrow> (string \<times> string \<times> string list) res" where
  "NewMCPServer c =
     (case RegisterTools c of Inl e \<Rightarrow> Inl e | Inr ts \<Rightarrow> Inr (''ghostvault-mcp'', ''0.1.0'', ts))"

definition no_search :: search_in where
  "no_search = \<lparr>si_vault = [], si_user = [], si_query = [], si_max_chunks = 0, si_max_tokens = 0, si_session_key = [],
     si_session_mode = [], si_content_mode = []\<rparr>"

definition no_save :: save_in where
  "no_save = \<lparr>ma_vault = [], ma_user = [], ma_session_key = [], ma_text = [], ma_abstract = [], ma_kind = [],
     ma_meta = None, ma_items = [], ma_source = None, ma_infer = False, ma_infer_target = [], ma_messages = [],
     ma_idempotency = []\<rparr>"

definition PostRetrieve ::
  "env \<Rightarrow> os \<Rightarrow> bridge_config \<Rightarrow> 'w transport \<Rightarrow> string \<Rightarrow> string \<Rightarrow> string \<Rightarrow> int \<Rightarrow> int \<Rightarrow> 'w
   \<Rightarrow> ((bytes \<times> nat) res \<times> bridge_log list) \<times> 'w" where
  "PostRetrieve env os c tr vaultID userID q maxChunks maxTokens w =
     (if bridge_base c = [] then ((Inl (EMsg ''mcpbridge: empty BaseURL''), []), w)
      else post env os c tr (bridge_base c @ ''/v1/retrieve'')
             (marshal_search (no_search\<lparr>si_vault := vaultID, si_user := userID, si_query := q,
                si_max_chunks := maxChunks, si_max_tokens := maxTokens\<rparr>)) w)"

definition PostIngest ::
  "env \<Rightarrow> os \<Rightarrow> bridge_config \<Rightarrow> 'w transport \<Rightarrow> string \<Rightarrow> string \<Rightarrow> string \<Rightarrow> 'w
   \<Rightarrow> ((bytes \<times> nat) res \<times> bridge_log list) \<times> 'w" where
  "PostIngest env os c tr vaultID userID txt w =
     (if bridge_base c = [] then ((Inl (EMsg ''mcpbridge: empty BaseURL''), []), w)
      else (case marshal_save (ev_fmt_f64 env) (no_save\<lparr>ma_vault := vaultID, ma_user := userID, ma_text := txt\<rparr>) of
              Inl e \<Rightarrow> ((Inl e, []), w)
            | Inr body \<Rightarrow> post env os c tr (bridge_base c @ ''/v1/ingest'') body w))"

end
