(* ===== verification/Form.thy ===== *)
theory Form
  imports Json_Roundtrip
begin

text \<open>
  Forms of \<open>net/url\<close> as the OAuth part of the program uses them: escaping, \<open>Values\<close> with its \<open>Add\<close>,
  \<open>Set\<close>, \<open>Del\<close>, \<open>Encode\<close> and \<open>ParseQuery\<close>. A map of lists is a list of its entries; \<open>Encode\<close> sorts the
  keys. What a form says of a key is \<open>form_get\<close>, and reading back an encoded form says the same.
\<close>

section \<open>Splitting\<close>

text \<open>\<open>strings.Split\<close> at a single byte.\<close>

fun split_char :: "char \<Rightarrow> string \<Rightarrow> string list" where
  "split_char c [] = [[]]"
| "split_char c (x # s) =
     (if x = c then [] # split_char c s
      else (case split_char c s of [] \<Rightarrow> [[x]] | p # ps \<Rightarrow> (x # p) # ps))"

text \<open>\<open>strings.Cut\<close> at a single byte, without the flag.\<close>

definition cut_char :: "char \<Rightarrow> string \<Rightarrow> string \<times> string" where
  "cut_char c s = (takeWhile (\<lambda>x. x \<noteq> c) s, tl (dropWhile (\<lambda>x. x \<noteq> c) s))"

lemma split_char_not_Nil [simp]: "split_char c s \<noteq> []"
  by (induction s) (auto split: list.split)

lemma split_char_none: "c \<notin> set s \<Longrightarrow> split_char c s = [s]"
  by (induction s) auto

lemma split_char_append: "c \<notin> set s \<Longrightarrow> split_char c (s @ c # t) = s # split_char c t"
  by (induction s) auto

lemma cut_char_append: "c \<notin> set s \<Longrightarrow> cut_char c (s @ c # t) = (s, t)"
  by (induction s) (auto simp: cut_char_def)

section \<open>Escaping\<close>

text \<open>\<open>url.QueryEscape\<close>: letters, digits and four signs stay, a space becomes a plus, every other byte a
  percent sign and two upper-case hex digits.\<close>

definition unreserved :: "char \<Rightarrow> bool" where
  "unreserved c \<longleftrightarrow> (let b = byte c :: nat in
     48 \<le> b \<and> b \<le> 57 \<or> 65 \<le> b \<and> b \<le> 90 \<or> 97 \<le> b \<and> b \<le> 122 \<or> b = 45 \<or> b = 46 \<or> b = 95 \<or> b = 126)"

definition upper_hex :: "nat \<Rightarrow> char" where
  "upper_hex n = (if n < 10 then chr (48 + n) else chr (55 + n))"

definition escape_char :: "char \<Rightarrow> string" where
  "escape_char c =
     (if unreserved c then [c]
      else if byte c = 32 then [chr 43]
      else [chr 37, upper_hex (byte c div 16), upper_hex (byte c mod 16)])"

definition QueryEscape :: "string \<Rightarrow> string" where
  "QueryEscape s = concat (map escape_char s)"

text \<open>\<open>url.QueryUnescape\<close>; \<open>None\<close> is an \<open>EscapeError\<close>.\<close>

fun QueryUnescape :: "string \<Rightarrow> string option" where
  "QueryUnescape [] = Some []"
| "QueryUnescape (c # s) =
     (if byte c = 37 then
        (case s of
           a # b # t \<Rightarrow>
             (case (hex_val a, hex_val b) of
                (Some x, Some y) \<Rightarrow> map_option ((#) (chr (16 * x + y))) (QueryUnescape t)
              | _ \<Rightarrow> None)
         | _ \<Rightarrow> None)
      else if byte c = 43 then map_option ((#) (chr 32)) (QueryUnescape s)
      else map_option ((#) c) (QueryUnescape s))"

lemma upper_val: "n < 16 \<Longrightarrow> hex_val (upper_hex n) = Some n"
  by (auto simp: hex_val_def upper_hex_def Let_def)

lemma byte_less_256: "byte c < (256::nat)"
  by (cases c) simp

lemma byte_div_16: "byte c div 16 < (16::nat)"
  using byte_less_256 [of c] less_mult_imp_div_less [of "byte c" 16 16] by simp

lemma unescape_char: "QueryUnescape (escape_char c @ t) = map_option ((#) c) (QueryUnescape t)"
proof -
  have "chr (16 * (byte c div 16) + byte c mod 16) = c" by simp
  moreover have "byte c = 32 \<Longrightarrow> chr 32 = c" using byte_eq_iff [of 32 c] by auto
  ultimately show ?thesis using byte_div_16 [of c]
    by (auto simp: escape_char_def unreserved_def upper_val Let_def)
qed

lemma unescape_escape: "QueryUnescape (QueryEscape s) = Some s"
  by (induction s) (simp_all add: QueryEscape_def unescape_char)

lemma escape_clean: "x \<in> set (QueryEscape s) \<Longrightarrow> unreserved x \<or> byte x = 43 \<or> byte x = 37"
proof -
  have h: "unreserved (upper_hex n)" if "n < 16" for n
    using that by (auto simp: unreserved_def upper_hex_def Let_def)
  show "x \<in> set (QueryEscape s) \<Longrightarrow> unreserved x \<or> byte x = 43 \<or> byte x = 37"
    using h byte_div_16 by (auto simp: QueryEscape_def escape_char_def split: if_splits)
qed

section \<open>Values\<close>

type_synonym form = "(string \<times> string list) list"

definition form_get :: "form \<Rightarrow> string \<Rightarrow> string list" where
  "form_get f k = (case map_of f k of None \<Rightarrow> [] | Some vs \<Rightarrow> vs)"

definition form_add :: "string \<Rightarrow> string \<Rightarrow> form \<Rightarrow> form" where
  "form_add k v f = AList.update k (form_get f k @ [v]) f"

definition form_set :: "string \<Rightarrow> string \<Rightarrow> form \<Rightarrow> form" where
  "form_set k v f = AList.update k [v] f"

definition form_del :: "string \<Rightarrow> form \<Rightarrow> form" where
  "form_del k f = AList.delete k f"

definition pair_text :: "string \<Rightarrow> string \<Rightarrow> string" where
  "pair_text k v = QueryEscape k @ CHR ''='' # QueryEscape v"

definition Encode :: "form \<Rightarrow> string" where
  "Encode f = join ''&'' (concat (map (\<lambda>(k, vs). map (pair_text k) vs) (sort_key fst f)))"

definition parse_pair :: "string \<Rightarrow> form \<times> bool \<Rightarrow> form \<times> bool" where
  "parse_pair p st =
     (case st of (f, ok) \<Rightarrow>
        if CHR '';'' \<in> set p then (f, False)
        else if p = [] then (f, ok)
        else (case cut_char CHR ''='' p of (k, v) \<Rightarrow>
                (case (QueryUnescape k, QueryUnescape v) of
                   (Some k', Some v') \<Rightarrow> (form_add k' v' f, ok)
                 | _ \<Rightarrow> (f, False))))"

text \<open>The form, of the parts without a fault, and whether there was none.\<close>

definition ParseQuery :: "string \<Rightarrow> form \<times> bool" where
  "ParseQuery s = fold parse_pair (split_char CHR ''&'' s) ([], True)"

section \<open>Laws\<close>

lemma form_get_simps [simp]:
  "form_get [] k = []"
  "form_get (form_add k v f) k' = form_get f k' @ (if k' = k then [v] else [])"
  "form_get (form_set k v f) k' = (if k' = k then [v] else form_get f k')"
  "form_get (form_del k f) k' = (if k' = k then [] else form_get f k')"
  by (auto simp: form_get_def form_add_def form_set_def form_del_def AList.update_conv' AList.delete_conv')

lemma distinct_form [simp]:
  "distinct (map fst f) \<Longrightarrow> distinct (map fst (form_add k v f))"
  "distinct (map fst f) \<Longrightarrow> distinct (map fst (form_set k v f))"
  "distinct (map fst f) \<Longrightarrow> distinct (map fst (form_del k f))"
  by (simp_all add: form_add_def form_set_def form_del_def AList.distinct_update AList.distinct_delete)

lemma parse_pair_text: "parse_pair (pair_text k v) (f, ok) = (form_add k v f, ok)"
proof -
  have c: "x \<in> set (QueryEscape s) \<Longrightarrow> x \<noteq> CHR '';'' \<and> x \<noteq> CHR ''=''" for x s
    using escape_clean [of x s] by (auto simp: unreserved_def Let_def)
  then have "cut_char CHR ''='' (pair_text k v) = (QueryEscape k, QueryEscape v)"
    unfolding pair_text_def by (intro cut_char_append) auto
  then show ?thesis using c
    by (auto simp: parse_pair_def pair_text_def unescape_escape)
qed

lemma pair_text_clean: "CHR ''&'' \<notin> set (pair_text k v)"
  using escape_clean [of "CHR ''&''"] by (auto simp: pair_text_def unreserved_def Let_def)

lemma split_join:
  "(\<And>s. s \<in> set ss \<Longrightarrow> c \<notin> set s) \<Longrightarrow> split_char c (join [c] ss) = (if ss = [] then [[]] else ss)"
proof (induction ss)
  case (Cons s ss)
  then show ?case by (cases ss) (auto simp: split_char_none split_char_append)
qed simp

lemma fold_pairs:
  "fold parse_pair (map (\<lambda>(k, v). pair_text k v) ps) (f, ok) = (fold (\<lambda>(k, v). form_add k v) ps f, ok)"
  by (induction ps arbitrary: f) (auto simp: parse_pair_text)

definition form_pairs :: "form \<Rightarrow> (string \<times> string) list" where
  "form_pairs f = concat (map (\<lambda>(k, vs). map (Pair k) vs) f)"

lemma get_adds: "form_get (fold (\<lambda>(k, v). form_add k v) ps f) k = form_get f k @ map snd (filter (\<lambda>p. fst p = k) ps)"
  by (induction ps arbitrary: f) auto

lemma distinct_adds: "distinct (map fst f) \<Longrightarrow> distinct (map fst (fold (\<lambda>(k, v). form_add k v) ps f))"
  by (induction ps arbitrary: f) auto

lemma pairs_get: "distinct (map fst f) \<Longrightarrow> map snd (filter (\<lambda>p. fst p = k) (form_pairs f)) = form_get f k"
proof (induction f)
  case (Cons e f)
  obtain k' vs where e: "e = (k', vs)" by (cases e)
  have n: "k' = k \<Longrightarrow> form_get f k = []" using Cons.prems e
    by (auto simp: form_get_def split: option.split dest: map_of_SomeD) force
  have "map snd (filter (\<lambda>p. fst p = k) (map (Pair k') vs)) = (if k' = k then vs else [])"
    by (simp add: filter_map o_def)
  then show ?case using Cons n by (auto simp: e form_pairs_def form_get_def)
qed (simp add: form_pairs_def)

lemma parse_encode:
  assumes "distinct (map fst f)"
  shows "\<exists>g. ParseQuery (Encode f) = (g, True) \<and> distinct (map fst g) \<and> (\<forall>k. form_get g k = form_get f k)"
proof -
  let ?s = "sort_key fst f" and ?ps = "form_pairs (sort_key fst f)"
  have m: "concat (map (\<lambda>(k, vs). map (pair_text k) vs) ?s) = map (\<lambda>(k, v). pair_text k v) ?ps"
    by (simp add: form_pairs_def map_concat o_def case_prod_unfold)
  have "split_char CHR ''&'' (Encode f) = (if ?ps = [] then [[]] else map (\<lambda>(k, v). pair_text k v) ?ps)"
    unfolding Encode_def m using pair_text_clean by (subst split_join) auto
  then have "ParseQuery (Encode f) = (fold (\<lambda>(k, v). form_add k v) ?ps [], True)"
    by (simp add: ParseQuery_def fold_pairs) (simp add: parse_pair_def)
  moreover have "distinct (map fst ?s)"
    using assms by (metis distinct_map distinct_sort inj_on_def set_sort distinct_map)
  moreover have "map_of ?s = map_of f"
    using assms calculation(2) by (intro map_of_inject_set [THEN iffD2]) auto
  ultimately show ?thesis
    using distinct_adds [of "[]" ?ps] get_adds [of ?ps "[]"] pairs_get [of ?s] by (auto simp: form_get_def)
qed

lemma parse_distinct: "distinct (map fst (fst (ParseQuery s)))"
proof -
  have "distinct (map fst (fst st)) \<Longrightarrow> distinct (map fst (fst (fold parse_pair ps st)))" for ps st
  proof (induction ps arbitrary: st)
    case (Cons p ps)
    have "distinct (map fst (fst (parse_pair p st)))"
      using Cons.prems by (auto simp: parse_pair_def split: prod.splits option.splits)
    then show ?case using Cons.IH by simp
  qed simp
  then show ?thesis by (simp add: ParseQuery_def)
qed

end
