(* ===== verification/OAuth.thy ===== *)
theory OAuth
  imports Bridge Form
begin

text \<open>
  The OAuth side of the MCP server: \<open>internal/mcpbridge/oauth.go\<close> (settings, token
  introspection), and what it shares with the facade. \<open>url.Parse\<close> is an argument: what
  the code takes from a URL are its scheme, host and query, and its text with another query. The
  HTTP client is an argument too; a response that breaks off fails like the call. The check of the bearer
  header around \<open>VerifyToken\<close> is the MCP library's.
\<close>

section \<open>Settings\<close>

record url_parts =
  up_scheme :: string
  up_host :: string
  up_query :: string
  up_with_query :: "string \<Rightarrow> string"     \<comment> \<open>\<open>String\<close> after \<open>RawQuery\<close> was set\<close>

type_synonym url_parse = "string \<Rightarrow> url_parts res"

record oauth_http =
  oh_issuer :: string
  oh_resource :: string
  oh_metadata :: string
  oh_intro :: string
  oh_client_id :: string
  oh_client_secret :: string
  oh_required :: "string list"
  oh_supported :: "string list"
  oh_authorize :: string
  oh_token :: string
  oh_register :: string
  oh_audience :: string

record upstream_overrides =
  uo_authorize :: string
  uo_token :: string
  uo_register :: string
  uo_audience :: string

record resource_metadata =
  pm_resource :: string
  pm_servers :: "string list"
  pm_scopes :: "string list"
  pm_methods :: "string list"
  pm_name :: string

definition ProtectedResourceMetadata :: "oauth_http \<Rightarrow> resource_metadata" where
  "ProtectedResourceMetadata o' =
     \<lparr>pm_resource = oh_resource o', pm_servers = [oh_issuer o'],
      pm_scopes = (if oh_supported o' = [] \<and> oh_required o' \<noteq> [] then oh_required o' else oh_supported o'),
      pm_methods = [''header''], pm_name = ''Ghost Vault MCP''\<rparr>"

definition if_empty :: "string \<Rightarrow> string \<Rightarrow> string" where
  "if_empty s d = (if s = [] then d else s)"

definition NewOAuthHTTP ::
  "string \<Rightarrow> string \<Rightarrow> string \<Rightarrow> string \<Rightarrow> string \<Rightarrow> string \<Rightarrow> string list \<Rightarrow> string list \<Rightarrow> upstream_overrides
   \<Rightarrow> oauth_http option res" where
  "NewOAuthHTTP issuer0 resource0 metadata0 intro0 cid cs required supported up =
     (let intro = trim_space intro0; issuer = trim_space issuer0; resource = trim_space resource0;
          metadata = trim_space metadata0; slash = trim_right_char CHR ''/'' issuer @ ''/''
      in if intro = [] then Inr None
         else if issuer = [] \<or> resource = [] \<or> metadata = []
         then Inl (EMsg ''OAuth enabled (introspection URL set): require issuer, resource URL, and metadata URL'')
         else Inr (Some
           \<lparr>oh_issuer = issuer, oh_resource = resource, oh_metadata = metadata, oh_intro = intro,
            oh_client_id = trim_space cid, oh_client_secret = trim_space cs, oh_required = required, oh_supported = supported,
            oh_authorize = if_empty (trim_space (uo_authorize up)) (slash @ ''authorize''),
            oh_token = if_empty (trim_space (uo_token up)) (slash @ ''oauth/token''),
            oh_register = if_empty (trim_space (uo_register up)) (slash @ ''oidc/register''),
            oh_audience = if_empty (trim_space (uo_audience up)) resource\<rparr>))"

text \<open>Comma-separated names, trimmed, the empty ones left out.\<close>

definition comma_names :: "string \<Rightarrow> string list" where
  "comma_names s = (if s = [] then [] else filter (\<lambda>p. p \<noteq> []) (map trim_space (split_char CHR '','' s)))"

definition ParseOAuthHTTPFromEnv :: "os \<Rightarrow> oauth_http option res" where
  "ParseOAuthHTTPFromEnv os =
     (let get = (\<lambda>k. trim_space (os_env os k)) in
      NewOAuthHTTP (get ''GHOSTVAULT_OAUTH_AUTH_SERVER_ISSUER'') (get ''GHOSTVAULT_OAUTH_RESOURCE'')
        (get ''GHOSTVAULT_OAUTH_METADATA_URL'') (get ''GHOSTVAULT_OAUTH_INTROSPECTION_URL'')
        (get ''GHOSTVAULT_OAUTH_INTROSPECTION_CLIENT_ID'') (get ''GHOSTVAULT_OAUTH_INTROSPECTION_CLIENT_SECRET'')
        (comma_names (get ''GHOSTVAULT_OAUTH_SCOPES'')) (comma_names (get ''GHOSTVAULT_OAUTH_SCOPES_SUPPORTED''))
        \<lparr>uo_authorize = get ''GHOSTVAULT_OAUTH_UPSTREAM_AUTHORIZE_URL'', uo_token = get ''GHOSTVAULT_OAUTH_TOKEN_URL'',
         uo_register = get ''GHOSTVAULT_OAUTH_REGISTRATION_URL'', uo_audience = get ''GHOSTVAULT_OAUTH_AUDIENCE''\<rparr>)"

section \<open>Introspection\<close>

record up_call =
  uc_method :: string
  uc_url :: string
  uc_headers :: "(string \<times> string) list"
  uc_basic :: "(string \<times> string) option"     \<comment> \<open>\<open>SetBasicAuth\<close>\<close>
  uc_body :: bytes

record up_answer =
  ua_status :: nat
  ua_headers :: "(string \<times> string list) list"
  ua_body :: bytes

type_synonym 'w upstream = "up_call \<Rightarrow> 'w \<Rightarrow> up_answer res \<times> 'w"

datatype verify_error = InvalidToken | VerifyFailed err

record token_info =
  ti_scopes :: "string list"
  ti_expires :: int
  ti_user :: string

text \<open>\<open>int64(f)\<close>: towards zero; what is out of range becomes the least value, as on amd64.\<close>

definition int64_of_f64 :: "f64 \<Rightarrow> int" where
  "int64_of_f64 x =
     (case x of
        Fin q \<Rightarrow> (let n = (if q < 0 then - \<lfloor>- q\<rfloor> else \<lfloor>q\<rfloor>) in if - (2 ^ 63) \<le> n \<and> n < 2 ^ 63 then n else - (2 ^ 63))
      | _ \<Rightarrow> - (2 ^ 63))"

definition oauthExpFromIntrospectionMap :: "(string \<rightharpoonup> jx) \<Rightarrow> int option" where
  "oauthExpFromIntrospectionMap tr =
     (case tr ''exp'' of
        Some (XNum s) \<Rightarrow> map_option int64_of_f64 (parse_float s)
      | _ \<Rightarrow> None)"

text \<open>\<open>base64.RawURLEncoding\<close> and \<open>base64.URLEncoding\<close>, which skip line ends and ignore the bits that are left over.\<close>

definition b64_val :: "char \<Rightarrow> nat option" where
  "b64_val c =
     (let b = byte c in
      if 65 \<le> b \<and> b \<le> 90 then Some (b - 65)
      else if 97 \<le> b \<and> b \<le> 122 then Some (b - 71)
      else if 48 \<le> b \<and> b \<le> 57 then Some (b + 4)
      else if b = 45 then Some 62
      else if b = 95 then Some 63
      else None)"

definition b64_2 :: "char \<Rightarrow> char \<Rightarrow> bytes option" where
  "b64_2 a b = (case (b64_val a, b64_val b) of (Some x, Some y) \<Rightarrow> Some [chr ((x * 64 + y) div 16)] | _ \<Rightarrow> None)"

definition b64_3 :: "char \<Rightarrow> char \<Rightarrow> char \<Rightarrow> bytes option" where
  "b64_3 a b c =
     (case (b64_val a, b64_val b, b64_val c) of
        (Some x, Some y, Some z) \<Rightarrow>
          (let n = (x * 64 + y) * 64 + z in Some [chr (n div 1024), chr (n div 4 mod 256)])
      | _ \<Rightarrow> None)"

definition b64_4 :: "char \<Rightarrow> char \<Rightarrow> char \<Rightarrow> char \<Rightarrow> bytes option" where
  "b64_4 a b c d =
     (case (b64_val a, b64_val b, b64_val c, b64_val d) of
        (Some x, Some y, Some z, Some u) \<Rightarrow>
          (let n = ((x * 64 + y) * 64 + z) * 64 + u in Some [chr (n div 65536), chr (n div 256 mod 256), chr (n mod 256)])
      | _ \<Rightarrow> None)"

fun b64_groups :: "bool \<Rightarrow> string \<Rightarrow> bytes option" where
  "b64_groups pad [] = Some []"
| "b64_groups pad [a] = None"
| "b64_groups pad [a, b] = (if pad then None else b64_2 a b)"
| "b64_groups pad [a, b, c] = (if pad then None else b64_3 a b c)"
| "b64_groups pad (a # b # c # d # r) =
     (if pad \<and> d = CHR ''='' \<and> r = [] then (if c = CHR ''='' then b64_2 a b else b64_3 a b c)
      else (case b64_4 a b c d of None \<Rightarrow> None | Some x \<Rightarrow> map_option ((@) x) (b64_groups pad r)))"

definition b64_decode :: "bool \<Rightarrow> string \<Rightarrow> bytes option" where
  "b64_decode pad s = b64_groups pad (filter (\<lambda>c. byte c \<noteq> 10 \<and> byte c \<noteq> 13) s)"

definition dec_float_field :: "jx \<Rightarrow> f64 \<Rightarrow> f64 option" where
  "dec_float_field v old = (case v of XNull \<Rightarrow> Some old | XNum s \<Rightarrow> parse_float s | _ \<Rightarrow> None)"

definition claims_fields :: "f64 field list" where
  "claims_fields = [(''exp'', setting dec_float_field id (\<lambda>y _. y))]"

definition expFromJWTUnverified :: "string \<Rightarrow> int option" where
  "expFromJWTUnverified token =
     (case split_char CHR ''.'' (trim_space token) of
        [h, p, sig] \<Rightarrow>
          (case (case b64_decode False p of None \<Rightarrow> b64_decode True p | Some b \<Rightarrow> Some b) of
             None \<Rightarrow> None
           | Some payload \<Rightarrow>
               (case Option.bind (json_parse payload) (\<lambda>v. dec_struct claims_fields v (Fin 0)) of
                  None \<Rightarrow> None
                | Some x \<Rightarrow> if feq x (Fin 0) then None else Some (int64_of_f64 x)))
      | _ \<Rightarrow> None)"

text \<open>\<open>strings.Fields\<close>.\<close>

function take_word :: "string \<Rightarrow> string \<times> string" where
  "take_word s =
     (if s = [] \<or> space_rune (fst (decode_rune s)) then ([], s)
      else (let n = snd (decode_rune s); (w, r) = take_word (drop n s) in (take n s @ w, r)))"
  by pat_completeness auto
termination
proof (relation "measure length")
  fix s :: string and x assume "\<not> (s = [] \<or> space_rune (fst (decode_rune s)))" "x = snd (decode_rune s)"
  then show "(drop x s, s) \<in> measure length" using decode_width_pos [of s] by (simp add: diff_less_Suc Suc_le_eq)
qed simp

declare take_word.simps [simp del]

lemma take_word_le: "length (snd (take_word s)) \<le> length s"
proof (induction s rule: take_word.induct)
  case (1 s)
  then show ?case
    by (subst take_word.simps) (auto simp: Let_def split: prod.splits intro: order_trans)
qed

lemma take_word_less: "s \<noteq> [] \<Longrightarrow> \<not> space_rune (fst (decode_rune s)) \<Longrightarrow> length (snd (take_word s)) < length s"
proof -
  assume a: "s \<noteq> []" "\<not> space_rune (fst (decode_rune s))"
  have "length s - snd (decode_rune s) < length s" using a(1) decode_width_pos [OF a(1)] by (simp add: Suc_le_eq)
  moreover have "snd (take_word s) = snd (take_word (drop (snd (decode_rune s)) s))"
    using a by (subst take_word.simps) (simp add: Let_def split: prod.splits)
  ultimately show ?thesis using take_word_le [of "drop (snd (decode_rune s)) s"] by simp
qed

function fields_of :: "string \<Rightarrow> string list" where
  "fields_of s =
     (if trim_left s = [] then []
      else (case take_word (trim_left s) of (w, r) \<Rightarrow> w # fields_of r))"
  by pat_completeness auto
termination
proof (relation "measure length")
  fix s w r assume a: "trim_left s \<noteq> []" "(w, r) = take_word (trim_left s)"
  then have "length r < length (trim_left s)"
    using take_word_less [of "trim_left s"] trim_left_stop [of s] by (metis snd_conv)
  also have "\<dots> \<le> length s" using trim_left_suffix [of s] by (simp add: suffix_length_le)
  finally show "(r, s) \<in> measure length" by simp
qed simp

declare fields_of.simps [simp del]

definition max_introspection :: nat where "max_introspection = 2 ^ 20"

definition introspection_call :: "oauth_http \<Rightarrow> string \<Rightarrow> up_call" where
  "introspection_call o' token =
     \<lparr>uc_method = ''POST'', uc_url = oh_intro o',
      uc_headers = [(''Content-Type'', ''application/x-www-form-urlencoded''), (''Accept'', ''application/json'')],
      uc_basic = (if oh_client_id o' \<noteq> [] \<or> oh_client_secret o' \<noteq> [] then Some (oh_client_id o', oh_client_secret o') else None),
      uc_body = Encode (form_set ''token_type_hint'' ''access_token'' (form_set ''token'' token []))\<rparr>"

text \<open>The answer as \<open>map[string]interface{}\<close>: the last of equal names counts, \<open>null\<close> is the empty map.\<close>

definition introspection_map :: "bytes \<Rightarrow> (string \<rightharpoonup> jx) option" where
  "introspection_map raw =
     (case first_value None raw of
        Decoded (XObj ms) \<Rightarrow> Some (map_of (rev ms))
      | Decoded XNull \<Rightarrow> Some Map.empty
      | _ \<Rightarrow> None)"

definition string_at :: "(string \<rightharpoonup> jx) \<Rightarrow> string \<Rightarrow> string" where
  "string_at tr k = (case tr k of Some (XStr s) \<Rightarrow> s | _ \<Rightarrow> [])"

definition token_of_map :: "string \<Rightarrow> (string \<rightharpoonup> jx) \<Rightarrow> verify_error + token_info" where
  "token_of_map token tr =
     (if tr ''active'' \<noteq> Some (XBool True) then Inl InvalidToken
      else (case (case oauthExpFromIntrospectionMap tr of None \<Rightarrow> expFromJWTUnverified token | Some e \<Rightarrow> Some e) of
              None \<Rightarrow> Inl InvalidToken
            | Some e \<Rightarrow>
                Inr \<lparr>ti_scopes = (let s = string_at tr ''scope'' in if trim_space s \<noteq> [] then fields_of s else []),
                     ti_expires = e, ti_user = string_at tr ''sub''\<rparr>))"

definition VerifyToken ::
  "url_parse \<Rightarrow> 'w upstream \<Rightarrow> oauth_http \<Rightarrow> string \<Rightarrow> 'w \<Rightarrow> (verify_error + token_info) \<times> 'w" where
  "VerifyToken up tr o' token w =
     (if trim_space (oh_intro o') = [] then (Inl InvalidToken, w)
      else (case up (oh_intro o') of
              Inl e \<Rightarrow> (Inl (VerifyFailed e), w)
            | Inr _ \<Rightarrow>
                (case tr (introspection_call o' token) w of
                   (Inl e, w1) \<Rightarrow> (Inl (VerifyFailed e), w1)
                 | (Inr a, w1) \<Rightarrow>
                     if ua_status a \<noteq> 200 then (Inl InvalidToken, w1)
                     else (case introspection_map (take max_introspection (ua_body a)) of
                             None \<Rightarrow> (Inl (VerifyFailed (EMsg ''json'')), w1)
                           | Some m \<Rightarrow> (token_of_map token m, w1)))))"

end
