(* ===== verification/Gvmcp.thy ===== *)
theory Gvmcp
  imports OAuth_Facade
begin

text \<open>
  The start of the MCP server, \<open>cmd/gvmcp/main.go\<close>: its settings from flags and environment, and the routes of
  its HTTP form. What the command line says of a flag is an argument; the version in the log and the
  shutdown on a signal are left out.
\<close>

definition splitCommaScopes :: "string \<Rightarrow> string list" where
  "splitCommaScopes s = comma_names (trim_space s)"

datatype mcp_service =
    Stdio bridge_config "string \<times> string \<times> string list"
  | Streamable string bridge_config "string \<times> string \<times> string list" "oauth_http option"

type_synonym command_line = "string \<Rightarrow> string option"

definition env_flag :: "os \<Rightarrow> command_line \<Rightarrow> string \<Rightarrow> string \<Rightarrow> string" where
  "env_flag os fl k e = (case fl k of None \<Rightarrow> os_env os e | Some s \<Rightarrow> s)"

definition oauth_of_flags :: "os \<Rightarrow> command_line \<Rightarrow> oauth_http option res" where
  "oauth_of_flags os fl =
     (let f = env_flag os fl in
      NewOAuthHTTP (f ''oauth-auth-server-issuer'' ''GHOSTVAULT_OAUTH_AUTH_SERVER_ISSUER'')
        (f ''oauth-resource'' ''GHOSTVAULT_OAUTH_RESOURCE'')
        (f ''oauth-metadata-url'' ''GHOSTVAULT_OAUTH_METADATA_URL'')
        (f ''oauth-introspection-url'' ''GHOSTVAULT_OAUTH_INTROSPECTION_URL'')
        (f ''oauth-introspection-client-id'' ''GHOSTVAULT_OAUTH_INTROSPECTION_CLIENT_ID'')
        (f ''oauth-introspection-client-secret'' ''GHOSTVAULT_OAUTH_INTROSPECTION_CLIENT_SECRET'')
        (splitCommaScopes (f ''oauth-scopes'' ''GHOSTVAULT_OAUTH_SCOPES''))
        (splitCommaScopes (f ''oauth-scopes-supported'' ''GHOSTVAULT_OAUTH_SCOPES_SUPPORTED''))
        \<lparr>uo_authorize = f ''oauth-upstream-authorize-url'' ''GHOSTVAULT_OAUTH_UPSTREAM_AUTHORIZE_URL'',
         uo_token = f ''oauth-token-url'' ''GHOSTVAULT_OAUTH_TOKEN_URL'',
         uo_register = f ''oauth-registration-url'' ''GHOSTVAULT_OAUTH_REGISTRATION_URL'',
         uo_audience = f ''oauth-audience'' ''GHOSTVAULT_OAUTH_AUDIENCE''\<rparr>)"

definition bridge_of_flags :: "os \<Rightarrow> (string \<Rightarrow> bool) \<Rightarrow> command_line \<Rightarrow> bridge_config res" where
  "bridge_of_flags os is_file fl =
     (let base = trim_space (env_flag os fl ''base-url'' ''GHOSTVAULT_BASE_URL'');
          bearer = env_flag os fl ''bearer'' ''GHOSTVAULT_BEARER_TOKEN'';
          token_file = (case fl ''token-file'' of None \<Rightarrow> [] | Some s \<Rightarrow> s)
      in if base = [] then Inl (EMsg ''set -base-url or GHOSTVAULT_BASE_URL to your gvsvd URL (e.g. http://127.0.0.1:8989/api with Docker edge)'')
         else (case BearerFromEnvAndFile os is_file bearer token_file of
                 Inl e \<Rightarrow> Inl e
               | Inr tok \<Rightarrow>
                   Inr \<lparr>bc_base = base, bc_bearer = tok, bc_reload = TokenReloadPathIfFileBased os is_file bearer token_file,
                        bc_vault = trim_space (env_flag os fl ''default-vault-id'' ''GHOSTVAULT_DEFAULT_VAULT_ID''),
                        bc_user = trim_space (env_flag os fl ''default-user-id'' ''GHOSTVAULT_DEFAULT_USER_ID'')\<rparr>))"

definition run :: "os \<Rightarrow> (string \<Rightarrow> bool) \<Rightarrow> command_line \<Rightarrow> mcp_service res" where
  "run os is_file fl =
     (case bridge_of_flags os is_file fl of
        Inl e \<Rightarrow> Inl e
      | Inr cfg \<Rightarrow>
          (case NewMCPServer cfg of
             Inl e \<Rightarrow> Inl e
           | Inr srv \<Rightarrow>
               (let addr = trim_space (case fl ''listen'' of None \<Rightarrow> [] | Some s \<Rightarrow> s) in
                if addr = [] then Inr (Stdio cfg srv)
                else (case oauth_of_flags os fl of
                        Inl e \<Rightarrow> Inl e
                      | Inr oauth \<Rightarrow> Inr (Streamable addr cfg srv oauth)))))"

text \<open>The routes: a pattern without a final slash matches itself only, \<open>/\<close> all the rest. Two of the handlers are the
  library's: the resource metadata, and the check of the bearer around the tools.\<close>

datatype endpoint = ToolsOpen | ToolsGuarded string "string list" | ResourceMetadata resource_metadata
  | ServerMetadata | Authorize | Token | Register

definition mux :: "oauth_http option \<Rightarrow> string \<Rightarrow> endpoint" where
  "mux oauth path =
     (case oauth of
        None \<Rightarrow> ToolsOpen
      | Some o' \<Rightarrow>
          if path = ''/.well-known/oauth-protected-resource'' then ResourceMetadata (ProtectedResourceMetadata o')
          else if path = ''/.well-known/oauth-authorization-server'' then ServerMetadata
          else if path = ''/authorize'' then Authorize
          else if path = ''/token'' then Token
          else if path = ''/register'' then Register
          else ToolsGuarded (oh_metadata o') (oh_required o'))"

end
