(* ===== verification/Gvctl.thy ===== *)
theory Gvctl
  imports Bridge
begin

text \<open>
  The command line client \<open>cmd/gvctl/main.go\<close>: what every command sends, prints and writes. The parsing of
  flags by the package \<open>flag\<close> is an argument (\<open>given\<close>: what the command line says of a flag); the text of the
  usage is left out. \<open>filepath.Abs\<close> and the writing of files are arguments as well.
\<close>

section \<open>Helpers\<close>

record given =
  gv_str :: "string \<Rightarrow> string option"
  gv_int :: "string \<Rightarrow> int option"
  gv_bool :: "string \<Rightarrow> bool"

definition flag_or :: "given \<Rightarrow> string \<Rightarrow> string \<Rightarrow> string" where
  "flag_or g k d = (case gv_str g k of None \<Rightarrow> d | Some s \<Rightarrow> s)"

definition int_or :: "given \<Rightarrow> string \<Rightarrow> int \<Rightarrow> int" where
  "int_or g k d = (case gv_int g k of None \<Rightarrow> d | Some n \<Rightarrow> n)"

definition defaultBase :: "os \<Rightarrow> string" where
  "defaultBase os =
     (let s = trim_space (os_env os ''GHOSTVAULT_BASE_URL'')
      in if s \<noteq> [] then trim_right_char CHR ''/'' s else ''http://127.0.0.1:8989/api'')"

definition join_url :: "string \<Rightarrow> string \<Rightarrow> string" where
  "join_url base path = trim_right_char CHR ''/'' base @ path"

definition truncate_text :: "string \<Rightarrow> string" where
  "truncate_text raw = (let s = trim_space raw in if 2000 < length s then take 2000 s @ ellipsis else s)"

text \<open>\<open>json.MarshalIndent\<close> with two spaces.\<close>

definition new_line :: "nat \<Rightarrow> string" where
  "new_line n = chr 10 # replicate (2 * n) (chr 32)"

fun jx_indent :: "nat \<Rightarrow> jx \<Rightarrow> string" where
  "jx_indent n (XArr xs) =
     (if xs = [] then ''[]''
      else ''['' @ new_line (Suc n) @ join ('','' @ new_line (Suc n)) (map (jx_indent (Suc n)) xs) @ new_line n @ '']'')"
| "jx_indent n (XObj ms) =
     (if ms = [] then ''{}''
      else ''{'' @ new_line (Suc n) @ join ('','' @ new_line (Suc n)) (map (\<lambda>(k, x). json_str k @ '': '' @ jx_indent (Suc n) x) ms)
        @ new_line n @ ''}'')"
| "jx_indent n x = jx_print x"

definition prettyPrintJSON :: "env \<Rightarrow> bytes \<Rightarrow> string" where
  "prettyPrintJSON env raw =
     (case Option.bind (json_parse raw) to_any of
        None \<Rightarrow> raw
      | Some v \<Rightarrow> if jv_finite v then jx_indent 0 (to_jx (ev_fmt_f64 env) v) else raw)"

section \<open>Calls\<close>

definition client_call :: "string \<Rightarrow> string \<Rightarrow> string \<Rightarrow> jx option \<Rightarrow> http_call" where
  "client_call method url bearer body =
     \<lparr>hc_method = method, hc_url = url, hc_authorization = (if bearer \<noteq> [] then ''Bearer '' @ bearer else []),
      hc_content_type = (if body \<noteq> None then ''application/json'' else []),
      hc_body = (case body of None \<Rightarrow> [] | Some x \<Rightarrow> jx_print x)\<rparr>"

definition checked :: "(nat \<times> bytes) res \<times> 'w \<Rightarrow> bytes res \<times> 'w" where
  "checked x =
     (case x of
        (Inl e, w) \<Rightarrow> (Inl e, w)
      | (Inr (code, b), w) \<Rightarrow>
          (if code < 200 \<or> 300 \<le> code then Inl (EMsg (''HTTP '' @ show_nat code @ '': '' @ truncate_text b)) else Inr b, w))"

definition postJSON :: "'w transport \<Rightarrow> string \<Rightarrow> jx option \<Rightarrow> string \<Rightarrow> 'w \<Rightarrow> bytes res \<times> 'w" where
  "postJSON tr url body bearer w = checked (tr (client_call ''POST'' url bearer body) w)"

text \<open>What a run leaves behind. A message of \<open>log\<close> goes to the standard error; a fatal one ends the run with 1.\<close>

datatype message = Usage | Say string | Failure err | NoField string bytes | Wrote string

record run_end =
  re_out :: "string list"
  re_err :: "message list"
  re_files :: "(string \<times> bytes) list"
  re_code :: nat

definition ended :: "string \<Rightarrow> run_end" where
  "ended s = \<lparr>re_out = [s], re_err = [], re_files = [], re_code = 0\<rparr>"

definition fatal :: "message \<Rightarrow> run_end" where
  "fatal m = \<lparr>re_out = [], re_err = [m], re_files = [], re_code = 1\<rparr>"

definition runGET :: "'w transport \<Rightarrow> string \<Rightarrow> string \<Rightarrow> string \<Rightarrow> 'w \<Rightarrow> run_end \<times> 'w" where
  "runGET tr base path bearer w =
     (case checked (tr (client_call ''GET'' (join_url base path) bearer None) w) of
        (Inl e, w1) \<Rightarrow> (fatal (Failure e), w1)
      | (Inr b, w1) \<Rightarrow> (ended (trim_space b), w1))"

definition runJSON :: "env \<Rightarrow> 'w transport \<Rightarrow> string \<Rightarrow> jx option \<Rightarrow> string \<Rightarrow> 'w \<Rightarrow> run_end \<times> 'w" where
  "runJSON env tr url body bearer w =
     (case postJSON tr url body bearer w of
        (Inl e, w1) \<Rightarrow> (fatal (Failure e), w1)
      | (Inr b, w1) \<Rightarrow> (ended (prettyPrintJSON env b), w1))"

section \<open>Unlock\<close>

record disk =
  dk_abs :: "string \<Rightarrow> string res"
  dk_write :: "string \<Rightarrow> bytes \<Rightarrow> unit res"

definition unlock_out_fields :: "(string \<times> string) field list" where
  "unlock_out_fields = [(''session_token'', setting dec_string_field fst (\<lambda>y p. (y, snd p))),
     (''vault_id'', setting dec_string_field snd (\<lambda>y p. (fst p, y)))]"

definition hint_text :: string where
  "hint_text = ''unlock: for direnv/MCP file, also pass -write-token-file .ghostvault-bearer (or run ./scripts/refresh-ghostvault-token.sh)''"

text \<open>After the file: what is printed.\<close>

definition print_unlocked :: "env \<Rightarrow> bool \<Rightarrow> bool \<Rightarrow> string \<Rightarrow> bytes \<Rightarrow> string \<times> string \<Rightarrow> run_end" where
  "print_unlocked env tokenOnly vaultIDOnly write raw out =
     (if vaultIDOnly then (if snd out = [] then fatal (NoField ''vault_id'' raw) else ended (snd out))
      else if tokenOnly then
        (if fst out = [] then fatal (NoField ''session_token'' raw)
         else (ended (fst out))\<lparr>re_err := (if trim_space write = [] then [Say hint_text] else [])\<rparr>)
      else ended (prettyPrintJSON env raw))"

definition write_token :: "disk \<Rightarrow> string \<Rightarrow> bytes \<Rightarrow> string \<Rightarrow> run_end + string" where
  "write_token dk p raw tok =
     (if tok = [] then Inl (fatal (NoField ''session_token'' raw))
      else (case dk_abs dk p of
              Inl e \<Rightarrow> Inl (fatal (Failure e))
            | Inr full \<Rightarrow> (case dk_write dk full tok of Inl e \<Rightarrow> Inl (fatal (Failure e)) | Inr _ \<Rightarrow> Inr full)))"

definition unlock_cmd :: "env \<Rightarrow> os \<Rightarrow> disk \<Rightarrow> 'w transport \<Rightarrow> given \<Rightarrow> 'w \<Rightarrow> run_end \<times> 'w" where
  "unlock_cmd env os dk tr g w =
     (let base = flag_or g ''base-url'' (defaultBase os);
          pass = flag_or g ''password'' (os_env os ''GHOSTVAULT_PASSWORD'');
          tokenOnly = gv_bool g ''token-only''; vaultIDOnly = gv_bool g ''vault-id-only'';
          write = flag_or g ''write-token-file'' [] in
      case postJSON tr (join_url base ''/v1/vault/unlock'') (Some (XObj [(''password'', XStr pass)])) [] w of
        (Inl e, w1) \<Rightarrow> (fatal (Failure e), w1)
      | (Inr raw, w1) \<Rightarrow>
          if tokenOnly \<and> vaultIDOnly then (fatal (Say ''unlock: use only one of -token-only or -vault-id-only''), w1)
          else (case Option.bind (json_parse raw) (\<lambda>v. dec_struct unlock_out_fields v ([], [])) of
                  None \<Rightarrow> (fatal (Failure (EMsg ''json'')), w1)
                | Some out \<Rightarrow>
                    let p = trim_space write in
                    if p = [] then (print_unlocked env tokenOnly vaultIDOnly write raw out, w1)
                    else (case write_token dk p raw (fst out) of
                            Inl r \<Rightarrow> (r, w1)
                          | Inr full \<Rightarrow>
                              (let r = print_unlocked env tokenOnly vaultIDOnly write raw out
                               in (r\<lparr>re_err := Wrote full # re_err r, re_files := [(full, fst out)]\<rparr>, w1)))))"

section \<open>The other commands\<close>

definition init_cmd :: "env \<Rightarrow> os \<Rightarrow> 'w transport \<Rightarrow> given \<Rightarrow> 'w \<Rightarrow> run_end \<times> 'w" where
  "init_cmd env os tr g =
     (let pass = flag_or g ''password'' (os_env os ''GHOSTVAULT_PASSWORD''); mode = trim_space (flag_or g ''auth-mode'' ''session'') in
      runJSON env tr (join_url (flag_or g ''base-url'' (defaultBase os)) ''/v1/vault/init'')
        (Some (XObj ((if mode \<noteq> [] then [(''auth_mode'', XStr mode)] else [])
          @ (if trim_space pass \<noteq> [] then [(''password'', XStr pass)] else [])))) [])"

definition with_token :: "string \<Rightarrow> os \<Rightarrow> given \<Rightarrow> (string \<Rightarrow> 'w \<Rightarrow> run_end \<times> 'w) \<Rightarrow> 'w \<Rightarrow> run_end \<times> 'w" where
  "with_token cmd os g k w =
     (let tok = flag_or g ''token'' (os_env os ''GHOSTVAULT_BEARER_TOKEN'')
      in if trim_space tok = [] then (fatal (Say (cmd @ '': -token or GHOSTVAULT_BEARER_TOKEN required'')), w) else k tok w)"

definition lock_cmd :: "env \<Rightarrow> os \<Rightarrow> 'w transport \<Rightarrow> given \<Rightarrow> 'w \<Rightarrow> run_end \<times> 'w" where
  "lock_cmd env os tr g =
     with_token ''lock'' os g (runJSON env tr (join_url (flag_or g ''base-url'' (defaultBase os)) ''/v1/vault/lock'') None)"

definition actions_cmd :: "env \<Rightarrow> os \<Rightarrow> 'w transport \<Rightarrow> given \<Rightarrow> 'w \<Rightarrow> run_end \<times> 'w" where
  "actions_cmd env os tr g =
     with_token ''actions-token'' os g (runJSON env tr (join_url (flag_or g ''base-url'' (defaultBase os)) ''/v1/tokens/actions'')
       (Some (XObj [(''scopes'', XArr [XStr ''retrieve'', XStr ''ingest'']),
                    (''ttl_seconds'', XNum (show_int (int_or g ''ttl-seconds'' 3600)))])))"

definition retrieve_cmd :: "env \<Rightarrow> os \<Rightarrow> 'w transport \<Rightarrow> given \<Rightarrow> 'w \<Rightarrow> run_end \<times> 'w" where
  "retrieve_cmd env os tr g w =
     (let vid = flag_or g ''vault-id'' []; uid = flag_or g ''user-id'' []; q = flag_or g ''query'' [];
          maxC = int_or g ''max-chunks'' 0; maxT = int_or g ''max-tokens'' 0 in
      if vid = [] \<or> uid = [] \<or> trim_space q = []
      then (fatal (Say ''retrieve: -vault-id, -user-id, and -query are required''), w)
      else with_token ''retrieve'' os g (runJSON env tr (join_url (flag_or g ''base-url'' (defaultBase os)) ''/v1/retrieve'')
        (Some (XObj ((if 0 < maxC then [(''max_chunks'', XNum (show_int maxC))] else [])
          @ (if 0 < maxT then [(''max_tokens'', XNum (show_int maxT))] else [])
          @ [(''query'', XStr q), (''user_id'', XStr uid), (''vault_id'', XStr vid)])))) w)"

definition ingest_cmd :: "env \<Rightarrow> os \<Rightarrow> 'w transport \<Rightarrow> given \<Rightarrow> 'w \<Rightarrow> run_end \<times> 'w" where
  "ingest_cmd env os tr g w =
     (let vid = flag_or g ''vault-id'' []; uid = flag_or g ''user-id'' [] in
      if vid = [] \<or> uid = [] then (fatal (Say ''ingest: -vault-id and -user-id are required''), w)
      else with_token ''ingest'' os g (runJSON env tr (join_url (flag_or g ''base-url'' (defaultBase os)) ''/v1/ingest'')
        (Some (XObj [(''infer'', XBool (gv_bool g ''infer'')), (''session_key'', XStr (flag_or g ''session-key'' ''default'')),
          (''text'', XStr (flag_or g ''text'' [])), (''user_id'', XStr uid), (''vault_id'', XStr vid)]))) w)"

definition gvctl :: "env \<Rightarrow> os \<Rightarrow> disk \<Rightarrow> 'w transport \<Rightarrow> string list \<Rightarrow> given \<Rightarrow> 'w \<Rightarrow> run_end \<times> 'w" where
  "gvctl env os dk tr args g w =
     (let base = flag_or g ''base-url'' (defaultBase os) in
      case args of
        [] \<Rightarrow> (fatal Usage, w)
      | cmd # _ \<Rightarrow>
          if cmd \<in> {''help'', ''-h'', ''--help''} then (\<lparr>re_out = [], re_err = [Usage], re_files = [], re_code = 0\<rparr>, w)
          else if cmd = ''health'' then runGET tr base ''/healthz'' [] w
          else if cmd = ''ready'' then runGET tr base ''/readyz'' [] w
          else if cmd = ''init'' then init_cmd env os tr g w
          else if cmd = ''unlock'' then unlock_cmd env os dk tr g w
          else if cmd = ''lock'' then lock_cmd env os tr g w
          else if cmd = ''actions-token'' then actions_cmd env os tr g w
          else if cmd = ''retrieve'' then retrieve_cmd env os tr g w
          else if cmd = ''ingest'' then ingest_cmd env os tr g w
          else (fatal (Say (''unknown command '' @ cmd)), w))"

end
