(* ===== verification/Json_Struct_Laws.thy ===== *)
theory Json_Struct_Laws
  imports Json_Struct Json_Roundtrip
begin

text \<open>
  Reading back what was printed: a request body that is the printed form of a tree is decoded as the
  tree, members go to the fields of their names, and left-out members leave the zero value.
\<close>

section \<open>Names\<close>

text \<open>Names of small letters and underscores match only themselves.\<close>

definition plain_name :: "string \<Rightarrow> bool" where
  "plain_name s \<longleftrightarrow> list_all (\<lambda>c. 95 \<le> byte c \<and> byte c \<le> (122::nat)) s"

lemma fold_plain: "plain_name s \<Longrightarrow> fold_name s = map byte s"
proof -
  assume p: "plain_name s"
  then have "ascii s" by (auto simp: plain_name_def ascii_def list_all_iff)
  moreover have "fold_rune (byte c) = byte c" if "c \<in> set s" for c
    using p that by (auto simp: plain_name_def list_all_iff fold_rune_def ascii_lower_def)
  ultimately show ?thesis by (simp add: fold_name_def runes_ascii)
qed

lemma fold_plain_eq: "plain_name s \<Longrightarrow> plain_name t \<Longrightarrow> fold_name s = fold_name t \<longleftrightarrow> s = t"
  by (simp add: fold_plain inj_map_eq_map inj_def)

lemma field_for_plain:
  "list_all (\<lambda>f. plain_name (fst f)) fs \<Longrightarrow> plain_name k \<Longrightarrow> field_for fs k = map_of fs k"
  by (induction fs) (auto simp: field_for_def fold_plain_eq)

section \<open>Members\<close>

lemma dec_members_append:
  "dec_members fs (xs @ ys) x = Option.bind (dec_members fs xs x) (dec_members fs ys)"
  by (induction fs xs x rule: dec_members.induct) (simp_all split: option.split)

lemma setting_Some: "dec v (get x) = Some y \<Longrightarrow> setting dec get put v x = Some (put y x)"
  by (simp add: setting_def)

section \<open>Bodies\<close>

lemma p_value_printed:
  assumes "jx_ok json_max_depth x"
  shows "p_value (2 * length (jx_print x) + 2) json_max_depth (jx_print x) = Some (x, [])"
proof -
  have "p_value (2 * length (jx_print x) + 2) json_max_depth (jx_print x @ []) = Some (x, [])"
    using reads_ok [OF assms] unfolding reads_def
    by (auto dest!: spec [of _ "2 * length (jx_print x) + 2"] spec [of _ "[]"] simp: stops_def simp del: p_value.simps)
  then show ?thesis by simp
qed

lemma first_value_printed:
  assumes "jx_ok json_max_depth x" and "case mx of None \<Rightarrow> True | Some n \<Rightarrow> int (length (jx_print x)) \<le> n"
  shows "first_value mx (jx_print x) = Decoded x"
  using assms(2) p_value_printed [OF assms(1)]
  by (auto simp: first_value_def simp del: p_value.simps split: option.splits)

lemma decode_printed:
  assumes "jx_ok json_max_depth x" and "case mx of None \<Rightarrow> True | Some n \<Rightarrow> int (length (jx_print x)) \<le> n"
  shows "decode_body f z mx (jx_print x)
    = (case f x z of None \<Rightarrow> Bad (EMsg ''json: cannot unmarshal'') | Some y \<Rightarrow> Decoded y)"
  using first_value_printed [OF assms] by (simp add: decode_body_def)

text \<open>The contract between one who prints a value as a tree and one who decodes it into a struct: values that
  fit are printed as JSON, and the fields of the struct receive what is seen of the value.\<close>

locale wire =
  fixes tree :: "'a \<Rightarrow> jx" and fields :: "'b field list" and zero :: 'b
    and fits :: "'a \<Rightarrow> bool" and seen :: "'a \<Rightarrow> 'b"
  assumes tree_ok: "fits a \<Longrightarrow> jx_ok json_max_depth (tree a)"
    and decoded: "fits a \<Longrightarrow> dec_struct fields (tree a) zero = Some (seen a)"
begin

lemma body_read:
  assumes "fits a" and "\<And>n. mx = Some n \<Longrightarrow> int (length (jx_print (tree a))) \<le> n"
  shows "decode_body (dec_struct fields) zero mx (jx_print (tree a)) = Decoded (seen a)"
  using decode_printed [OF tree_ok [OF assms(1)], of mx "dec_struct fields" zero] assms decoded by (simp split: option.splits)

lemma text_read:
  "fits a \<Longrightarrow> Option.bind (json_parse (jx_print (tree a))) (\<lambda>v. dec_struct fields v zero) = Some (seen a)"
  using decoded json_parse_print [OF tree_ok] by simp

end

section \<open>Numbers\<close>

lemma show_nat_digit: "d < 10 \<Longrightarrow> is_digit (chr (48 + d)) \<and> int (byte (chr (48 + d))) - 48 = int d"
  by (simp add: is_digit_def)

lemma digits_show_nat: "list_all is_digit (show_nat n) \<and> show_nat n \<noteq> [] \<and> digits_val (show_nat n) = int n
    \<and> (hd (show_nat n) = CHR ''0'' \<longrightarrow> n = 0)"
proof (induction n rule: show_nat.induct)
  case (1 n)
  show ?case
  proof (cases "n < 10")
    case True
    have "chr (48 + n) = CHR ''0'' \<Longrightarrow> n = 0"
    proof -
      assume "chr (48 + n) = CHR ''0''"
      then have "byte (chr (48 + n)) = byte (CHR ''0'')" by simp
      then show "n = 0" using True by simp
    qed
    then show ?thesis using show_nat_digit [OF True] True
      by (auto simp: show_nat.simps [of n] digits_val_def)
  next
    case False
    have "int (n div 10) * 10 + int (n mod 10) = int n" unfolding of_nat_div of_nat_mod by simp
    then show ?thesis using 1 False show_nat_digit [of "n mod 10"]
      by (auto simp: show_nat.simps [of n] digits_val_def simp del: of_nat_div of_nat_mod)
  qed
qed

lemma parse_show_int: "- (2 ^ 63) \<le> x \<Longrightarrow> x < 2 ^ 63 \<Longrightarrow> parse_int (show_int x) = Some x"
  using digits_show_nat [of "nat x"] digits_show_nat [of "nat (- x)"]
  by (cases "show_nat (nat x)") (auto simp: parse_int_def show_int_def is_digit_def Let_def)

lemma p_int_show_nat: "p_int (show_nat n) = Some (show_nat n, [])"
proof (cases "n = 0")
  case True
  then show ?thesis by (simp add: show_nat.simps [of 0] p_int_def)
next
  case False
  obtain c t where s: "show_nat n = c # t" using digits_show_nat [of n] by (cases "show_nat n") auto
  have zero: "chr 48 = CHR ''0''" by code_simp
  from s have "byte c \<noteq> 48" "is_digit c" "list_all is_digit (show_nat n)"
    using digits_show_nat [of n] False byte_eq_iff [of 48 c] zero by auto
  then show ?thesis unfolding p_int_def s by (simp add: p_digits_def list_all_iff)
qed

lemma num_literal_show_int: "num_literal (show_int x)"
proof -
  have e: "p_frac [] = Some ([], [])" "p_exp [] = Some ([], [])" by (simp_all add: p_frac_def p_exp_def)
  obtain c t where s: "show_nat (nat x) = c # t" "is_digit c"
    using digits_show_nat [of "nat x"] by (cases "show_nat (nat x)") auto
  then have "byte c \<noteq> 45" by (auto simp: is_digit_def)
  then have "num_literal (show_nat (nat x))"
    using p_int_show_nat [of "nat x"] e by (simp add: num_literal_def p_number_def s(1))
  moreover have "num_literal (CHR ''-'' # show_nat (nat (- x)))"
    using p_int_show_nat [of "nat (- x)"] e by (simp add: num_literal_def p_number_def)
  ultimately show ?thesis by (simp add: show_int_def)
qed

end
