(* ===== verification/Mcp_Laws.thy ===== *)
theory Mcp_Laws
  imports Gvmcp Gvctl Json_Struct_Laws
begin

text \<open>
  The clients around the service: whom the MCP server lets in, with which token it goes to the service, and how
  a token that the command line client has fetched reaches it.
\<close>

section \<open>Introspection\<close>

lemma introspection_form:
  "\<exists>f. ParseQuery (uc_body (introspection_call o' token)) = (f, True)
    \<and> (\<forall>k. form_get f k = (if k = ''token'' then [token] else if k = ''token_type_hint'' then [''access_token''] else []))"
proof -
  let ?f = "form_set ''token_type_hint'' ''access_token'' (form_set ''token'' token [])"
  have "distinct (map fst ?f)" by simp
  from parse_encode [OF this] show ?thesis by (auto simp: introspection_call_def)
qed

text \<open>C28. A token is good only when the authorization server says so. \<open>VerifyToken\<close> accepts only after one call to the
  introspection endpoint, whose form holds this very token, was answered with 200 and an object in which
  \<open>active\<close> is the boolean true; the expiry is the answer's own, or, when that has none, the one in
  the payload of the token, and never made up; user and scopes are the answer's.\<close>

theorem verify_sound:
  assumes "VerifyToken up tr o' token w = (Inr t, w')"
  shows "\<exists>a m f. tr (introspection_call o' token) w = (Inr a, w')
    \<and> ParseQuery (uc_body (introspection_call o' token)) = (f, True) \<and> form_get f ''token'' = [token]
    \<and> ua_status a = 200 \<and> introspection_map (take max_introspection (ua_body a)) = Some m
    \<and> m ''active'' = Some (XBool True)
    \<and> (case oauthExpFromIntrospectionMap m of Some e \<Rightarrow> ti_expires t = e
       | None \<Rightarrow> expFromJWTUnverified token = Some (ti_expires t))
    \<and> ti_user t = string_at m ''sub''
    \<and> ti_scopes t = (if trim_space (string_at m ''scope'') = [] then [] else fields_of (string_at m ''scope''))"
proof -
  obtain a m where a: "tr (introspection_call o' token) w = (Inr a, w')" "ua_status a = 200"
      "introspection_map (take max_introspection (ua_body a)) = Some m" "token_of_map token m = Inr t"
    using assms by (auto simp: VerifyToken_def split: if_splits sum.splits prod.splits option.splits)
  moreover have "m ''active'' = Some (XBool True)"
    using a(4) by (auto simp: token_of_map_def split: if_splits)
  moreover have "case oauthExpFromIntrospectionMap m of Some e \<Rightarrow> ti_expires t = e
       | None \<Rightarrow> expFromJWTUnverified token = Some (ti_expires t)"
    and "ti_user t = string_at m ''sub''"
    and "ti_scopes t = (if trim_space (string_at m ''scope'') = [] then [] else fields_of (string_at m ''scope''))"
    using a(4) by (auto simp: token_of_map_def Let_def split: if_splits option.splits)
  ultimately show ?thesis using introspection_form [of o' token] by auto
qed

section \<open>The start of the MCP server\<close>

lemma NewOAuthHTTP_on:
  "NewOAuthHTTP iss res md intro cid cs req scopes up = Inr oauth \<Longrightarrow> trim_space intro \<noteq> [] \<Longrightarrow>
   \<exists>o'. oauth = Some o' \<and> oh_intro o' = trim_space intro \<and> oh_required o' = req \<and> oh_issuer o' \<noteq> []
     \<and> oh_resource o' \<noteq> [] \<and> oh_metadata o' \<noteq> [] \<and> oh_audience o' \<noteq> []"
  by (auto simp: NewOAuthHTTP_def Let_def if_empty_def split: if_splits)

lemma bearer_from_file:
  "BearerFromEnvAndFile os is_file b f = Inr tok \<Longrightarrow> tok \<noteq> [] \<and> trim_space tok = tok
     \<and> (trim_space b = [] \<longrightarrow> (\<exists>x. os_file os (token_path os is_file f) = Inr x \<and> trim_space x = tok))"
  by (auto simp: BearerFromEnvAndFile_def Let_def split: if_splits sum.splits)

lemma token_path_trimmed: "trim_space (token_path os is_file f) = token_path os is_file f"
proof -
  have "trim_space ''.ghostvault-bearer'' = ''.ghostvault-bearer''"
    by (rule trim_space_ends [OF refl]) (simp_all add: space_rune_def)
  then show ?thesis by (auto simp: token_path_def Let_def)
qed

lemma started_with_token:
  assumes "bridge_of_flags os is_file fl = Inr cfg"
  shows "bc_bearer cfg \<noteq> [] \<and> bearerForGV os cfg = bc_bearer cfg"
proof -
  let ?b = "env_flag os fl ''bearer'' ''GHOSTVAULT_BEARER_TOKEN''" and ?f = "case fl ''token-file'' of None \<Rightarrow> [] | Some s \<Rightarrow> s"
  have r: "BearerFromEnvAndFile os is_file ?b ?f = Inr (bc_bearer cfg)"
    and p: "bc_reload cfg = TokenReloadPathIfFileBased os is_file ?b ?f"
    using assms by (auto simp: bridge_of_flags_def Let_def split: if_splits sum.splits)
  show ?thesis using bearer_from_file [OF r]
    by (auto simp: bearerForGV_def p TokenReloadPathIfFileBased_def token_path_trimmed Let_def split: sum.split)
qed

text \<open>C27. With an introspection endpoint the tools are never open. When the MCP server starts in its HTTP form and the
  endpoint is set, by flag or environment, then OAuth is complete (issuer, resource, metadata and
  audience are all there), and every path but the five public ones leads to the tools behind the
  check of the bearer, with the configured scopes; the server has a token for the service.\<close>

theorem introspection_guards_tools:
  assumes "run os is_file fl = Inr (Streamable addr cfg srv oauth)"
    and "trim_space (env_flag os fl ''oauth-introspection-url'' ''GHOSTVAULT_OAUTH_INTROSPECTION_URL'') \<noteq> []"
    and "path \<notin> {''/.well-known/oauth-protected-resource'', ''/.well-known/oauth-authorization-server'', ''/authorize'',
           ''/token'', ''/register''}"
  shows "\<exists>o'. oauth = Some o'
    \<and> mux oauth path = ToolsGuarded (oh_metadata o') (splitCommaScopes (env_flag os fl ''oauth-scopes'' ''GHOSTVAULT_OAUTH_SCOPES''))
    \<and> oh_issuer o' \<noteq> [] \<and> oh_resource o' \<noteq> [] \<and> oh_metadata o' \<noteq> [] \<and> oh_audience o' \<noteq> []
    \<and> bc_bearer cfg \<noteq> [] \<and> bearerForGV os cfg = bc_bearer cfg"
proof -
  have c: "bridge_of_flags os is_file fl = Inr cfg" and "oauth_of_flags os fl = Inr oauth"
    using assms(1) by (auto simp: run_def Let_def split: sum.splits if_splits)
  from this(2) obtain o' where "oauth = Some o'" "oh_required o' = splitCommaScopes (env_flag os fl ''oauth-scopes'' ''GHOSTVAULT_OAUTH_SCOPES'')"
      "oh_issuer o' \<noteq> [] \<and> oh_resource o' \<noteq> [] \<and> oh_metadata o' \<noteq> [] \<and> oh_audience o' \<noteq> []"
    using NewOAuthHTTP_on assms(2) unfolding oauth_of_flags_def Let_def by blast
  then show ?thesis using assms(3) started_with_token [OF c] by (simp add: mux_def)
qed

section \<open>From the command line client to the bridge\<close>

lemma unlock_writes:
  assumes "unlock_cmd env os dk tr g w = (r, w')" "re_code r = 0" "trim_space (flag_or g ''write-token-file'' []) \<noteq> []"
  shows "\<exists>code raw vid p tok. tr (client_call ''POST'' (join_url (flag_or g ''base-url'' (defaultBase os)) ''/v1/vault/unlock'') []
        (Some (XObj [(''password'', XStr (flag_or g ''password'' (os_env os ''GHOSTVAULT_PASSWORD'')))]))) w = (Inr (code, raw), w')
    \<and> 200 \<le> code \<and> code < 300 \<and> Option.bind (json_parse raw) (\<lambda>v. dec_struct unlock_out_fields v ([], [])) = Some (tok, vid)
    \<and> dk_abs dk (trim_space (flag_or g ''write-token-file'' [])) = Inr p \<and> dk_write dk p tok = Inr ()
    \<and> tok \<noteq> [] \<and> re_files r = [(p, tok)]"
  using assms
  by (auto simp: unlock_cmd_def postJSON_def checked_def write_token_def fatal_def Let_def
      split: if_splits sum.splits prod.splits option.splits)

text \<open>A fetched token is the one that the bridge goes on with. When \<open>gvctl unlock -write-token-file\<close> ends well, the service
  has answered with a session token and the file holds exactly that token; an MCP server that takes its token from
  this file presents it in its very next request, without a restart.\<close>

lemma unlock_reaches_bridge:
  assumes "gvctl env os dk tr (''unlock'' # args) g w = (r, w')" and "re_code r = 0"
    and "trim_space (flag_or g ''write-token-file'' []) \<noteq> []"
    and "trim_space (bc_reload c) \<noteq> []" and "\<And>p tok. re_files r = [(p, tok)] \<Longrightarrow> os_file os' (trim_space (bc_reload c)) = Inr tok"
    and "\<And>p tok. re_files r = [(p, tok)] \<Longrightarrow> trim_space tok \<noteq> []"
  shows "\<exists>p tok code raw vid call answer. re_files r = [(p, tok)]
    \<and> tr call w = (Inr (code, raw), w') \<and> 200 \<le> code \<and> code < 300
    \<and> Option.bind (json_parse raw) (\<lambda>v. dec_struct unlock_out_fields v ([], [])) = Some (tok, vid)
    \<and> memory_stats env' os' c tr' w2 = tool_answer (bridge_send env' os' tr' (trim_space tok) answer w2)
    \<and> hc_authorization answer = ''Bearer '' @ trim_space tok"
proof -
  have "unlock_cmd env os dk tr g w = (r, w')" using assms(1) by (simp add: gvctl_def)
  from unlock_writes [OF this assms(2,3)] obtain code raw vid p tok call where u:
    "tr call w = (Inr (code, raw), w')" "200 \<le> code" "code < 300" "re_files r = [(p, tok)]"
    "Option.bind (json_parse raw) (\<lambda>v. dec_struct unlock_out_fields v ([], [])) = Some (tok, vid)" by blast
  have "bearerForGV os' c = trim_space tok"
    using assms(4) assms(5) [OF u(4)] assms(6) [OF u(4)] by (simp add: bearerForGV_def Let_def)
  then have "memory_stats env' os' c tr' w2 = tool_answer (bridge_send env' os' tr' (trim_space tok)
      \<lparr>hc_method = ''GET'', hc_url = bridge_base c @ ''/v1/stats'', hc_authorization = ''Bearer '' @ trim_space tok,
       hc_content_type = [], hc_body = []\<rparr> w2)"
    by (simp add: memory_stats_def get_call_def Let_def)
  then show ?thesis using u by fastforce
qed

end
