(* ===== verification/Api.thy ===== *)
theory Api
  imports Http
begin

text \<open>
  The handlers of \<open>internal/api/handlers.go\<close> and \<open>tuning_handlers.go\<close>, each whole: its guards in
  their order, its calls, its answer on every branch. A request is handled as one step; the manager's
  own interleavings are the subject of \<open>Auth_Race\<close>. Clock readings are values of the world's oracle.
\<close>

section \<open>Authentication\<close>

definition requireSession :: "env \<Rightarrow> request \<Rightarrow> mgr \<Rightarrow> world \<Rightarrow> (session res \<times> mgr) \<times> world" where
  "requireSession env r m w =
     (let tok = sessionFromRequest env r in
      if tok = [] then ((Inl EUnauthorized, m), w)
      else (let (ts, w1) = now env w in Touch env tok ts m w1))"

definition actionTokenVault :: "env \<Rightarrow> string \<Rightarrow> world \<Rightarrow> uuid option res \<times> world" where
  "actionTokenVault env raw w = ValidActionToken env (HashActionToken env raw) w"

text \<open>\<open>&auth.Session{VaultID: vid}\<close>: the zero time is the first of January of the year 1.\<close>

definition zero_time :: instant where "zero_time = - 62135596800 * ns_second"

definition bare_session :: "uuid \<Rightarrow> session" where
  "bare_session v = \<lparr>ss_vault = v, ss_dek = [], ss_expires = zero_time, ss_max = zero_time,
     ss_last = zero_time, ss_idle = 0, ss_hash = []\<rparr>"

text \<open>The second half of \<open>requireVaultAuth\<close>: the bearer is no session, perhaps an action token.\<close>

definition action_auth :: "env \<Rightarrow> string \<Rightarrow> world \<Rightarrow> (session \<times> uuid) res \<times> world" where
  "action_auth env raw w =
     (case actionTokenVault env raw w of
        (Inl e, w1) \<Rightarrow> (Inl (EAuthBackend e), w1)
      | (Inr None, w1) \<Rightarrow> (Inl EUnauthorized, w1)
      | (Inr (Some vid), w1) \<Rightarrow>
          (case GetVault env vid w1 of
             (Inl e, w2) \<Rightarrow> (Inl (if e = ENotFound then EUnauthorized else EAuthBackend e), w2)
           | (Inr row, w2) \<Rightarrow>
               if v_enc row then (Inl EUnauthorized, w2)
               else (Inr (bare_session vid, vid), w2)))"

definition requireVaultAuth ::
  "env \<Rightarrow> request \<Rightarrow> mgr \<Rightarrow> world \<Rightarrow> ((session \<times> uuid) res \<times> mgr) \<times> world" where
  "requireVaultAuth env r m w =
     (if has_bearer env r then
        (let raw = bearer_of r; (ts, w1) = now env w in
         case Touch env raw ts m w1 of
           ((Inr sess, m1), w2) \<Rightarrow> ((Inr (sess, ss_vault sess), m1), w2)
         | ((Inl _, m1), w2) \<Rightarrow> (case action_auth env raw w2 of (a, w3) \<Rightarrow> ((a, m1), w3)))
      else
        (case requireSession env r m w of
           ((Inl e, m1), w1) \<Rightarrow> ((Inl e, m1), w1)
         | ((Inr sess, m1), w1) \<Rightarrow> ((Inr (sess, ss_vault sess), m1), w1)))"

text \<open>
  How every protected handler begins: authenticate, answer the error if there is one, else go on with
  the session that was found.
\<close>

definition guarded ::
  "(request \<Rightarrow> mgr \<Rightarrow> world \<Rightarrow> ('a res \<times> mgr) \<times> world) \<Rightarrow> env \<Rightarrow> ('a \<Rightarrow> handler) \<Rightarrow> handler" where
  "guarded auth env rest r s w =
     (case auth r (sv_mgr s) w of
        ((Inl e, m), w1) \<Rightarrow> writeAuthProblem env r e (s\<lparr>sv_mgr := m\<rparr>) w1
      | ((Inr a, m), w1) \<Rightarrow> rest a r (s\<lparr>sv_mgr := m\<rparr>) w1)"

section \<open>Probes\<close>

definition healthz :: handler where
  "healthz r s w = ((Answer \<lparr>rs_status = 200, rs_body = Plain ''ok''\<rparr>, [], s), w)"

definition readyz :: "env \<Rightarrow> handler" where
  "readyz env r s w =
     (case Ping env w of
        (Inl e, w1) \<Rightarrow> problem r 503 ''Not Ready'' (DErr e) ''db'' s w1
      | (Inr _, w1) \<Rightarrow> ((Answer \<lparr>rs_status = 200, rs_body = Plain ''ok''\<rparr>, [], s), w1))"

definition vaultInfo :: "env \<Rightarrow> handler" where
  "vaultInfo env r s w =
     (case GetAnyVault env w of
        (Inl e, w1) \<Rightarrow> problem r 500 ''Vault lookup failed'' (DErr e) ''store'' s w1
      | (Inr None, w1) \<Rightarrow> problem r 404 ''Not Found'' (DText ''vault not initialized'') ''no_vault'' s w1
      | (Inr (Some _), w1) \<Rightarrow> writeJSON 200 RInitialized s w1)"

section \<open>Creating, unlocking and locking the vault\<close>

record init_body =
  ib_password :: string
  ib_auth_mode :: string

definition init_fields :: "init_body field list" where
  "init_fields =
     [(''password'', setting dec_string_field ib_password (\<lambda>y b. b\<lparr>ib_password := y\<rparr>)),
      (''auth_mode'', setting dec_string_field ib_auth_mode (\<lambda>y b. b\<lparr>ib_auth_mode := y\<rparr>))]"

definition no_init_body :: init_body where
  "no_init_body = \<lparr>ib_password = [], ib_auth_mode = []\<rparr>"

text \<open>The insertion, after the checks of the request.\<close>

definition create_vault :: "env \<Rightarrow> request \<Rightarrow> bool \<Rightarrow> string \<Rightarrow> string \<Rightarrow> server \<Rightarrow> world \<Rightarrow> handled" where
  "create_vault env r wantEnc password authMode s w =
     (if wantEnc then
        (case NewDEK env w of
           (Inl e, w1) \<Rightarrow> failed r 500 ''Init failed'' e ''crypto'' s w1
         | (Inr dek, w1) \<Rightarrow>
        (case WrapDEK env password dek w1 of
           (Inl e, w2) \<Rightarrow> failed r 500 ''Init failed'' e ''crypto'' s w2
         | (Inr wr, w2) \<Rightarrow>
        (case InsertVault env True authMode (Some (wd_salt wr)) (Some (wd_blob wr))
                (sint (wd_time wr)) (sint (wd_mem wr)) (uint (wd_par wr)) w2 of
           (Inl e, w3) \<Rightarrow> failed r 500 ''Init failed'' e ''store'' s w3
         | (Inr vid, w3) \<Rightarrow> writeJSON 201 (RInit vid True authMode) s w3)))
      else
        (case InsertVault env False authMode None None 0 0 0 w of
           (Inl e, w1) \<Rightarrow> failed r 500 ''Init failed'' e ''store'' s w1
         | (Inr vid, w1) \<Rightarrow> writeJSON 201 (RInit vid False authMode) s w1))"

definition vaultInit :: "env \<Rightarrow> handler" where
  "vaultInit env r s w =
     (case GetAnyVault env w of
        (Inl e, w1) \<Rightarrow> problem r 500 ''Init failed'' (DErr e) ''store'' s w1
      | (Inr (Some _), w1) \<Rightarrow>
          problem r 409 ''Vault exists'' (DText ''vault already initialized'') ''vault_exists'' s w1
      | (Inr None, w1) \<Rightarrow>
          (let d = decode_body (dec_struct init_fields) no_init_body (rq_limit r) (rq_body r);
               b = (case d of Decoded b \<Rightarrow> b | _ \<Rightarrow> no_init_body);
               wantEnc = (cf_enc (sv_cfg s) = EncryptionOn);
               authMode0 = trim_space (ib_auth_mode b);
               authMode = (if authMode0 = [] then AuthModeSession else authMode0)
           in if (case d of Bad _ \<Rightarrow> True | _ \<Rightarrow> False)
              then problem r 400 ''Bad Request'' (DText ''invalid JSON body'') ''json'' s w1
              else if wantEnc \<and> trim_space (ib_password b) = []
              then problem r 400 ''Bad Request'' (DText ''password required when encryption is on'') ''password'' s w1
              else if \<not> IsValidAuthMode authMode
              then problem r 400 ''Bad Request''
                     (DText ''invalid auth_mode (must be session, auto_unlock, or api_keys)'') ''invalid_auth_mode'' s w1
              else if authMode = AuthModeAPIKeys
              then problem r 400 ''Not supported''
                     (DText ''auth_mode=api_keys is not yet implemented; use session or auto_unlock'')
                     ''mode_not_implemented'' s w1
              else create_vault env r wantEnc (ib_password b) authMode s w1))"

definition unlock_fields :: "string field list" where
  "unlock_fields = [(''password'', setting dec_string_field (\<lambda>b. b) (\<lambda>y _. y))]"

text \<open>A session is made and its token handed out.\<close>

definition open_session :: "env \<Rightarrow> request \<Rightarrow> vault_row \<Rightarrow> bytes \<Rightarrow> instant \<Rightarrow> server \<Rightarrow> world \<Rightarrow> handled" where
  "open_session env r v dek ts s w =
     (case CreateSession env (v_id v) dek ts (sv_mgr s) w of
        ((Inl e, m), w1) \<Rightarrow> failed r 500 ''Unlock failed'' e ''session'' (s\<lparr>sv_mgr := m\<rparr>) w1
      | ((Inr tok, m), w1) \<Rightarrow>
          writeJSON 200 (RUnlock tok (v_id v) (v_enc v) (v_auth_mode v)) (s\<lparr>sv_mgr := m\<rparr>) w1)"

definition vaultUnlock :: "env \<Rightarrow> handler" where
  "vaultUnlock env r s w =
     (case GetAnyVault env w of
        (Inl _, w1) \<Rightarrow> problem r 404 ''Not Found'' (DText ''vault not initialized'') ''no_vault'' s w1
      | (Inr None, w1) \<Rightarrow> problem r 404 ''Not Found'' (DText ''vault not initialized'') ''no_vault'' s w1
      | (Inr (Some v), w1) \<Rightarrow>
          if v_auth_mode v = AuthModeAPIKeys
          then problem r 409 ''Mode mismatch''
                 (DText ''vault auth_mode=api_keys does not use /v1/vault/unlock'') ''mode_mismatch'' s w1
          else
            (let (ts, w2) = now env w1 in
             if \<not> v_enc v then open_session env r v [] ts s w2
             else
               (let pw = (case decode_body (dec_struct unlock_fields) [] (rq_limit r) (rq_body r) of
                            Decoded p \<Rightarrow> p | _ \<Rightarrow> [])
                in if trim_space pw = []
                   then problem r 400 ''Bad Request'' (DText ''password required'') ''password'' s w2
                   else
                     (case row_wrapped_dek v of
                        None \<Rightarrow> problem r 500 ''Vault corrupt'' (DText ''missing KDF parameters'') ''vault'' s w2
                      | Some wd \<Rightarrow>
                          (case UnwrapDEK env pw wd of
                             Inl (EPanic m) \<Rightarrow> ((Panic m, [], s), w2)
                           | Inl _ \<Rightarrow> problem r 401 ''Unauthorized'' (DText ''invalid password'') ''auth'' s w2
                           | Inr dek \<Rightarrow> open_session env r v dek ts s w2)))))"

definition vaultLock :: "env \<Rightarrow> handler" where
  "vaultLock env r s w =
     (let tok = sessionFromRequest env r in
      if tok = [] then problem r 401 ''Unauthorized'' (DText ''missing session'') ''session'' s w
      else (case Invalidate env tok (sv_mgr s) w of (m, w1) \<Rightarrow> status_only 204 (s\<lparr>sv_mgr := m\<rparr>) w1))"

section \<open>Action tokens\<close>

record mint_body =
  mb_scopes :: "string list"
  mb_ttl :: int

definition mint_fields :: "mint_body field list" where
  "mint_fields =
     [(''scopes'', setting (\<lambda>v _. dec_list_field (\<lambda>x. dec_string_field x []) v) mb_scopes (\<lambda>y b. b\<lparr>mb_scopes := y\<rparr>)),
      (''ttl_seconds'', setting dec_int_field mb_ttl (\<lambda>y b. b\<lparr>mb_ttl := y\<rparr>))]"

definition no_mint_body :: mint_body where
  "no_mint_body = \<lparr>mb_scopes = [], mb_ttl = 0\<rparr>"

text \<open>\<open>time.Duration(n) * time.Second\<close> wraps; \<open>Duration.Seconds\<close> is a float64, cut to an \<open>int\<close>.\<close>

definition token_ttl :: "int \<Rightarrow> duration" where
  "token_ttl n = (let d = i64 (n * ns_second) in if d \<le> 0 then ns_hour else d)"

definition whole_seconds :: "duration \<Rightarrow> int" where
  "whole_seconds d =
     (case fadd (fround (of_int (d div ns_second)))
             (fdiv (fround (of_int (d mod ns_second))) (fround 1000000000)) of
        Fin x \<Rightarrow> \<lfloor>x\<rfloor> | _ \<Rightarrow> 0)"

definition mint_rest :: "env \<Rightarrow> session \<Rightarrow> handler" where
  "mint_rest env sess r s w =
     (case GetVault env (ss_vault sess) w of
        (vrow, w1) \<Rightarrow>
          if (case vrow of Inr row \<Rightarrow> v_enc row | Inl _ \<Rightarrow> False)
          then problem r 400 ''Not supported'' (DText ''use session token as Bearer for encrypted vaults'') ''token'' s w1
          else
            (let d = decode_body (dec_struct mint_fields) no_mint_body (rq_limit r) (rq_body r);
                 b = (case d of Decoded b \<Rightarrow> b | _ \<Rightarrow> no_mint_body);
                 scopes = (if mb_scopes b = [] then [''retrieve'', ''ingest''] else mb_scopes b);
                 ttl = token_ttl (mb_ttl b)
             in if (case d of Bad _ \<Rightarrow> True | _ \<Rightarrow> False)
                then problem r 400 ''Bad Request'' (DText ''invalid JSON body'') ''json'' s w1
                else
                  (case NewRandomToken env w1 of
                     (Inl e, w2) \<Rightarrow> failed r 500 ''Token mint failed'' e ''token'' s w2
                   | (Inr raw, w2) \<Rightarrow>
                       (let (ts, w3) = now env w2 in
                        case InsertActionToken env (ss_vault sess) (HashActionToken env raw) scopes (ts + ttl) w3 of
                          (Inl e, w4) \<Rightarrow> failed r 500 ''Token mint failed'' e ''store'' s w4
                        | (Inr _, w4) \<Rightarrow> writeJSON 201 (RToken raw (whole_seconds ttl)) s w4))))"

definition mintActionToken :: "env \<Rightarrow> handler" where
  "mintActionToken env = guarded (requireSession env) env (mint_rest env)"

section \<open>Ingest\<close>

record ingest_req =
  iq_vault_id :: string
  iq_user_id :: string
  iq_session_key :: string
  iq_text :: string
  iq_abstract :: string
  iq_kind :: string
  iq_meta :: jmap
  iq_items :: "ingest_item list"
  iq_source :: "(string \<times> string) option"
  iq_infer :: bool
  iq_infer_target :: string
  iq_messages :: "(string \<times> string) list"
  iq_idempotency :: string
  iq_debug :: bool

definition no_ingest_req :: ingest_req where
  "no_ingest_req = \<lparr>iq_vault_id = [], iq_user_id = [], iq_session_key = [], iq_text = [], iq_abstract = [],
     iq_kind = [], iq_meta = None, iq_items = [], iq_source = None, iq_infer = False, iq_infer_target = [],
     iq_messages = [], iq_idempotency = [], iq_debug = False\<rparr>"

definition item_fields :: "ingest_item field list" where
  "item_fields =
     [(''abstract'', setting dec_string_field it_abstract (\<lambda>y b. b\<lparr>it_abstract := y\<rparr>)),
      (''text'', setting dec_string_field it_text (\<lambda>y b. b\<lparr>it_text := y\<rparr>)),
      (''body'', setting dec_string_field it_body (\<lambda>y b. b\<lparr>it_body := y\<rparr>)),
      (''kind'', setting dec_string_field it_kind (\<lambda>y b. b\<lparr>it_kind := y\<rparr>)),
      (''metadata'', setting dec_map_field it_meta (\<lambda>y b. b\<lparr>it_meta := y\<rparr>))]"

definition no_item :: ingest_item where
  "no_item = \<lparr>it_abstract = [], it_text = [], it_body = [], it_kind = [], it_meta = None\<rparr>"

text \<open>Pairs of two strings: a source document (text, title) and a message (role, content).\<close>

definition pair_fields :: "string \<Rightarrow> string \<Rightarrow> (string \<times> string) field list" where
  "pair_fields a b =
     [(a, setting dec_string_field fst (\<lambda>y p. (y, snd p))),
      (b, setting dec_string_field snd (\<lambda>y p. (fst p, y)))]"

definition ingest_fields :: "ingest_req field list" where
  "ingest_fields =
     [(''vault_id'', setting dec_string_field iq_vault_id (\<lambda>y b. b\<lparr>iq_vault_id := y\<rparr>)),
      (''user_id'', setting dec_string_field iq_user_id (\<lambda>y b. b\<lparr>iq_user_id := y\<rparr>)),
      (''session_key'', setting dec_string_field iq_session_key (\<lambda>y b. b\<lparr>iq_session_key := y\<rparr>)),
      (''text'', setting dec_string_field iq_text (\<lambda>y b. b\<lparr>iq_text := y\<rparr>)),
      (''abstract'', setting dec_string_field iq_abstract (\<lambda>y b. b\<lparr>iq_abstract := y\<rparr>)),
      (''kind'', setting dec_string_field iq_kind (\<lambda>y b. b\<lparr>iq_kind := y\<rparr>)),
      (''metadata'', setting dec_map_field iq_meta (\<lambda>y b. b\<lparr>iq_meta := y\<rparr>)),
      (''items'', setting (\<lambda>v _. dec_list_field (\<lambda>x. dec_struct item_fields x no_item) v) iq_items
         (\<lambda>y b. b\<lparr>iq_items := y\<rparr>)),
      (''source_document'', setting (dec_ptr_field ([], []) (dec_struct (pair_fields ''text'' ''title''))) iq_source
         (\<lambda>y b. b\<lparr>iq_source := y\<rparr>)),
      (''infer'', setting dec_bool_field iq_infer (\<lambda>y b. b\<lparr>iq_infer := y\<rparr>)),
      (''infer_target'', setting dec_string_field iq_infer_target (\<lambda>y b. b\<lparr>iq_infer_target := y\<rparr>)),
      (''messages'', setting (\<lambda>v _. dec_list_field (\<lambda>x. dec_struct (pair_fields ''role'' ''content'') x ([], [])) v)
         iq_messages (\<lambda>y b. b\<lparr>iq_messages := y\<rparr>)),
      (''idempotency_key'', setting dec_string_field iq_idempotency (\<lambda>y b. b\<lparr>iq_idempotency := y\<rparr>)),
      (''debug'', setting dec_bool_field iq_debug (\<lambda>y b. b\<lparr>iq_debug := y\<rparr>))]"

text \<open>\<open>_ = s.Store.AppendSessionMessage(...)\<close> for every message: the errors are dropped.\<close>

fun append_messages :: "env \<Rightarrow> uuid \<Rightarrow> string \<Rightarrow> string \<Rightarrow> (string \<times> string) list \<Rightarrow> world \<Rightarrow> world" where
  "append_messages env v u k [] w = w"
| "append_messages env v u k ((role, content) # ms) w =
     append_messages env v u k ms (snd (AppendSessionMessage env v u k role content w))"

definition input_of :: "ingest_req \<Rightarrow> uuid \<Rightarrow> string \<Rightarrow> session \<Rightarrow> ingest_input" where
  "input_of q vid sKey sess =
     \<lparr>in_vault = vid, in_user = iq_user_id q, in_session_key = sKey, in_text = iq_text q,
      in_abstract = iq_abstract q, in_kind = iq_kind q, in_meta = iq_meta q, in_items = iq_items q,
      in_source = (case iq_source q of
                     None \<Rightarrow> None
                   | Some (t, title) \<Rightarrow> if trim_space t = [] then None else Some (trim_space t, trim_space title)),
      in_infer = iq_infer q, in_infer_target = iq_infer_target q, in_messages = iq_messages q,
      in_session = Some sess\<rparr>"

definition ingest_store :: "env \<Rightarrow> session \<Rightarrow> uuid \<Rightarrow> ingest_req \<Rightarrow> handler" where
  "ingest_store env sess vid q r s w =
     (let sKey = (if iq_session_key q = [] then ''default'' else iq_session_key q);
          w1 = append_messages env vid (iq_user_id q) sKey (iq_messages q) w;
          dbg = (rt_debug (Current (sv_tn s)) \<and> iq_debug q)
      in case IngestWithDebug env (sv_engine s) (input_of q vid sKey sess) dbg w1 of
           ((ids, d, Some e), w2) \<Rightarrow> failed r 500 ''Ingest failed'' e ''ingest'' s w2
         | ((ids, d, None), w2) \<Rightarrow>
             writeJSON 200 (RIngest (map (ev_uuid_str env) ids) (if dbg then d else None)) s w2)"

definition ingest_rest :: "env \<Rightarrow> session \<times> uuid \<Rightarrow> handler" where
  "ingest_rest env a r s w =
     (let (sess, vaultID) = a in
      case decode_body (dec_struct ingest_fields) no_ingest_req (rq_limit r) (rq_body r) of
        Eof \<Rightarrow> problem r 400 ''Bad Request'' (DErr (EMsg ''EOF'')) ''json'' s w
      | Bad e \<Rightarrow> problem r 400 ''Bad Request'' (DErr e) ''json'' s w
      | Decoded q \<Rightarrow>
          if iq_vault_id q = [] \<or> iq_user_id q = []
          then problem r 400 ''Bad Request'' (DText ''vault_id and user_id required'') ''validate'' s w
          else
            (case ev_uuid_parse env (iq_vault_id q) of
               None \<Rightarrow> problem r 400 ''Bad Request'' (DText ''invalid vault_id'') ''validate'' s w
             | Some vid \<Rightarrow>
                 if vid \<noteq> vaultID then problem r 403 ''Forbidden'' (DText ''vault mismatch'') ''vault'' s w
                 else ingest_store env sess vid q r s w))"

definition ingest :: "env \<Rightarrow> handler" where
  "ingest env = guarded (requireVaultAuth env) env (ingest_rest env)"

section \<open>Retrieval\<close>

record retrieve_req =
  tq_vault_id :: string
  tq_user_id :: string
  tq_query :: string
  tq_max_chunks :: int
  tq_max_tokens :: int
  tq_session_key :: string
  tq_session_mode :: string
  tq_content_mode :: string
  tq_debug :: bool

definition no_retrieve_req :: retrieve_req where
  "no_retrieve_req = \<lparr>tq_vault_id = [], tq_user_id = [], tq_query = [], tq_max_chunks = 0, tq_max_tokens = 0,
     tq_session_key = [], tq_session_mode = [], tq_content_mode = [], tq_debug = False\<rparr>"

definition retrieve_fields :: "retrieve_req field list" where
  "retrieve_fields =
     [(''vault_id'', setting dec_string_field tq_vault_id (\<lambda>y b. b\<lparr>tq_vault_id := y\<rparr>)),
      (''user_id'', setting dec_string_field tq_user_id (\<lambda>y b. b\<lparr>tq_user_id := y\<rparr>)),
      (''query'', setting dec_string_field tq_query (\<lambda>y b. b\<lparr>tq_query := y\<rparr>)),
      (''max_chunks'', setting dec_int_field tq_max_chunks (\<lambda>y b. b\<lparr>tq_max_chunks := y\<rparr>)),
      (''max_tokens'', setting dec_int_field tq_max_tokens (\<lambda>y b. b\<lparr>tq_max_tokens := y\<rparr>)),
      (''session_key'', setting dec_string_field tq_session_key (\<lambda>y b. b\<lparr>tq_session_key := y\<rparr>)),
      (''session_mode'', setting dec_string_field tq_session_mode (\<lambda>y b. b\<lparr>tq_session_mode := y\<rparr>)),
      (''content_mode'', setting dec_string_field tq_content_mode (\<lambda>y b. b\<lparr>tq_content_mode := y\<rparr>)),
      (''debug'', setting dec_bool_field tq_debug (\<lambda>y b. b\<lparr>tq_debug := y\<rparr>))]"

definition buildRetrieveMeta :: "nat \<Rightarrow> nat \<times> string option" where
  "buildRetrieveMeta n =
     (n, if n = 0 then Some ''No matching memories. Try different keywords, confirm user_id matches ingested data, call memory_stats to see activity, or ingest with memory_save.''
         else None)"

text \<open>\<open>strings.ToLower(strings.TrimSpace(x))\<close> with a default for the empty text.\<close>

definition mode_or :: "env \<Rightarrow> string \<Rightarrow> string \<Rightarrow> string" where
  "mode_or env d x = (let m = to_lower (ev_lower env) (trim_space x) in if m = [] then d else m)"

definition run_query :: "env \<Rightarrow> session \<Rightarrow> uuid \<Rightarrow> retrieve_req \<Rightarrow> string \<Rightarrow> string \<Rightarrow> handler" where
  "run_query env sess vid q mode cm r s w =
     (let dbg = (rt_debug (Current (sv_tn s)) \<and> tq_debug q);
          opts = \<lparr>ro_session_key = tq_session_key q, ro_session_mode = mode, ro_content_mode = cm\<rparr>
      in case RetrieveWithDebug env (sv_engine s) vid (tq_user_id q) (tq_query q) (tq_max_chunks q) (tq_max_tokens q)
                (Some sess) opts dbg w of
           (Inl e, w1) \<Rightarrow> failed r 500 ''Retrieve failed'' e ''retrieve'' s w1
         | (Inr (snips, d), w1) \<Rightarrow>
             (let (n, hint) = buildRetrieveMeta (length snips)
              in writeJSON 200 (RRetrieve snips n hint (if dbg then d else None)) s w1))"

definition retrieve_rest :: "env \<Rightarrow> session \<times> uuid \<Rightarrow> handler" where
  "retrieve_rest env a r s w =
     (let (sess, vaultID) = a in
      case decode_body (dec_struct retrieve_fields) no_retrieve_req (rq_limit r) (rq_body r) of
        Eof \<Rightarrow> problem r 400 ''Bad Request'' (DErr (EMsg ''EOF'')) ''json'' s w
      | Bad e \<Rightarrow> problem r 400 ''Bad Request'' (DErr e) ''json'' s w
      | Decoded q \<Rightarrow>
          (let mode = mode_or env ''all'' (tq_session_mode q); cm = mode_or env ''auto'' (tq_content_mode q) in
           if tq_vault_id q = [] \<or> tq_user_id q = [] \<or> trim_space (tq_query q) = []
           then problem r 400 ''Bad Request'' (DText ''vault_id, user_id, query required'') ''validate'' s w
           else if ev_uuid_parse env (tq_vault_id q) \<noteq> Some vaultID
           then problem r 403 ''Forbidden'' (DText ''vault mismatch'') ''vault'' s w
           else if mode \<notin> {''all'', ''only'', ''prefer''}
           then problem r 400 ''Bad Request'' (DText ''session_mode must be all, only, or prefer'') ''validate'' s w
           else if mode = ''only'' \<and> trim_space (tq_session_key q) = []
           then problem r 400 ''Bad Request'' (DText ''session_key is required when session_mode is only'') ''validate'' s w
           else if cm \<notin> {''auto'', ''abstract'', ''full'', ''both'', ''default''}
           then problem r 400 ''Bad Request'' (DText ''content_mode must be auto, abstract, full, both, or default'') ''validate'' s w
           else run_query env sess vaultID q mode cm r s w))"

definition retrieve :: "env \<Rightarrow> handler" where
  "retrieve env = guarded (requireVaultAuth env) env (retrieve_rest env)"

section \<open>One memory\<close>

definition mentions_lock :: "err \<Rightarrow> bool" where
  "mentions_lock e \<longleftrightarrow> (case e of EMsg m \<Rightarrow> sublist ''vault must be unlocked'' m | _ \<Rightarrow> False)"

definition get_rest :: "env \<Rightarrow> string \<Rightarrow> session \<times> uuid \<Rightarrow> handler" where
  "get_rest env param a r s w =
     (let (sess, vaultID) = a in
      case ev_uuid_parse env param of
        None \<Rightarrow> problem r 400 ''Bad Request'' (DText ''invalid id'') ''validate'' s w
      | Some i \<Rightarrow>
          (case GetChunkByID env (sv_engine s) vaultID i (Some sess) w of
             (Inr res, w1) \<Rightarrow> writeJSON 200 (RChunk res) s w1
           | (Inl e, w1) \<Rightarrow>
               if e = ENotFound then problem r 404 ''Not Found'' (DText ''chunk not found'') ''not_found'' s w1
               else if mentions_lock e then writeAuthProblem env r EVaultLocked s w1
               else failed r 500 ''Get failed'' e ''chunk'' s w1))"

definition getChunk :: "env \<Rightarrow> string \<Rightarrow> handler" where
  "getChunk env param = guarded (requireVaultAuth env) env (get_rest env param)"

definition delete_rest :: "env \<Rightarrow> string \<Rightarrow> session \<times> uuid \<Rightarrow> handler" where
  "delete_rest env param a r s w =
     (case ev_uuid_parse env param of
        None \<Rightarrow> problem r 400 ''Bad Request'' (DText ''invalid id'') ''validate'' s w
      | Some i \<Rightarrow>
          (case SoftDeleteChunk env (snd a) i w of
             (Inr _, w1) \<Rightarrow> status_only 204 s w1
           | (Inl e, w1) \<Rightarrow>
               if e = ENotFound then problem r 404 ''Not Found'' (DText ''chunk not found'') ''not_found'' s w1
               else failed r 500 ''Delete failed'' e ''store'' s w1))"

definition deleteChunk :: "env \<Rightarrow> string \<Rightarrow> handler" where
  "deleteChunk env param = guarded (requireVaultAuth env) env (delete_rest env param)"

section \<open>Statistics\<close>

definition activity_json :: "env \<Rightarrow> activity_row \<Rightarrow> (string \<times> stat_value) list" where
  "activity_json env a =
     [(''id'', SVNat (a_id a)), (''event'', SVStr (a_event a)), (''created_at'', SVTime (a_created a))]
     @ (case a_chunk a of None \<Rightarrow> [] | Some i \<Rightarrow> [(''chunk_id'', SVStr (ev_uuid_str env i))])
     @ (if a_user a = [] then [] else [(''user_id'', SVStr (a_user a))])"

definition stats_rest :: "env \<Rightarrow> session \<times> uuid \<Rightarrow> handler" where
  "stats_rest env a r s w =
     (let vaultID = snd a in
      case GetVault env vaultID w of
        (Inl e, w1) \<Rightarrow>
          if e = ENotFound then problem r 404 ''Not Found'' (DText ''vault not found'') ''not_found'' s w1
          else failed r 500 ''Stats failed'' e ''store'' s w1
      | (Inr vrow, w1) \<Rightarrow>
          (case StatsForVault env vaultID 50 w1 of
             (Inl e, w2) \<Rightarrow> failed r 500 ''Stats failed'' e ''store'' s w2
           | (Inr st, w2) \<Rightarrow>
               writeJSON 200 (RStats vaultID (v_enc vrow) st (map (activity_json env) (st_recent st))) s w2))"

definition vaultStats :: "env \<Rightarrow> handler" where
  "vaultStats env = guarded (requireVaultAuth env) env (stats_rest env)"

section \<open>Tuning\<close>

definition tuning_reply :: "server \<Rightarrow> string option \<Rightarrow> reply" where
  "tuning_reply s flag =
     (let sn = APISnapshot (sv_tn s)
      in RTuning (MergedAPIMap (sn_effective sn)) (sn_sources sn) (cf_tuning_file (sv_cfg s)) (sn_db sn) flag)"

definition tuning_rest :: "session \<times> uuid \<Rightarrow> handler" where
  "tuning_rest a r s w = writeJSON 200 (tuning_reply s None) s w"

definition getTuning :: "env \<Rightarrow> handler" where
  "getTuning env = guarded (requireVaultAuth env) env tuning_rest"

definition reload_rest :: "tuning_io \<Rightarrow> session \<times> uuid \<Rightarrow> handler" where
  "reload_rest io a r s w =
     (case Reload io (sv_tn s) w of
        ((Inl e, tn), w1) \<Rightarrow> problem r 400 ''Reload failed'' (DErr e) ''tuning_reload'' (s\<lparr>sv_tn := tn\<rparr>) w1
      | ((Inr _, tn), w1) \<Rightarrow>
          (let s1 = s\<lparr>sv_tn := tn\<rparr> in writeJSON 200 (tuning_reply s1 (Some ''reloaded'')) s1 w1))"

definition postTuningReload :: "tuning_io \<Rightarrow> env \<Rightarrow> handler" where
  "postTuningReload io env = guarded (requireVaultAuth env) env (reload_rest io)"

definition patch_rest :: "tuning_io \<Rightarrow> env \<Rightarrow> session \<times> uuid \<Rightarrow> handler" where
  "patch_rest io env a r s w =
     (case decode_body dec_raw_map None (rq_limit r) (rq_body r) of
        Eof \<Rightarrow> problem r 400 ''Bad Request'' (DErr (EMsg ''EOF'')) ''json'' s w
      | Bad e \<Rightarrow> problem r 400 ''Bad Request'' (DErr e) ''json'' s w
      | Decoded patch \<Rightarrow>
          if raw_entries patch = [] then problem r 400 ''Bad Request'' (DText ''empty patch'') ''validate'' s w
          else
            (case GetServerTuning env w of
               (Inl e, w1) \<Rightarrow> problem r 500 ''Store failed'' (DErr e) ''store'' s w1
             | (Inr existing, w1) \<Rightarrow>
                 (case MergeTuningOverrideJSON existing patch of
                    Inl e \<Rightarrow> problem r 400 ''Bad Request'' (DErr e) ''validate'' s w1
                  | Inr merged \<Rightarrow>
                      (case MergeTuningFull io DefaultRuntimeTuning (cf_tuning_file (sv_cfg s)) merged of
                         Inl e \<Rightarrow> problem r 400 ''Invalid tuning'' (DErr e) ''validate'' s w1
                       | Inr _ \<Rightarrow>
                           (case SetServerTuningOverrides env merged w1 of
                              (Inl e, w2) \<Rightarrow> problem r 500 ''Store failed'' (DErr e) ''store'' s w2
                            | (Inr _, w2) \<Rightarrow>
                                (case Reload io (sv_tn s) w2 of
                                   ((Inl e, tn), w3) \<Rightarrow>
                                     problem r 500 ''Reload failed'' (DErr e) ''tuning_reload'' (s\<lparr>sv_tn := tn\<rparr>) w3
                                 | ((Inr _, tn), w3) \<Rightarrow>
                                     (let s1 = s\<lparr>sv_tn := tn\<rparr>
                                      in writeJSON 200 (tuning_reply s1 (Some ''updated'')) s1 w3)))))))"

definition patchTuning :: "tuning_io \<Rightarrow> env \<Rightarrow> handler" where
  "patchTuning io env = guarded (requireVaultAuth env) env (patch_rest io env)"

section \<open>The routes\<close>

definition handler_for :: "tuning_io \<Rightarrow> env \<Rightarrow> route \<Rightarrow> handler" where
  "handler_for io env rt =
     (case rt of
        Healthz \<Rightarrow> healthz
      | Readyz \<Rightarrow> readyz env
      | VaultInit \<Rightarrow> vaultInit env
      | VaultInfo \<Rightarrow> vaultInfo env
      | VaultUnlock \<Rightarrow> vaultUnlock env
      | VaultLock \<Rightarrow> vaultLock env
      | TokensActions \<Rightarrow> mintActionToken env
      | IngestRoute \<Rightarrow> ingest env
      | RetrieveRoute \<Rightarrow> retrieve env
      | ChunkGet i \<Rightarrow> getChunk env i
      | ChunkDelete i \<Rightarrow> deleteChunk env i
      | Stats \<Rightarrow> vaultStats env
      | TuningGet \<Rightarrow> getTuning env
      | TuningReload \<Rightarrow> postTuningReload io env
      | TuningPatch \<Rightarrow> patchTuning io env)"

text \<open>The middleware in the order of \<open>Routes\<close>; the timeout of 120 seconds shows as failing calls.\<close>

definition serve :: "tuning_io \<Rightarrow> env \<Rightarrow> request \<Rightarrow> server \<Rightarrow> world \<Rightarrow> (response \<times> log_line list \<times> server) \<times> world" where
  "serve io env r =
     Recoverer (RequestID env (AccessLogTuning (MaxBytesTuning (\<lambda>r. handler_for io env (rq_route r) r)))) r"

text \<open>Requests one after the other.\<close>

fun serve_all :: "tuning_io \<Rightarrow> env \<Rightarrow> request list \<Rightarrow> server \<Rightarrow> world \<Rightarrow> server \<times> world" where
  "serve_all io env [] s w = (s, w)"
| "serve_all io env (r # rs) s w =
     (case serve io env r s w of ((_, _, s1), w1) \<Rightarrow> serve_all io env rs s1 w1)"

end
