(* ===== verification/Store_Inv.thy ===== *)
theory Store_Inv
  imports Store
begin

text \<open>
  What the store promises. A table with a key is an interface of its own (\<open>keyed_table\<close>): from
  the law that writing the rows and reading them back agree follow the facts about keyed
  inserts, deletes and updates, and each table of the schema is an instance. The schema's
  constraints are the invariant \<open>wf_db\<close>; every statement of the store keeps it, so it holds in
  every database that a run of store calls reaches.
\<close>

section \<open>Looking up a row by its key\<close>

lemma row_at_Nil [simp]: "row_at key k [] = None"
  by (simp add: row_at_def)

lemma row_at_Cons [simp]: "row_at key k (r # rows) = (if key r = k then Some r else row_at key k rows)"
  by (simp add: row_at_def)

lemma row_at_None: "row_at key k rows = None \<longleftrightarrow> k \<notin> key ` set rows"
  by (induction rows) auto

lemma row_at_Some: "row_at key k rows = Some r \<Longrightarrow> r \<in> set rows \<and> key r = k"
  by (induction rows) (auto split: if_splits)

lemma row_at_not_None: "row_at key k rows \<noteq> None \<longleftrightarrow> k \<in> key ` set rows"
  by (simp add: row_at_None)

lemma row_at_unique:
  "distinct (map key rows) \<Longrightarrow> r \<in> set rows \<Longrightarrow> row_at key (key r) rows = Some r"
  by (induction rows) (auto simp: image_iff)

lemma row_at_append: "row_at key k (rows @ rows') =
    (case row_at key k rows of None \<Rightarrow> row_at key k rows' | Some r \<Rightarrow> Some r)"
  by (induction rows) auto

lemma row_at_filter_key: "row_at key k (filter (\<lambda>r. P (key r)) rows) =
    (if P k then row_at key k rows else None)"
  by (induction rows) auto

lemma row_at_map: "(\<And>r. key (f r) = key r) \<Longrightarrow>
    row_at key k (map f rows) = map_option f (row_at key k rows)"
  by (induction rows) auto

lemma row_at_filter_neq: "row_at key k (filter (\<lambda>r. key r \<noteq> h) rows) =
    (if k = h then None else row_at key k rows)"
  by (induction rows) auto

lemma row_at_filter_Some:
  "distinct (map key rows) \<Longrightarrow> row_at key k rows = Some r \<Longrightarrow>
   row_at key k (filter P rows) = (if P r then Some r else None)"
  by (induction rows) (auto simp: row_at_None split: if_splits)

section \<open>Keyed tables\<close>

locale keyed_table =
  fixes key :: "'r \<Rightarrow> 'k"
    and rows :: "'d \<Rightarrow> 'r list"
    and put :: "'r list \<Rightarrow> 'd \<Rightarrow> 'd"
  assumes rows_put: "rows (put rs d) = rs"
begin

lemma insert_distinct:
  "row_at key (key r) (rows d) = None \<Longrightarrow> distinct (map key (rows d)) \<Longrightarrow>
   distinct (map key (rows (put (rows d @ [r]) d)))"
  by (simp add: rows_put row_at_None)

lemma lookup_insert:
  "row_at key (key r) (rows d) = None \<Longrightarrow>
   row_at key k (rows (put (rows d @ [r]) d)) =
     (if k = key r then Some r else row_at key k (rows d))"
  by (auto simp: rows_put row_at_append split: option.split)

lemma filter_distinct:
  "distinct (map key (rows d)) \<Longrightarrow> distinct (map key (rows (put (filter P (rows d)) d)))"
  by (simp add: rows_put distinct_map_filterI)

lemma lookup_delete:
  "row_at key k (rows (put (filter (\<lambda>r. key r \<noteq> h) (rows d)) d)) =
     (if k = h then None else row_at key k (rows d))"
  by (simp add: rows_put row_at_filter_neq)

lemma map_distinct:
  "(\<And>r. key (f r) = key r) \<Longrightarrow> distinct (map key (rows d)) \<Longrightarrow>
   distinct (map key (rows (put (map f (rows d)) d)))"
  by (simp add: rows_put o_def)

lemma lookup_map:
  "(\<And>r. key (f r) = key r) \<Longrightarrow>
   row_at key k (rows (put (map f (rows d)) d)) = map_option f (row_at key k (rows d))"
  by (simp add: rows_put row_at_map)

end

interpretation vaults: keyed_table v_id d_vaults "\<lambda>rs d. d\<lparr>d_vaults := rs\<rparr>"
  by unfold_locales simp

interpretation sessions: keyed_table s_hash d_sessions "\<lambda>rs d. d\<lparr>d_sessions := rs\<rparr>"
  by unfold_locales simp

interpretation chunks: keyed_table c_id d_chunks "\<lambda>rs d. d\<lparr>d_chunks := rs\<rparr>"
  by unfold_locales simp

interpretation embeds: keyed_table e_chunk d_embeds "\<lambda>rs d. d\<lparr>d_embeds := rs\<rparr>"
  by unfold_locales simp

interpretation docs: keyed_table sd_id d_docs "\<lambda>rs d. d\<lparr>d_docs := rs\<rparr>"
  by unfold_locales simp

interpretation tokens: keyed_table t_id d_tokens "\<lambda>rs d. d\<lparr>d_tokens := rs\<rparr>"
  by unfold_locales simp

section \<open>The constraints of the schema\<close>

definition keys_ok :: "db \<Rightarrow> bool" where
  "keys_ok d \<longleftrightarrow>
     distinct (map v_id (d_vaults d)) \<and> distinct (map s_hash (d_sessions d))
     \<and> distinct (map c_id (d_chunks d)) \<and> distinct (map e_chunk (d_embeds d))
     \<and> distinct (map sd_id (d_docs d)) \<and> distinct (map t_id (d_tokens d))"

definition vault_ids :: "db \<Rightarrow> uuid set" where "vault_ids d = v_id ` set (d_vaults d)"
definition chunk_ids :: "db \<Rightarrow> uuid set" where "chunk_ids d = c_id ` set (d_chunks d)"
definition doc_ids :: "db \<Rightarrow> uuid set" where "doc_ids d = sd_id ` set (d_docs d)"

definition refs_ok :: "db \<Rightarrow> bool" where
  "refs_ok d \<longleftrightarrow>
     (\<forall>s \<in> set (d_sessions d). s_vault s \<in> vault_ids d)
     \<and> (\<forall>c \<in> set (d_chunks d). c_vault c \<in> vault_ids d)
     \<and> (\<forall>c \<in> set (d_chunks d). \<forall>s. c_source c = Some s \<longrightarrow> s \<in> doc_ids d)
     \<and> (\<forall>e \<in> set (d_embeds d). e_chunk e \<in> chunk_ids d)
     \<and> (\<forall>r \<in> set (d_docs d). sd_vault r \<in> vault_ids d)
     \<and> (\<forall>t \<in> set (d_tokens d). t_vault t \<in> vault_ids d)
     \<and> (\<forall>m \<in> set (d_msgs d). m_vault m \<in> vault_ids d)"

definition checks_ok :: "db \<Rightarrow> bool" where
  "checks_ok d \<longleftrightarrow>
     (\<forall>v \<in> set (d_vaults d). auth_mode_check (v_auth_mode v))
     \<and> (\<forall>c \<in> set (d_chunks d). payload_xor (c_ciphertext c) (c_body c))
     \<and> (\<forall>r \<in> set (d_docs d). payload_xor (sd_ciphertext r) (sd_body r))
     \<and> (\<forall>e \<in> set (d_embeds d). length (e_vec e) = vector_dim)"

definition docs_unique :: "db \<Rightarrow> bool" where
  "docs_unique d \<longleftrightarrow> distinct (map (\<lambda>r. (sd_vault r, sd_user r, sd_hash r)) (d_docs d))"

definition wf_db :: "db \<Rightarrow> bool" where
  "wf_db d \<longleftrightarrow> keys_ok d \<and> refs_ok d \<and> checks_ok d \<and> docs_unique d"

lemmas wf_defs = wf_db_def keys_ok_def refs_ok_def checks_ok_def docs_unique_def
  vault_ids_def chunk_ids_def doc_ids_def

lemma wf_vault [inv_step]: "insert_vault_row v d = Inr (d', x) \<Longrightarrow> wf_db d \<Longrightarrow> wf_db d'"
  by (auto simp: insert_vault_row_def wf_defs row_at_None split: if_splits)

lemma wf_session [inv_step]: "insert_session_row s d = Inr (d', x) \<Longrightarrow> wf_db d \<Longrightarrow> wf_db d'"
  by (auto simp: insert_session_row_def wf_defs row_at_None split: if_splits)

lemma wf_touch [inv_step]:
  "wf_db d \<Longrightarrow> wf_db (d\<lparr>d_sessions := touch_session_rows h l e (d_sessions d)\<rparr>)"
  by (auto simp: wf_defs touch_session_rows_def o_def if_distrib cong: if_cong)

lemma wf_sessions_filter [inv_step]:
  "wf_db d \<Longrightarrow> wf_db (d\<lparr>d_sessions := filter P (d_sessions d)\<rparr>)"
  by (auto simp: wf_defs distinct_map_filterI)

lemma wf_add_chunk:
  assumes "wf_db d" "c_id r \<notin> chunk_ids d" "c_vault r \<in> vault_ids d"
    "payload_xor (c_ciphertext r) (c_body r)" "\<And>s. c_source r = Some s \<Longrightarrow> s \<in> doc_ids d"
  shows "wf_db (d\<lparr>d_chunks := d_chunks d @ [r]\<rparr>)"
  using assms by (simp add: wf_defs)

lemma wf_chunk_row [inv_step]:
  assumes "insert_chunk_row ts c d = Inr d'" "wf_db d" shows "wf_db d'"
  using assms(1) unfolding insert_chunk_row_def
  by (auto simp: row_at_None vault_ids_def chunk_ids_def doc_ids_def
      intro!: wf_add_chunk [OF assms(2)] split: if_splits)

lemma wf_embed_row [inv_step]: "insert_embed_row c d = Inr d' \<Longrightarrow> wf_db d \<Longrightarrow> wf_db d'"
  by (auto simp: insert_embed_row_def wf_defs row_at_None split: if_splits)

lemma wf_hist_row [inv_step]: "insert_hist_row ts n v c d = Inr d' \<Longrightarrow> wf_db d \<Longrightarrow> wf_db d'"
  by (auto simp: insert_hist_row_def wf_defs)

lemma soft_delete_ids: "map c_id (soft_delete_rows ts v c rows) = map c_id rows"
  by (simp add: soft_delete_rows_def)

lemma soft_delete_id_set: "c_id ` set (soft_delete_rows ts v c rows) = c_id ` set rows"
  by (metis list.set_map soft_delete_ids)

lemma soft_delete_member:
  "x \<in> set (soft_delete_rows ts v c rows) \<Longrightarrow> \<exists>y \<in> set rows. x = y \<or> x = y\<lparr>c_deleted := Some ts\<rparr>"
  by (auto simp: soft_delete_rows_def)

lemma wf_soft_delete [inv_step]:
  "wf_db d \<Longrightarrow> wf_db (d\<lparr>d_chunks := soft_delete_rows ts v c (d_chunks d)\<rparr>)"
  by (simp add: wf_defs soft_delete_ids soft_delete_id_set) (fastforce dest: soft_delete_member)

lemma wf_embeds_filter [inv_step]:
  "wf_db d \<Longrightarrow> wf_db (d\<lparr>d_embeds := filter P (d_embeds d)\<rparr>)"
  by (auto simp: wf_defs distinct_map_filterI)

lemma wf_doc [inv_step]: "insert_doc_row ts r d = Inr (d', x) \<Longrightarrow> wf_db d \<Longrightarrow> wf_db d'"
  by (auto simp: insert_doc_row_def wf_defs row_at_None split: if_splits) blast

lemma prune_rows_subset: "set (prune_rows v u k n ms) \<subseteq> set ms"
  by (auto simp: prune_rows_def Let_def in_set_enumerate_eq)

lemma wf_msgs [inv_step]:
  "wf_db d \<Longrightarrow> \<forall>m \<in> set ms. m \<in> set (d_msgs d) \<or> m_vault m \<in> vault_ids d \<Longrightarrow> wf_db (d\<lparr>d_msgs := ms\<rparr>)"
  by (auto simp: wf_defs)

lemma wf_token [inv_step]:
  "wf_db d \<Longrightarrow> row_at t_id (t_id t) (d_tokens d) = None \<Longrightarrow> row_at v_id (t_vault t) (d_vaults d) \<noteq> None
   \<Longrightarrow> wf_db (d\<lparr>d_tokens := d_tokens d @ [t]\<rparr>)"
  by (auto simp: wf_defs row_at_None)

lemma wf_tuning [inv_step]: "wf_db d \<Longrightarrow> wf_db (d\<lparr>d_tuning := b\<rparr>)"
  by (simp add: wf_defs)

section \<open>The transaction of \<open>InsertChunk\<close>\<close>

definition new_chunk_row :: "instant \<Rightarrow> chunk_insert \<Rightarrow> chunk_row" where
  "new_chunk_row ts c =
     \<lparr>c_id = ci_id c, c_vault = ci_vault c, c_user = ci_user c, c_ciphertext = ci_ciphertext c,
      c_nonce = ci_nonce c, c_key_id = ci_key_id c, c_body = ci_body c, c_hash = ci_hash c,
      c_model = ci_model c, c_schema = ci_schema c, c_tsv = ci_tsv c,
      c_session_key = ci_session_key c, c_kind = ci_kind c, c_meta = ci_meta c,
      c_source = ci_source c, c_created = ts, c_deleted = None\<rparr>"

definition chunk_inserted :: "instant \<Rightarrow> nat \<Rightarrow> chunk_insert \<Rightarrow> db \<Rightarrow> db" where
  "chunk_inserted ts n c d =
     d\<lparr>d_chunks := d_chunks d @ [new_chunk_row ts c],
       d_embeds := d_embeds d @ [\<lparr>e_chunk = ci_id c, e_vec = ci_vec c, e_model = ci_model c\<rparr>],
       d_hist := d_hist d @ [\<lparr>h_id = n, h_vault = ci_vault c, h_chunk = Some (ci_id c),
                              h_event = ''ADD'', h_created = ts\<rparr>]\<rparr>"

lemma tx_exec_Inr: "tx_exec env f d w = (Inr d', w') \<Longrightarrow> f d = Inr d' \<and> w_db w' = w_db w"
  by (auto simp: tx_exec_def split: if_splits)

lemma tx_exec_db [frame]: "w_db (snd (tx_exec env f d w)) = w_db w"
  by (simp add: tx_exec_def)

lemma InsertChunk_Inl:
  assumes "InsertChunk env c w = (Inl e, w')" shows "w_db w' = w_db w"
proof -
  note fr = query_db [of env "\<lambda>_ d. Inr d" w] tx_exec_db
  show ?thesis
    using assms fr unfolding InsertChunk_def Let_def
    by (auto split: prod.splits sum.splits if_splits dest!: exec_Inl) (metis snd_conv)+
qed

lemma insert_chunk_row_Inr: "insert_chunk_row ts c d = Inr d' \<Longrightarrow>
    d' = d\<lparr>d_chunks := d_chunks d @ [new_chunk_row ts c]\<rparr>
    \<and> row_at c_id (ci_id c) (d_chunks d) = None \<and> row_at v_id (ci_vault c) (d_vaults d) \<noteq> None
    \<and> payload_xor (ci_ciphertext c) (ci_body c)"
  by (auto simp: insert_chunk_row_def new_chunk_row_def split: if_splits)

lemma insert_embed_row_Inr: "insert_embed_row c d = Inr d' \<Longrightarrow>
    d' = d\<lparr>d_embeds := d_embeds d @ [\<lparr>e_chunk = ci_id c, e_vec = ci_vec c, e_model = ci_model c\<rparr>]\<rparr>
    \<and> length (ci_vec c) = vector_dim \<and> row_at e_chunk (ci_id c) (d_embeds d) = None"
  by (auto simp: insert_embed_row_def split: if_splits)

text \<open>A successful transaction ran its three statements one after the other.\<close>

lemma InsertChunk_steps:
  assumes "InsertChunk env c w = (Inr x, w')"
  shows "\<exists>ts n d1 d2. insert_chunk_row ts c (w_db w) = Inr d1 \<and> insert_embed_row c d1 = Inr d2
     \<and> insert_hist_row ts n (ci_vault c) (ci_id c) d2 = Inr (w_db w')"
proof -
  define ts where "ts = ev_now env (w_tick w)"
  obtain d0 w1 where q: "query env (\<lambda>_ d. Inr d) w = (Inr d0, w1)"
    using assms by (auto simp: InsertChunk_def Let_def split: prod.splits sum.splits if_splits)
  obtain d1 w2 where t1: "tx_exec env (insert_chunk_row ts c) d0 w1 = (Inr d1, w2)"
    using assms q by (auto simp: InsertChunk_def Let_def ts_def split: prod.splits sum.splits if_splits)
  obtain d2 w3 where t2: "tx_exec env (insert_embed_row c) d1 w2 = (Inr d2, w3)"
    using assms q t1 by (auto simp: InsertChunk_def Let_def ts_def split: prod.splits sum.splits if_splits)
  obtain d3 w4 where t3:
      "tx_exec env (insert_hist_row ts (w_tick w3) (ci_vault c) (ci_id c)) d2 w3 = (Inr d3, w4)"
    using assms q t1 t2 by (auto simp: InsertChunk_def Let_def ts_def split: prod.splits sum.splits if_splits)
  have "exec env (\<lambda>_ _. Inr (d3, ())) w4 = (Inr x, w')"
    using assms q t1 t2 t3 by (simp add: InsertChunk_def Let_def ts_def split: if_splits)
  then have "w_db w' = d3" by (auto dest: exec_Inr)
  with query_Inr [OF q] tx_exec_Inr [OF t1] tx_exec_Inr [OF t2] tx_exec_Inr [OF t3]
  show ?thesis
    by (intro exI [of _ ts] exI [of _ "w_tick w3"] exI [of _ d1] exI [of _ d2]) simp
qed

lemma InsertChunk_Inr:
  assumes "InsertChunk env c w = (Inr x, w')"
  shows "\<exists>ts n. w_db w' = chunk_inserted ts n c (w_db w)
     \<and> row_at c_id (ci_id c) (d_chunks (w_db w)) = None
     \<and> row_at v_id (ci_vault c) (d_vaults (w_db w)) \<noteq> None
     \<and> payload_xor (ci_ciphertext c) (ci_body c) \<and> length (ci_vec c) = vector_dim
     \<and> row_at e_chunk (ci_id c) (d_embeds (w_db w)) = None"
proof -
  obtain ts n d1 d2 where s: "insert_chunk_row ts c (w_db w) = Inr d1" "insert_embed_row c d1 = Inr d2"
      "insert_hist_row ts n (ci_vault c) (ci_id c) d2 = Inr (w_db w')"
    using InsertChunk_steps [OF assms] by blast
  from insert_chunk_row_Inr [OF s(1)] insert_embed_row_Inr [OF s(2)] s(3) show ?thesis
    by (intro exI [of _ ts] exI [of _ n]) (auto simp: insert_hist_row_def chunk_inserted_def)
qed

lemma wf_InsertChunk:
  assumes "wf_db (w_db w)" shows "wf_db (w_db (snd (InsertChunk env c w)))"
proof (cases "InsertChunk env c w")
  case (Pair r w')
  show ?thesis
  proof (cases r)
    case (Inl e)
    then show ?thesis using assms Pair InsertChunk_Inl by fastforce
  next
    case (Inr x)
    then show ?thesis
      using Pair assms InsertChunk_steps [of env c w x w'] wf_chunk_row wf_embed_row wf_hist_row
      by fastforce
  qed
qed

section \<open>Searching, deleting\<close>

lemma in_dense_rows:
  "(i, v) \<in> set (dense_rows vid u m k only d) \<longleftrightarrow>
   (\<exists>e \<in> set (d_embeds d). e_chunk e = i \<and> e_vec e = v \<and> e_model e = m
      \<and> (\<exists>c. row_at c_id i (d_chunks d) = Some c \<and> live_chunk vid u k only c))"
  by (auto simp: dense_rows_def split: option.splits)

lemma in_lex_rows:
  "(i, x) \<in> set (lex_rows vid u k only d) \<longleftrightarrow>
   (\<exists>c \<in> set (d_chunks d). c_id c = i \<and> c_tsv c = x \<and> live_chunk vid u k only c)"
  by (auto simp: lex_rows_def)

lemma chunk_inserted_row:
  "row_at c_id (ci_id c) (d_chunks d) = None \<Longrightarrow>
   row_at c_id (ci_id c) (d_chunks (chunk_inserted ts n c d)) = Some (new_chunk_row ts c)"
  by (simp add: chunk_inserted_def row_at_append new_chunk_row_def)

text \<open>A stored chunk is a candidate of both searches of its namespace, in its own session too.\<close>

lemma chunk_inserted_searchable:
  assumes "row_at c_id (ci_id c) (d_chunks d) = None"
    and "only \<longrightarrow> ci_session_key c = Some k"
  shows "(ci_id c, ci_vec c) \<in> set (dense_rows (ci_vault c) (ci_user c) (ci_model c) k only
           (chunk_inserted ts n c d))"
    and "(ci_id c, ci_tsv c) \<in> set (lex_rows (ci_vault c) (ci_user c) k only (chunk_inserted ts n c d))"
proof -
  have l: "live_chunk (ci_vault c) (ci_user c) k only (new_chunk_row ts c)"
    using assms(2) by (simp add: live_chunk_def new_chunk_row_def)
  have "\<lparr>e_chunk = ci_id c, e_vec = ci_vec c, e_model = ci_model c\<rparr>
      \<in> set (d_embeds (chunk_inserted ts n c d))"
    by (simp add: chunk_inserted_def)
  with chunk_inserted_row [OF assms(1)] l
  show "(ci_id c, ci_vec c) \<in> set (dense_rows (ci_vault c) (ci_user c) (ci_model c) k only
      (chunk_inserted ts n c d))"
    unfolding in_dense_rows by force
  show "(ci_id c, ci_tsv c) \<in> set (lex_rows (ci_vault c) (ci_user c) k only (chunk_inserted ts n c d))"
    using l unfolding in_lex_rows by (force simp: chunk_inserted_def new_chunk_row_def)
qed

text \<open>The chunk of a vault is gone: no live row carries its id.\<close>

definition chunk_gone :: "uuid \<Rightarrow> db \<Rightarrow> bool" where
  "chunk_gone i d \<longleftrightarrow> (\<forall>c \<in> set (d_chunks d). c_id c = i \<longrightarrow> c_deleted c \<noteq> None)"

lemma chunk_gone_row: "chunk_gone i d \<Longrightarrow> row_at c_id i (d_chunks d) = Some c \<Longrightarrow> c_deleted c \<noteq> None"
  by (auto simp: chunk_gone_def dest: row_at_Some)

lemma chunk_gone_searches:
  assumes "chunk_gone i d"
  shows "(i, v) \<notin> set (dense_rows vid u m k only d)" "(i, x) \<notin> set (lex_rows vid u k only d)"
  using assms chunk_gone_row [OF assms]
  by (auto simp only: in_dense_rows in_lex_rows live_chunk_def chunk_gone_def)

lemma chunk_gone_payload:
  "chunk_gone i (w_db w) \<Longrightarrow> \<exists>e. fst (GetChunkPayload env i w) = Inl e"
  "chunk_gone i (w_db w) \<Longrightarrow> \<exists>e. fst (GetChunkForVault env v i w) = Inl e"
  by (auto simp: GetChunkPayload_def GetChunkForVault_def query_def dest: chunk_gone_row
      split: option.split)

definition soft_delete_row :: "instant \<Rightarrow> uuid \<Rightarrow> uuid \<Rightarrow> chunk_row \<Rightarrow> chunk_row" where
  "soft_delete_row ts v i c =
     (if c_id c = i \<and> c_vault c = v \<and> c_deleted c = None then c\<lparr>c_deleted := Some ts\<rparr> else c)"

lemma soft_delete_rows_row: "soft_delete_rows ts v i rows = map (soft_delete_row ts v i) rows"
  by (simp add: soft_delete_rows_def soft_delete_row_def)

lemma soft_delete_row_id [simp]: "c_id (soft_delete_row ts v i c) = c_id c"
  by (simp add: soft_delete_row_def)

lemma soft_delete_gone:
  assumes "distinct (map c_id (d_chunks d))" "c \<in> set (d_chunks d)" "c_id c = i" "c_vault c = v"
  shows "chunk_gone i (d\<lparr>d_chunks := soft_delete_rows ts v i (d_chunks d)\<rparr>)"
proof -
  have "y = c" if "y \<in> set (d_chunks d)" "c_id y = i" for y
    using inj_onD [of c_id "set (d_chunks d)" y c] assms that by (simp add: distinct_map)
  note uniq = this
  show ?thesis unfolding chunk_gone_def
  proof (intro ballI impI)
    fix x assume x: "x \<in> set (d_chunks (d\<lparr>d_chunks := soft_delete_rows ts v i (d_chunks d)\<rparr>))" "c_id x = i"
    from x(1) obtain y where y: "y \<in> set (d_chunks d)" "x = soft_delete_row ts v i y"
      unfolding soft_delete_rows_row by auto
    have "c_id y = i" using x(2) y(2) by simp
    with uniq [OF y(1)] y(2) assms show "c_deleted x \<noteq> None" by (simp add: soft_delete_row_def)
  qed
qed

lemma SoftDeleteChunk_Inr:
  assumes "SoftDeleteChunk env v i w = (Inr (), w')" "keys_ok (w_db w)"
  shows "chunk_gone i (w_db w')"
proof -
  let ?f = "\<lambda>ts d. Inr (d\<lparr>d_chunks := soft_delete_rows ts v i (d_chunks d)\<rparr>,
      \<exists>c \<in> set (d_chunks d). c_id c = i \<and> c_vault c = v \<and> c_deleted c = None)"
  let ?g = "\<lambda>_ d. Inr (d\<lparr>d_embeds := filter (\<lambda>e. e_chunk e \<noteq> i) (d_embeds d)\<rparr>, ())"
  obtain w1 where e: "exec env ?f w = (Inr True, w1)" and w': "w' = snd (exec env ?g w1)"
    using assms(1) by (auto simp: SoftDeleteChunk_def split: prod.splits sum.splits if_splits)
  from exec_Inr [OF e] have w1: "w_db w1 = (w_db w)\<lparr>d_chunks := soft_delete_rows
        (ev_now env (w_tick w)) v i (d_chunks (w_db w))\<rparr>"
    and x: "\<exists>c \<in> set (d_chunks (w_db w)). c_id c = i \<and> c_vault c = v \<and> c_deleted c = None"
    by auto
  have "chunk_gone i (w_db w1)"
    using x assms(2) unfolding w1 keys_ok_def by (blast intro: soft_delete_gone)
  moreover have "chunk_gone i d \<Longrightarrow> chunk_gone i (d\<lparr>d_embeds := es\<rparr>)" for d es
    by (simp add: chunk_gone_def)
  ultimately show ?thesis unfolding w' by (auto simp: exec_def)
qed

lemma SoftDeleteChunk_Inl: "SoftDeleteChunk env v i w = (Inl ENotFound, w') \<Longrightarrow>
   d_chunks (w_db w') = d_chunks (w_db w)"
  by (auto simp: SoftDeleteChunk_def exec_def soft_delete_rows_def
      split: if_splits intro!: map_idI)

lemma wf_soft_delete_embeds:
  assumes "wf_db d"
  shows "wf_db (d\<lparr>d_chunks := soft_delete_rows ts v i (d_chunks d),
                  d_embeds := filter P (d_embeds d)\<rparr>)"
  using wf_embeds_filter [OF wf_soft_delete [OF assms], of P ts v i] by simp

lemma wf_SoftDeleteChunk:
  assumes "wf_db (w_db w)" shows "wf_db (w_db (snd (SoftDeleteChunk env v i w)))"
  using assms wf_soft_delete wf_soft_delete_embeds
  by (simp add: SoftDeleteChunk_def exec_def)

section \<open>Pruning a conversation\<close>

lemma filter_notin_drop:
  "distinct (map f xs) \<Longrightarrow> filter (\<lambda>x. f x \<notin> set (map f (drop n xs))) xs = take n xs"
proof (induction xs arbitrary: n)
  case (Cons x xs)
  have "f x \<notin> f ` set (drop m xs)" for m
    using Cons.prems set_drop_subset [of m xs] by auto
  then show ?case using Cons by (cases n) (auto intro!: filter_False)
qed simp

lemma map_fst_sort_distinct:
  "distinct (map fst xs) \<Longrightarrow> distinct (map fst (sort_key f (filter P xs)))"
  by (metis distinct_map_filterI distinct_map distinct_sort set_sort)

lemma filter_not_victims:
  "(\<And>x. fst x \<in> V \<Longrightarrow> x \<in> set xs \<Longrightarrow> P x) \<Longrightarrow>
   filter (\<lambda>x. \<not> P x) (filter (\<lambda>x. fst x \<notin> V) xs) = filter (\<lambda>x. \<not> P x) xs"
  by (induction xs) auto

text \<open>The rows outside the conversation stay as they are; of the conversation the newest stay.\<close>

lemma prune_rows_others:
  "filter (\<lambda>m. \<not> in_conversation v u k m) (prune_rows v u k n ms)
   = filter (\<lambda>m. \<not> in_conversation v u k m) ms"
proof -
  let ?num = "List.enumerate 0 ms"
  let ?conv = "filter (\<lambda>x. in_conversation v u k (snd x)) ?num"
  let ?vict = "set (map fst (drop n (sort_key (\<lambda>x. - m_created (snd x)) ?conv)))"
  have d: "distinct (map fst ?num)" by (simp add: enumerate_eq_zip)
  have c: "in_conversation v u k (snd x)" if "fst x \<in> ?vict" "x \<in> set ?num" for x
  proof -
    from that(1) obtain y where y: "y \<in> set ?conv" "fst y = fst x"
      using in_set_dropD by fastforce
    have "y = x" using inj_onD [of fst "set ?num" y x] d y that(2)
      unfolding distinct_map by simp
    with y show ?thesis by simp
  qed
  have e: "filter (\<lambda>x. \<not> in_conversation v u k (snd x)) (filter (\<lambda>x. fst x \<notin> ?vict) ?num)
      = filter (\<lambda>x. \<not> in_conversation v u k (snd x)) ?num"
    by (intro filter_not_victims) (rule c)
  have m: "filter (\<lambda>m. \<not> in_conversation v u k m) (map snd xs)
      = map snd (filter (\<lambda>x. \<not> in_conversation v u k (snd x)) xs)" for xs :: "(nat \<times> msg_row) list"
    by (simp add: filter_map o_def)
  show ?thesis
    unfolding prune_rows_def Let_def m e by (simp add: m [symmetric])
qed

lemma prune_rows_conversation:
  "newest_first (filter (in_conversation v u k) (prune_rows v u k n ms))
   = take n (newest_first (filter (in_conversation v u k) ms))"
proof -
  let ?num = "List.enumerate 0 ms" and ?s = "sort_key (\<lambda>x. - m_created (snd x))"
  let ?in = "\<lambda>x. in_conversation v u k (snd x)"
  let ?conv = "filter ?in ?num"
  let ?keep = "\<lambda>x. fst x \<notin> set (map fst (drop n (?s ?conv)))"
  have d: "distinct (map fst (?s ?conv))"
    by (intro map_fst_sort_distinct) (simp add: enumerate_eq_zip)
  have nf: "newest_first (map snd xs) = map snd (?s xs)" for xs :: "(nat \<times> msg_row) list"
    by (simp add: newest_first_def sort_key_map o_def)
  have conv: "map snd ?conv = filter (in_conversation v u k) ms"
    using filter_map [of "in_conversation v u k" snd ?num] by (simp add: o_def)
  have "filter (in_conversation v u k) (prune_rows v u k n ms) = map snd (filter ?keep ?conv)"
    by (simp add: prune_rows_def Let_def filter_map o_def conj_commute)
  then have "newest_first (filter (in_conversation v u k) (prune_rows v u k n ms))
      = map snd (filter ?keep (?s ?conv))"
    by (simp only: nf filter_sort)
  also have "\<dots> = map snd (take n (?s ?conv))" using filter_notin_drop [OF d] by simp
  also have "\<dots> = take n (newest_first (filter (in_conversation v u k) ms))"
    by (simp only: conv [symmetric] nf take_map)
  finally show ?thesis .
qed

section \<open>Runs of the store\<close>

text \<open>
  Any sequence of write calls, in any order and with any arguments: one rule for each writing
  method of the pool. Reads only move the counter (\<open>read\<close>).
\<close>

inductive store_step :: "env \<Rightarrow> world \<Rightarrow> world \<Rightarrow> bool" for env where
  read: "store_step env w (bump w)"
| vault: "store_step env w (snd (InsertVault env enc m salt wr t mem par w))"
| session: "store_step env w (snd (InsertSession env h v ts ex mx w))"
| touch: "store_step env w (snd (TouchSession env h ls ex w))"
| del_session: "store_step env w (snd (DeleteSession env h w))"
| purge: "store_step env w (snd (PurgeSessionsForVault env v w))"
| chunk: "store_step env w (snd (InsertChunk env c w))"
| del_chunk: "store_step env w (snd (SoftDeleteChunk env v i w))"
| doc: "store_step env w (snd (InsertSourceDocument env r w))"
| message: "store_step env w (snd (AppendSessionMessage env v u k role content w))"
| prune: "store_step env w (snd (PruneSessionMessages env v u k keep w))"
| token: "store_step env w (snd (InsertActionToken env v h sc ex w))"
| tuning: "store_step env w (snd (SetServerTuningOverrides env raw w))"

inductive_cases store_stepE: "store_step env w w'"

abbreviation store_run :: "env \<Rightarrow> world \<Rightarrow> world \<Rightarrow> bool" where
  "store_run env \<equiv> (store_step env)\<^sup>*\<^sup>*"

text \<open>A step that keeps \<open>P\<close> of the database, rule by rule.\<close>

lemma InsertVault_db: "w_db (snd (InsertVault env enc m salt wr t mem par w)) = d' \<Longrightarrow>
   d' = w_db w \<or> (\<exists>v. insert_vault_row v (w_db w) = Inr (d', ()))"
  by (auto simp: InsertVault_def new_uuid_def exec_def Let_def split: if_splits sum.splits)

lemma wf_InsertActionToken:
  assumes "wf_db (w_db w)" shows "wf_db (w_db (snd (InsertActionToken env v h sc ex w)))"
  using assms wf_token [OF assms, of "\<lparr>t_id = ev_uuid env (w_tick w), t_vault = v, t_hash = h,
      t_scopes = sc, t_expires = ex\<rparr>"]
  by (auto simp: InsertActionToken_def new_uuid_def exec_def Let_def split: sum.split)

lemma wf_exec:
  assumes "wf_db (w_db w)"
    and "\<And>t d' x. f t (w_db w) = Inr (d', x) \<Longrightarrow> wf_db d'"
  shows "wf_db (w_db (snd (exec env f w)))"
  using assms by (auto simp: exec_def split: sum.split prod.split)

lemma wf_InsertVault:
  assumes "wf_db (w_db w)" shows "wf_db (w_db (snd (InsertVault env enc m salt wr t mem par w)))"
  using InsertVault_db [OF refl, of env enc m salt wr t mem par w] assms wf_vault by metis

lemma wf_InsertSession: "wf_db (w_db w) \<Longrightarrow> wf_db (w_db (snd (InsertSession env h v ts ex mx w)))"
  unfolding InsertSession_def by (rule wf_exec) (simp_all add: wf_session)

lemma wf_TouchSession: "wf_db (w_db w) \<Longrightarrow> wf_db (w_db (snd (TouchSession env h ls ex w)))"
  unfolding TouchSession_def by (rule wf_exec) (auto simp: wf_touch)

lemma wf_DeleteSession: "wf_db (w_db w) \<Longrightarrow> wf_db (w_db (snd (DeleteSession env h w)))"
  unfolding DeleteSession_def by (rule wf_exec) (auto simp: wf_sessions_filter)

lemma wf_PurgeSessionsForVault:
  "wf_db (w_db w) \<Longrightarrow> wf_db (w_db (snd (PurgeSessionsForVault env v w)))"
  unfolding PurgeSessionsForVault_def by (rule wf_exec) (auto simp: wf_sessions_filter)

lemma wf_InsertSourceDocument:
  "wf_db (w_db w) \<Longrightarrow> wf_db (w_db (snd (InsertSourceDocument env r w)))"
  unfolding InsertSourceDocument_def by (rule wf_exec) (simp_all add: wf_doc)

lemma wf_AppendSessionMessage:
  "wf_db (w_db w) \<Longrightarrow> wf_db (w_db (snd (AppendSessionMessage env v u k r c w)))"
  unfolding AppendSessionMessage_def
  by (rule wf_exec) (auto simp: row_at_None vault_ids_def intro!: wf_msgs split: if_splits)

lemma wf_PruneSessionMessages:
  "wf_db (w_db w) \<Longrightarrow> wf_db (w_db (snd (PruneSessionMessages env v u k n w)))"
  unfolding PruneSessionMessages_def
  by (rule wf_exec) (auto intro!: wf_msgs dest: subsetD [OF prune_rows_subset] split: if_splits)

lemma wf_SetServerTuningOverrides:
  "wf_db (w_db w) \<Longrightarrow> wf_db (w_db (snd (SetServerTuningOverrides env raw w)))"
  unfolding SetServerTuningOverrides_def
  by (rule wf_exec) (auto simp: wf_tuning split: option.splits)

lemmas wf_store_ops = wf_InsertVault wf_InsertSession wf_TouchSession wf_DeleteSession
  wf_PurgeSessionsForVault wf_InsertChunk wf_SoftDeleteChunk wf_InsertSourceDocument
  wf_AppendSessionMessage wf_PruneSessionMessages wf_InsertActionToken wf_SetServerTuningOverrides

lemma wf_store_step [inv_step]:
  "store_step env w w' \<Longrightarrow> wf_db (w_db w) \<Longrightarrow> wf_db (w_db w')"
  by (induction rule: store_step.induct) (simp_all add: wf_store_ops)

lemma wf_store_run:
  "store_run env w w' \<Longrightarrow> wf_db (w_db w) \<Longrightarrow> wf_db (w_db w')"
  by (induction rule: rtranclp_induct) (simp_all add: wf_store_step)

text \<open>A deleted chunk stays deleted: its row keeps its key, so its id is never given again.\<close>

definition tombstone :: "uuid \<Rightarrow> db \<Rightarrow> bool" where
  "tombstone i d \<longleftrightarrow> (\<exists>c \<in> set (d_chunks d). c_id c = i \<and> c_deleted c \<noteq> None)"

lemma tombstone_gone: "tombstone i d \<Longrightarrow> keys_ok d \<Longrightarrow> chunk_gone i d"
  unfolding tombstone_def chunk_gone_def keys_ok_def distinct_map
  by (metis inj_on_def)

lemma soft_delete_tombstone:
  "tombstone i d \<Longrightarrow> tombstone i (d\<lparr>d_chunks := soft_delete_rows ts v j (d_chunks d)\<rparr>)"
  by (fastforce simp: tombstone_def soft_delete_rows_row soft_delete_row_def)

lemma tombstone_chunks: "d_chunks d' = d_chunks d \<Longrightarrow> tombstone i d \<Longrightarrow> tombstone i d'"
  by (simp add: tombstone_def)

lemma tombstone_embeds:
  "tombstone i (d\<lparr>d_chunks := cs\<rparr>) \<Longrightarrow> tombstone i (d\<lparr>d_chunks := cs, d_embeds := es\<rparr>)"
  by (simp add: tombstone_def)

lemma insert_vault_row_chunks: "insert_vault_row v d = Inr (d', x) \<Longrightarrow> d_chunks d' = d_chunks d"
  by (auto simp: insert_vault_row_def split: if_splits)

lemma SoftDeleteChunk_tombstone:
  assumes "SoftDeleteChunk env v i w = (Inr (), w')" shows "tombstone i (w_db w')"
proof -
  let ?d = "(w_db w)\<lparr>d_chunks := soft_delete_rows (ev_now env (w_tick w)) v i (d_chunks (w_db w))\<rparr>"
  have x: "\<exists>c \<in> set (d_chunks (w_db w)). c_id c = i \<and> c_vault c = v \<and> c_deleted c = None"
    and w': "w_db w' = ?d \<or> (\<exists>es. w_db w' = ?d\<lparr>d_embeds := es\<rparr>)"
    using assms by (auto simp: SoftDeleteChunk_def exec_def split: if_splits)
  from x obtain c where c: "c \<in> set (d_chunks (w_db w))" "c_id c = i" "c_vault c = v" "c_deleted c = None"
    by blast
  then have "tombstone i ?d"
    unfolding tombstone_def soft_delete_rows_row
    by (intro bexI [of _ "soft_delete_row (ev_now env (w_tick w)) v i c"]) (simp_all add: soft_delete_row_def)
  with w' show ?thesis using tombstone_embeds by auto
qed

lemma chunks_kept [frame]:
  "d_chunks (w_db (snd (InsertVault env enc m salt wr t mem par w))) = d_chunks (w_db w)"
  "d_chunks (w_db (snd (InsertSession env h v ts ex mx w))) = d_chunks (w_db w)"
  "d_chunks (w_db (snd (TouchSession env h ts ex w))) = d_chunks (w_db w)"
  "d_chunks (w_db (snd (DeleteSession env h w))) = d_chunks (w_db w)"
  "d_chunks (w_db (snd (PurgeSessionsForVault env v w))) = d_chunks (w_db w)"
  "d_chunks (w_db (snd (InsertSourceDocument env r w))) = d_chunks (w_db w)"
  "d_chunks (w_db (snd (AppendSessionMessage env v u k role content w))) = d_chunks (w_db w)"
  "d_chunks (w_db (snd (PruneSessionMessages env v u k keep w))) = d_chunks (w_db w)"
  "d_chunks (w_db (snd (InsertActionToken env v h sc ex w))) = d_chunks (w_db w)"
  "d_chunks (w_db (snd (SetServerTuningOverrides env raw w))) = d_chunks (w_db w)"
  by (simp_all add: InsertVault_def InsertSession_def TouchSession_def DeleteSession_def
    PurgeSessionsForVault_def InsertSourceDocument_def SetServerTuningOverrides_def
    AppendSessionMessage_def PruneSessionMessages_def InsertActionToken_def new_uuid_def Let_def
    insert_session_row_def insert_doc_row_def insert_vault_row_def exec_def
    split: option.split sum.split)

lemma tombstone_InsertChunk:
  assumes "tombstone i (w_db w)" shows "tombstone i (w_db (snd (InsertChunk env c w)))"
proof (cases "InsertChunk env c w")
  case (Pair r w')
  show ?thesis
  proof (cases r)
    case Inl then show ?thesis using Pair InsertChunk_Inl [of env c w _ w'] assms by auto
  next
    case (Inr x)
    then obtain ts n where "w_db w' = chunk_inserted ts n c (w_db w)"
      using Pair InsertChunk_Inr [of env c w x w'] by blast
    then show ?thesis using assms Pair by (auto simp: tombstone_def chunk_inserted_def)
  qed
qed

lemma tombstone_SoftDeleteChunk:
  assumes "tombstone i (w_db w)" shows "tombstone i (w_db (snd (SoftDeleteChunk env v j w)))"
  using soft_delete_tombstone [OF assms] tombstone_embeds [OF soft_delete_tombstone [OF assms]] assms
  by (simp add: SoftDeleteChunk_def exec_def)

lemma tombstone_step:
  "store_step env w w' \<Longrightarrow> tombstone i (w_db w) \<Longrightarrow> tombstone i (w_db w')"
  by (induction rule: store_step.induct)
    (simp_all add: tombstone_InsertChunk tombstone_SoftDeleteChunk frame
      tombstone_chunks [OF chunks_kept(1)] tombstone_chunks [OF chunks_kept(2)]
      tombstone_chunks [OF chunks_kept(3)] tombstone_chunks [OF chunks_kept(4)]
      tombstone_chunks [OF chunks_kept(5)] tombstone_chunks [OF chunks_kept(6)]
      tombstone_chunks [OF chunks_kept(7)] tombstone_chunks [OF chunks_kept(8)]
      tombstone_chunks [OF chunks_kept(9)] tombstone_chunks [OF chunks_kept(10)])

lemma tombstone_run: "store_run env w w' \<Longrightarrow> tombstone i (w_db w) \<Longrightarrow> tombstone i (w_db w')"
  by (induction rule: rtranclp_induct) (simp_all add: tombstone_step)

end
