(* ===== verification/Store_Client.thy ===== *)
theory Store_Client
  imports Store_Inv
begin

text \<open>
  What every caller of the store may rely on. A relation between the world before and after a call
  that is reflexive and transitive (\<open>stepwise\<close>) is established for an operation by establishing it
  for its calls, along the case distinctions of the model. Two instances are used: \<open>store_run\<close>, for
  code that touches the database only by the methods of the pool, and "the database is unchanged",
  for code that only reads. \<open>store_client\<close> is the interface of the first kind: such an operation
  keeps whatever every run of the store keeps.
\<close>

section \<open>Composing calls\<close>

locale stepwise =
  fixes R :: "world \<Rightarrow> world \<Rightarrow> bool"
  assumes refl: "R w w"
    and trans: "R w1 w2 \<Longrightarrow> R w w1 \<Longrightarrow> R w w2"
begin

text \<open>A call, then what is done with its result.\<close>

lemma on_pair:
  assumes "R w (snd m)" "\<And>x w1. m = (x, w1) \<Longrightarrow> R w1 (snd (h x w1))"
  shows "R w (snd (case m of (x, w1) \<Rightarrow> h x w1))"
  using assms by (cases m) (auto intro: trans)

lemma on_prod:
  "(\<And>y z. x = (y, z) \<Longrightarrow> R w (snd (f y z))) \<Longrightarrow> R w (snd (case x of (y, z) \<Rightarrow> f y z))"
  by (cases x) auto

lemma on_if: "(b \<Longrightarrow> R w (snd f)) \<Longrightarrow> (\<not> b \<Longrightarrow> R w (snd g)) \<Longrightarrow> R w (snd (if b then f else g))"
  by simp

lemma on_bool:
  "(x \<Longrightarrow> R w (snd f)) \<Longrightarrow> (\<not> x \<Longrightarrow> R w (snd g)) \<Longrightarrow> R w (snd (case x of True \<Rightarrow> f | False \<Rightarrow> g))"
  by (cases x) auto

lemma on_option:
  "(x = None \<Longrightarrow> R w (snd f)) \<Longrightarrow> (\<And>y. x = Some y \<Longrightarrow> R w (snd (g y)))
   \<Longrightarrow> R w (snd (case x of None \<Rightarrow> f | Some y \<Rightarrow> g y))"
  by (cases x) auto

lemma on_sum:
  "(\<And>y. x = Inl y \<Longrightarrow> R w (snd (f y))) \<Longrightarrow> (\<And>y. x = Inr y \<Longrightarrow> R w (snd (g y)))
   \<Longrightarrow> R w (snd (case x of Inl y \<Rightarrow> f y | Inr y \<Rightarrow> g y))"
  by (cases x) auto

lemma on_done: "R w (snd (x, w))"
  by (simp add: refl)

lemma on_last: "R w w' \<Longrightarrow> R w (snd (x, w'))"
  by simp

lemmas rules = on_done on_if on_pair on_prod on_bool on_option on_sum

end

interpretation runs: stepwise "store_run env" for env
  by unfold_locales auto

interpretation reads: stepwise "\<lambda>w w'. w_db w' = w_db w"
  by unfold_locales auto

named_theorems run \<open>operations that only call the store's methods\<close>
named_theorems reading \<open>operations that leave the database as it is\<close>

lemmas run_rules = runs.rules
lemmas run_after = runs.on_last
lemmas run_trans = runs.trans
lemmas read_rules = reads.rules

section \<open>The calls\<close>

lemma run_bump: "store_run env w (bump w)"
  by (rule r_into_rtranclp) (rule store_step.read)

lemma run_query [run]: "store_run env w (snd (query env q w))"
  by (simp add: query_def run_bump)

lemma run_oracle [run]:
  "store_run env w (snd (new_uuid env w))"
  "store_run env w (snd (rand_bytes env n w))"
  "store_run env w (snd (now env w))"
  "store_run env w (snd (oa_embed env m ts w))"
  "store_run env w (snd (oa_extract env m p w))"
  by (simp_all add: new_uuid_def rand_bytes_def now_def oa_embed_def oa_extract_def run_bump)

lemmas read_defs = GetAnyVault_def GetVault_def GetSessionByHash_def SearchDense_def
  SearchLexical_def IngestSessionKeysByChunkIDs_def GetChunkPayload_def GetChunkForVault_def
  ChunkExistsHash_def GetSourceDocumentIDByHash_def GetSourceDocumentForVault_def
  RecentSessionMessages_def ValidActionToken_def GetServerTuning_def Ping_def

lemma run_reads [run]:
  "store_run env w (snd (GetAnyVault env w))"
  "store_run env w (snd (GetVault env i w))"
  "store_run env w (snd (GetSessionByHash env h w))"
  "store_run env w (snd (SearchDense env v u m q l k o1 w))"
  "store_run env w (snd (SearchLexical env v u t l k o1 w))"
  "store_run env w (snd (IngestSessionKeysByChunkIDs env ids w))"
  "store_run env w (snd (GetChunkPayload env i w))"
  "store_run env w (snd (GetChunkForVault env v i w))"
  "store_run env w (snd (ChunkExistsHash env v u h w))"
  "store_run env w (snd (GetSourceDocumentIDByHash env v u h w))"
  "store_run env w (snd (GetSourceDocumentForVault env v i w))"
  "store_run env w (snd (RecentSessionMessages env v u k l w))"
  "store_run env w (snd (ValidActionToken env h w))"
  "store_run env w (snd (GetServerTuning env w))"
  "store_run env w (snd (Ping env w))"
  by (simp_all add: read_defs run_query)

lemma reading_calls [reading]:
  "w_db (snd (GetAnyVault env w)) = w_db w"
  "w_db (snd (GetVault env i w)) = w_db w"
  "w_db (snd (GetSessionByHash env h w)) = w_db w"
  "w_db (snd (SearchDense env v u m q l k o1 w)) = w_db w"
  "w_db (snd (SearchLexical env v u t l k o1 w)) = w_db w"
  "w_db (snd (IngestSessionKeysByChunkIDs env ids w)) = w_db w"
  "w_db (snd (GetChunkPayload env i w)) = w_db w"
  "w_db (snd (GetChunkForVault env v i w)) = w_db w"
  "w_db (snd (ChunkExistsHash env v u h w)) = w_db w"
  "w_db (snd (GetSourceDocumentIDByHash env v u h w)) = w_db w"
  "w_db (snd (GetSourceDocumentForVault env v i w)) = w_db w"
  "w_db (snd (RecentSessionMessages env v u k l w)) = w_db w"
  "w_db (snd (ValidActionToken env h w)) = w_db w"
  "w_db (snd (GetServerTuning env w)) = w_db w"
  "w_db (snd (Ping env w)) = w_db w"
  by (simp_all add: read_defs query_def)

lemmas reading_oracle [reading] = oracle_db query_db

lemma run_step: "store_step env w w' \<Longrightarrow> store_run env w w'"
  by (rule r_into_rtranclp)

lemmas run_writes [run] = store_step.intros [THEN run_step]

lemma run_StatsForVault [run]: "store_run env w (snd (StatsForVault env v n w))"
  unfolding StatsForVault_def Let_def by (rule run run_rules)+

lemma reading_StatsForVault [reading]: "w_db (snd (StatsForVault env v n w)) = w_db w"
  unfolding StatsForVault_def Let_def by (rule reading read_rules)+

section \<open>The interface\<close>

locale store_client =
  fixes env :: env and op :: "world \<Rightarrow> 'a \<times> world"
  assumes op_run: "store_run env w (snd (op w))"
begin

lemma keeps_wf: "wf_db (w_db w) \<Longrightarrow> wf_db (w_db (snd (op w)))"
  using wf_store_run [OF op_run] .

lemma keeps_tombstone: "tombstone i (w_db w) \<Longrightarrow> tombstone i (w_db (snd (op w)))"
  using tombstone_run [OF op_run] .

lemma keeps_deleted_hidden:
  assumes "wf_db (w_db w)" "tombstone i (w_db w)"
  shows "chunk_gone i (w_db (snd (op w)))"
  using tombstone_gone [OF keeps_tombstone [OF assms(2)]] keeps_wf [OF assms(1)]
  by (simp add: wf_db_def)

end

end
