(* ===== verification/Auth_Laws.thy ===== *)
theory Auth_Laws
  imports Auth Store_Inv
begin

text \<open>
  When a token is accepted. A session lives while it is used at least once per idle period and
  not beyond its absolute end; it survives a restart through its row; locking it with a working
  database ends it for good. Runs of the manager are sequences of whole operations on any
  tokens (\<open>auth_step\<close>), and the statements about a token hold after every run.
\<close>

section \<open>The pieces of \<open>Touch\<close>\<close>

lemma cache_get_put [simp]: "cache_get tok (cache_put tok' s m) = (if tok = tok' then Some s else cache_get tok m)"
  by (simp add: cache_get_def cache_put_def update_conv')

lemma cache_get_del [simp]: "cache_get tok (cache_del tok' m) = (if tok = tok' then None else cache_get tok m)"
  by (simp add: cache_get_def cache_del_def delete_conv')

lemma cache_get_fill [simp]: "cache_get tok (fill_state v k m) = cache_get tok m"
  by (simp add: cache_get_def fill_state_def split: option.split)

lemma cache_fields [simp]:
  "mg_store (cache_put tok s m) = mg_store m" "mg_idle (cache_put tok s m) = mg_idle m"
  "mg_state (cache_put tok s m) = mg_state m" "mg_max (cache_put tok s m) = mg_max m"
  "mg_store (cache_del tok m) = mg_store m" "mg_idle (cache_del tok m) = mg_idle m"
  "mg_state (cache_del tok m) = mg_state m" "mg_max (cache_del tok m) = mg_max m"
  "mg_store (fill_state v k m) = mg_store m" "mg_idle (fill_state v k m) = mg_idle m"
  "mg_max (fill_state v k m) = mg_max m"
  by (simp_all add: cache_put_def cache_del_def fill_state_def split: option.split)

text \<open>A session may still be used at \<open>t\<close>.\<close>

definition usable :: "instant \<Rightarrow> session \<Rightarrow> bool" where
  "usable t s \<longleftrightarrow> t \<le> ss_max s \<and> time_sub t (ss_last s) \<le> ss_idle s"

definition prolonged :: "instant \<Rightarrow> session \<Rightarrow> session" where
  "prolonged t s = s\<lparr>ss_last := t, ss_expires := t + ss_idle s\<rparr>"

lemma prolong_result:
  "fst (prolong env tok t s m w) =
    (if usable t s then (Inr (prolonged t s), cache_put tok (prolonged t s) m)
     else (Inl EVaultLocked, cache_del tok m))"
  by (auto simp: prolong_def usable_def prolonged_def Let_def)

text \<open>The session that stands behind a token: the cached one, or else the stored one.\<close>

definition session_behind :: "env \<Rightarrow> string \<Rightarrow> mgr \<Rightarrow> db \<Rightarrow> session option" where
  "session_behind env tok m d =
     (case cache_get tok m of
        Some s \<Rightarrow> Some s
      | None \<Rightarrow>
          if mg_store m
          then map_option (\<lambda>row. session_of_row row (hashToken env tok) m)
                 (row_at s_hash (hashToken env tok) (d_sessions d))
          else None)"

lemma session_of_row_usable: "usable t (session_of_row row th m) \<longleftrightarrow>
    \<not> (s_max_until row < t \<or> mg_idle m < time_sub t (s_last_seen row))"
  by (auto simp: usable_def session_of_row_def)

lemma touch_Inr:
  assumes "Touch env tok t m w = ((Inr s, m'), w')"
  shows "tok \<noteq> [] \<and> cache_get tok m' = Some s
    \<and> (\<exists>s0. session_behind env tok m (w_db w) = Some s0 \<and> usable t s0 \<and> s = prolonged t s0)"
proof (cases "cache_get tok m")
  case (Some s0)
  then show ?thesis
    using assms prolong_result [of env tok t s0 m w]
    by (auto simp: Touch_def session_behind_def Let_def split: if_splits)
next
  case None
  then obtain row w1 where r: "GetSessionByHash env (hashToken env tok) w = (Inr row, w1)"
    and p: "prolong env tok t (session_of_row row (hashToken env tok) m)
        (cache_put tok (session_of_row row (hashToken env tok) m) m) w1 = ((Inr s, m'), w')"
    and st: "mg_store m" "tok \<noteq> []"
    using assms by (auto simp: Touch_def Let_def split: if_splits sum.splits prod.splits)
  have "row_at s_hash (hashToken env tok) (d_sessions (w_db w)) = Some row"
    using r by (auto simp: GetSessionByHash_def dest!: query_Inr split: option.splits)
  then show ?thesis
    using None st p prolong_result [of env tok t "session_of_row row (hashToken env tok) m"
        "cache_put tok (session_of_row row (hashToken env tok) m) m" w1]
    by (auto simp: session_behind_def split: if_splits)
qed

lemma touch_complete:
  assumes "tok \<noteq> []" "session_behind env tok m (w_db w) = Some s0" "usable t s0"
    and "cache_get tok m \<noteq> None \<or> \<not> ev_fault env (w_tick w)"
  shows "\<exists>m' w'. Touch env tok t m w = ((Inr (prolonged t s0), m'), w')"
proof (cases "cache_get tok m")
  case (Some s)
  then have "s = s0" using assms(2) by (simp add: session_behind_def)
  then show ?thesis using Some assms prolong_result [of env tok t s0 m w]
    by (cases "prolong env tok t s0 m w") (simp add: Touch_def)
next
  case None
  then obtain row where row: "mg_store m" "row_at s_hash (hashToken env tok) (d_sessions (w_db w)) = Some row"
      "s0 = session_of_row row (hashToken env tok) m"
    using assms(2) by (auto simp: session_behind_def split: if_splits)
  have f: "\<not> ev_fault env (w_tick w)" using assms(4) None by simp
  then have g: "GetSessionByHash env (hashToken env tok) w = (Inr row, bump w)"
    using row(2) by (simp add: GetSessionByHash_def query_def)
  show ?thesis
    using None assms(1,3) row g session_of_row_usable [of t row "hashToken env tok" m]
      prolong_result [of env tok t s0 "cache_put tok s0 m" "bump w"]
    by (cases "prolong env tok t s0 (cache_put tok s0 m) (bump w)") (simp add: Touch_def Let_def)
qed


section \<open>A fresh session\<close>

lemma insert_session_row_rows:
  "insert_session_row s d = Inr (d', x) \<Longrightarrow> d_sessions d' = d_sessions d @ [s]"
  by (auto simp: insert_session_row_def split: if_splits)

lemma insert_session_row_lookup:
  assumes "insert_session_row s d = Inr (d', x)"
  shows "row_at s_hash h (d_sessions d') = (if h = s_hash s then Some s else row_at s_hash h (d_sessions d))"
proof -
  have "row_at s_hash (s_hash s) (d_sessions d) = None" and "d' = d\<lparr>d_sessions := d_sessions d @ [s]\<rparr>"
    using assms by (auto simp: insert_session_row_def split: if_splits)
  then show ?thesis using sessions.lookup_insert [of s d h] by simp
qed

lemma CreateSession_Inr:
  assumes "CreateSession env v dek t0 m w = ((Inr tok, m1), w1)"
  shows "\<exists>b. ev_rand env (w_tick w) 32 = Some b \<and> tok = hex_encode b
    \<and> cache_get tok m1 = Some \<lparr>ss_vault = v, ss_dek = dek, ss_expires = t0 + mg_idle m,
        ss_max = t0 + mg_max m, ss_last = t0, ss_idle = mg_idle m, ss_hash = hashToken env tok\<rparr>
    \<and> mg_store m1 = mg_store m \<and> mg_idle m1 = mg_idle m
    \<and> (mg_store m \<longrightarrow> insert_session_row \<lparr>s_hash = hashToken env tok, s_vault = v, s_created = t0,
          s_last_seen = t0, s_expires = t0 + mg_idle m, s_max_until = t0 + mg_max m\<rparr> (w_db w)
        = Inr (w_db w1, ()))"
  using assms
  by (auto simp: CreateSession_def rand_bytes_def InsertSession_def Let_def
      split: prod.splits sum.splits option.splits if_splits dest!: exec_Inr)

lemma CreateSession_other:
  assumes "CreateSession env v dek t0 m w = ((Inr tok, m1), w1)"
  shows "tok' \<noteq> tok \<Longrightarrow> cache_get tok' m1 = cache_get tok' m"
    and "\<not> mg_store m \<Longrightarrow> w_db w1 = w_db w"
  using assms by (auto simp: CreateSession_def rand_bytes_def Let_def
      split: prod.splits sum.splits option.splits if_splits)

lemma hex_encode_length: "length (hex_encode b) = 2 * length b"
  by (induction b) (simp_all add: hex_encode_def)

text \<open>A token just created is accepted, with its vault and key, exactly while the idle period
  and the session's absolute life last.\<close>

theorem fresh_session_window:
  assumes "CreateSession env v dek t0 m w = ((Inr tok, m1), w1)" and "rand_ok env"
    and "t0 \<le> t" and "mg_idle m < 2 ^ 63 - 1"
  shows "(case fst (fst (Touch env tok t m1 w1)) of
      Inr s \<Rightarrow> t \<le> t0 + mg_max m \<and> t \<le> t0 + mg_idle m \<and> ss_vault s = v \<and> ss_dek s = dek
    | Inl e \<Rightarrow> e = EVaultLocked \<and> (t0 + mg_max m < t \<or> t0 + mg_idle m < t))"
proof -
  from CreateSession_Inr [OF assms(1)] obtain b s where b: "ev_rand env (w_tick w) 32 = Some b"
    and tok: "tok = hex_encode b" and s: "cache_get tok m1 = Some s" "ss_vault s = v" "ss_dek s = dek"
      "ss_max s = t0 + mg_max m" "ss_last s = t0" "ss_idle s = mg_idle m"
    by auto
  have "length b = 32" using b assms(2) by (auto simp: rand_ok_def)
  then have ne: "tok \<noteq> []" using tok hex_encode_length [of b] by auto
  have "usable t s \<longleftrightarrow> t \<le> t0 + mg_max m \<and> t \<le> t0 + mg_idle m"
    using assms(3,4) s by (auto simp: usable_def time_sub_def)
  then show ?thesis
    using ne s prolong_result [of env tok t s m1 w1] by (auto simp: Touch_def prolonged_def)
qed

text \<open>A session survives a restart of the process: a manager with an empty cache and the same
  idle period accepts the token from its row, with the key of the process's vault state.\<close>

theorem session_survives_restart:
  assumes "CreateSession env v dek t0 m w = ((Inr tok, m1), w1)" and "rand_ok env" and "mg_store m"
    and "t0 \<le> t" "t \<le> t0 + mg_max m" "t \<le> t0 + mg_idle m" "\<not> ev_fault env (w_tick w1)"
  shows "\<exists>s m' w'. Touch env tok t (NewManagerWithStore (mg_idle m) (mg_max m) True (Some st)) w1
      = ((Inr s, m'), w') \<and> ss_vault s = v \<and> ss_dek s = vs_dek st"
proof -
  let ?m = "NewManagerWithStore (mg_idle m) (mg_max m) True (Some st)"
  let ?row = "\<lparr>s_hash = hashToken env tok, s_vault = v, s_created = t0,
          s_last_seen = t0, s_expires = t0 + mg_idle m, s_max_until = t0 + mg_max m\<rparr>"
  from CreateSession_Inr [OF assms(1)] assms(3) obtain b where b: "ev_rand env (w_tick w) 32 = Some b"
    and tok: "tok = hex_encode b" and ins: "insert_session_row ?row (w_db w) = Inr (w_db w1, ())"
    by auto
  have "length b = 32" using b assms(2) by (auto simp: rand_ok_def)
  then have ne: "tok \<noteq> []" using tok hex_encode_length [of b] by auto
  have "row_at s_hash (hashToken env tok) (d_sessions (w_db w1)) = Some ?row"
    using insert_session_row_lookup [OF ins, of "hashToken env tok"] by simp
  then have "session_behind env tok ?m (w_db w1) = Some (session_of_row ?row (hashToken env tok) ?m)"
    by (simp add: session_behind_def cache_get_def NewManagerWithStore_def)
  moreover have "usable t (session_of_row ?row (hashToken env tok) ?m)"
    unfolding session_of_row_usable using assms(4-6)
    by (auto simp: time_sub_def NewManagerWithStore_def)
  ultimately show ?thesis
    using touch_complete [OF ne, of env ?m w1 _ t] assms(7)
    by (fastforce simp: prolonged_def session_of_row_def NewManagerWithStore_def)
qed

section \<open>Runs of the manager\<close>

text \<open>
  Whole operations on any tokens, one after the other, with any other work on the database in
  between that leaves the session table alone. \<open>h\<close> is the hash of the token one watches: a
  later session does not get the same one (its token is 32 fresh random bytes).
\<close>

inductive auth_step :: "env \<Rightarrow> bytes \<Rightarrow> mgr \<times> world \<Rightarrow> mgr \<times> world \<Rightarrow> bool" for env h where
  create: "CreateSession env v dek t m w = ((r, m'), w') \<Longrightarrow>
     (\<forall>tok. r = Inr tok \<longrightarrow> hashToken env tok \<noteq> h) \<Longrightarrow> auth_step env h (m, w) (m', w')"
| touch: "Touch env tok t m w = ((r, m'), w') \<Longrightarrow> auth_step env h (m, w) (m', w')"
| invalidate: "Invalidate env tok m w = (m', w') \<Longrightarrow> auth_step env h (m, w) (m', w')"
| invalidate_all: "auth_step env h (m, w) (InvalidateAll m, w)"
| set_state: "auth_step env h (m, w) (SetVaultState st m, w)"
| purge: "auth_step env h (m, w) (m, snd (PurgeSessionsForVault env v w))"
| restart: "auth_step env h (m, w) (NewManagerWithStore i x st vst, w)"
| other: "d_sessions (w_db w') = d_sessions (w_db w) \<Longrightarrow> auth_step env h (m, w) (m, w')"

inductive_cases auth_stepE: "auth_step env h s s'"

text \<open>Every row after a call was there before, with the same hash and the same absolute end.\<close>

definition rows_from :: "world \<Rightarrow> world \<Rightarrow> bool" where
  "rows_from w w' \<longleftrightarrow> (\<forall>r' \<in> set (d_sessions (w_db w')). \<exists>r \<in> set (d_sessions (w_db w)).
     s_hash r' = s_hash r \<and> s_max_until r' = s_max_until r)"

lemma rows_from_same: "d_sessions (w_db w') = d_sessions (w_db w) \<Longrightarrow> rows_from w w'"
  by (auto simp: rows_from_def)

lemma rows_from_refl [simp]: "rows_from w w"
  by (rule rows_from_same) simp

lemma rows_from_trans: "rows_from w w' \<Longrightarrow> rows_from w' w'' \<Longrightarrow> rows_from w w''"
  unfolding rows_from_def by (metis (no_types, lifting))

lemma rows_from_calls:
  "rows_from w (snd (DeleteSession env th w))"
  "rows_from w (snd (TouchSession env th ls ex w))"
  "rows_from w (snd (PurgeSessionsForVault env v w))"
  "rows_from w (snd (GetSessionByHash env th w))"
  "rows_from w (drop_session env th m w)"
  by (auto simp: rows_from_def DeleteSession_def TouchSession_def PurgeSessionsForVault_def
      GetSessionByHash_def drop_session_def exec_def query_def touch_session_rows_def)

lemma rows_from_prolong: "rows_from w (snd (prolong env tok t s m w))"
  by (simp add: prolong_def Let_def rows_from_calls)

lemma rows_from_Touch: "rows_from w (snd (Touch env tok t m w))"
proof (cases "cache_get tok m")
  case (Some s)
  then show ?thesis by (simp add: Touch_def Let_def rows_from_prolong)
next
  case None
  have g: "rows_from w (snd (GetSessionByHash env (hashToken env tok) w))" by (rule rows_from_calls)
  show ?thesis
    using None g rows_from_trans [OF g rows_from_calls(1)] rows_from_trans [OF g rows_from_prolong]
    by (auto simp: Touch_def Let_def split: prod.split sum.split)
qed

text \<open>What holds of the absolute ends behind a token.\<close>

definition ends :: "(instant \<Rightarrow> bool) \<Rightarrow> string \<Rightarrow> bytes \<Rightarrow> mgr \<times> world \<Rightarrow> bool" where
  "ends P tok h s \<longleftrightarrow> (\<forall>x. cache_get tok (fst s) = Some x \<longrightarrow> P (ss_max x))
     \<and> (\<forall>r \<in> set (d_sessions (w_db (snd s))). s_hash r = h \<longrightarrow> P (s_max_until r))"

lemma ends_rows: "ends P tok h (m, w) \<Longrightarrow> rows_from w w' \<Longrightarrow> (\<And>x. cache_get tok m' = Some x \<Longrightarrow> P (ss_max x))
    \<Longrightarrow> ends P tok h (m', w')"
  unfolding ends_def rows_from_def by fastforce

lemma prolong_cache:
  "cache_get tok (snd (fst (prolong env tok' t s m w))) = Some x \<Longrightarrow>
   (tok = tok' \<and> ss_max x = ss_max s) \<or> cache_get tok m = Some x"
  by (auto simp: prolong_result prolonged_def split: if_splits)

lemma Touch_cache:
  assumes "cache_get tok (snd (fst (Touch env tok' t m w))) = Some x"
  shows "cache_get tok m = Some x
    \<or> (\<exists>s. tok = tok' \<and> session_behind env tok m (w_db w) = Some s \<and> ss_max x = ss_max s)"
proof (cases "cache_get tok' m")
  case (Some s)
  then show ?thesis using assms prolong_cache [of tok env tok' t s m w x]
    by (auto simp: Touch_def Let_def session_behind_def split: if_splits)
next
  case None
  have q: "row_at s_hash th (d_sessions (w_db w)) = Some row"
    if "GetSessionByHash env th w = (Inr row, w1)" for th row w1
    using that by (auto simp: GetSessionByHash_def dest!: query_Inr split: option.splits)
  show ?thesis
  proof (cases "tok' = [] \<or> \<not> mg_store m \<or> (\<exists>e w1. GetSessionByHash env (hashToken env tok') w = (Inl e, w1))")
    case True
    then show ?thesis using assms None by (auto simp: Touch_def Let_def split: if_splits)
  next
    case False
    then obtain row w1 where r: "GetSessionByHash env (hashToken env tok') w = (Inr row, w1)"
      by (cases "GetSessionByHash env (hashToken env tok') w"; cases "fst (GetSessionByHash env (hashToken env tok') w)") auto
    let ?s = "session_of_row row (hashToken env tok') m"
    have b: "session_behind env tok' m (w_db w) = Some ?s"
      using None False q [OF r] by (simp add: session_behind_def)
    show ?thesis
      using assms None False r b prolong_cache [of tok env tok' t ?s "cache_put tok' ?s m" w1 x]
      by (auto simp: Touch_def Let_def split: if_splits)
  qed
qed

lemma ends_behind:
  "ends P tok (hashToken env tok) (m, w) \<Longrightarrow> session_behind env tok m (w_db w) = Some s \<Longrightarrow> P (ss_max s)"
  by (auto simp: ends_def session_behind_def session_of_row_def dest: row_at_Some split: option.splits if_splits)

lemma ends_create:
  assumes "CreateSession env v dek t m w = ((r, m'), w')" "ends P tok (hashToken env tok) (m, w)"
    and "\<forall>tok'. r = Inr tok' \<longrightarrow> hashToken env tok' \<noteq> hashToken env tok"
  shows "ends P tok (hashToken env tok) (m', w')"
proof (cases r)
  case (Inl e)
  then have "m' = m \<and> w_db w' = w_db w"
    using assms(1) by (auto simp: CreateSession_def rand_bytes_def InsertSession_def Let_def
        split: prod.splits sum.splits option.splits if_splits dest!: exec_Inl)
  then show ?thesis using assms(2) by (simp add: ends_def)
next
  case (Inr tok')
  then have ne: "hashToken env tok' \<noteq> hashToken env tok" using assms(3) by simp
  have c: "cache_get tok m' = cache_get tok m"
    using CreateSession_other(1) [of env v dek t m w tok' m' w' tok] assms(1) Inr ne by metis
  have d: "d_sessions (w_db w') = d_sessions (w_db w)
      \<or> (\<exists>row. d_sessions (w_db w') = d_sessions (w_db w) @ [row] \<and> s_hash row = hashToken env tok')"
    using CreateSession_Inr [of env v dek t m w tok' m' w'] CreateSession_other(2) [of env v dek t m w tok' m' w']
      assms(1) Inr
    by (cases "mg_store m") (auto dest!: insert_session_row_rows)
  show ?thesis using assms(2) c d ne by (auto simp: ends_def)
qed

lemma ends_step:
  assumes "auth_step env (hashToken env tok) s s'" "ends P tok (hashToken env tok) s"
  shows "ends P tok (hashToken env tok) s'"
  using assms
proof (induction rule: auth_step.induct)
  case (create v dek t m w r m' w')
  then show ?case using ends_create by blast
next
  case (touch tok' t m w r m' w')
  have w': "rows_from w w'" using rows_from_Touch [of w env tok' t m] touch.hyps by simp
  show ?case
  proof (rule ends_rows [OF touch.prems w'])
    fix x assume "cache_get tok m' = Some x"
    then show "P (ss_max x)"
      using Touch_cache [of tok env tok' t m w x] touch.hyps ends_behind [OF touch.prems] touch.prems
      by (auto simp: ends_def)
  qed
next
  case (invalidate tok' m w m' w')
  have r: "rows_from w w'" using invalidate.hyps rows_from_calls(5) by (auto simp: Invalidate_def Let_def)
  show ?case
    by (rule ends_rows [OF invalidate.prems r])
      (use invalidate in \<open>auto simp: Invalidate_def Let_def ends_def split: if_splits\<close>)
next
  case (purge m w v)
  then show ?case by (rule ends_rows [OF _ rows_from_calls(3)]) (use purge in \<open>auto simp: ends_def\<close>)
qed (auto simp: ends_def cache_get_def InvalidateAll_def SetVaultState_def NewManagerWithStore_def)

lemma ends_run:
  "(auth_step env (hashToken env tok))\<^sup>*\<^sup>* s s' \<Longrightarrow> ends P tok (hashToken env tok) s
   \<Longrightarrow> ends P tok (hashToken env tok) s'"
  by (induction rule: rtranclp_induct) (simp_all add: ends_step)

section \<open>What a run cannot undo\<close>

lemma ends_create_self:
  assumes "CreateSession env v dek t0 m w = ((Inr tok, m1), w1)"
    and "\<forall>r \<in> set (d_sessions (w_db w)). s_hash r = hashToken env tok \<longrightarrow> s_max_until r \<le> t0 + mg_max m"
  shows "ends (\<lambda>e. e \<le> t0 + mg_max m) tok (hashToken env tok) (m1, w1)"
proof -
  have "\<forall>r \<in> set (d_sessions (w_db w1)). s_hash r = hashToken env tok \<longrightarrow> s_max_until r \<le> t0 + mg_max m"
    using CreateSession_Inr [OF assms(1)] CreateSession_other(2) [OF assms(1)] assms(2)
    by (cases "mg_store m") (auto dest!: insert_session_row_rows)
  then show ?thesis using CreateSession_Inr [OF assms(1)] by (auto simp: ends_def)
qed

text \<open>The absolute life of a session is a bound that nothing moves: whatever operations run on
  this and on other tokens, restarts included, a token is refused after its end.\<close>

theorem absolute_lifetime:
  assumes "CreateSession env v dek t0 m w = ((Inr tok, m1), w1)" and "mg_store m"
    and "(auth_step env (hashToken env tok))\<^sup>*\<^sup>* (m1, w1) (m2, w2)" and "t0 + mg_max m < t"
  shows "\<exists>e. fst (fst (Touch env tok t m2 w2)) = Inl e"
proof (rule ccontr)
  have no: "\<forall>r \<in> set (d_sessions (w_db w)). s_hash r \<noteq> hashToken env tok"
    using CreateSession_Inr [OF assms(1)] assms(2)
    by (auto simp: insert_session_row_def row_at_None image_iff split: if_splits)
  then have e: "ends (\<lambda>e. e \<le> t0 + mg_max m) tok (hashToken env tok) (m2, w2)"
    using ends_run [OF assms(3)] ends_create_self [OF assms(1)] by blast
  assume n: "\<not> ?thesis"
  obtain r m3 w3 where tr: "Touch env tok t m2 w2 = ((r, m3), w3)"
    by (metis prod.exhaust)
  with n obtain s where "Touch env tok t m2 w2 = ((Inr s, m3), w3)" by (cases r) auto
  from touch_Inr [OF this] obtain s0 where "session_behind env tok m2 (w_db w2) = Some s0" "usable t s0"
    by blast
  with ends_behind [OF e] assms(4) show False by (auto simp: usable_def)
qed


text \<open>The error of the delete is dropped. When it fails, \<open>Invalidate\<close> has forgotten the token
  but not its row, and the next \<open>Touch\<close> takes the session back from the row.\<close>

theorem lock_lost_on_db_error:
  assumes "mg_store m" "tok \<noteq> []" "ev_fault env (w_tick w)" "\<not> ev_fault env (Suc (w_tick w))"
    and "row_at s_hash (hashToken env tok) (d_sessions (w_db w)) = Some row"
    and "t \<le> s_max_until row" "time_sub t (s_last_seen row) \<le> mg_idle m"
    and "Invalidate env tok m w = (m1, w1)"
  shows "\<exists>s m2 w2. Touch env tok t m1 w1 = ((Inr s, m2), w2) \<and> ss_vault s = s_vault row"
proof -
  have m1: "m1 = cache_del tok m" and w1: "w_db w1 = w_db w" "w_tick w1 = Suc (w_tick w)"
    using assms(1,3,8) by (auto simp: Invalidate_def drop_session_def DeleteSession_def exec_def Let_def)
  have b: "session_behind env tok m1 (w_db w1) = Some (session_of_row row (hashToken env tok) m1)"
    using assms(1,5) by (simp add: session_behind_def m1 w1)
  have "usable t (session_of_row row (hashToken env tok) m1)"
    unfolding session_of_row_usable using assms(6,7) by (simp add: m1)
  from touch_complete [OF assms(2) b this] assms(4) w1(2) show ?thesis
    by (auto simp: prolonged_def session_of_row_def)
qed

section \<open>Witnesses\<close>

definition demo_mgr :: mgr where
  "demo_mgr = NewManagerWithStore ns_hour (12 * ns_hour) True (Some \<lparr>vs_id = 0, vs_dek = []\<rparr>)"

definition demo_tok :: string where
  "demo_tok = hex_encode (replicate 32 (chr 0))"

lemma demo_tok_hash: "hashToken demo_env demo_tok = demo_tok"
  by (simp add: hashToken_def demo_env_def)

text \<open>The manager and the world after the example session has been created at time 0.\<close>

definition demo_mgr1 :: mgr where
  "demo_mgr1 = snd (fst (CreateSession demo_env 7 ''key'' 0 demo_mgr demo_world))"

definition demo_world1 :: world where
  "demo_world1 = snd (CreateSession demo_env 7 ''key'' 0 demo_mgr demo_world)"

lemma demo_create: "CreateSession demo_env 7 ''key'' 0 demo_mgr demo_world = ((Inr demo_tok, demo_mgr1), demo_world1)"
proof -
  have "fst (fst (CreateSession demo_env 7 ''key'' 0 demo_mgr demo_world)) = Inr demo_tok"
    by (simp add: CreateSession_def rand_bytes_def InsertSession_def insert_session_row_def exec_def Let_def
        demo_env_def demo_mgr_def demo_world_def demo_vault_def NewManagerWithStore_def empty_db_def
        demo_tok_def)
  then show ?thesis by (simp add: demo_mgr1_def demo_world1_def prod_eq_iff)
qed

lemma demo_store: "mg_store demo_mgr" "mg_idle demo_mgr = ns_hour" "mg_max demo_mgr = 12 * ns_hour"
  by (simp_all add: demo_mgr_def NewManagerWithStore_def)

lemma fresh_session_window_witness:
  "\<exists>s. fst (fst (Touch demo_env demo_tok ns_hour demo_mgr1 demo_world1)) = Inr s \<and> ss_vault s = 7"
proof -
  have "mg_idle demo_mgr < 2 ^ 63 - 1" by (simp add: demo_store)
  from fresh_session_window [OF demo_create demo_env_ok(2) _ this, of ns_hour]
  show ?thesis by (auto simp: demo_store split: sum.splits)
qed


lemma session_survives_restart_witness:
  "\<exists>s m' w'. Touch demo_env demo_tok 5 (NewManagerWithStore ns_hour (12 * ns_hour) True
      (Some \<lparr>vs_id = 7, vs_dek = ''key''\<rparr>)) demo_world1 = ((Inr s, m'), w') \<and> ss_vault s = 7 \<and> ss_dek s = ''key''"
  using session_survives_restart [OF demo_create demo_env_ok(2) demo_store(1), of 5 "\<lparr>vs_id = 7, vs_dek = ''key''\<rparr>"]
  by (simp add: demo_store demo_env_def)

lemma absolute_lifetime_witness:
  "\<exists>e. fst (fst (Touch demo_env demo_tok (13 * ns_hour) demo_mgr1 demo_world1)) = Inl e"
  using absolute_lifetime [OF demo_create demo_store(1) rtranclp.rtrancl_refl, of "13 * ns_hour"]
  by (simp add: demo_store)


definition faulty_env :: env where
  "faulty_env = demo_env\<lparr>ev_fault := \<lambda>t. t = 2\<rparr>"

lemma lock_lost_on_db_error_witness:
  "\<exists>s m2 w2. Touch faulty_env demo_tok 1 (fst (Invalidate faulty_env demo_tok demo_mgr1 demo_world1))
      (snd (Invalidate faulty_env demo_tok demo_mgr1 demo_world1)) = ((Inr s, m2), w2) \<and> ss_vault s = 7"
proof -
  have c: "mg_store demo_mgr1" "mg_idle demo_mgr1 = ns_hour" and
    i: "insert_session_row \<lparr>s_hash = demo_tok, s_vault = 7, s_created = 0, s_last_seen = 0,
       s_expires = ns_hour, s_max_until = 12 * ns_hour\<rparr> (w_db demo_world) = Inr (w_db demo_world1, ())"
    using CreateSession_Inr [OF demo_create] by (auto simp: demo_store demo_tok_hash)
  have tk: "w_tick demo_world1 = 2"
    by (simp add: demo_world1_def CreateSession_def rand_bytes_def InsertSession_def insert_session_row_def
        exec_def Let_def demo_env_def demo_mgr_def demo_world_def demo_vault_def NewManagerWithStore_def
        empty_db_def)
  have h: "hashToken faulty_env demo_tok = demo_tok" by (simp add: hashToken_def faulty_env_def demo_env_def)
  have f: "ev_fault faulty_env (w_tick demo_world1)" "\<not> ev_fault faulty_env (Suc (w_tick demo_world1))"
    by (simp_all add: tk faulty_env_def)
  have ne: "demo_tok \<noteq> []" by (simp add: demo_tok_def hex_encode_def)
  have row: "row_at s_hash (hashToken faulty_env demo_tok) (d_sessions (w_db demo_world1))
      = Some \<lparr>s_hash = demo_tok, s_vault = 7, s_created = 0, s_last_seen = 0,
       s_expires = ns_hour, s_max_until = 12 * ns_hour\<rparr>"
    using insert_session_row_lookup [OF i, of demo_tok] h by simp
  show ?thesis
    using lock_lost_on_db_error [OF c(1) ne f row, of 1] by (simp add: time_sub_def c(2) prod_eq_iff)
qed

end
