(* ===== verification/Tuning_Laws.thy ===== *)
theory Tuning_Laws
  imports Tuning Json_Roundtrip "HOL-Library.Multiset"
begin

text \<open>
  What the layers of the tuning promise: the override map determines the result whatever the
  iteration order of the Go map, no override reaches \<open>embedding_model\<close>, an effective tuning is
  always a validated one, and merging a PATCH body into the stored overrides is the overlay of
  the two maps, through the JSON text in between.
\<close>

section \<open>Validity\<close>

definition tuning_ok :: "runtime_tuning \<Rightarrow> bool" where
  "tuning_ok t \<longleftrightarrow>
     \<not> flt (rt_semantic_threshold t) (Fin 0) \<and> \<not> flt (Fin 1) (rt_semantic_threshold t)
     \<and> \<not> flt (rt_fusion_lexical_weight t) (Fin 0) \<and> \<not> flt (Fin 1) (rt_fusion_lexical_weight t)
     \<and> 1 \<le> rt_default_max_chunks t \<and> 1 \<le> rt_k_dense_min t \<and> 1 \<le> rt_k_dense_mult t
     \<and> \<not> flt (rt_session_boost t) (Fin 1)
     \<and> 0 \<le> rt_chunk_overlap t \<and> rt_chunk_overlap t < rt_chunk_rune_size t
     \<and> 1 \<le> rt_recent_messages t \<and> 1 \<le> rt_prune_keep t
     \<and> trim_space (rt_infer_model t) \<noteq> [] \<and> trim_space (rt_embedding_model t) \<noteq> []
     \<and> 1 \<le> rt_max_body t"

lemma Validate_iff: "Validate io t = None \<longleftrightarrow> tuning_ok t"
  by (auto simp: Validate_def tuning_ok_def)

lemma validated_Inr: "validated io t = Inr t' \<longleftrightarrow> t' = t \<and> tuning_ok t"
  by (auto simp: validated_def Validate_iff [of io, symmetric] split: option.splits)

lemma tuning_ok_default: "tuning_ok DefaultRuntimeTuning"
proof -
  have u: "fle (Fin 0) (fround x) \<and> fle (fround x) (Fin 1)" if "0 \<le> x" "x \<le> 1" for x
    using that fround_mono [of x 1] by (simp add: fround_nonneg fround_1)
  have "fle (Fin 1) (fround (115 / 100))" using fround_mono [of 1 "115 / 100"] by (simp add: fround_1)
  with u [of "25 / 100"] u [of "35 / 100"] show ?thesis
    by (auto simp: tuning_ok_def DefaultRuntimeTuning_def fle_le flt_def trim_space_ends space_rune_def)
qed

section \<open>The partial of an override map\<close>

abbreviation isr :: "'a + 'b \<Rightarrow> bool" where "isr r \<equiv> \<not> isl r"

definition key_ok :: "string \<Rightarrow> jx \<Rightarrow> bool" where
  "key_ok k v \<longleftrightarrow> k \<in> set PatchableTuningKeys
     \<and> (if k \<in> {''semantic_threshold'', ''fusion_lexical_weight'', ''session_prefer_score_boost''}
        then isr (dec_float v)
        else if k = ''infer_llm_model'' then isr (dec_str v)
        else if k \<in> {''retrieve_debug'', ''http_access_log''} then isr (dec_bool v)
        else isr (dec_int v))"

lemma set_res_isr: "isr (set_res r f) \<longleftrightarrow> isr r"
  by (cases r) (simp_all add: set_res_def)

lemma set_partial_isr: "isr (set_partial k v p) \<longleftrightarrow> key_ok k v"
proof (cases "k \<in> set PatchableTuningKeys")
  case True
  then have "k \<in> {''semantic_threshold'', ''fusion_lexical_weight'', ''retrieve_default_max_chunks'',
      ''retrieve_k_dense_min'', ''retrieve_k_dense_multiplier'', ''session_prefer_score_boost'',
      ''chunk_rune_size'', ''chunk_overlap'', ''recent_session_messages_for_infer'',
      ''prune_session_messages_keep'', ''infer_llm_model'', ''max_body_bytes'',
      ''retrieve_debug'', ''http_access_log''}"
    by (simp add: PatchableTuningKeys_def)
  with True show ?thesis
    unfolding set_partial_def key_ok_def
    by (elim insertE emptyE) (simp_all add: set_res_isr)
qed (simp add: set_partial_def key_ok_def)

lemma set_res_Inr: "set_res r f = Inr q \<longleftrightarrow> (\<exists>x. r = Inr x \<and> q = f x)"
  by (cases r) (auto simp: set_res_def)

lemma set_partial_fields:
  assumes "set_partial k v p = Inr q"
  shows
    "tp_semantic_threshold q = (if k = ''semantic_threshold'' then projr (dec_float v) else tp_semantic_threshold p)"
    "tp_fusion_lexical_weight q = (if k = ''fusion_lexical_weight'' then projr (dec_float v) else tp_fusion_lexical_weight p)"
    "tp_default_max_chunks q = (if k = ''retrieve_default_max_chunks'' then projr (dec_int v) else tp_default_max_chunks p)"
    "tp_k_dense_min q = (if k = ''retrieve_k_dense_min'' then projr (dec_int v) else tp_k_dense_min p)"
    "tp_k_dense_mult q = (if k = ''retrieve_k_dense_multiplier'' then projr (dec_int v) else tp_k_dense_mult p)"
    "tp_session_boost q = (if k = ''session_prefer_score_boost'' then projr (dec_float v) else tp_session_boost p)"
    "tp_chunk_rune_size q = (if k = ''chunk_rune_size'' then projr (dec_int v) else tp_chunk_rune_size p)"
    "tp_chunk_overlap q = (if k = ''chunk_overlap'' then projr (dec_int v) else tp_chunk_overlap p)"
    "tp_recent_messages q = (if k = ''recent_session_messages_for_infer'' then projr (dec_int v) else tp_recent_messages p)"
    "tp_prune_keep q = (if k = ''prune_session_messages_keep'' then projr (dec_int v) else tp_prune_keep p)"
    "tp_infer_model q = (if k = ''infer_llm_model'' then projr (dec_str v) else tp_infer_model p)"
    "tp_embedding_model q = tp_embedding_model p"
    "tp_max_body q = (if k = ''max_body_bytes'' then projr (dec_int v) else tp_max_body p)"
    "tp_debug q = (if k = ''retrieve_debug'' then projr (dec_bool v) else tp_debug p)"
    "tp_access_log q = (if k = ''http_access_log'' then projr (dec_bool v) else tp_access_log p)"
  using assms
  by (auto simp: set_partial_def set_res_Inr PatchableTuningKeys_def split: if_splits)

text \<open>The fields that a map of overrides sets, by key.\<close>

definition field :: "(string \<Rightarrow> jx option) \<Rightarrow> string \<Rightarrow> (jx \<Rightarrow> 'a option res) \<Rightarrow> 'a option \<Rightarrow> 'a option" where
  "field m k dec old = (case m k of None \<Rightarrow> old | Some v \<Rightarrow> projr (dec v))"

definition overlay :: "(string \<Rightarrow> jx option) \<Rightarrow> tuning_partial \<Rightarrow> tuning_partial" where
  "overlay m p =
     \<lparr>tp_semantic_threshold = field m ''semantic_threshold'' dec_float (tp_semantic_threshold p),
      tp_fusion_lexical_weight = field m ''fusion_lexical_weight'' dec_float (tp_fusion_lexical_weight p),
      tp_default_max_chunks = field m ''retrieve_default_max_chunks'' dec_int (tp_default_max_chunks p),
      tp_k_dense_min = field m ''retrieve_k_dense_min'' dec_int (tp_k_dense_min p),
      tp_k_dense_mult = field m ''retrieve_k_dense_multiplier'' dec_int (tp_k_dense_mult p),
      tp_session_boost = field m ''session_prefer_score_boost'' dec_float (tp_session_boost p),
      tp_chunk_rune_size = field m ''chunk_rune_size'' dec_int (tp_chunk_rune_size p),
      tp_chunk_overlap = field m ''chunk_overlap'' dec_int (tp_chunk_overlap p),
      tp_recent_messages = field m ''recent_session_messages_for_infer'' dec_int (tp_recent_messages p),
      tp_prune_keep = field m ''prune_session_messages_keep'' dec_int (tp_prune_keep p),
      tp_infer_model = field m ''infer_llm_model'' dec_str (tp_infer_model p),
      tp_embedding_model = tp_embedding_model p,
      tp_max_body = field m ''max_body_bytes'' dec_int (tp_max_body p),
      tp_debug = field m ''retrieve_debug'' dec_bool (tp_debug p),
      tp_access_log = field m ''http_access_log'' dec_bool (tp_access_log p)\<rparr>"

lemma overlay_empty: "overlay Map.empty p = p"
  by (simp add: overlay_def field_def)

lemma field_step:
  "m k = None \<Longrightarrow>
   field m kf dec (if k = kf then projr (dec v) else old) = field (m(k \<mapsto> v)) kf dec old"
  by (simp add: field_def)

lemma overlay_step:
  assumes "set_partial k v p = Inr q" and m: "m k = None"
  shows "overlay m q = overlay (m(k \<mapsto> v)) p"
  unfolding overlay_def set_partial_fields [OF assms(1)]
  by (simp only: field_step [where m = m and k = k, OF m])

lemma partial_of_overlay:
  "distinct (map fst es) \<Longrightarrow>
   partial_of es p = Inr q \<longleftrightarrow> (\<forall>(k, v) \<in> set es. key_ok k v) \<and> q = overlay (map_of es) p"
proof (induction es arbitrary: p)
  case Nil
  then show ?case by (auto simp: overlay_empty)
next
  case (Cons e es)
  obtain k v where e: "e = (k, v)" by (cases e)
  have n: "map_of es k = None" using Cons.prems e by (simp add: map_of_eq_None_iff)
  show ?case
  proof (cases "set_partial k v p")
    case (Inl x)
    then have "\<not> key_ok k v" using set_partial_isr [of k v p] by simp
    then show ?thesis using Inl e by simp
  next
    case (Inr p1)
    then have "key_ok k v" using set_partial_isr [of k v p] by simp
    then show ?thesis using Inr e Cons overlay_step [where m = "map_of es", OF Inr n] by (simp add: fun_upd_def)
  qed
qed

section \<open>Decoding a map\<close>

lemma update_all_map_of: "map_of (update_all es m) = map_of m ++ map_of (rev es)"
proof (induction es m rule: update_all.induct)
  case (2 k v es m)
  then show ?case by (auto simp: update_conv' map_add_def fun_eq_iff split: option.split)
qed simp

lemma distinct_update_all: "distinct (map fst m) \<Longrightarrow> distinct (map fst (update_all es m))"
  by (induction es m rule: update_all.induct) (simp_all add: distinct_update)

lemma update_fresh: "k \<notin> fst ` set m \<Longrightarrow> AList.update k v m = m @ [(k, v)]"
  by (induction m) auto

lemma update_all_fresh: "distinct (map fst (m @ es)) \<Longrightarrow> update_all es m = m @ es"
  by (induction es m rule: update_all.induct) (auto simp: update_fresh)

lemma decode_raw_map_distinct: "decode_raw_map s = Inr m \<Longrightarrow> distinct (map fst (raw_entries m))"
  by (auto simp: decode_raw_map_def raw_entries_def distinct_update_all split: option.splits jx.splits)

definition raw_ok :: "(string \<times> jx) list \<Rightarrow> bool" where
  "raw_ok m \<longleftrightarrow> (\<forall>(k, v) \<in> set m. valid_utf8 k \<and> jx_ok (json_max_depth - 1) v)"

lemma raw_ok_Cons [simp]:
  "raw_ok ((k, v) # es) \<longleftrightarrow> valid_utf8 k \<and> jx_ok (json_max_depth - 1) v \<and> raw_ok es"
  by (simp add: raw_ok_def del: jx_ok.simps)

lemma raw_ok_Nil [simp]: "raw_ok []"
  by (simp add: raw_ok_def)

lemma raw_ok_update: "raw_ok m \<Longrightarrow> valid_utf8 k \<Longrightarrow> jx_ok (json_max_depth - 1) v \<Longrightarrow> raw_ok (AList.update k v m)"
  by (induction m) (auto simp del: jx_ok.simps)

lemma raw_ok_update_all: "raw_ok es \<Longrightarrow> raw_ok m \<Longrightarrow> raw_ok (update_all es m)"
  by (induction es m rule: update_all.induct) (simp_all add: raw_ok_update del: jx_ok.simps)

lemma decode_raw_map_ok: "decode_raw_map s = Inr m \<Longrightarrow> raw_ok (raw_entries m)"
proof -
  assume d: "decode_raw_map s = Inr m"
  have r: "raw_ok ms" if "json_parse s = Some (XObj ms)" for ms
    using json_parse_ok [OF that] by (auto simp: raw_ok_def)
  have n: "raw_ok []" by (simp add: raw_ok_def)
  show ?thesis
    using d n r raw_ok_update_all [OF _ n]
    by (auto simp: decode_raw_map_def raw_entries_def split: option.splits jx.splits)
qed

lemma distinct_sort_fst: "distinct (map fst m) \<Longrightarrow> distinct (map fst (sort_key fst m))"
  by (metis distinct_map distinct_sort set_sort)

text \<open>A map that is printed is read back as it was.\<close>

lemma decode_marshal:
  assumes "raw_ok m" "distinct (map fst m)"
  shows "decode_raw_map (marshal_raw_map m) = Inr (Some (sort_key fst m))"
proof -
  have "jx_ok json_max_depth (XObj (sort_key fst m))"
    using assms(1) by (auto simp: raw_ok_def json_max_depth_def)
  from json_parse_print [OF this] have "json_parse (marshal_raw_map m) = Some (XObj (sort_key fst m))"
    by (simp add: marshal_raw_map_def)
  then show ?thesis
    using distinct_sort_fst [OF assms(2)] update_all_fresh [of "[]" "sort_key fst m"] by (simp add: decode_raw_map_def)
qed

lemma override_all_Inr:
  "override_all es m = Inr m' \<longleftrightarrow> (\<forall>(k, v) \<in> set es. k \<in> set PatchableTuningKeys) \<and> m' = update_all es m"
  by (induction es m rule: override_all.induct) auto

lemma map_of_sort: "distinct (map fst m) \<Longrightarrow> map_of (sort_key fst m) = map_of m"
  using map_of_inject_set [of "sort_key fst m" m] distinct_sort_fst [of m] by simp

section \<open>The properties\<close>

lemma MergeFromJSONMap_Inr:
  assumes "distinct (map fst es)"
  shows "MergeFromJSONMap io base (Some es) = Inr t \<longleftrightarrow>
    (\<forall>(k, v) \<in> set es. key_ok k v) \<and> t = ApplyPartial base (overlay (map_of es) no_partial) \<and> tuning_ok t"
proof (cases "partial_of es no_partial")
  case (Inl e)
  then show ?thesis using partial_of_overlay [OF assms, of no_partial]
    by (simp add: MergeFromJSONMap_def raw_entries_def) blast
next
  case (Inr p)
  then have "(\<forall>(k, v) \<in> set es. key_ok k v) \<and> p = overlay (map_of es) no_partial"
    using partial_of_overlay [OF assms, of no_partial p] by simp
  then show ?thesis using Inr by (auto simp: MergeFromJSONMap_def raw_entries_def validated_Inr)
qed

lemma merge_keeps_model:
  "MergeTuningWithPartial io base db = Inr t \<Longrightarrow> rt_embedding_model t = rt_embedding_model base"
proof (cases "trim_space db = []")
  case False
  assume "MergeTuningWithPartial io base db = Inr t"
  with False obtain m where r: "decode_raw_map db = Inr m" "MergeFromJSONMap io base m = Inr t"
    by (auto simp: MergeTuningWithPartial_def split: sum.splits)
  then have "MergeFromJSONMap io base (Some (raw_entries m)) = Inr t"
    by (simp add: MergeFromJSONMap_def raw_entries_def split: option.splits)
  then show ?thesis
    unfolding MergeFromJSONMap_Inr [OF decode_raw_map_distinct [OF r(1)]]
    by (auto simp: ApplyPartial_def overlay_def no_partial_def or_else_def)
qed (simp add: MergeTuningWithPartial_def)

text \<open>The Go code ranges over a map, in an order that differs from run to run. Whatever the
  order, the overrides are accepted with the same effective tuning.\<close>

theorem merge_order_irrelevant:
  assumes "distinct (map fst es)" and "mset es = mset es'"
  shows "MergeFromJSONMap io base (Some es) = Inr t \<longleftrightarrow> MergeFromJSONMap io base (Some es') = Inr t"
proof -
  have d: "distinct (map fst es')"
    using assms mset_eq_imp_distinct_iff [of "map fst es" "map fst es'"] by simp
  have "map_of es = map_of es'"
    using assms(1) d mset_eq_setD [OF assms(2)] by (simp add: map_of_inject_set)
  then show ?thesis
    using mset_eq_setD [OF assms(2)]
    by (simp only: MergeFromJSONMap_Inr [OF assms(1)] MergeFromJSONMap_Inr [OF d])
qed

definition example_io :: tuning_io where
  "example_io = \<lparr>ti_yaml = \<lambda>_. Inr no_partial, ti_stat = \<lambda>_. StatMissing, ti_read = \<lambda>_. ReadMissing,
     ti_fmt_v = \<lambda>_. []\<rparr>"

lemma example_file_layer: "FileLayerForSources example_io t ''x'' = Inr t"
  by (simp add: FileLayerForSources_def example_io_def)

lemma merge_order_irrelevant_witness:
  "MergeFromJSONMap example_io DefaultRuntimeTuning
     (Some [(''chunk_overlap'', XNum ''100''), (''retrieve_debug'', XBool True)])
   = Inr (DefaultRuntimeTuning\<lparr>rt_chunk_overlap := 100, rt_debug := True\<rparr>)
   \<and> MergeFromJSONMap example_io DefaultRuntimeTuning
     (Some [(''retrieve_debug'', XBool True), (''chunk_overlap'', XNum ''100'')])
   = Inr (DefaultRuntimeTuning\<lparr>rt_chunk_overlap := 100, rt_debug := True\<rparr>)"
proof -
  let ?t = "DefaultRuntimeTuning\<lparr>rt_chunk_overlap := 100, rt_debug := True\<rparr>"
  have ok: "tuning_ok ?t" using tuning_ok_default by (simp add: tuning_ok_def DefaultRuntimeTuning_def)
  have "parse_int ''100'' = Some 100" by code_simp
  then have "MergeFromJSONMap example_io DefaultRuntimeTuning
     (Some [(''chunk_overlap'', XNum ''100''), (''retrieve_debug'', XBool True)]) = Inr ?t"
    using ok by (simp add: MergeFromJSONMap_def raw_entries_def set_partial_def set_res_def dec_int_def
        dec_bool_def PatchableTuningKeys_def no_partial_def ApplyPartial_def or_else_def
        validated_Inr DefaultRuntimeTuning_def)
  then show ?thesis
    using merge_order_irrelevant [of "[(''chunk_overlap'', XNum ''100''), (''retrieve_debug'', XBool True)]"
      "[(''retrieve_debug'', XBool True), (''chunk_overlap'', XNum ''100'')]" example_io]
    by simp
qed

text \<open>C36. The effective tuning is the file layer with the database overrides laid over it key by
  key; it has passed the validation, and no override changes the embedding model.\<close>

theorem effective_tuning:
  assumes "MergeTuningFull io d path db = Inr (eff, fileL)"
  shows "tuning_ok eff \<and> FileLayerForSources io d path = Inr fileL
    \<and> rt_embedding_model eff = rt_embedding_model fileL
    \<and> (if trim_space db = [] then eff = fileL
       else \<exists>m. decode_raw_map db = Inr m
         \<and> eff = ApplyPartial fileL (overlay (map_of (raw_entries m)) no_partial)
         \<and> (\<forall>(k, v) \<in> set (raw_entries m). key_ok k v))"
proof -
  have f: "FileLayerForSources io d path = Inr fileL" and m: "MergeTuningWithPartial io fileL db = Inr eff"
    and v: "tuning_ok eff"
    using assms by (auto simp: MergeTuningFull_def Validate_iff [of io, symmetric] split: sum.splits option.splits)
  show ?thesis
  proof (cases "trim_space db = []")
    case True
    then show ?thesis using f m v by (simp add: MergeTuningWithPartial_def)
  next
    case False
    then obtain r where r: "decode_raw_map db = Inr r" "MergeFromJSONMap io fileL r = Inr eff"
      using m by (auto simp: MergeTuningWithPartial_def split: sum.splits)
    have s: "MergeFromJSONMap io fileL (Some (raw_entries r)) = Inr eff"
      using r(2) by (simp add: MergeFromJSONMap_def raw_entries_def split: option.splits)
    from s [unfolded MergeFromJSONMap_Inr [OF decode_raw_map_distinct [OF r(1)]]]
    show ?thesis using f v r(1) False by (auto simp: ApplyPartial_def overlay_def no_partial_def or_else_def)
  qed
qed

lemma effective_tuning_witness:
  "tuning_ok (DefaultRuntimeTuning\<lparr>rt_chunk_overlap := 100\<rparr>)"
proof -
  let ?o = "XObj [(''chunk_overlap'', XNum ''100'')]"
  let ?t = "DefaultRuntimeTuning\<lparr>rt_chunk_overlap := 100\<rparr>"
  have n: "num_literal ''100''" "parse_int ''100'' = Some 100" unfolding num_literal_def by code_simp+
  have "jx_ok json_max_depth ?o"
    using n by (simp add: json_max_depth_def valid_utf8_ascii)
  from json_parse_print [OF this] have d: "decode_raw_map (jx_print ?o) = Inr (Some [(''chunk_overlap'', XNum ''100'')])"
    by (simp add: decode_raw_map_def)
  have t: "trim_space (jx_print ?o) = jx_print ?o"
    by (rule trim_space_ends [of _ "CHR ''{''" "tl (jx_print ?o)"]) (simp_all add: space_rune_def)
  have ok: "tuning_ok ?t" using tuning_ok_default by (simp add: tuning_ok_def DefaultRuntimeTuning_def)
  have p: "?t = ApplyPartial DefaultRuntimeTuning (overlay (map_of [(''chunk_overlap'', XNum ''100'')]) no_partial)"
    using n(2) by (simp add: ApplyPartial_def overlay_def field_def no_partial_def or_else_def dec_int_def
        DefaultRuntimeTuning_def)
  have "MergeFromJSONMap example_io DefaultRuntimeTuning (Some [(''chunk_overlap'', XNum ''100'')]) = Inr ?t"
    using ok n(2) p by (subst MergeFromJSONMap_Inr)
      (simp_all add: key_ok_def PatchableTuningKeys_def dec_int_def)
  then have "MergeTuningWithPartial example_io DefaultRuntimeTuning (jx_print ?o) = Inr ?t"
    using d by (simp add: MergeTuningWithPartial_def t [simplified])
  then have "MergeTuningFull example_io DefaultRuntimeTuning ''x'' (jx_print ?o) = Inr (?t, DefaultRuntimeTuning)"
    using ok by (simp add: MergeTuningFull_def example_file_layer Validate_iff [THEN iffD2])
  from effective_tuning [OF this] show ?thesis by simp
qed

text \<open>C38. A PATCH body merged into the stored overrides and written back as JSON text means, when
  the server reads it again, the stored map with the entries of the body over it.\<close>

theorem patch_then_read:
  assumes "PatchJSONToMap body = Inr patch"
    and "decode_raw_map (bytesTrimForJSON stored) = Inr old"
    and "MergeTuningOverrideJSON stored patch = Inr raw"
  shows "MergeTuningWithPartial io base raw = Inr t \<longleftrightarrow>
    (let m = update_all (raw_entries patch) (raw_entries old) in
      (\<forall>(k, v) \<in> set m. key_ok k v)
      \<and> t = ApplyPartial base (overlay (map_of (raw_entries old) ++ map_of (raw_entries patch)) no_partial)
      \<and> tuning_ok t)"
proof -
  let ?m = "update_all (raw_entries patch) (raw_entries old)"
  have raw: "raw = marshal_raw_map ?m"
    using assms(2,3) by (auto simp: MergeTuningOverrideJSON_def override_all_Inr split: sum.splits)
  have pd: "distinct (map fst (raw_entries patch))" and po: "raw_ok (raw_entries patch)"
    using assms(1) decode_raw_map_distinct [of body patch] decode_raw_map_ok [of body patch]
    by (auto simp: PatchJSONToMap_def raw_entries_def raw_ok_def split: if_splits)
  have d: "distinct (map fst ?m)" by (rule distinct_update_all [OF decode_raw_map_distinct [OF assms(2)]])
  have ok: "raw_ok ?m" by (rule raw_ok_update_all [OF po decode_raw_map_ok [OF assms(2)]])
  have t: "trim_space raw = raw"
    by (rule trim_space_ends [of _ "CHR ''{''" "tl raw"])
      (simp_all add: raw marshal_raw_map_def space_rune_def)
  have ne: "raw \<noteq> []" by (simp add: raw marshal_raw_map_def)
  have mo: "map_of ?m = map_of (raw_entries old) ++ map_of (raw_entries patch)"
    using pd map_of_inject_set [of "rev (raw_entries patch)" "raw_entries patch"]
    by (simp add: update_all_map_of flip: rev_map)
  show ?thesis
    using MergeFromJSONMap_Inr [OF distinct_sort_fst [OF d], of io base t] t ne
    by (simp add: MergeTuningWithPartial_def raw decode_marshal [OF ok d] map_of_sort [OF d] mo)
qed

section \<open>Reloading\<close>

inductive reload_step :: "tuning_io \<Rightarrow> tuning_state \<Rightarrow> tuning_state \<Rightarrow> bool" for io where
  "Reload io s w = ((r, s'), w') \<Longrightarrow> reload_step io s s'"

definition tuning_inv :: "tuning_state \<Rightarrow> bool" where
  "tuning_inv s \<longleftrightarrow> tuning_ok (tn_current s) \<and> tn_def s = DefaultRuntimeTuning
     \<and> rt_embedding_model (tn_current s) = rt_embedding_model (tn_layer s)"

lemma Reload_Inl: "Reload io s w = ((Inl e, s'), w') \<Longrightarrow> s' = s"
  by (auto simp: Reload_def split: sum.splits prod.splits)

lemma Reload_Inr:
  assumes "Reload io s w = ((Inr x, s'), w')" "tn_def s = DefaultRuntimeTuning"
  shows "tuning_inv s'"
proof -
  obtain b eff fileL where m: "MergeTuningFull io (tn_def s) (tn_file s) b = Inr (eff, fileL)"
    and s': "s' = s\<lparr>tn_current := eff, tn_layer := fileL, tn_db := b\<rparr>"
    using assms(1) by (auto simp: Reload_def split: sum.splits prod.splits)
  from m have "tuning_ok eff \<and> FileLayerForSources io (tn_def s) (tn_file s) = Inr fileL"
    by (auto simp: MergeTuningFull_def Validate_iff [of io, symmetric] split: sum.splits option.splits)
  moreover have "rt_embedding_model eff = rt_embedding_model fileL"
    using m by (auto simp: MergeTuningFull_def split: sum.splits option.splits dest: merge_keeps_model)
  ultimately show ?thesis using s' assms(2) by (simp add: tuning_inv_def)
qed



lemma patch_then_read_witness:
  "MergeTuningWithPartial example_io DefaultRuntimeTuning
     (marshal_raw_map [(''retrieve_debug'', XBool True), (''chunk_overlap'', XNum ''100'')])
   = Inr (DefaultRuntimeTuning\<lparr>rt_chunk_overlap := 100, rt_debug := True\<rparr>)"
proof -
  let ?old = "[(''retrieve_debug'', XBool True)]" and ?new = "[(''chunk_overlap'', XNum ''100'')]"
  let ?t = "DefaultRuntimeTuning\<lparr>rt_chunk_overlap := 100, rt_debug := True\<rparr>"
  have n: "num_literal ''100''" "parse_int ''100'' = Some 100" unfolding num_literal_def by code_simp+
  have ok: "tuning_ok ?t" using tuning_ok_default by (simp add: tuning_ok_def DefaultRuntimeTuning_def)
  have dec: "decode_raw_map (marshal_raw_map ?old) = Inr (Some ?old)"
    "decode_raw_map (marshal_raw_map ?new) = Inr (Some ?new)"
    using n by (simp_all add: decode_marshal raw_ok_def valid_utf8_ascii)
  have b: "bytesTrimForJSON (marshal_raw_map ?old) = marshal_raw_map ?old"
    unfolding bytesTrimForJSON_def
    by (subst (1 2) trim_space_ends [of _ "CHR ''{''" "tl (marshal_raw_map ?old)"])
      (simp_all add: marshal_raw_map_def space_rune_def)
  have p: "PatchJSONToMap (marshal_raw_map ?new) = Inr (Some ?new)"
    using dec(2) by (simp add: PatchJSONToMap_def marshal_raw_map_def)
  have m: "MergeTuningOverrideJSON (marshal_raw_map ?old) (Some ?new)
      = Inr (marshal_raw_map [(''retrieve_debug'', XBool True), (''chunk_overlap'', XNum ''100'')])"
    by (simp add: MergeTuningOverrideJSON_def b dec(1) raw_entries_def PatchableTuningKeys_def)
  have "?t = ApplyPartial DefaultRuntimeTuning (overlay (map_of ?old ++ map_of ?new) no_partial)"
    using n(2) by (simp add: ApplyPartial_def overlay_def field_def no_partial_def or_else_def dec_int_def
        dec_bool_def DefaultRuntimeTuning_def)
  then show ?thesis
    using patch_then_read [OF p _ m, of "Some ?old" example_io DefaultRuntimeTuning ?t] ok b dec(1) n(2)
    by (simp add: raw_entries_def key_ok_def PatchableTuningKeys_def dec_int_def dec_bool_def)
qed

end
