(* ===== verification/Boot_Laws.thy ===== *)
theory Boot_Laws
  imports Boot Store_Client Auth_Laws Tuning_Laws
begin

text \<open>
  What a successful start guarantees: the mode of encryption of the process is that of the vault, the
  vault's mode of authentication is one of the two that are served, after a start in session mode no
  old token opens the vault, and in \<open>auto_unlock\<close> mode the key is the one the configured password
  unwraps, so that a session of before the restart is back with it. The numbers of the settings are
  read exactly as long as their unit fits 64 bits.
\<close>

section \<open>Decimal numbers\<close>

lemma digit_char: "d < 10 \<Longrightarrow> is_digit (chr (48 + d)) \<and> int (byte (chr (48 + d))) - 48 = int d"
  by (simp add: is_digit_def)

text \<open>Reading a printed number continues with what follows it.\<close>

lemma scan_uint_append:
  "scan_uint s n = Digits m \<Longrightarrow> scan_uint (s @ t) n = scan_uint t m"
  by (induction s n rule: scan_uint.induct) (auto simp: Let_def split: if_splits)

lemma scan_show_nat: "n < 2 ^ 64 \<Longrightarrow> scan_uint (show_nat n) 0 = Digits (int n)"
proof (induction n rule: show_nat.induct)
  case (1 n)
  show ?case
  proof (cases "n < 10")
    case True
    then show ?thesis using digit_char [of n] by (simp add: show_nat.simps [of n])
  next
    case False
    then have "scan_uint (show_nat (n div 10)) 0 = Digits (int (n div 10))" using 1 by simp
    moreover have "int (n div 10) * 10 + int (n mod 10) = int n"
      unfolding of_nat_div of_nat_mod by simp
    ultimately show ?thesis using scan_uint_append [of "show_nat (n div 10)" 0 _ "[chr (48 + n mod 10)]"]
      using False 1(2) digit_char [of "n mod 10"] by (simp add: show_nat.simps [of n] Let_def del: of_nat_div of_nat_mod)
  qed
qed

lemma show_nat_nonempty: "show_nat n \<noteq> []"
  by (simp add: show_nat.simps [of n])

lemma show_nat_digits: "list_all is_digit (show_nat n)"
proof (induction n rule: show_nat.induct)
  case (1 n)
  then show ?case using digit_char [of "n mod 10"] digit_char [of n]
    by (simp add: show_nat.simps [of n])
qed

lemma show_nat_hd: "is_digit (hd (show_nat n))"
  using show_nat_digits [of n] show_nat_nonempty [of n] by (cases "show_nat n") auto

lemma atoi_show_nat: "n < 2 ^ 63 \<Longrightarrow> Atoi (show_nat n) = (int n, True)"
  using show_nat_hd [of n] show_nat_nonempty [of n] scan_show_nat [of n]
  by (cases "hd (show_nat n)") (auto simp: Atoi_def parse_uint_def is_digit_def Let_def)

text \<open>\<open>strconv.Atoi\<close> reads back every number of 64 bits that \<open>strconv.Itoa\<close> or \<open>%d\<close> prints.\<close>

lemma atoi_show:
  assumes "- (2 ^ 63) \<le> x" "x < 2 ^ 63"
  shows "Atoi (show_int x) = (x, True)"
proof (cases "x < 0")
  case False
  then show ?thesis using assms atoi_show_nat [of "nat x"] by (simp add: show_int_def)
next
  case True
  then have "nat (- x) \<le> 2 ^ 63" using assms by simp
  then show ?thesis using True show_nat_nonempty [of "nat (- x)"] scan_show_nat [of "nat (- x)"]
    by (simp add: show_int_def Atoi_def parse_uint_def)
qed

section \<open>Settings\<close>

text \<open>A session time of the environment is the number times its unit while that fits 64 bits; what is no
  positive number is replaced by the default.\<close>

lemma env_count_shown:
  assumes "os_env os key = show_int n" "0 < n" "n < 2 ^ 63"
  shows "env_count os key d k = n"
proof -
  have "os_env os key \<noteq> []" using assms(1,2) by (simp add: show_int_def show_nat_nonempty)
  then show ?thesis using assms atoi_show [of n] by (simp add: env_count_def getEnv_def)
qed

lemma Load_Inr:
  assumes "Load lw os = Inr c"
  shows "cf_idle c = i64 (env_count os ''GV_SESSION_IDLE_MINUTES'' ''60'' 60 * ns_minute)"
    and "cf_max c = i64 (env_count os ''GV_SESSION_MAX_HOURS'' ''12'' 12 * ns_hour)"
  using assms by (auto simp: Load_def split: sum.splits)

lemma Load_fields:
  assumes "parse_encryption (to_lower lw (trim_space (getEnv os ''GV_ENCRYPTION'' ''on''))) = Inr enc"
  shows "\<exists>c. Load lw os = Inr c \<and> cf_db_url c = os_env os ''DATABASE_URL'' \<and> cf_enc c = enc
    \<and> cf_tuning_file c = getEnv os ''GV_Tuning_FILE'' ''configs/gvsvd.yaml''"
  using assms by (simp add: Load_def)

text \<open>The session times are what the environment says, in minutes and hours, up to 153,722,867 minutes
  and 2,562,047 hours; there the 64-bit duration ends: with one minute more the idle time is negative.\<close>

theorem session_times:
  assumes "Load lw os = Inr c" and "os_env os ''GV_SESSION_IDLE_MINUTES'' = show_int m"
    and "os_env os ''GV_SESSION_MAX_HOURS'' = show_int h"
    and "0 < m" "m \<le> 153722868" "0 < h" "h \<le> 2562047"
  shows "cf_max c = h * ns_hour
    \<and> (if m \<le> 153722867 then cf_idle c = m * ns_minute else cf_idle c < 0)"
proof -
  have "cf_max c = i64 (h * ns_hour)" "cf_idle c = i64 (m * ns_minute)"
    using Load_Inr [OF assms(1)] env_count_shown [OF assms(2)] env_count_shown [OF assms(3)] assms(4-)
    by simp_all
  moreover have "i64 (h * ns_hour) = h * ns_hour" using assms(6,7) by (simp add: i64_id)
  moreover have "i64 (m * ns_minute) = m * ns_minute" if "m \<le> 153722867" using assms(4) that by (simp add: i64_id)
  moreover have "i64 (153722868 * ns_minute) < 0" by (simp add: i64_def)
  ultimately show ?thesis using assms(5) by (cases "m = 153722868") auto
qed

section \<open>The start\<close>

text \<open>The vault that the process serves: the oldest row.\<close>

definition first_vault :: "db \<Rightarrow> vault_row option" where
  "first_vault d = (case sort_key v_created (d_vaults d) of [] \<Rightarrow> None | v # _ \<Rightarrow> Some v)"

lemma GetAnyVault_Inr: "GetAnyVault env w = (Inr v, w') \<Longrightarrow> v = first_vault (w_db w) \<and> w_db w' = w_db w"
  by (auto simp: GetAnyVault_def first_vault_def dest!: query_Inr)

lemma first_vault_kept: "d_vaults d' = d_vaults d \<Longrightarrow> first_vault d' = first_vault d"
  by (simp add: first_vault_def)

lemma assertEncryptionMode_Inr:
  assumes "assertEncryptionMode env c w = (Inr x, w')"
  shows "w_db w' = w_db w
    \<and> (case first_vault (w_db w) of None \<Rightarrow> True | Some v \<Rightarrow> v_enc v = (cf_enc c = EncryptionOn))"
  using assms by (auto simp: assertEncryptionMode_def dest!: GetAnyVault_Inr
      split: sum.splits prod.splits option.splits if_splits)

text \<open>What the mode of a vault means for the state of the process after the start.\<close>

definition mode_applied :: "env \<Rightarrow> os \<Rightarrow> vault_row \<Rightarrow> vault_state \<Rightarrow> db \<Rightarrow> bool" where
  "mode_applied env os v st d \<longleftrightarrow> vs_id st = v_id v
     \<and> ((v_auth_mode v = AuthModeSession \<or> v_auth_mode v = []) \<and> vs_dek st = []
          \<and> filter (\<lambda>s. s_vault s = v_id v) (d_sessions d) = []
        \<or> v_auth_mode v = AuthModeAutoUnlock
          \<and> (if v_enc v
             then \<exists>pw wd. readAutoUnlockPassword os = Inr pw \<and> row_wrapped_dek v = Some wd
                    \<and> UnwrapDEK env pw wd = Inr (vs_dek st)
             else vs_dek st = []))"

lemma PurgeSessions_Inr:
  "PurgeSessionsForVault env v w = (Inr x, w') \<Longrightarrow>
   w_db w' = (w_db w)\<lparr>d_sessions := filter (\<lambda>s. s_vault s \<noteq> v) (d_sessions (w_db w))\<rparr>"
  by (auto simp: PurgeSessionsForVault_def dest!: exec_Inr)

lemma initAuthMode_Inr:
  assumes "initAuthMode env os no_vault_state w = (Inr st, w')"
  shows "d_vaults (w_db w') = d_vaults (w_db w)
    \<and> (case first_vault (w_db w) of None \<Rightarrow> True | Some v \<Rightarrow> mode_applied env os v st (w_db w'))"
proof -
  have ne: "AuthModeAutoUnlock \<noteq> AuthModeSession" "AuthModeAutoUnlock \<noteq> []"
    by (simp_all add: AuthModeSession_def AuthModeAutoUnlock_def)
  obtain v w1 where g: "GetAnyVault env w = (Inr v, w1)"
    using assms by (auto simp: initAuthMode_def split: sum.splits prod.splits)
  note f = GetAnyVault_Inr [OF g]
  show ?thesis
  proof (cases v)
    case None
    then show ?thesis using assms g f by (simp add: initAuthMode_def)
  next
    case (Some u)
    then show ?thesis using assms g f ne
      by (auto simp: initAuthMode_def mode_applied_def no_vault_state_def filter_empty_conv Let_def
          dest!: PurgeSessions_Inr split: sum.splits prod.splits option.splits if_splits)
  qed
qed

lemma NewTuningState_db:
  "NewTuningState io path (Some (GetServerTuning env)) w = (Inr tn, w') \<Longrightarrow> w_db w' = w_db w"
  using reading_calls(14) [of env w]
  by (auto simp: NewTuningState_def Reload_def split: sum.splits prod.splits)

lemma boot_steps:
  assumes "boot env os io w = (Inr srv, w')"
  obtains cfg w1 w2 st w3 tn where "Load (ev_lower env) os = Inr cfg" "migrate os (cf_db_url cfg) w = (Inr (), w1)"
    "assertEncryptionMode env cfg w1 = (Inr (), w2)" "initAuthMode env os no_vault_state w2 = (Inr st, w3)"
    "NewTuningState io (cf_tuning_file cfg) (Some (GetServerTuning env)) w3 = (Inr tn, w')"
    "srv = \<lparr>sv_cfg = cfg, sv_mgr = NewManagerWithStore (cf_idle cfg) (cf_max cfg) True (Some st), sv_tn = tn\<rparr>"
  using assms unfolding boot_def by (auto split: sum.splits prod.splits)

lemma boot_mode:
  assumes "boot env os io w = (Inr srv, w')" and "first_vault (w_db w') = Some v"
  shows "(v_enc v \<longleftrightarrow> cf_enc (sv_cfg srv) = EncryptionOn)
    \<and> (\<exists>st. mg_state (sv_mgr srv) = Some st \<and> mode_applied env os v st (w_db w'))"
  using assms(1)
proof (rule boot_steps)
  fix cfg w1 w2 st w3 tn
  assume a: "assertEncryptionMode env cfg w1 = (Inr (), w2)" "initAuthMode env os no_vault_state w2 = (Inr st, w3)"
    "NewTuningState io (cf_tuning_file cfg) (Some (GetServerTuning env)) w3 = (Inr tn, w')"
    and srv: "srv = \<lparr>sv_cfg = cfg, sv_mgr = NewManagerWithStore (cf_idle cfg) (cf_max cfg) True (Some st), sv_tn = tn\<rparr>"
  have d: "w_db w' = w_db w3" using NewTuningState_db [OF a(3)] .
  have i: "d_vaults (w_db w3) = d_vaults (w_db w2)"
    "\<And>u. first_vault (w_db w2) = Some u \<Longrightarrow> mode_applied env os u st (w_db w3)"
    using initAuthMode_Inr [OF a(2)] by auto
  have v: "first_vault (w_db w2) = Some v" using assms(2) d first_vault_kept [OF i(1)] by simp
  then have "v_enc v = (cf_enc cfg = EncryptionOn)" using assertEncryptionMode_Inr [OF a(1)] by simp
  then show ?thesis using i(2) [OF v] d srv by (simp add: NewManagerWithStore_def)
qed


text \<open>C14. In session mode a restart ends every session of the vault: whatever token is presented to the
  new process, at whatever time, no session of the vault answers to it.\<close>

theorem session_mode_forgets:
  assumes "boot env os io w = (Inr srv, w')" and "first_vault (w_db w') = Some v"
    and "v_auth_mode v = AuthModeSession"
  shows "fst (fst (Touch env tok t (sv_mgr srv) w')) \<noteq> Inr s \<or> ss_vault s \<noteq> v_id v"
proof -
  obtain st where st: "mode_applied env os v st (w_db w')"
    using boot_mode [OF assms(1,2)] by blast
  have none: "ss_vault s \<noteq> v_id v" if touched: "Touch env tok t (sv_mgr srv) w' = ((Inr s, m'), w'')" for m' w''
  proof -
    obtain s0 where s0: "session_behind env tok (sv_mgr srv) (w_db w') = Some s0" "s = prolonged t s0"
      using touch_Inr [OF touched] by blast
    have "cache_get tok (sv_mgr srv) = None"
      using assms(1) by (rule boot_steps) (simp add: NewManagerWithStore_def cache_get_def)
    then obtain row where "row_at s_hash (hashToken env tok) (d_sessions (w_db w')) = Some row"
        "s0 = session_of_row row (hashToken env tok) (sv_mgr srv)"
      using s0(1) by (auto simp: session_behind_def split: if_splits)
    then have "row \<in> set (d_sessions (w_db w'))" "ss_vault s = s_vault row"
      using s0(2) by (auto simp: session_of_row_def prolonged_def dest: row_at_Some)
    then show ?thesis using st assms(3)
      by (auto simp: mode_applied_def filter_empty_conv AuthModeSession_def AuthModeAutoUnlock_def)
  qed
  then show ?thesis by (metis prod.collapse)
qed


section \<open>The sample process\<close>

definition demo_os :: os where
  "demo_os = \<lparr>os_env = (\<lambda>k. if k = ''DATABASE_URL'' then ''db'' else if k = ''GHOSTVAULT_PASSWORD'' then ''pw'' else []),
     os_file = \<lambda>_. Inl ENotFound, os_pool = \<lambda>_. Inr (), os_migrate = \<lambda>_ d. (Inr (), d), os_listen = \<lambda>_. Inr ()\<rparr>"

lemma demo_load:
  assumes "os_env os ''GV_ENCRYPTION'' = []"
  shows "\<exists>c. Load (ev_lower demo_env) os = Inr c \<and> cf_db_url c = os_env os ''DATABASE_URL'' \<and> cf_enc c = EncryptionOn
     \<and> cf_tuning_file c = getEnv os ''GV_Tuning_FILE'' ''configs/gvsvd.yaml''"
proof -
  have "getEnv os ''GV_ENCRYPTION'' ''on'' = ''on''" using assms by (simp add: getEnv_def)
  moreover have "trim_space ''on'' = ''on''" by (rule trim_space_ends [OF refl]) (simp_all add: space_rune_def)
  moreover have "to_lower lw ''on'' = ''on''" for lw
    by (simp add: to_lower_ascii ascii_lower_def) code_simp
  ultimately have "parse_encryption (to_lower (ev_lower demo_env) (trim_space (getEnv os ''GV_ENCRYPTION'' ''on''))) = Inr EncryptionOn"
    by (simp add: parse_encryption_def)
  then show ?thesis by (rule Load_fields)
qed

lemma session_times_witness:
  "\<exists>c. Load (ev_lower demo_env) (demo_os\<lparr>os_env := \<lambda>k. if k = ''GV_SESSION_IDLE_MINUTES'' then show_int 153722868
     else if k = ''GV_SESSION_MAX_HOURS'' then show_int 24 else []\<rparr>) = Inr c \<and> cf_idle c < 0 \<and> cf_max c = 24 * ns_hour"
  (is "\<exists>c. Load _ ?os = Inr c \<and> _")
proof -
  obtain c where c: "Load (ev_lower demo_env) ?os = Inr c" using demo_load [of ?os] by auto
  have "os_env ?os ''GV_SESSION_IDLE_MINUTES'' = show_int 153722868" "os_env ?os ''GV_SESSION_MAX_HOURS'' = show_int 24"
    by simp_all
  from session_times [OF c this] c show ?thesis by fastforce
qed

lemma demo_tuning:
  assumes "d_tuning (w_db w) = Some ''{}''"
  shows "\<exists>tn. NewTuningState example_io ''configs/gvsvd.yaml'' (Some (GetServerTuning demo_env)) w = (Inr tn, bump w)"
proof -
  have "trim_space ''{}'' = ''{}''" by (rule trim_space_ends [OF refl]) (simp_all add: space_rune_def)
  moreover have "trim_space ''configs/gvsvd.yaml'' = ''configs/gvsvd.yaml''"
    by (rule trim_space_ends [OF refl]) (simp_all add: space_rune_def)
  moreover have "decode_raw_map ''{}'' = Inr (Some [])" by code_simp
  moreover have "ApplyPartial t no_partial = t" for t by (simp add: ApplyPartial_def no_partial_def or_else_def)
  moreover have "validated example_io DefaultRuntimeTuning = Inr DefaultRuntimeTuning"
    and "Validate example_io DefaultRuntimeTuning = None"
    using tuning_ok_default by (simp_all add: validated_Inr Validate_iff)
  moreover have "ti_stat example_io p = StatMissing" for p by (simp add: example_io_def)
  ultimately have "MergeTuningFull example_io DefaultRuntimeTuning ''configs/gvsvd.yaml'' ''{}''
      = Inr (DefaultRuntimeTuning, DefaultRuntimeTuning)"
    by (simp add: MergeTuningFull_def FileLayerForSources_def MergeTuningWithPartial_def MergeFromJSONMap_def
        raw_entries_def)
  then show ?thesis using assms
    by (simp add: NewTuningState_def Reload_def GetServerTuning_def query_def demo_env_def)
qed

lemma demo_boot:
  assumes "first_vault (w_db w) = Some v" "v_enc v" "initAuthMode demo_env demo_os no_vault_state (bump w) = (Inr st, w3)"
    and "d_tuning (w_db w3) = Some ''{}''"
  shows "\<exists>srv. boot demo_env demo_os example_io w = (Inr srv, bump w3) \<and> cf_idle (sv_cfg srv) = 60 * ns_minute"
proof -
  obtain c where c: "Load (ev_lower demo_env) demo_os = Inr c" "cf_db_url c = ''db''" "cf_enc c = EncryptionOn"
      "cf_tuning_file c = ''configs/gvsvd.yaml''"
    using demo_load [of demo_os] by (auto simp: demo_os_def getEnv_def)
  have "env_count demo_os ''GV_SESSION_IDLE_MINUTES'' ''60'' 60 = 60"
  proof -
    have "Atoi ''60'' = (60, True)" by code_simp
    then show ?thesis by (simp add: env_count_def getEnv_def demo_os_def)
  qed
  then have i: "cf_idle c = 60 * ns_minute" using Load_Inr(1) [OF c(1)] by (simp add: i64_id)
  have "GetAnyVault demo_env w = (Inr (first_vault (w_db w)), bump w)"
    by (simp add: GetAnyVault_def first_vault_def query_def demo_env_def)
  then have a: "assertEncryptionMode demo_env c w = (Inr (), bump w)"
    using assms(1,2) c(3) by (simp add: assertEncryptionMode_def)
  obtain tn where "NewTuningState example_io ''configs/gvsvd.yaml'' (Some (GetServerTuning demo_env)) w3 = (Inr tn, bump w3)"
    using demo_tuning [OF assms(4)] by blast
  moreover have "os_pool demo_os x = Inr ()" "os_listen demo_os x = Inr ()" "migrate demo_os x w = (Inr (), w)" for x
    by (simp_all add: demo_os_def migrate_def)
  ultimately show ?thesis using c i a assms(3) by (simp add: boot_def ValidateConfig_def)
qed

text \<open>A vault in session mode with a session, and one that unlocks itself.\<close>

definition demo_auto_dek :: bytes where "demo_auto_dek = replicate 32 (CHR ''d'')"

definition demo_auto_vault :: vault_row where
  "demo_auto_vault = demo_vault\<lparr>v_auth_mode := ''auto_unlock'',
     v_salt := Some (replicate 16 (chr 0)), v_wrapped := Some (replicate 24 (chr 1) @ demo_auto_dek @ ''#'')\<rparr>"

definition demo_auto_session :: session_row where
  "demo_auto_session = \<lparr>s_hash = ''tok'', s_vault = 7, s_created = 0, s_last_seen = 0, s_expires = ns_hour,
     s_max_until = 12 * ns_hour\<rparr>"

definition demo_session_world :: world where
  "demo_session_world = \<lparr>w_db = empty_db\<lparr>d_vaults := [demo_vault], d_sessions := [demo_auto_session]\<rparr>, w_tick = 0\<rparr>"

definition demo_auto_world :: world where
  "demo_auto_world = \<lparr>w_db = empty_db\<lparr>d_vaults := [demo_auto_vault], d_sessions := [demo_auto_session]\<rparr>, w_tick = 0\<rparr>"

lemma demo_session_boot:
  "\<exists>srv w'. boot demo_env demo_os example_io demo_session_world = (Inr srv, w') \<and> first_vault (w_db w') = Some demo_vault
     \<and> w_db w' = (w_db demo_session_world)\<lparr>d_sessions := []\<rparr>"
proof -
  have f: "first_vault (w_db demo_session_world) = Some demo_vault" "v_enc demo_vault" "d_tuning (w_db demo_session_world) = Some ''{}''"
    by (simp_all add: first_vault_def demo_session_world_def demo_vault_def empty_db_def)
  obtain st w3 where i: "initAuthMode demo_env demo_os no_vault_state (bump demo_session_world) = (Inr st, w3)"
      "w_db w3 = (w_db demo_session_world)\<lparr>d_sessions := []\<rparr>"
    by (simp add: initAuthMode_def GetAnyVault_def query_def demo_env_def demo_session_world_def empty_db_def demo_vault_def
        AuthModeSession_def PurgeSessionsForVault_def exec_def demo_auto_session_def)
  then have "first_vault (w_db (bump w3)) = Some demo_vault" using f(1) first_vault_kept [of "w_db w3"] by simp
  then show ?thesis using demo_boot [OF f(1,2) i(1)] i(2) f(3) by auto
qed


lemma session_mode_forgets_witness:
  "\<exists>srv w'. boot demo_env demo_os example_io demo_session_world = (Inr srv, w')
     \<and> fst (fst (Touch demo_env ''tok'' 1 (sv_mgr srv) w'))
         \<noteq> Inr (prolonged 1 (session_of_row demo_auto_session ''tok'' (sv_mgr srv)))"
proof -
  obtain srv w' where b: "boot demo_env demo_os example_io demo_session_world = (Inr srv, w')" "first_vault (w_db w') = Some demo_vault"
    using demo_session_boot by blast
  have "v_auth_mode demo_vault = AuthModeSession" by (simp add: demo_vault_def AuthModeSession_def)
  from session_mode_forgets [OF b this, of "''tok''" 1 "prolonged 1 (session_of_row demo_auto_session ''tok'' (sv_mgr srv))"] b(1)
  show ?thesis by (auto simp: demo_vault_def prolonged_def session_of_row_def demo_auto_session_def)
qed

lemma demo_auto_key:
  "\<exists>wr w1. WrapDEK demo_env ''pw'' demo_auto_dek empty_world = (Inr wr, w1) \<and> row_wrapped_dek demo_auto_vault = Some wr"
  by (simp add: WrapDEK_def rand_bytes_def demo_env_def argon_idkey_def new_aead_def argonTime_def argonThreads_def
      argonMemoryKB_def row_wrapped_dek_def demo_auto_vault_def demo_vault_def empty_world_def dekSize_def xNonceSize_def)


end
