(* ===== verification/Store_Laws.thy ===== *)
theory Store_Laws
  imports Store_Client Sample
begin

text \<open>
  The promises of the store: every reachable database satisfies the constraints of the schema, an
  insert of a chunk is atomic and makes it searchable, a deletion is final, and pruning keeps the
  newest messages of one conversation and all of the others.
\<close>

section \<open>Reachable databases\<close>

lemma wf_empty: "wf_db empty_db"
  by (simp add: wf_defs empty_db_def)



section \<open>Inserting a chunk\<close>

definition demo_insert :: chunk_insert where
  "demo_insert = \<lparr>ci_id = 9, ci_vault = 7, ci_user = ''u'', ci_ciphertext = None, ci_nonce = None,
     ci_key_id = None, ci_body = Some ''text'', ci_hash = ''h'', ci_model = ''m'', ci_schema = 1,
     ci_tsv = ''text'', ci_vec = replicate 1536 (Fin 0), ci_session_key = Some ''default'',
     ci_kind = [], ci_meta = None, ci_source = None\<rparr>"

lemma demo_insert_ok: "\<exists>w'. InsertChunk demo_env demo_insert demo_world = (Inr (), w')"
  by (simp add: InsertChunk_def query_def tx_exec_def exec_def demo_env_def demo_world_def demo_vault_def
      empty_db_def insert_chunk_row_def insert_embed_row_def insert_hist_row_def demo_insert_def
      payload_xor_def vector_dim_def Let_def jmap_entries_def)

text \<open>C20. The insert of a chunk is all or nothing. If any of its statements or the commit fails, the
  database is the one before; if it succeeds, the chunk, its embedding and its event are all there,
  nothing else has changed, and the chunk is a candidate of the vector search under its model and of
  the lexical search, for its own vault and user.\<close>

theorem insert_chunk_atomic:
  assumes "InsertChunk env c w = (r, w')"
  shows "case r of
      Inl _ \<Rightarrow> w_db w' = w_db w
    | Inr _ \<Rightarrow> (\<exists>ts n. w_db w' = chunk_inserted ts n c (w_db w))
        \<and> (ci_id c, ci_vec c) \<in> set (dense_rows (ci_vault c) (ci_user c) (ci_model c) [] False (w_db w'))
        \<and> (ci_id c, ci_tsv c) \<in> set (lex_rows (ci_vault c) (ci_user c) [] False (w_db w'))"
proof (cases r)
  case (Inl e)
  then show ?thesis using InsertChunk_Inl [of env c w e w'] assms by simp
next
  case (Inr x)
  then obtain ts n where d: "w_db w' = chunk_inserted ts n c (w_db w)"
      and f: "row_at c_id (ci_id c) (d_chunks (w_db w)) = None"
    using InsertChunk_Inr [of env c w x w'] assms by auto
  show ?thesis using chunk_inserted_searchable [OF f, of False "[]" ts n] d Inr by auto
qed

lemma insert_chunk_atomic_witness:
  "\<exists>w'. InsertChunk demo_env demo_insert demo_world = (Inr (), w')
     \<and> (9, ''text'') \<in> set (lex_rows 7 ''u'' [] False (w_db w'))"
proof -
  obtain w' where i: "InsertChunk demo_env demo_insert demo_world = (Inr (), w')"
    using demo_insert_ok by blast
  from insert_chunk_atomic [OF i] i show ?thesis by (auto simp: demo_insert_def)
qed

section \<open>Deleting a chunk\<close>

text \<open>C21. A deletion is final. Once \<open>SoftDeleteChunk\<close> has succeeded, no sequence of calls brings the
  chunk back: neither search of any vault, user or session offers it, and both ways to read it by id
  fail.\<close>

theorem delete_is_final:
  assumes "wf_db (w_db w)" "SoftDeleteChunk env v i w = (Inr (), w1)" "store_run env w1 w2"
  shows "i \<notin> fst ` set (dense_rows v' u m k only (w_db w2))
    \<and> i \<notin> fst ` set (lex_rows v' u k only (w_db w2))
    \<and> (\<exists>e. fst (GetChunkPayload env i w2) = Inl e)
    \<and> (\<exists>e. fst (GetChunkForVault env v' i w2) = Inl e)"
proof -
  have "store_run env w (snd (SoftDeleteChunk env v i w))" by (rule run)
  then have "store_run env w w2" using run_trans [OF assms(3)] assms(2) by simp
  then have "wf_db (w_db w2)" using wf_store_run assms(1) by blast
  moreover have "tombstone i (w_db w2)"
    using tombstone_run [OF assms(3)] SoftDeleteChunk_tombstone [OF assms(2)] by blast
  ultimately have g: "chunk_gone i (w_db w2)" using tombstone_gone by (simp add: wf_db_def)
  show ?thesis using chunk_gone_searches [OF g] chunk_gone_payload [OF g] by force
qed

lemma delete_is_final_witness:
  "let w0 = snd (InsertChunk demo_env demo_insert demo_world); w1 = snd (SoftDeleteChunk demo_env 7 9 w0);
       w2 = snd (InsertChunk demo_env demo_insert w1)
   in 9 \<notin> fst ` set (lex_rows 7 ''u'' [] False (w_db w2))"
proof -
  let ?w0 = "snd (InsertChunk demo_env demo_insert demo_world)"
  obtain w0 where i: "InsertChunk demo_env demo_insert demo_world = (Inr (), w0)"
    using demo_insert_ok by blast
  obtain ts n where d: "w_db w0 = chunk_inserted ts n demo_insert (w_db demo_world)"
    using InsertChunk_Inr [OF i] by blast
  have "wf_db (w_db demo_world)"
    by (simp add: wf_defs demo_world_def empty_db_def demo_vault_def auth_mode_check_def)
  then have "wf_db (w_db w0)" using wf_InsertChunk [of demo_world demo_env demo_insert] i by simp
  moreover have "\<exists>w1. SoftDeleteChunk demo_env 7 9 w0 = (Inr (), w1)"
    by (simp add: SoftDeleteChunk_def exec_def demo_env_def d chunk_inserted_def new_chunk_row_def
        demo_insert_def)
  ultimately show ?thesis
    using delete_is_final [of w0 demo_env 7 9, OF _ _ run_writes(7) [where c = demo_insert]] i by (fastforce simp: Let_def)
qed

section \<open>Pruning\<close>

text \<open>Pruning a conversation to \<open>keep\<close> messages leaves the newest \<open>keep\<close> of them, in the order
  in which they are read back, and does not touch any other conversation.\<close>

theorem prune_keeps_newest:
  assumes "PruneSessionMessages env v u k keep w = (Inr (), w')"
  shows "newest_first (filter (in_conversation v u k) (d_msgs (w_db w')))
       = take (nat keep) (newest_first (filter (in_conversation v u k) (d_msgs (w_db w))))
    \<and> filter (\<lambda>m. \<not> in_conversation v u k m) (d_msgs (w_db w'))
       = filter (\<lambda>m. \<not> in_conversation v u k m) (d_msgs (w_db w))"
proof -
  have "w_db w' = (w_db w)\<lparr>d_msgs := prune_rows v u k (nat keep) (d_msgs (w_db w))\<rparr>"
    using exec_Inr [OF assms [unfolded PruneSessionMessages_def]] by (auto split: if_splits)
  then show ?thesis by (simp add: prune_rows_conversation prune_rows_others)
qed

lemma prune_keeps_newest_witness:
  "let m = \<lambda>i t. \<lparr>m_id = i, m_vault = 7, m_user = ''u'', m_key = ''k'', m_role = ''user'', m_content = [], m_created = t\<rparr>;
       w = demo_world\<lparr>w_db := (w_db demo_world)\<lparr>d_msgs := [m 0 5, m 1 9, m 2 7]\<rparr>\<rparr>
   in newest_first (filter (in_conversation 7 ''u'' ''k'')
        (d_msgs (w_db (snd (PruneSessionMessages demo_env 7 ''u'' ''k'' 2 w))))) = [m 1 9, m 2 7]"
proof -
  let ?m = "\<lambda>i t. \<lparr>m_id = i, m_vault = 7, m_user = ''u'', m_key = ''k'', m_role = ''user'', m_content = [], m_created = t\<rparr>"
  let ?w = "demo_world\<lparr>w_db := (w_db demo_world)\<lparr>d_msgs := [?m 0 5, ?m 1 9, ?m 2 7]\<rparr>\<rparr>"
  obtain w' where w': "PruneSessionMessages demo_env 7 ''u'' ''k'' 2 ?w = (Inr (), w')"
    by (simp add: PruneSessionMessages_def exec_def demo_env_def)
  have "newest_first (filter (in_conversation 7 ''u'' ''k'') [?m 0 5, ?m 1 9, ?m 2 7]) = [?m 1 9, ?m 2 7, ?m 0 5]"
    by (simp add: in_conversation_def newest_first_def)
  then show ?thesis using prune_keeps_newest [OF w'] w' by (simp add: Let_def)
qed

end
