(* ===== verification/Ingest_Laws.thy ===== *)
theory Ingest_Laws
  imports Ingest Store_Laws Chunk_Codec Auth_Laws
begin

text \<open>
  What an ingest does to the database, on every path and whether or not it fails on the way: the
  rows that were there stay, the new ones belong to the caller, carry their text sealed when
  encryption is on, and are exactly those whose ids are returned.
\<close>

section \<open>Cutting a text\<close>

lemma chunk_windows_join:
  assumes "0 < stp" "stp \<le> sz" "i < length rs"
  shows "\<exists>w ws. chunk_windows sz stp i rs = w # ws \<and> w @ concat (map (drop (sz - stp)) ws) = drop i rs
    \<and> length w = min sz (length rs - i)"
  using assms
proof (induction sz stp i rs rule: chunk_windows.induct)
  case (1 sz stp i rs)
  let ?stop = "min (i + sz) (length rs)"
  have w: "chunk_windows sz stp i rs = take (?stop - i) (drop i rs)
      # (if ?stop = length rs then [] else chunk_windows sz stp (i + stp) rs)"
    using 1(2-4) by (simp add: chunk_windows.simps [of sz stp i rs] Let_def)
  show ?case
  proof (cases "?stop = length rs")
    case True
    then show ?thesis using 1(4) w by (auto simp: min_def split: if_splits)
  next
    case False
    then have lt: "i + sz < length rs" by (auto simp: min_def split: if_splits)
    then obtain v vs where v: "chunk_windows sz stp (i + stp) rs = v # vs"
        "v @ concat (map (drop (sz - stp)) vs) = drop (i + stp) rs"
        "length v = min sz (length rs - (i + stp))"
      using 1 False by (auto simp: Let_def)
    have "sz - stp \<le> length v" using v(3) lt 1(3) by simp
    then have "drop (sz - stp) v @ concat (map (drop (sz - stp)) vs) = drop (sz - stp) (drop (i + stp) rs)"
      by (simp flip: v(2))
    also have "\<dots> = drop (i + sz) rs" using 1(3) by (simp add: add.commute)
    finally have "take sz (drop i rs) @ drop (sz - stp) v @ concat (map (drop (sz - stp)) vs) = drop i rs"
      by (metis add.commute append_take_drop_id drop_drop)
    then show ?thesis using w v(1) False lt by (simp add: min_def)
  qed
qed

lemma chunk_windows_length:
  "w \<in> set (chunk_windows sz stp i rs) \<Longrightarrow> length w \<le> sz"
proof (induction sz stp i rs rule: chunk_windows.induct)
  case (1 sz stp i rs)
  then show ?case
    by (subst (asm) chunk_windows.simps) (auto simp: Let_def split: if_splits)
qed

lemma chunk_windows_scalar:
  "list_all scalar rs \<Longrightarrow> w \<in> set (chunk_windows sz stp i rs) \<Longrightarrow> list_all scalar w"
proof (induction sz stp i rs rule: chunk_windows.induct)
  case (1 sz stp i rs)
  then show ?case
    by (subst (asm) (2) chunk_windows.simps)
      (auto simp: Let_def list_all_iff split: if_splits dest!: in_set_takeD in_set_dropD)
qed

text \<open>C40. The pieces of a text cover it: each has at most \<open>sz\<close> runes, and dropping from every piece
  but the first the runes that overlap its predecessor gives back the runes of the text.\<close>

theorem chunk_text_covers:
  assumes "0 \<le> ov" "ov < sz" "s \<noteq> []"
  shows "\<exists>p ps. chunkText s sz ov = p # ps \<and> runes p @ concat (map (\<lambda>q. drop (nat ov) (runes q)) ps) = runes s
    \<and> (\<forall>q \<in> set (chunkText s sz ov). int (rune_count q) \<le> sz)"
proof (cases "int (length (runes s)) \<le> sz")
  case True
  then show ?thesis using assms by (simp add: chunkText_def rune_count_def)
next
  case False
  let ?ws = "chunk_windows (nat sz) (nat (sz - ov)) 0 (runes s)"
  have e: "chunkText s sz ov = map of_runes ?ws" using False assms by (simp add: chunkText_def)
  have ov: "nat sz - nat (sz - ov) = nat ov" using assms by simp
  obtain w ws where w: "?ws = w # ws" "w @ concat (map (drop (nat ov)) ws) = runes s"
    using chunk_windows_join [of "nat (sz - ov)" "nat sz" 0 "runes s"] assms ov runes_nonempty [OF assms(3)]
    by (auto simp: nat_mono)
  have sc: "runes (of_runes v) = v" if "v \<in> set ?ws" for v
    using chunk_windows_scalar [OF runes_scalar that] by (rule runes_of_runes)
  have m: "map (\<lambda>q. drop (nat ov) (runes q)) (map of_runes ws) = map (drop (nat ov)) ws"
    using sc w(1) by simp
  have "runes (of_runes w) @ concat (map (\<lambda>q. drop (nat ov) (runes q)) (map of_runes ws)) = runes s"
    unfolding m using sc [of w] w by simp
  moreover have "\<forall>q \<in> set (chunkText s sz ov). int (rune_count q) \<le> sz"
    using sc chunk_windows_length [of _ "nat sz" "nat (sz - ov)" 0 "runes s"] assms
    by (fastforce simp: e rune_count_def)
  ultimately show ?thesis using e w(1) by auto
qed

lemma chunk_text_covers_witness:
  "\<exists>p ps. chunkText ''abcdef'' 4 1 = p # ps
     \<and> runes p @ concat (map (\<lambda>q. drop 1 (runes q)) ps) = runes ''abcdef''"
  using chunk_text_covers [of 1 4 "''abcdef''"] by auto

section \<open>Dedup keys\<close>

text \<open>The key of a memory joins its parts with newlines, which the parts may hold themselves:
  two different memories get one key, and the second is taken for a duplicate.\<close>

theorem dedup_key_ambiguous:
  "contentDedupKey env ''fact'' (''a'' @ newline @ ''b'') ''c'' None
   = contentDedupKey env ''fact'' ''a'' (''b'' @ newline @ ''c'') None"
proof -
  have l: "to_lower (ev_lower env) s = map (\<lambda>c. chr (ascii_lower (byte c))) s" if "ascii s" for s
    using that by (rule to_lower_ascii)
  have "trim_space (''a'' @ newline @ ''b'') = ''a'' @ newline @ ''b''"
    using trim_space_ends [of "''a'' @ newline @ ''b''" "CHR ''a''"] by (simp add: space_rune_def)
  moreover have "trim_space (''b'' @ newline @ ''c'') = ''b'' @ newline @ ''c''"
    using trim_space_ends [of "''b'' @ newline @ ''c''" "CHR ''b''"] by (simp add: space_rune_def)
  moreover have "trim_space ''a'' = ''a''" "trim_space ''c'' = ''c''"
    using trim_space_ends [of "''a''" "CHR ''a''"] trim_space_ends [of "''c''" "CHR ''c''"]
    by (simp_all add: space_rune_def)
  ultimately show ?thesis by (simp add: contentDedupKey_def dedup_text_def l ascii_lower_def)
qed

text \<open>The metadata is no part of the key, and neither is the case of the letters.\<close>

section \<open>Rows\<close>

text \<open>A row that this ingest wrote.\<close>

definition own_row :: "engine \<Rightarrow> ingest_input \<Rightarrow> chunk_row \<Rightarrow> bool" where
  "own_row e inp c \<longleftrightarrow> c_vault c = in_vault inp \<and> c_user c = in_user inp \<and> c_deleted c = None
     \<and> c_session_key c = Some (session_key_of inp)
     \<and> (if en_enc e then c_body c = None \<and> c_ciphertext c \<noteq> None \<and> c_key_id c = Some ''v1''
        else c_body c \<noteq> None \<and> c_ciphertext c = None)"

definition added :: "engine \<Rightarrow> ingest_input \<Rightarrow> uuid list \<Rightarrow> db \<Rightarrow> db \<Rightarrow> bool" where
  "added e inp ids d d' \<longleftrightarrow>
     (\<exists>new. d_chunks d' = d_chunks d @ new \<and> map c_id new = ids \<and> (\<forall>c \<in> set new. own_row e inp c))"

lemma added_none: "d_chunks d' = d_chunks d \<Longrightarrow> added e inp [] d d'"
  by (simp add: added_def)

lemma added_trans: "added e inp ids d d' \<Longrightarrow> added e inp ids' d' d'' \<Longrightarrow> added e inp (ids @ ids') d d''"
  unfolding added_def by (elim exE conjE) (intro exI [of _ "_ @ _"], auto)

lemma seal_payload_Inr:
  assumes "seal_payload env e s plain w = (Inr p, w')"
  shows "w_db w' = w_db w \<and> (if en_enc e
    then (\<exists>n ct. SealChunk env (dek_of s) plain w = (Inr (n, ct), w') \<and>
            p = \<lparr>py_ciphertext = Some ct, py_nonce = Some n, py_key_id = Some ''v1'', py_body = None\<rparr>)
    else p = \<lparr>py_ciphertext = None, py_nonce = None, py_key_id = None, py_body = Some plain\<rparr>)"
  using assms crypto_db(3) [of env "dek_of s" plain w]
  by (auto simp: seal_payload_def split: if_splits prod.splits sum.splits)

lemma seal_payload_db [frame]: "w_db (snd (seal_payload env e s plain w)) = w_db w"
  using crypto_db(3) [of env "dek_of s" plain w]
  by (auto simp: seal_payload_def split: sum.split prod.split)

lemma insert_memory_Inl: "insert_memory env e inp ci plain w = (Inl er, w') \<Longrightarrow> w_db w' = w_db w"
  using seal_payload_db [of env e "in_session inp" plain w]
  by (auto simp: insert_memory_def split: prod.splits sum.splits dest!: InsertChunk_Inl)

lemma insert_memory_Inr:
  assumes "insert_memory env e inp ci plain w = (Inr x, w')"
  shows "\<exists>p ts n w1. seal_payload env e (in_session inp) plain w = (Inr p, w1)
    \<and> w_db w' = chunk_inserted ts n (ci p) (w_db w)"
proof -
  obtain p w1 where p: "seal_payload env e (in_session inp) plain w = (Inr p, w1)"
    and i: "InsertChunk env (ci p) w1 = (Inr x, w')"
    using assms by (auto simp: insert_memory_def split: prod.splits sum.splits)
  have "w_db w1 = w_db w" using seal_payload_Inr [OF p] by simp
  then show ?thesis using p InsertChunk_Inr [OF i] by auto
qed

lemma insert_memory_row:
  "insert_memory env e inp ci plain w = (Inr x, w') \<Longrightarrow>
   \<exists>p ts. d_chunks (w_db w') = d_chunks (w_db w) @ [new_chunk_row ts (ci p)]"
  by (drule insert_memory_Inr) (fastforce simp: chunk_inserted_def)

lemma memory_row_simps [simp]:
  "ci_id (memory_row inp i h m sv tsv v k mt src p) = i"
  "ci_vault (memory_row inp i h m sv tsv v k mt src p) = in_vault inp"
  "ci_user (memory_row inp i h m sv tsv v k mt src p) = in_user inp"
  "ci_ciphertext (memory_row inp i h m sv tsv v k mt src p) = py_ciphertext p"
  "ci_nonce (memory_row inp i h m sv tsv v k mt src p) = py_nonce p"
  "ci_key_id (memory_row inp i h m sv tsv v k mt src p) = py_key_id p"
  "ci_body (memory_row inp i h m sv tsv v k mt src p) = py_body p"
  "ci_hash (memory_row inp i h m sv tsv v k mt src p) = h"
  "ci_model (memory_row inp i h m sv tsv v k mt src p) = m"
  "ci_schema (memory_row inp i h m sv tsv v k mt src p) = sv"
  "ci_tsv (memory_row inp i h m sv tsv v k mt src p) = tsv"
  "ci_vec (memory_row inp i h m sv tsv v k mt src p) = v"
  "ci_session_key (memory_row inp i h m sv tsv v k mt src p) = Some (session_key_of inp)"
  "ci_kind (memory_row inp i h m sv tsv v k mt src p) = k"
  "ci_meta (memory_row inp i h m sv tsv v k mt src p) = mt"
  "ci_source (memory_row inp i h m sv tsv v k mt src p) = src"
  by (simp_all add: memory_row_def)

lemma insert_memory_added:
  assumes "insert_memory env e inp ci plain w = (Inr x, w')"
    and "\<And>p. ci_id (ci p) = i \<and> ci_vault (ci p) = in_vault inp \<and> ci_user (ci p) = in_user inp
      \<and> ci_ciphertext (ci p) = py_ciphertext p \<and> ci_body (ci p) = py_body p \<and> ci_key_id (ci p) = py_key_id p
      \<and> ci_session_key (ci p) = Some (session_key_of inp)"
  shows "added e inp [i] (w_db w) (w_db w')"
proof -
  obtain p ts n w1 where p: "seal_payload env e (in_session inp) plain w = (Inr p, w1)"
    and d: "w_db w' = chunk_inserted ts n (ci p) (w_db w)"
    using insert_memory_Inr [OF assms(1)] by blast
  have "own_row e inp (new_chunk_row ts (ci p))"
    using seal_payload_Inr [OF p] assms(2) [of p] by (auto simp: own_row_def new_chunk_row_def split: if_splits)
  moreover have "c_id (new_chunk_row ts (ci p)) = i" using assms(2) [of p] by (simp add: new_chunk_row_def)
  ultimately show ?thesis unfolding added_def d chunk_inserted_def by simp
qed

section \<open>The calls of an ingest\<close>

lemma run_seal_payload [run]: "store_run env w (snd (seal_payload env e s plain w))"
proof -
  have "store_run env w (snd (SealChunk env dek p w))" for dek p
    unfolding SealChunk_def Let_def by (rule run run_rules)+
  note [run] = this
  show ?thesis unfolding seal_payload_def Let_def by (rule run run_rules)+
qed

lemma run_upsertSourceDocument [run]:
  "store_run env w (snd (upsertSourceDocument env e inp txt title tn w))"
  unfolding upsertSourceDocument_def Let_def by (rule run run_rules)+

lemma run_attachSharedSource [run]: "store_run env w (snd (attachSharedSource env e inp work w))"
  unfolding attachSharedSource_def Let_def by (rule run run_rules)+

lemma run_insert_memory [run]: "store_run env w (snd (insert_memory env e inp ci plain w))"
  unfolding insert_memory_def by (rule run run_rules)+

lemma run_persistStructuredItem [run]:
  "store_run env w (snd (persistStructuredItem env e inp x h tn w))"
  unfolding persistStructuredItem_def Let_def by (rule run run_rules)+

lemma run_persistV1TextChunk [run]: "store_run env w (snd (persistV1TextChunk env e inp f tn w))"
  unfolding persistV1TextChunk_def Let_def by (rule run run_rules)+

lemma run_structured_loop [run]:
  "store_run env w (snd (structured_loop env e inp xs seen ins dbg w))"
proof (induction xs arbitrary: seen ins dbg w)
  case (Cons x xs)
  note [run] = Cons.IH
  show ?case unfolding structured_loop.simps Let_def by (rule run run_rules)+
qed simp

lemma run_text_loop [run]: "store_run env w (snd (text_loop env e inp fs seen ins dbg w))"
proof (induction fs arbitrary: seen ins dbg w)
  case (Cons x xs)
  note [run] = Cons.IH
  show ?case unfolding text_loop.simps Let_def by (rule run run_rules)+
qed simp

lemma run_prune_after [run]: "store_run env w (prune_after env e inp w)"
  unfolding prune_after_def Let_def by (rule run)

lemma run_ingestStructuredWork [run]:
  "store_run env w (snd (ingestStructuredWork env e inp work d w))"
  unfolding ingestStructuredWork_def by (rule run run_after [OF run_prune_after] run_rules)+

lemma run_ingest_infer [run]: "store_run env w (snd (ingest_infer env e inp d w))"
  unfolding ingest_infer_def Let_def by (rule run run_rules)+

lemma run_ingest_text [run]: "store_run env w (snd (ingest_text env e inp d w))"
  unfolding ingest_text_def Let_def by (rule run run_after [OF run_prune_after] run_rules)+

lemma run_IngestWithDebug [run]: "store_run env w (snd (IngestWithDebug env e inp d w))"
  unfolding IngestWithDebug_def Let_def by (rule run run_rules)+

interpretation ingest: store_client env "IngestWithDebug env e inp d" for env e inp d
  by unfold_locales (rule run_IngestWithDebug)

section \<open>What an ingest stores\<close>

lemma persistStructuredItem_Inl:
  "persistStructuredItem env e inp x h tn w = (Inl er, w') \<Longrightarrow> w_db w' = w_db w"
  by (auto simp: persistStructuredItem_def oa_embed_def new_uuid_def Let_def
      split: sum.splits if_splits prod.splits dest!: insert_memory_Inl)

lemma persistStructuredItem_Inr:
  assumes "persistStructuredItem env e inp x h tn w = (Inr (i, sm), w')"
  shows "added e inp [i] (w_db w) (w_db w')"
  using assms
  by (auto simp: persistStructuredItem_def oa_embed_def new_uuid_def Let_def
      split: sum.splits if_splits prod.splits dest!: insert_memory_added)

lemma ChunkExistsHash_db: "ChunkExistsHash env v u h w = (r, w') \<Longrightarrow> w_db w' = w_db w"
  by (auto simp: ChunkExistsHash_def query_def split: if_splits)

lemma persistV1TextChunk_Inl:
  "persistV1TextChunk env e inp f tn w = (Inl er, w') \<Longrightarrow> w_db w' = w_db w"
  by (auto simp: persistV1TextChunk_def oa_embed_def new_uuid_def Let_def
      split: sum.splits if_splits prod.splits bool.splits dest!: insert_memory_Inl ChunkExistsHash_db)

lemma persistV1TextChunk_Inr:
  assumes "persistV1TextChunk env e inp f tn w = (Inr i, w')" "\<And>t. ev_uuid env t \<noteq> uuid_nil"
  shows "added e inp (if i = uuid_nil then [] else [i]) (w_db w) (w_db w')"
  using assms
  by (auto simp: persistV1TextChunk_def oa_embed_def new_uuid_def Let_def added_none
      split: sum.splits if_splits prod.splits bool.splits
      dest!: insert_memory_added ChunkExistsHash_db)

lemma structured_loop_added:
  assumes "structured_loop env e inp xs seen ins dbg w = ((ids, d, er), w')"
  shows "\<exists>all. ids = ins @ all \<and> added e inp all (w_db w) (w_db w')"
  using assms
proof (induction xs arbitrary: seen ins dbg w)
  case Nil
  then show ?case by (simp add: added_none)
next
  case (Cons x xs)
  let ?skip = "trim_space (wk_abstract x) = [] \<and> trim_space (wk_body x) = []"
  let ?h = "contentDedupKey env (wk_kind x) (wk_abstract x) (wk_body x) (wk_source x)"
  show ?case
  proof (cases "?skip \<or> ?h \<in> set seen")
    case True
    then show ?thesis using Cons.prems by (auto simp: Let_def intro: Cons.IH split: if_splits)
  next
    case False
    obtain r w1 where c: "ChunkExistsHash env (in_vault inp) (in_user inp) ?h w = (r, w1)" by force
    have d1: "w_db w1 = w_db w" using ChunkExistsHash_db [OF c] .
    obtain q w2 where q: "persistStructuredItem env e inp x ?h (en_tn e) w1 = (q, w2)" by force
    consider er' where "r = Inl er'" | "r = Inr True" | er' where "r = Inr False" "q = Inl er'"
      | i sm where "r = Inr False" "q = Inr (i, sm)"
      by (metis (full_types) sum.exhaust surj_pair)
    then show ?thesis
    proof cases
      case 1
      then show ?thesis using Cons.prems False c d1 by (auto simp: Let_def added_none)
    next
      case 2
      then show ?thesis using Cons.prems False c d1 Cons.IH [of "?h # seen" ins dbg w1] by (auto simp: Let_def)
    next
      case 3
      then show ?thesis
        using Cons.prems False c d1 q persistStructuredItem_Inl [of env e inp x ?h _ w1] by (auto simp: Let_def added_none)
    next
      case (4 i sm)
      have a: "added e inp [i] (w_db w) (w_db w2)"
        using persistStructuredItem_Inr q 4 d1 by metis
      have "\<exists>all. ids = (ins @ [i]) @ all \<and> added e inp all (w_db w2) (w_db w')"
        by (rule Cons.IH) (use Cons.prems False c q 4 in \<open>auto simp: Let_def split: if_splits\<close>)
      then show ?thesis using added_trans [OF a] by force
    qed
  qed
qed

lemma text_loop_added:
  assumes "text_loop env e inp fs seen ins dbg w = ((ids, d, er), w')" "\<And>t. ev_uuid env t \<noteq> uuid_nil"
  shows "\<exists>all. ids = ins @ all \<and> added e inp all (w_db w) (w_db w')"
  using assms(1)
proof (induction fs arbitrary: seen ins dbg w)
  case Nil
  then show ?case by (simp add: added_none)
next
  case (Cons f0 fs)
  let ?f = "trim_space f0"
  let ?h = "ev_sha256 env (to_lower (ev_lower env) ?f)"
  show ?case
  proof (cases "?f = [] \<or> ?h \<in> set seen")
    case True
    then show ?thesis using Cons.prems by (auto simp: Let_def intro: Cons.IH split: if_splits)
  next
    case False
    obtain q w1 where q: "persistV1TextChunk env e inp ?f (en_tn e) w = (q, w1)" by force
    show ?thesis
    proof (cases q)
      case (Inl er')
      then show ?thesis
        using Cons.prems False q persistV1TextChunk_Inl [of env e inp ?f _ w] by (auto simp: Let_def added_none)
    next
      case (Inr i)
      have a: "added e inp (if i = uuid_nil then [] else [i]) (w_db w) (w_db w1)"
        using persistV1TextChunk_Inr q Inr assms(2) by metis
      have "\<exists>all. ids = (if i = uuid_nil then ins else ins @ [i]) @ all \<and> added e inp all (w_db w1) (w_db w')"
        by (rule Cons.IH) (use Cons.prems False q Inr in \<open>auto simp: Let_def\<close>)
      then show ?thesis using added_trans [OF a] by (force split: if_splits)
    qed
  qed
qed

lemma prune_after_chunks: "d_chunks (w_db (prune_after env e inp w)) = d_chunks (w_db w)"
  by (simp add: prune_after_def Let_def frame)

lemma added_chunks: "d_chunks d'' = d_chunks d' \<Longrightarrow> added e inp ids d d' \<Longrightarrow> added e inp ids d d''"
  by (simp add: added_def)

lemma added_from: "d_chunks d0 = d_chunks d \<Longrightarrow> added e inp ids d0 d' \<Longrightarrow> added e inp ids d d'"
  by (simp add: added_def)

lemma ingestStructuredWork_added:
  assumes "ingestStructuredWork env e inp work dbg w = ((ids, d, er), w')"
  shows "added e inp ids (w_db w) (w_db w')"
proof -
  obtain w1 where l: "structured_loop env e inp work [] [] (if dbg then Some no_debug else None) w
      = ((ids, d, er), w1)" and "w' = w1 \<or> w' = prune_after env e inp w1"
    using assms by (auto simp: ingestStructuredWork_def split: prod.splits option.splits)
  then have "d_chunks (w_db w') = d_chunks (w_db w1)" using prune_after_chunks by auto
  then show ?thesis using structured_loop_added [OF l] by (auto intro: added_chunks)
qed

lemma ingest_text_added:
  assumes "ingest_text env e inp dbg w = ((ids, d, er), w')" "\<And>t. ev_uuid env t \<noteq> uuid_nil"
  shows "added e inp ids (w_db w) (w_db w')"
proof -
  obtain fs d0 w1 where l: "text_loop env e inp fs [] [] d0 w = ((ids, d, er), w1)"
      and "w' = w1 \<or> w' = prune_after env e inp w1"
    using assms(1) by (auto simp: ingest_text_def Let_def split: prod.splits option.splits)
  then have "d_chunks (w_db w') = d_chunks (w_db w1)" using prune_after_chunks by auto
  then show ?thesis using text_loop_added [OF l assms(2)] by (auto intro: added_chunks)
qed

lemma upsertSourceDocument_chunks:
  "d_chunks (w_db (snd (upsertSourceDocument env e inp txt title tn w))) = d_chunks (w_db w)"
proof -
  have q: "w_db w1 = w_db w" if "GetSourceDocumentIDByHash env v u h w = (r, w1)" for v u h r w1
    using that by (auto simp: GetSourceDocumentIDByHash_def query_def split: if_splits)
  have s: "w_db w1 = w_db w2" if "seal_payload env e se p w2 = (r, w1)" for w1 w2 se p r
    using seal_payload_db [of env e se p w2] that by simp
  have i: "d_chunks (w_db w1) = d_chunks (w_db w2)" if "InsertSourceDocument env r w2 = (x, w1)" for r w2 x w1
    using chunks_kept(6) [of env r w2] that by simp
  show ?thesis
    by (auto simp: upsertSourceDocument_def Let_def new_uuid_def split: prod.split sum.split
        dest!: q s i)
qed

lemma attachSharedSource_chunks:
  assumes "attachSharedSource env e inp work w = (r, w')"
  shows "d_chunks (w_db w') = d_chunks (w_db w)"
proof -
  have u: "d_chunks (w_db w1) = d_chunks (w_db w2)"
    if "upsertSourceDocument env e inp x y tn w2 = (q, w1)" for x y tn w2 q w1
    using upsertSourceDocument_chunks [of env e inp x y tn w2] that by simp
  show ?thesis using assms
    by (auto simp: attachSharedSource_def Let_def dest!: u split: option.splits prod.splits sum.splits if_splits)
qed

lemma ingest_infer_added:
  assumes "ingest_infer env e inp dbg w = ((ids, d, er), w')"
  shows "\<exists>all. added e inp all (w_db w) (w_db w') \<and> (ids = all \<or> (er \<noteq> None \<and> ids = []))"
proof -
  have r: "w_db w1 = w_db w" if "RecentSessionMessages env v u k n w = (r, w1)" for v u k n r w1
    using that by (auto simp: RecentSessionMessages_def query_def split: if_splits)
  consider "w_db w' = w_db w" "ids = []"
    | wk ids' d' er' w1 where "w_db w1 = w_db w" "ingestStructuredWork env e inp wk dbg w1 = ((ids', d', er'), w')"
        "ids = ids' \<or> (er \<noteq> None \<and> ids = [])"
    using assms
    by (auto simp: ingest_infer_def Let_def oa_extract_def dest!: r split: prod.splits sum.splits option.splits)
      (metis bump_simps(1))+
  then show ?thesis
  proof cases
    case 1
    then show ?thesis using added_none [of "w_db w'" "w_db w" e inp] by auto
  next
    case 2
    then show ?thesis using ingestStructuredWork_added [OF 2(2)] by auto
  qed
qed


section \<open>Plain text\<close>

lemma persistV1TextChunk_insert:
  assumes "persistV1TextChunk env e inp f tn w = (Inr i, w')" "i \<noteq> uuid_nil"
  shows "\<exists>w1 v. w_db w1 = w_db w \<and> insert_memory env e inp (memory_row inp i
      (ev_sha256 env (to_lower (ev_lower env) (trim_space f))) (rt_embedding_model tn) 1 (trim_space f) v [] None None)
      (trim_space f) w1 = (Inr (), w')"
  using assms
  by (auto simp: persistV1TextChunk_def oa_embed_def new_uuid_def Let_def
      split: sum.splits if_splits prod.splits bool.splits dest!: ChunkExistsHash_db)
    (metis bump_simps(1))

lemma persistStructuredItem_insert:
  assumes "persistStructuredItem env e inp x h tn w = (Inr (i, sm), w')"
  shows "\<exists>plain sv w1 v. item_plain env x = Inr (plain, sv) \<and> w_db w1 = w_db w \<and>
      insert_memory env e inp (memory_row inp i h (rt_embedding_model tn) sv (item_tsv x) v (wk_kind x) (wk_meta x)
        (wk_source x)) plain w1 = (Inr (), w')"
  using assms
  by (auto simp: persistStructuredItem_def oa_embed_def new_uuid_def Let_def
      split: sum.splits if_splits prod.splits) (metis bump_simps(1))

lemma persistV1TextChunk_row:
  assumes "persistV1TextChunk env e inp f tn w = (Inr i, w')" "i \<noteq> uuid_nil"
  shows "\<exists>c. d_chunks (w_db w') = d_chunks (w_db w) @ [c] \<and> c_id c = i \<and> own_row e inp c
    \<and> c_hash c = ev_sha256 env (to_lower (ev_lower env) (trim_space f)) \<and> c_tsv c = trim_space f"
proof -
  obtain w1 v where w1: "w_db w1 = w_db w" and m: "insert_memory env e inp (memory_row inp i
      (ev_sha256 env (to_lower (ev_lower env) (trim_space f))) (rt_embedding_model tn) 1 (trim_space f) v [] None None)
      (trim_space f) w1 = (Inr (), w')"
    using persistV1TextChunk_insert [OF assms] by blast
  obtain c where c: "d_chunks (w_db w') = d_chunks (w_db w) @ [c]" "c_id c = i"
      "c_hash c = ev_sha256 env (to_lower (ev_lower env) (trim_space f))" "c_tsv c = trim_space f"
    using insert_memory_row [OF m] w1 by (auto simp: new_chunk_row_def)
  have "added e inp [i] (w_db w) (w_db w')" using insert_memory_added [OF m, of i] w1 by simp
  then have "own_row e inp c" using c(1) by (auto simp: added_def)
  with c show ?thesis by blast
qed

text \<open>A text that is stored already is not stored again: as long as the first copy is there,
  ingesting it once more, or another text that differs from it only in case and surrounding space,
  leaves the database as it is and returns no new id.\<close>

theorem text_stored_once:
  assumes "persistV1TextChunk env e inp f tn w = (Inr i, w1)" "i \<noteq> uuid_nil"
    and "set (d_chunks (w_db w1)) \<subseteq> set (d_chunks (w_db w2))"
    and "in_vault inp' = in_vault inp" "in_user inp' = in_user inp"
    and "to_lower (ev_lower env) (trim_space g) = to_lower (ev_lower env) (trim_space f)"
  shows "w_db (snd (persistV1TextChunk env e' inp' g tn' w2)) = w_db w2
    \<and> (\<forall>j. fst (persistV1TextChunk env e' inp' g tn' w2) = Inr j \<longrightarrow> j = uuid_nil)"
proof -
  let ?h = "ev_sha256 env (to_lower (ev_lower env) (trim_space g))"
  obtain c where "d_chunks (w_db w1) = d_chunks (w_db w) @ [c]" "own_row e inp c" "c_hash c = ?h"
    using persistV1TextChunk_row [OF assms(1,2)] assms(6) by auto
  then have "\<exists>c \<in> set (d_chunks (w_db w2)). c_vault c = in_vault inp' \<and> c_user c = in_user inp'
      \<and> c_hash c = ?h \<and> c_deleted c = None"
    using assms(3-5) by (intro bexI [of _ c]) (auto simp: own_row_def)
  then show ?thesis
    by (simp add: persistV1TextChunk_def Let_def ChunkExistsHash_def query_def)
qed

text \<open>Sealing covers the text column only: a plain text that is stored with encryption on is also
  stored in clear, as the source of the lexical search.\<close>

theorem text_index_in_clear:
  assumes "persistV1TextChunk env e inp f tn w = (Inr i, w')" "i \<noteq> uuid_nil" "en_enc e"
  shows "\<exists>c \<in> set (d_chunks (w_db w')). c_id c = i \<and> c_body c = None \<and> c_ciphertext c \<noteq> None
    \<and> c_tsv c = trim_space f"
  using persistV1TextChunk_row [OF assms(1,2)] assms(3) by (auto simp: own_row_def)

text \<open>The provider is trusted to return a vector: an answer without one, which is not an error of
  the provider, is a panic of the ingest and not an error that it reports.\<close>

theorem no_vector_panics:
  assumes "ev_embed env (Suc (w_tick w)) (rt_embedding_model tn) [trim_space f] = Inr []"
    and "trim_space f \<noteq> []" "\<not> too_big tn (trim_space f)" "\<not> ev_fault env (w_tick w)"
    and "\<forall>c \<in> set (d_chunks (w_db w)). c_hash c \<noteq> ev_sha256 env (to_lower (ev_lower env) (trim_space f))"
  shows "fst (persistV1TextChunk env e inp f tn w) = Inl (EPanic ''index out of range'')"
  using assms
  by (auto simp: persistV1TextChunk_def Let_def ChunkExistsHash_def query_def oa_embed_def new_uuid_def
      first_vec_def)

section \<open>Witnesses\<close>

text \<open>An engine without encryption, and one with it; the input of one short text.\<close>

definition demo_engine :: "bool \<Rightarrow> engine" where
  "demo_engine enc = \<lparr>en_enc = enc, en_key = ''sk'', en_oa = True, en_tuning = None\<rparr>"

definition demo_session :: session where
  "demo_session = \<lparr>ss_vault = 7, ss_dek = replicate 32 (CHR ''k''), ss_expires = 1,
     ss_max = 1, ss_last = 0, ss_idle = 1, ss_hash = []\<rparr>"

definition demo_input :: "string \<Rightarrow> ingest_input" where
  "demo_input t = \<lparr>in_vault = 7, in_user = ''u'', in_session_key = ''s'', in_text = t, in_abstract = [],
     in_kind = [], in_meta = None, in_items = [], in_source = None, in_infer = False,
     in_infer_target = [], in_messages = [], in_session = Some demo_session\<rparr>"

lemma tea [simp]: "trim_space ''tea'' = ''tea''" "trim_space ''s'' = ''s''"
  using trim_space_ends [of "''tea''" "CHR ''t''"] trim_space_ends [of "''s''" "CHR ''s''"]
  by (simp_all add: space_rune_def)

lemmas demo_simps = demo_engine_def demo_session_def demo_input_def demo_env_def demo_world_def
  demo_vault_def empty_db_def

lemma demo_text:
  "\<exists>i w'. persistV1TextChunk demo_env (demo_engine enc) (demo_input t) ''tea'' DefaultRuntimeTuning demo_world
     = (Inr i, w') \<and> i \<noteq> uuid_nil"
  by (cases enc)
    (simp_all add: persistV1TextChunk_def Let_def too_big_def ChunkExistsHash_def query_def oa_embed_def
      new_uuid_def first_vec_def insert_memory_def seal_payload_def SealChunk_def rand_bytes_def
      new_aead_def dekSize_def dek_of_def InsertChunk_def tx_exec_def exec_def insert_chunk_row_def
      insert_embed_row_def insert_hist_row_def payload_xor_def vector_dim_def DefaultRuntimeTuning_def
      session_key_of_def memory_row_def jmap_entries_def demo_simps)

lemma text_stored_once_witness:
  "\<exists>w1. w_db (snd (persistV1TextChunk demo_env (demo_engine True) (demo_input []) ''tea'' DefaultRuntimeTuning w1))
      = w_db w1 \<and> d_chunks (w_db w1) \<noteq> []"
proof -
  obtain i w1 where t: "persistV1TextChunk demo_env (demo_engine True) (demo_input []) ''tea''
      DefaultRuntimeTuning demo_world = (Inr i, w1)" "i \<noteq> uuid_nil"
    using demo_text by blast
  then have "d_chunks (w_db w1) \<noteq> []" using persistV1TextChunk_row [OF t] by auto
  then show ?thesis using text_stored_once [OF t order.refl refl refl refl] by blast
qed

lemma text_index_in_clear_witness:
  "\<exists>c \<in> set (d_chunks (w_db (snd (persistV1TextChunk demo_env (demo_engine True) (demo_input []) ''tea''
      DefaultRuntimeTuning demo_world)))). c_body c = None \<and> c_tsv c = ''tea''"
proof -
  obtain i w1 where t: "persistV1TextChunk demo_env (demo_engine True) (demo_input []) ''tea''
      DefaultRuntimeTuning demo_world = (Inr i, w1)" "i \<noteq> uuid_nil"
    using demo_text by blast
  have "en_enc (demo_engine True)" by (simp add: demo_engine_def)
  from text_index_in_clear [OF t this] t(1) show ?thesis by auto
qed

lemma no_vector_panics_witness:
  "fst (persistV1TextChunk (demo_env\<lparr>ev_embed := \<lambda>_ _ _. Inr []\<rparr>) (demo_engine False) (demo_input []) ''tea''
     DefaultRuntimeTuning demo_world) = Inl (EPanic ''index out of range'')"
  by (rule no_vector_panics)
    (simp_all add: too_big_def DefaultRuntimeTuning_def demo_simps)


end
