(* ===== verification/Retrieve_Laws.thy ===== *)
theory Retrieve_Laws
  imports Retrieve Ingest_Laws
begin

text \<open>
  What a retrieval may return: only live memories of the caller's vault and user, ranked, within the
  bounds it was given, and without touching the database; and what an ingest and a later read say of
  the same memory.
\<close>

section \<open>Sorting a slice\<close>

text \<open>What \<open>sort.Slice\<close> needs of a comparison to leave the slice sorted, on the elements at hand.\<close>

locale slice_order =
  fixes better :: "'a \<Rightarrow> 'a \<Rightarrow> bool" and ok :: "'a \<Rightarrow> bool"
  assumes asym: "ok a \<Longrightarrow> ok b \<Longrightarrow> better a b \<Longrightarrow> \<not> better b a"
    and ntrans: "ok a \<Longrightarrow> ok b \<Longrightarrow> ok c \<Longrightarrow> \<not> better a b \<Longrightarrow> \<not> better b c \<Longrightarrow> \<not> better a c"
begin

lemma insert_back_set [simp]: "set (insert_back better x ys) = insert x (set ys)"
  by (induction ys) auto

lemma insert_back_sorted:
  "ok x \<Longrightarrow> \<forall>y \<in> set ys. ok y \<Longrightarrow> sorted_wrt (\<lambda>a b. \<not> better a b) ys
   \<Longrightarrow> sorted_wrt (\<lambda>a b. \<not> better a b) (insert_back better x ys)"
  by (induction ys) (auto dest: asym, metis ntrans)

lemma fold_sorted:
  "\<forall>x \<in> set xs. ok x \<Longrightarrow> \<forall>y \<in> set ys. ok y \<Longrightarrow> sorted_wrt (\<lambda>a b. \<not> better a b) ys
   \<Longrightarrow> sorted_wrt (\<lambda>a b. \<not> better a b) (fold (insert_back better) xs ys)"
  by (induction xs arbitrary: ys) (simp_all add: insert_back_sorted)

lemma slice_sorted:
  "\<forall>x \<in> set xs. ok x \<Longrightarrow> sorted_wrt (\<lambda>a b. \<not> better b a) (sort_slice better xs)"
  unfolding sort_slice_def sorted_wrt_rev by (rule fold_sorted) simp_all

end

lemma insert_back_mset: "mset (insert_back better x ys) = add_mset x (mset ys)"
  by (induction ys) auto

lemma sort_slice_mset [simp]: "mset (sort_slice better xs) = mset xs"
proof -
  have "mset (fold (insert_back better) xs ys) = mset xs + mset ys" for ys
    by (induction xs arbitrary: ys) (simp_all add: insert_back_mset)
  then show ?thesis by (simp add: sort_slice_def)
qed

lemma sort_slice_set [simp]: "set (sort_slice better xs) = set xs"
  by (metis set_mset_mset sort_slice_mset)

text \<open>Scores that are numbers are such elements.\<close>

lemma score_better_iff:
  assumes "sc_score a \<noteq> NaN" "sc_score b \<noteq> NaN"
  shows "score_better us a b \<longleftrightarrow> sc_score b < sc_score a \<or> sc_score a = sc_score b \<and> us (sc_id a) < us (sc_id b)"
  using assms by (simp add: score_better_def flt_def feq_def)

interpretation score_order: slice_order "score_better us" "\<lambda>c. sc_score c \<noteq> NaN" for us
proof
  show "\<not> score_better us b a" if "sc_score a \<noteq> NaN" "sc_score b \<noteq> NaN" "score_better us a b" for a b
    using that(3) unfolding score_better_iff [OF that(1,2)] score_better_iff [OF that(2,1)]
    by (metis less_asym less_irrefl)
  show "\<not> score_better us a c" if "sc_score a \<noteq> NaN" "sc_score b \<noteq> NaN" "sc_score c \<noteq> NaN"
      "\<not> score_better us a b" "\<not> score_better us b c" for a b c
    using that(4,5)
    unfolding score_better_iff [OF that(1,2)] score_better_iff [OF that(2,3)] score_better_iff [OF that(1,3)]
    by (metis less_trans linorder_less_linear)
qed

lemma boost_ids: "image_mset sc_id (mset (boost_scores b k m s)) = image_mset sc_id (mset s)"
  by (induction s) (auto simp: boost_scores_def)

lemma boostSessionPreference_ids:
  "image_mset sc_id (mset (boostSessionPreference env e ranked k m)) = image_mset sc_id (mset ranked)"
  by (simp add: boostSessionPreference_def Let_def boost_ids split: option.split)

section \<open>Reading only\<close>

lemma reading_payloadToChunkBody [reading]: "w_db (snd (payloadToChunkBody env e sess p w)) = w_db w"
  unfolding payloadToChunkBody_def Let_def by (rule reading read_rules)+

lemma reading_pack_loop [reading]:
  "w_db (snd (pack_loop env e sess cm mc mt rs used out pk w)) = w_db w"
proof (induction rs arbitrary: used out pk w)
  case (Cons r rs)
  note [reading] = Cons.IH
  show ?case unfolding pack_loop.simps Let_def by (rule reading read_rules)+
qed simp

lemma reading_prefer_session [reading]: "w_db (snd (prefer_session env e p k r w)) = w_db w"
  unfolding prefer_session_def by (rule reading read_rules)+

lemma reading_RetrieveWithDebug [reading]:
  "w_db (snd (RetrieveWithDebug env e v u q mc mt sess opts dbg w)) = w_db w"
  unfolding RetrieveWithDebug_def Let_def by (rule reading read_rules)+

lemma reading_Retrieve [reading]: "w_db (snd (Retrieve env e v u q mc mt sess opts w)) = w_db w"
  unfolding Retrieve_def by (rule reading read_rules)+

lemma reading_GetChunkByID [reading]: "w_db (snd (GetChunkByID env e v i sess w)) = w_db w"
  unfolding GetChunkByID_def Let_def by (rule reading read_rules)+

section \<open>What may come back\<close>

text \<open>The index scans return rows they were given: what the two search operators promise.\<close>

definition search_ok :: "env \<Rightarrow> bool" where
  "search_ok env \<longleftrightarrow> (\<forall>t q rows. fst ` set (ev_knn env t q rows) \<subseteq> fst ` set rows)
     \<and> (\<forall>t q rows. fst ` set (ev_fts env t q rows) \<subseteq> fst ` set rows)"

lemma search_dense_ids:
  assumes "SearchDense env v u m q l k only w = (Inr cs, w')" "search_ok env" "c \<in> set cs"
  shows "cc_id c \<in> fst ` set (dense_rows v u m k only (w_db w))"
proof -
  have "cs = map (\<lambda>(i, sem). \<lparr>cc_id = i, cc_sem = sem, cc_lex = Fin 0, cc_raw = Fin 0\<rparr>)
      (take (nat l) (ev_knn env (w_tick w) q (dense_rows v u m k only (w_db w))))"
    using query_Inr [OF assms(1) [unfolded SearchDense_def]] by (auto split: if_splits)
  then have "cc_id c \<in> fst ` set (ev_knn env (w_tick w) q (dense_rows v u m k only (w_db w)))"
    using assms(3) by (force dest: in_set_takeD)
  then show ?thesis using assms(2) unfolding search_ok_def by blast
qed

text \<open>A memory that a retrieval for this vault, user and session may show.\<close>

definition visible :: "uuid \<Rightarrow> string \<Rightarrow> string \<Rightarrow> bool \<Rightarrow> db \<Rightarrow> uuid \<Rightarrow> bool" where
  "visible v u k only d i \<longleftrightarrow>
     (\<exists>c. row_at c_id i (d_chunks d) = Some c \<and> live_chunk v u k only c)"

lemma dense_visible: "i \<in> fst ` set (dense_rows v u m k only d) \<Longrightarrow> visible v u k only d i"
  by (auto simp: in_dense_rows visible_def)

lemma rank_ids_dense:
  "sc_id ` set (map (\<lambda>r. \<lparr>sc_id = fr_id r, sc_score = fr_fused r\<rparr>) (RankChunksFusionDetail us dense lexical t lw))
   \<subseteq> cc_id ` set dense"
proof
  fix i assume "i \<in> sc_id ` set (map (\<lambda>r. \<lparr>sc_id = fr_id r, sc_score = fr_fused r\<rparr>)
    (RankChunksFusionDetail us dense lexical t lw))"
  then obtain r where r: "r \<in> set (RankChunksFusionDetail us dense lexical t lw)" "i = fr_id r" by auto
  from ranking_rows(3) [OF refl r(1)] r(2) show "i \<in> cc_id ` set dense" by (metis imageI)
qed

lemma prefer_session_ids:
  "prefer_session env e p k r w = (x, w') \<Longrightarrow> mset (map sc_id (fst x)) = mset (map sc_id r)"
  by (auto simp: prefer_session_def boostSessionPreference_ids split: if_splits prod.splits sum.splits)

text \<open>The packing: the snippets are those of the rows it lists, in ranking order, within the bounds.\<close>

definition packed :: "env \<Rightarrow> int \<Rightarrow> int \<Rightarrow> int \<Rightarrow> snippet list \<Rightarrow> packing_debug \<Rightarrow> bool" where
  "packed env mc mt used out pk \<longleftrightarrow>
     map sp_id out = map fst (pk_included pk) \<and> used = sum_list (map snd (pk_included pk))
     \<and> (0 < mt \<longrightarrow> used \<le> mt) \<and> int (length out) \<le> mc"

lemma buildRetrieveSnippet_id [simp]: "sp_id (buildRetrieveSnippet i cb s m) = i"
  by (simp add: buildRetrieveSnippet_def Let_def)

lemma pack_loop_packed:
  "pack_loop env e sess cm mc mt rs used out pk w = (Inr (out', pk'), w') \<Longrightarrow> packed env mc mt used out pk
   \<Longrightarrow> \<exists>used'. packed env mc mt used' out' pk'"
proof (induction rs arbitrary: used out pk w)
  case Nil
  then show ?case by auto
next
  case (Cons r rs)
  show ?case
  proof (cases "mc \<le> int (length out)")
    case True
    then show ?thesis using Cons.prems by (auto simp: packed_def)
  next
    case False
    have step: "packed env mc mt (used + est) (out @ [buildRetrieveSnippet i cb (sc_score r) m])
        (pk\<lparr>pk_included := pk_included pk @ [(i, est)]\<rparr>)" if "\<not> (0 < mt \<and> mt < used + est)" for est i cb m
      using Cons.prems(2) False that by (auto simp: packed_def)
    have skip: "packed env mc mt used out (pk\<lparr>pk_over_budget := x\<rparr>)" for x
      using Cons.prems(2) by (auto simp: packed_def)
    show ?thesis
      using Cons.prems(1) False Cons.IH Cons.prems(2) step skip
      by (auto simp: Let_def split: prod.splits sum.splits if_splits)
  qed
qed

lemma pack_loop_subseq:
  "pack_loop env e sess cm mc mt rs used out pk w = (Inr (out', pk'), w') \<Longrightarrow>
   \<exists>xs. subseq xs (map (\<lambda>c. ev_uuid_str env (sc_id c)) rs) \<and> map sp_id out' = map sp_id out @ xs"
proof (induction rs arbitrary: used out pk w)
  case Nil
  then show ?case by auto
next
  case (Cons r rs)
  let ?f = "\<lambda>c. ev_uuid_str env (sc_id c)"
  have skip: "\<exists>xs. subseq xs (map ?f (r # rs)) \<and> map sp_id out' = map sp_id out @ xs"
    if "\<exists>xs. subseq xs (map ?f rs) \<and> map sp_id out' = map sp_id out @ xs"
    using that by (auto intro: subseq_Cons')
  have take_it: "\<exists>xs. subseq xs (map ?f (r # rs)) \<and> map sp_id out' = map sp_id out @ xs"
    if h: "\<exists>xs. subseq xs (map ?f rs) \<and> map sp_id out' = (map sp_id out @ [?f r]) @ xs"
  proof -
    obtain xs where "subseq xs (map ?f rs)" "map sp_id out' = map sp_id out @ ?f r # xs" using h by auto
    then show ?thesis by (intro exI [of _ "?f r # xs"]) simp
  qed
  show ?case
  proof (cases "mc \<le> int (length out)")
    case True
    then show ?thesis using Cons.prems by auto
  next
    case False
    then consider w1 pk1 where "pack_loop env e sess cm mc mt rs used out pk1 w1 = (Inr (out', pk'), w')"
      | w1 pk1 est cb m where "pack_loop env e sess cm mc mt rs (used + est)
          (out @ [buildRetrieveSnippet (?f r) cb (sc_score r) m]) pk1 w1 = (Inr (out', pk'), w')"
      using Cons.prems by (auto simp: Let_def split: prod.splits sum.splits if_splits)
    then show ?thesis
    proof cases
      case 1
      then show ?thesis using skip Cons.IH by blast
    next
      case 2
      then show ?thesis using take_it Cons.IH [OF 2] by simp
    qed
  qed
qed

lemma subseq_members: "subseq xs ys \<Longrightarrow> set xs \<subseteq> set ys"
  by (induction rule: list_emb.induct) auto

lemma mset_ids_set: "image_mset f (mset xs) = image_mset f (mset ys) \<Longrightarrow> f ` set xs = f ` set ys"
  by (metis set_image_mset set_mset_mset)

definition session_filter :: "env \<Rightarrow> retrieve_opts \<Rightarrow> bool" where
  "session_filter env opts \<longleftrightarrow> to_lower (ev_lower env) (trim_space (ro_session_mode opts)) = ''only''
     \<and> trim_space (ro_session_key opts) \<noteq> []"

lemma RetrieveWithDebug_Inr:
  assumes "RetrieveWithDebug env e v u q mc mt sess opts dbg w = (Inr (out, d), w')"
  shows "\<exists>w1 w2 w3 w4 m qv dense rk pk cm. w_db w1 = w_db w
    \<and> SearchDense env v u m qv (k_dense (en_tn e) (effective_max_chunks (en_tn e) mc)) (trim_space (ro_session_key opts))
        (session_filter env opts) w1 = (Inr dense, w2)
    \<and> sc_id ` set rk \<subseteq> cc_id ` set dense
    \<and> pack_loop env e sess cm (effective_max_chunks (en_tn e) mc) mt rk 0 [] no_packing w3 = (Inr (out, pk), w4)
    \<and> (dbg \<longrightarrow> (\<exists>x. d = Some x \<and> rd_packing x = pk \<and> map fd_id (rd_fused x) = map (\<lambda>c. ev_uuid_str env (sc_id c)) rk))"
proof -
  let ?tn = "en_tn e" let ?k = "trim_space (ro_session_key opts)"
  let ?mode = "or_default ''all'' (to_lower (ev_lower env) (trim_space (ro_session_mode opts)))"
  let ?only = "?mode = ''only'' \<and> ?k \<noteq> []" let ?pref = "?mode = ''prefer'' \<and> ?k \<noteq> []"
  let ?kd = "k_dense ?tn (effective_max_chunks ?tn mc)"
  let ?cm = "or_default ''auto'' (to_lower (ev_lower env) (trim_space (ro_content_mode opts)))"
  obtain vecs w1 where e: "oa_embed env (rt_embedding_model ?tn) [q] w = (Inr vecs, w1)"
    using assms by (auto simp: RetrieveWithDebug_def Let_def split: if_splits prod.splits sum.splits)
  obtain dense w2 where sd: "SearchDense env v u (rt_embedding_model ?tn) (hd vecs) ?kd ?k ?only w1 = (Inr dense, w2)"
    using assms e by (auto simp: RetrieveWithDebug_def Let_def split: if_splits prod.splits sum.splits)
  obtain lexical w3 where sl: "SearchLexical env v u q ?kd ?k ?only w2 = (Inr lexical, w3)"
    using assms e sd by (auto simp: RetrieveWithDebug_def Let_def split: if_splits prod.splits sum.splits)
  let ?rows = "RankChunksFusionDetail (ev_uuid_str env) dense lexical (rt_semantic_threshold ?tn) (rt_fusion_lexical_weight ?tn)"
  let ?r0 = "map (\<lambda>r. \<lparr>sc_id = fr_id r, sc_score = fr_fused r\<rparr>) ?rows"
  obtain pref w4 where pf: "prefer_session env e ?pref ?k ?r0 w3 = (pref, w4)" by (rule prod.exhaust)
  obtain pk where pl: "pack_loop env e sess ?cm (effective_max_chunks ?tn mc) mt (fst pref) 0 [] no_packing w4 = (Inr (out, pk), w')"
    and d: "dbg \<longrightarrow> (\<exists>x. d = Some x \<and> rd_packing x = pk \<and> rd_fused x = map (fused_debug env ?rows ?pref ?k (snd pref)) (fst pref))"
    using assms e sd sl pf by (auto simp: RetrieveWithDebug_def Let_def split: if_splits prod.splits sum.splits)
  have h1: "w_db w1 = w_db w" using reading_oracle(4) [of env "rt_embedding_model ?tn" "[q]" w] e by simp
  have "?only = session_filter env opts" by (auto simp: session_filter_def or_default_def)
  then have h2: "SearchDense env v u (rt_embedding_model ?tn) (hd vecs) ?kd ?k (session_filter env opts) w1 = (Inr dense, w2)"
    using sd by (rule subst)
  have eq: "sc_id ` set (fst pref) = sc_id ` set ?r0"
    by (rule mset_ids_set) (use prefer_session_ids [OF pf] in \<open>simp only: mset_map\<close>)
  have h3: "sc_id ` set (fst pref) \<subseteq> cc_id ` set dense" unfolding eq by (rule rank_ids_dense)
  have h4: "map fd_id (map (fused_debug env ?rows ?pref ?k (snd pref)) (fst pref))
      = map (\<lambda>c. ev_uuid_str env (sc_id c)) (fst pref)"
    by (simp add: fused_debug_def Let_def o_def)
  have h5: "dbg \<longrightarrow> (\<exists>x. d = Some x \<and> rd_packing x = pk \<and> map fd_id (rd_fused x) = map (\<lambda>c. ev_uuid_str env (sc_id c)) (fst pref))"
    using d h4 by auto
  show ?thesis by (intro exI conjI) (rule h1, rule h2, rule h3, rule pl, rule h5)
qed


text \<open>C24. A retrieval keeps its bounds: at most the wanted number of snippets, their estimated tokens
  within the budget when there is one, and the snippets in the order of the ranking. The snippets are
  those that the debug information lists as included.\<close>

theorem retrieve_bounds:
  assumes "RetrieveWithDebug env e v u q mc mt sess opts True w = (Inr (out, Some x), w')"
  shows "int (length out) \<le> effective_max_chunks (en_tn e) mc
    \<and> map sp_id out = map fst (pk_included (rd_packing x))
    \<and> (0 < mt \<longrightarrow> sum_list (map snd (pk_included (rd_packing x))) \<le> mt)
    \<and> subseq (map sp_id out) (map fd_id (rd_fused x))"
proof -
  obtain rk w3 w4 cm where
      pl: "pack_loop env e sess cm (effective_max_chunks (en_tn e) mc) mt rk 0 [] no_packing w3 = (Inr (out, rd_packing x), w4)"
      and fd: "map fd_id (rd_fused x) = map (\<lambda>c. ev_uuid_str env (sc_id c)) rk"
    using RetrieveWithDebug_Inr [OF assms] by auto
  have "packed env (effective_max_chunks (en_tn e) mc) mt 0 [] no_packing"
    by (simp add: packed_def no_packing_def effective_max_chunks_def)
  from pack_loop_packed [OF pl this] pack_loop_subseq [OF pl] fd show ?thesis
    by (auto simp: packed_def)
qed


section \<open>Reading back what was stored\<close>

text \<open>A sealed text carries its authentication tag, so it is never empty.\<close>

definition tagged :: "env \<Rightarrow> bool" where
  "tagged env \<longleftrightarrow> (\<forall>k n p. ev_seal env k n p \<noteq> [])"

lemma sealed_has_key:
  "seal_payload env e s plain w = (Inr p, w') \<Longrightarrow> en_enc e \<Longrightarrow> \<not> no_dek s"
  by (cases s) (auto simp: seal_payload_def SealChunk_def new_aead_def no_dek_def dek_of_def dekSize_def
    split: if_splits sum.splits prod.splits)

lemma seal_then_decrypt:
  assumes "seal_payload env e s plain w = (Inr p, w')" "aead_ok env" "rand_ok env" "tagged env"
    and "cp_body pl = py_body p" "cp_ciphertext pl = py_ciphertext p" "cp_nonce pl = py_nonce p"
  shows "decryptPayloadString env s pl = Inr plain"
proof (cases "en_enc e")
  case False
  then show ?thesis using assms by (auto simp: seal_payload_def decryptPayloadString_def)
next
  case True
  then obtain n ct where c: "SealChunk env (dek_of s) plain w = (Inr (n, ct), w')"
      and p: "py_ciphertext p = Some ct" "py_nonce p = Some n" "py_body p = None"
    using seal_payload_Inr [OF assms(1)] by auto
  have "ct \<noteq> []"
    using c assms(4) by (auto simp: SealChunk_def new_aead_def tagged_def split: if_splits sum.splits prod.splits)
  then show ?thesis
    using sealed_has_key [OF assms(1) True] seal_then_open [OF assms(2,3) c] p assms(5-7)
    by (simp add: decryptPayloadString_def nonce_of_def)
qed

text \<open>The row that an insert of a memory leaves, as \<open>GetChunkForVault\<close> reads it.\<close>

lemma insert_memory_read:
  assumes "insert_memory env e inp (memory_row inp i h m sv tsv v k mt src) plain w = (Inr x, w')"
    and "d_chunks (w_db w2) = d_chunks (w_db w')" "\<not> ev_fault env (w_tick w2)"
  shows "\<exists>p ts wa wb. seal_payload env e (in_session inp) plain wa = (Inr p, wb) \<and>
      GetChunkForVault env (in_vault inp) i w2 = (Inr \<lparr>cv_payload =
         \<lparr>cp_id = i, cp_ciphertext = py_ciphertext p, cp_nonce = py_nonce p, cp_body = py_body p, cp_model = m,
          cp_kind = k, cp_meta = mt, cp_source = src, cp_vault = in_vault inp\<rparr>,
         cv_user = in_user inp, cv_created = ts, cv_schema = sv, cv_session_key = Some (session_key_of inp)\<rparr>, bump w2)"
proof -
  obtain p wb where p: "seal_payload env e (in_session inp) plain w = (Inr p, wb)"
    and i: "InsertChunk env (memory_row inp i h m sv tsv v k mt src p) wb = (Inr x, w')"
    using assms(1) by (auto simp: insert_memory_def split: prod.splits sum.splits)
  obtain ts n where d: "w_db w' = chunk_inserted ts n (memory_row inp i h m sv tsv v k mt src p) (w_db wb)"
    and f: "row_at c_id i (d_chunks (w_db wb)) = None"
    using InsertChunk_Inr [OF i] by auto
  have "row_at c_id i (d_chunks (w_db w2)) = Some (new_chunk_row ts (memory_row inp i h m sv tsv v k mt src p))"
    using chunk_inserted_row [of "memory_row inp i h m sv tsv v k mt src p"] f assms(2) d by simp
  then show ?thesis
    using p assms(3)
    by (intro exI [of _ p] exI [of _ ts] exI [of _ w] exI [of _ wb])
      (simp add: GetChunkForVault_def query_def new_chunk_row_def payload_of_def)
qed

text \<open>C22. A plain text that was ingested is read back by its id as it was stored, for the vault that
  stored it and with the key that sealed it, as long as nothing has touched the chunks since. (A text
  that begins with a brace may be taken for format 2.)\<close>

theorem text_ingest_then_get:
  assumes "aead_ok env" "rand_ok env" "tagged env"
    and "persistV1TextChunk env e inp f tn w = (Inr i, w1)" "i \<noteq> uuid_nil"
    and "d_chunks (w_db w2) = d_chunks (w_db w1)" "\<not> ev_fault env (w_tick w2)"
    and "byte (hd (trim_space (trim_space f))) \<noteq> 123" "trim_space (trim_space f) \<noteq> []"
  shows "\<exists>r w3. GetChunkByID env e (in_vault inp) i (in_session inp) w2 = (Inr r, w3)
    \<and> cg_text r = trim_space f \<and> cg_user r = in_user inp \<and> cg_session_key r = Some (session_key_of inp)"
proof -
  obtain w0 v where m: "insert_memory env e inp (memory_row inp i
      (ev_sha256 env (to_lower (ev_lower env) (trim_space f))) (rt_embedding_model tn) 1 (trim_space f) v [] None None)
      (trim_space f) w0 = (Inr (), w1)"
    using persistV1TextChunk_insert [OF assms(4,5)] by blast
  obtain p ts wa wb where p: "seal_payload env e (in_session inp) (trim_space f) wa = (Inr p, wb)"
    and g: "GetChunkForVault env (in_vault inp) i w2 = (Inr \<lparr>cv_payload =
         \<lparr>cp_id = i, cp_ciphertext = py_ciphertext p, cp_nonce = py_nonce p, cp_body = py_body p,
          cp_model = rt_embedding_model tn, cp_kind = [], cp_meta = None, cp_source = None, cp_vault = in_vault inp\<rparr>,
         cv_user = in_user inp, cv_created = ts, cv_schema = 1, cv_session_key = Some (session_key_of inp)\<rparr>, bump w2)"
    using insert_memory_read [OF m assms(6,7)] by blast
  have "ParseChunkPlaintext (trim_space f) = legacy_body (trim_space f)"
    using plain_text_kept [OF assms(9,8)] by simp
  then show ?thesis
    using g seal_then_decrypt [OF p assms(1-3)] sealed_has_key [OF p]
    by (auto simp: GetChunkByID_def payloadToChunkBody_def merge_meta_def legacy_body_def jmap_nonempty_def
        jmap_entries_def)
qed

lemma merge_meta_keeps [simp]:
  "cb_body (merge_meta p cb) = cb_body cb" "cb_abstract (merge_meta p cb) = cb_abstract cb"
  by (auto simp: merge_meta_def Let_def split: option.split)

lemma merge_meta_kind: "cp_kind p = cb_kind cb \<Longrightarrow> cb_kind (merge_meta p cb) = cb_kind cb"
  by (auto simp: merge_meta_def Let_def split: option.split)

text \<open>C23. A structured memory that was ingested with its own body is read back by its id with the
  abstract, the body and the kind it was given.\<close>

theorem item_ingest_then_get:
  assumes "aead_ok env" "rand_ok env" "tagged env"
    and "persistStructuredItem env e inp x h tn w = (Inr (i, sm), w1)"
    and "needsV2Format x" "wk_source x = None"
    and "body_ok (ev_fmt_f64 env) (wk_abstract x) (wk_body x) (wk_kind x) (wk_meta x)"
    and "d_chunks (w_db w2) = d_chunks (w_db w1)" "\<not> ev_fault env (w_tick w2)"
  shows "\<exists>r w3. GetChunkByID env e (in_vault inp) i (in_session inp) w2 = (Inr r, w3)
    \<and> cg_abstract r = wk_abstract x \<and> cg_text r = wk_body x \<and> cg_kind r = wk_kind x \<and> cg_schema r = 2"
proof -
  obtain plain sv w0 v where it: "item_plain env x = Inr (plain, sv)"
    and m: "insert_memory env e inp (memory_row inp i h (rt_embedding_model tn) sv (item_tsv x) v (wk_kind x)
       (wk_meta x) (wk_source x)) plain w0 = (Inr (), w1)"
    using persistStructuredItem_insert [OF assms(4)] by blast
  obtain p ts wa wb where p: "seal_payload env e (in_session inp) plain wa = (Inr p, wb)"
    and g: "GetChunkForVault env (in_vault inp) i w2 = (Inr \<lparr>cv_payload =
         \<lparr>cp_id = i, cp_ciphertext = py_ciphertext p, cp_nonce = py_nonce p, cp_body = py_body p,
          cp_model = rt_embedding_model tn, cp_kind = wk_kind x, cp_meta = wk_meta x, cp_source = wk_source x,
          cp_vault = in_vault inp\<rparr>,
         cv_user = in_user inp, cv_created = ts, cv_schema = sv, cv_session_key = Some (session_key_of inp)\<rparr>, bump w2)"
    using insert_memory_read [OF m assms(8,9)] by blast
  have f: "FormatChunkV2JSON (ev_fmt_f64 env) (wk_abstract x) (wk_body x) (wk_kind x) (wk_meta x) = Inr plain" "sv = 2"
    using it assms(5,6) by (auto simp: item_plain_def split: sum.splits)
  have c: "ParseChunkPlaintext plain = \<lparr>cb_abstract = wk_abstract x, cb_body = wk_body x, cb_kind = wk_kind x,
      cb_meta = meta_sorted (wk_meta x), cb_ver = 2, cb_raw = []\<rparr>"
    using parse_format_v2 [OF f(1) assms(7)] .
  show ?thesis
    using g seal_then_decrypt [OF p assms(1-3)] sealed_has_key [OF p] assms(6)
    by (auto simp: GetChunkByID_def payloadToChunkBody_def merge_meta_keeps merge_meta_kind c f(2) Let_def)
qed

section \<open>Witnesses\<close>

lemma demo_search_ok: "search_ok demo_env"
  by (force simp: search_ok_def demo_env_def)

lemma demo_tagged: "tagged demo_env"
  by (simp add: tagged_def demo_env_def)

definition demo_opts :: retrieve_opts where
  "demo_opts = \<lparr>ro_session_key = [], ro_session_mode = [], ro_content_mode = []\<rparr>"

text \<open>A chunk is stored under the default model, then retrieved: one snippet comes back.\<close>

definition demo_memory :: chunk_insert where
  "demo_memory = demo_insert\<lparr>ci_model := ''text-embedding-3-small''\<rparr>"

definition demo_stored :: world where
  "demo_stored = snd (InsertChunk demo_env demo_memory demo_world)"

lemma demo_stored_db: "\<exists>ts n. w_db demo_stored = chunk_inserted ts n demo_memory (w_db demo_world)"
proof -
  have "\<exists>w'. InsertChunk demo_env demo_memory demo_world = (Inr (), w')"
    by (simp add: InsertChunk_def query_def tx_exec_def exec_def demo_env_def demo_world_def demo_vault_def
      empty_db_def insert_chunk_row_def insert_embed_row_def insert_hist_row_def demo_insert_def demo_memory_def
      payload_xor_def vector_dim_def Let_def jmap_entries_def)
  then show ?thesis using InsertChunk_Inr unfolding demo_stored_def by fastforce
qed

lemma trim_nil [simp]: "trim_space [] = []"
  by (rule trim_space_blank) simp

lemma demo_fault [simp]: "\<not> ev_fault demo_env t"
  by (simp add: demo_env_def)

lemma demo_stored_row:
  "\<exists>ts. d_chunks (w_db demo_stored) = [new_chunk_row ts demo_memory]
    \<and> d_embeds (w_db demo_stored) = [\<lparr>e_chunk = 9, e_vec = replicate 1536 (Fin 0), e_model = ''text-embedding-3-small''\<rparr>]"
  using demo_stored_db
  by (auto simp: chunk_inserted_def demo_world_def empty_db_def demo_memory_def demo_insert_def)

lemma demo_dense:
  assumes "w_db w = w_db demo_stored" "1 \<le> l"
  shows "SearchDense demo_env 7 ''u'' ''text-embedding-3-small'' q l [] False w
    = (Inr [\<lparr>cc_id = 9, cc_sem = Fin 1, cc_lex = Fin 0, cc_raw = Fin 0\<rparr>], bump w)"
proof -
  have "dense_rows 7 ''u'' ''text-embedding-3-small'' [] False (w_db demo_stored) = [(9, replicate 1536 (Fin 0))]"
    using demo_stored_row by (auto simp: dense_rows_def new_chunk_row_def demo_memory_def demo_insert_def live_chunk_def)
  then have "SearchDense demo_env 7 ''u'' ''text-embedding-3-small'' q l [] False w
      = (Inr (map (\<lambda>(i, sem). \<lparr>cc_id = i, cc_sem = sem, cc_lex = Fin 0, cc_raw = Fin 0\<rparr>) (take (nat l) [(9, Fin 1)])), bump w)"
    using assms by (simp add: SearchDense_def query_def) (simp add: demo_env_def)
  then show ?thesis using assms(2) by (cases "nat l") simp_all
qed

lemma demo_rank:
  "\<exists>r. RankChunksFusionDetail us [\<lparr>cc_id = 9, cc_sem = Fin 1, cc_lex = Fin 0, cc_raw = Fin 0\<rparr>] L (fround (25 / 100)) lw = [r]
     \<and> fr_id r = 9"
proof -
  let ?c = "\<lparr>cc_id = 9 :: uuid, cc_sem = Fin 1, cc_lex = Fin 0, cc_raw = Fin 0\<rparr>"
  let ?rows = "RankChunksFusionDetail us [?c] L (fround (25 / 100)) lw"
  have "{c \<in> set [?c]. \<not> flt (cc_sem c) (Fin (1 / 4))} = {?c}" by auto
  moreover have "fround (25 / 100) = Fin (1 / 4)" using fround_dyadic [of 1 2] by simp
  ultimately have ids: "fr_id ` set ?rows = {9}" using ranking_rows(2) [OF refl, of us "[?c]" L "fround (25 / 100)" lw] by (simp only: image_insert image_empty chunk_candidate.simps)
  moreover have "distinct (map fr_id ?rows)" by (rule ranking_rows(1) [OF refl])
  ultimately have "length (map fr_id ?rows) = 1" by (metis card.insert card.empty distinct_card empty_iff finite.emptyI list.set_map One_nat_def)
  then obtain r where "?rows = [r]" by (cases ?rows) auto
  then show ?thesis using ids by auto
qed

lemma demo_pack:
  assumes "w_db w = w_db demo_stored" "sc_id r = 9"
  shows "\<exists>sn pk w'. pack_loop demo_env e sess cm 3 0 [r] 0 [] no_packing w = (Inr ([sn], pk), w')"
proof -
  obtain ts where row: "d_chunks (w_db demo_stored) = [new_chunk_row ts demo_memory]" using demo_stored_row by blast
  have "GetChunkPayload demo_env 9 w = (Inr (payload_of (new_chunk_row ts demo_memory)), bump w)"
    using row assms(1) by (simp add: GetChunkPayload_def query_def new_chunk_row_def demo_memory_def demo_insert_def)
  then show ?thesis
    using assms(2)
    by (simp add: payloadToChunkBody_def decryptPayloadString_def payload_of_def new_chunk_row_def demo_memory_def
        demo_insert_def Let_def)
qed

lemma demo_retrieve:
  "\<exists>sn x w'. RetrieveWithDebug demo_env (demo_engine False) 7 ''u'' ''tea'' 3 0 None demo_opts True demo_stored
     = (Inr ([sn], Some x), w')"
proof -
  let ?us = "ev_uuid_str demo_env" let ?lw = "fround (35 / 100)"
  let ?c = "\<lparr>cc_id = 9 :: uuid, cc_sem = Fin 1, cc_lex = Fin 0, cc_raw = Fin 0\<rparr>"
  obtain w1 where o: "oa_embed demo_env ''text-embedding-3-small'' [''tea''] demo_stored = (Inr [replicate 1536 (Fin 0)], w1)"
      "w_db w1 = w_db demo_stored"
    by (simp add: oa_embed_def demo_env_def)
  obtain L where sl: "SearchLexical demo_env 7 ''u'' ''tea'' 60 [] False (bump w1) = (Inr L, bump (bump w1))"
    by (simp add: SearchLexical_def query_def)
  obtain r where rk: "RankChunksFusionDetail ?us [?c] L (fround (25 / 100)) ?lw = [r]" "fr_id r = 9"
    using demo_rank by blast
  obtain sn pk w' where p: "pack_loop demo_env (demo_engine False) None ''auto'' 3 0
      [\<lparr>sc_id = fr_id r, sc_score = fr_fused r\<rparr>] 0 [] no_packing (bump (bump w1)) = (Inr ([sn], pk), w')"
    using demo_pack [of "bump (bump w1)" "\<lparr>sc_id = fr_id r, sc_score = fr_fused r\<rparr>" "demo_engine False" None "''auto''"] o(2) rk(2) by auto
  have l: "to_lower f [] = []" for f by (simp add: to_lower_def runes_nonempty)
  have k: "k_dense DefaultRuntimeTuning 3 = 60"
    by (simp add: k_dense_def DefaultRuntimeTuning_def i64_def)
  show ?thesis
    using o(1) demo_dense [OF o(2), of 60] sl rk p k
    by (simp add: RetrieveWithDebug_def Let_def demo_engine_def en_tn_def demo_opts_def l or_default_def
        effective_max_chunks_def DefaultRuntimeTuning_def prefer_session_def)
qed


lemma retrieve_bounds_witness:
  "\<exists>sn x w'. RetrieveWithDebug demo_env (demo_engine False) 7 ''u'' ''tea'' 3 0 None demo_opts True demo_stored
     = (Inr ([sn], Some x), w') \<and> map fst (pk_included (rd_packing x)) = [sp_id sn]"
proof -
  obtain sn x w' where r: "RetrieveWithDebug demo_env (demo_engine False) 7 ''u'' ''tea'' 3 0 None demo_opts True demo_stored
      = (Inr ([sn], Some x), w')" using demo_retrieve by blast
  from retrieve_bounds [OF r] r show ?thesis by auto
qed

lemma text_ingest_then_get_witness:
  "\<exists>i w1 r w2. persistV1TextChunk demo_env (demo_engine True) (demo_input []) ''tea'' DefaultRuntimeTuning demo_world = (Inr i, w1)
     \<and> GetChunkByID demo_env (demo_engine True) 7 i (Some demo_session) w1 = (Inr r, w2) \<and> cg_text r = ''tea''"
proof -
  obtain i w1 where t: "persistV1TextChunk demo_env (demo_engine True) (demo_input []) ''tea''
      DefaultRuntimeTuning demo_world = (Inr i, w1)" "i \<noteq> uuid_nil"
    using demo_text by blast
  from text_ingest_then_get [OF demo_env_ok(1,2) demo_tagged t refl demo_fault] t(1) show ?thesis
    by (auto simp: demo_input_def)
qed

definition demo_item :: work_item where
  "demo_item = new_work ''a'' ''b'' ''k'' None"

lemma demo_item_ok:
  "\<exists>i sm w1. persistStructuredItem demo_env (demo_engine True) (demo_input []) demo_item h
     (DefaultRuntimeTuning\<lparr>rt_max_body := 0\<rparr>) demo_world = (Inr (i, sm), w1)"
proof -
  have src: "wk_source demo_item = None" "wk_meta demo_item = None" by (simp_all add: demo_item_def new_work_def)
  have "\<exists>r. item_plain demo_env demo_item = Inr r"
    by (simp add: item_plain_def Let_def src FormatChunkV2JSON_def jmap_entries_def)
  then obtain plain sv where "item_plain demo_env demo_item = Inr (plain, sv)" by auto
  then show ?thesis
    by (simp add: persistStructuredItem_def Let_def too_big_def oa_embed_def src
      new_uuid_def first_vec_def insert_memory_def seal_payload_def SealChunk_def rand_bytes_def
      new_aead_def dekSize_def dek_of_def InsertChunk_def query_def tx_exec_def exec_def insert_chunk_row_def
      insert_embed_row_def insert_hist_row_def payload_xor_def vector_dim_def DefaultRuntimeTuning_def
      memory_row_def jmap_entries_def demo_simps)
qed

lemma item_ingest_then_get_witness:
  "\<exists>i sm w1 r w2. persistStructuredItem demo_env (demo_engine True) (demo_input []) demo_item ''h''
     (DefaultRuntimeTuning\<lparr>rt_max_body := 0\<rparr>) demo_world = (Inr (i, sm), w1)
     \<and> GetChunkByID demo_env (demo_engine True) 7 i (Some demo_session) w1 = (Inr r, w2)
     \<and> cg_abstract r = ''a'' \<and> cg_text r = ''b'' \<and> cg_kind r = ''k''"
proof -
  obtain i sm w1 where t: "persistStructuredItem demo_env (demo_engine True) (demo_input []) demo_item ''h''
     (DefaultRuntimeTuning\<lparr>rt_max_body := 0\<rparr>) demo_world = (Inr (i, sm), w1)"
    using demo_item_ok by blast
  have "trim_space ''a'' = ''a''" by (rule trim_space_ends [of _ "CHR ''a''" "[]"]) (simp_all add: space_rune_def)
  then have v2: "needsV2Format demo_item" by (simp add: needsV2Format_def demo_item_def new_work_def)
  have src: "wk_source demo_item = None" by (simp add: demo_item_def new_work_def)
  have ok: "body_ok (ev_fmt_f64 demo_env) (wk_abstract demo_item) (wk_body demo_item) (wk_kind demo_item) (wk_meta demo_item)"
    by (simp add: body_ok_def demo_item_def new_work_def jmap_entries_def valid_utf8_ascii ascii_def json_max_depth_def)
  from item_ingest_then_get [OF demo_env_ok(1,2) demo_tagged t v2 src ok refl demo_fault] t show ?thesis
    by (auto simp: demo_input_def demo_item_def new_work_def)
qed

end
