(* ===== verification/Api_Contract.thy ===== *)
theory Api_Contract
  imports Api Boot_Laws Ingest_Laws Retrieve_Laws Store_Laws
begin

text \<open>
  The service as its clients see it. Three relations between the world before and after a call are
  established for every handler, one call at a time: it is a run of the store's methods; an
  authentication changes sessions only; what is done for a caller of one vault leaves the rows of the
  other vaults alone. \<open>guard\<close> is the contract between the two ways to authenticate and the handlers
  behind them, \<open>api_handler\<close> the contract between the handlers and the middleware around them.
\<close>

section \<open>Results along the branches of a handler\<close>

locale branching =
  fixes P :: "'a \<Rightarrow> bool"
begin

lemma on_pair: "(\<And>y z. x = (y, z) \<Longrightarrow> P (f y z)) \<Longrightarrow> P (case x of (y, z) \<Rightarrow> f y z)"
  by (cases x) auto

lemma on_if: "(b \<Longrightarrow> P f) \<Longrightarrow> (\<not> b \<Longrightarrow> P g) \<Longrightarrow> P (if b then f else g)"
  by simp

lemma on_option: "(x = None \<Longrightarrow> P f) \<Longrightarrow> (\<And>y. x = Some y \<Longrightarrow> P (g y)) \<Longrightarrow> P (case x of None \<Rightarrow> f | Some y \<Rightarrow> g y)"
  by (cases x) auto

lemma on_sum:
  "(\<And>y. x = Inl y \<Longrightarrow> P (f y)) \<Longrightarrow> (\<And>y. x = Inr y \<Longrightarrow> P (g y)) \<Longrightarrow> P (case x of Inl y \<Rightarrow> f y | Inr y \<Rightarrow> g y)"
  by (cases x) auto

lemma on_err:
  "(\<And>m. x = EPanic m \<Longrightarrow> P (f m)) \<Longrightarrow> ((\<And>m. x \<noteq> EPanic m) \<Longrightarrow> P g) \<Longrightarrow> P (case x of EPanic m \<Rightarrow> f m | _ \<Rightarrow> g)"
  by (cases x) auto

lemma on_body:
  "(x = Eof \<Longrightarrow> P f) \<Longrightarrow> (\<And>e. x = Bad e \<Longrightarrow> P (g e)) \<Longrightarrow> (\<And>v. x = Decoded v \<Longrightarrow> P (h v))
   \<Longrightarrow> P (case x of Eof \<Rightarrow> f | Bad e \<Rightarrow> g e | Decoded v \<Rightarrow> h v)"
  by (cases x) auto

lemmas rules = on_pair on_if on_option on_sum on_err on_body

end

text \<open>The state of the server and the answer in a handler's result.\<close>

definition server_of :: "handled \<Rightarrow> server" where
  "server_of x = snd (snd (fst x))"

definition redacted_body :: "body \<Rightarrow> bool" where
  "redacted_body b \<longleftrightarrow> (case b of ProblemBody p \<Rightarrow> pb_detail p = redactedServerDetail | _ \<Rightarrow> False)"

definition well_answered :: "handled \<Rightarrow> bool" where
  "well_answered x \<longleftrightarrow>
     (case fst (fst x) of Panic _ \<Rightarrow> True | Answer a \<Rightarrow> 500 \<le> rs_status a \<longrightarrow> redacted_body (rs_body a))"

named_theorems answered \<open>results whose answer says nothing about a failure of the server\<close>
named_theorems serving \<open>results that leave a server in order\<close>
named_theorems authing \<open>operations that change sessions only\<close>
named_theorems foreign \<open>operations that leave the rows of other vaults alone\<close>

interpretation answers: branching well_answered .

lemmas answered_rules = answers.rules

lemma answered_ends [answered]:
  "well_answered (problem r st title d code s w)"
  "well_answered (writeAuthProblem env r e s w)"
  "st < 500 \<Longrightarrow> well_answered (writeJSON st v s w)"
  "st < 500 \<Longrightarrow> well_answered (status_only st s w)"
  "well_answered ((Panic m, ls, s), w)"
  by (simp_all add: well_answered_def problem_def WriteProblem_def writeAuthProblem_def writeJSON_def status_only_def
      redacted_body_def Let_def split: err.split)

lemma answered_plain [answered]:
  "rs_status a < 500 \<Longrightarrow> well_answered ((Answer a, ls, s), w)"
  by (simp add: well_answered_def)

lemma answered_failed [answered]: "well_answered (failed r st title e code s w)"
  unfolding failed_def by (rule answered answered_rules)+

text \<open>A server in order: its settings allow persistent sessions, its tuning comes from the database and is valid.\<close>

definition server_ok :: "env \<Rightarrow> server \<Rightarrow> bool" where
  "server_ok env s \<longleftrightarrow> mg_store (sv_mgr s) \<and> mg_idle (sv_mgr s) = cf_idle (sv_cfg s)
     \<and> mg_max (sv_mgr s) = cf_max (sv_cfg s) \<and> tn_loader (sv_tn s) = Some (GetServerTuning env)
     \<and> tn_file (sv_tn s) = cf_tuning_file (sv_cfg s) \<and> tuning_inv (sv_tn s)"

section \<open>How the ends of a handler touch the world\<close>

lemma writeAuthProblem_answer:
  "\<exists>a ls. writeAuthProblem env r e s w = ((Answer a, ls, s), w)
     \<and> rs_status a = (case e of EAuthBackend _ \<Rightarrow> 500 | _ \<Rightarrow> 401)"
  by (cases e) (simp_all add: writeAuthProblem_def WriteProblem_def Let_def)

lemma failed_cases: "failed r st title e code s w = problem r st title (DErr e) code s w \<or> (\<exists>m. failed r st title e code s w = ((Panic m, [], s), w))"
  by (cases e) (simp_all add: failed_def)

lemma ends_world [simp]:
  "snd (problem r st title d code s w) = w"
  "snd (failed r st title e code s w) = w"
  "snd (writeJSON st v s w) = w"
  "snd (status_only st s w) = w"
  "snd (writeAuthProblem env r e s w) = w"
  using failed_cases [of r st title e code s w] writeAuthProblem_answer [of env r e s w]
  by (auto simp: problem_def writeJSON_def status_only_def WriteProblem_def Let_def)

lemma ends_server [simp]:
  "server_of (problem r st title d code s w) = s"
  "server_of (failed r st title e code s w) = s"
  "server_of (writeJSON st v s w) = s"
  "server_of (status_only st s w) = s"
  "server_of (writeAuthProblem env r e s w) = s"
  "server_of ((x, ls, s), w) = s"
  using failed_cases [of r st title e code s w] writeAuthProblem_answer [of env r e s w]
  by (auto simp: server_of_def problem_def writeJSON_def status_only_def WriteProblem_def Let_def)

section \<open>Runs of the store\<close>

lemma run_ends [run]:
  "store_run env w (snd (problem r st title d code s w))"
  "store_run env w (snd (failed r st title e code s w))"
  "store_run env w (snd (writeJSON st v s w))"
  "store_run env w (snd (status_only st s w))"
  "store_run env w (snd (writeAuthProblem env r e s w))"
  by simp_all

lemma run_crypto [run]:
  "store_run env w (snd (NewDEK env w))"
  "store_run env w (snd (WrapDEK env pw dek w))"
  "store_run env w (snd (NewRandomToken env w))"
  unfolding NewDEK_def WrapDEK_def NewRandomToken_def Let_def by (rule run run_rules)+

lemma run_drop_session: "store_run env w (drop_session env th m w)"
  unfolding drop_session_def by (auto intro: run)

lemma run_prolong [run]: "store_run env w (snd (prolong env tok ts s m w))"
  unfolding prolong_def Let_def by (auto intro: run run_drop_session)

lemma run_Touch [run]: "store_run env w (snd (Touch env tok ts m w))"
  unfolding Touch_def Let_def by (rule run run_rules run_after)+

lemma run_CreateSession [run]: "store_run env w (snd (CreateSession env v dek ts m w))"
  unfolding CreateSession_def Let_def by (rule run run_rules)+

lemma run_Invalidate [run]: "store_run env w (snd (Invalidate env tok m w))"
  unfolding Invalidate_def Let_def by (simp add: run_drop_session)

lemma run_requireSession [run]: "store_run env w (snd (requireSession env r m w))"
  unfolding requireSession_def Let_def by (rule run run_rules)+

lemma run_requireVaultAuth [run]: "store_run env w (snd (requireVaultAuth env r m w))"
  unfolding requireVaultAuth_def action_auth_def actionTokenVault_def Let_def by (rule run run_rules)+

lemma run_Reload: "tn_loader s = Some (GetServerTuning env) \<Longrightarrow> store_run env w (snd (Reload io s w))"
  unfolding Reload_def by simp (rule run run_rules)+

lemma run_RetrieveWithDebug [run]: "store_run env w (snd (RetrieveWithDebug env e v u q mc mt sess opts d w))"
proof -
  have "store_run env w (snd (payloadToChunkBody env e sess p w))" for p w
    unfolding payloadToChunkBody_def Let_def by (rule run run_rules)+
  note [run] = this
  have "store_run env w (snd (pack_loop env e sess cm mc mt rs used out pk w))" for mc mt cm rs used out pk w
  proof (induction rs arbitrary: used out pk w)
    case (Cons x xs)
    note [run] = Cons.IH
    show ?case unfolding pack_loop.simps Let_def by (rule run run_rules)+
  qed simp
  note [run] = this
  have "store_run env w (snd (prefer_session env e p k rs w))" for p k rs w
    unfolding prefer_session_def Let_def by (rule run run_rules)+
  note [run] = this
  show ?thesis unfolding RetrieveWithDebug_def Let_def by (rule run run_rules)+
qed

lemma run_GetChunkByID [run]: "store_run env w (snd (GetChunkByID env e v i sess w))"
proof -
  have "store_run env w (snd (payloadToChunkBody env e sess p w))" for p w
    unfolding payloadToChunkBody_def Let_def by (rule run run_rules)+
  note [run] = this
  show ?thesis unfolding GetChunkByID_def Let_def by (rule run run_rules)+
qed

text \<open>The handlers.\<close>

interpretation run_branches: branching "\<lambda>x. store_run env w (snd x)" for env w .

lemmas run_branch = run_branches.on_err run_branches.on_body

lemma run_create_vault [run]: "store_run env w (snd (create_vault env r b pw m s w))"
  unfolding create_vault_def Let_def by (rule run run_rules)+

lemma run_vaultInit [run]: "store_run env w (snd (vaultInit env r s w))"
  unfolding vaultInit_def Let_def by (rule run run_rules)+

lemma run_open_session [run]: "store_run env w (snd (open_session env r v dek ts s w))"
  unfolding open_session_def by (rule run run_rules)+

lemma run_vaultUnlock [run]: "store_run env w (snd (vaultUnlock env r s w))"
  unfolding vaultUnlock_def Let_def by (rule run run_rules run_branch)+

lemma run_vaultLock [run]: "store_run env w (snd (vaultLock env r s w))"
  unfolding vaultLock_def Let_def by (rule run run_rules)+

lemma run_append_messages: "store_run env w (append_messages env v u k ms w)"
proof (induction ms arbitrary: w)
  case (Cons m ms)
  show ?case using run_trans [OF Cons.IH run_writes(10)] by (cases m) simp
qed simp

lemma run_rests [run]:
  "store_run env w (snd (mint_rest env sess r s w))"
  "store_run env w (snd (retrieve_rest env a r s w))"
  "store_run env w (snd (get_rest env i a r s w))"
  "store_run env w (snd (delete_rest env i a r s w))"
  "store_run env w (snd (stats_rest env a r s w))"
  "store_run env w (snd (tuning_rest a r s w))"
  unfolding mint_rest_def retrieve_rest_def run_query_def get_rest_def delete_rest_def stats_rest_def tuning_rest_def
    Let_def by (rule run run_rules run_branch)+

lemma run_ingest_rest [run]: "store_run env w (snd (ingest_rest env a r s w))"
proof -
  have "store_run env w (snd (ingest_store env sess vid q r s w))" for sess vid q
    unfolding ingest_store_def Let_def
    by (rule runs.on_pair, rule run_trans [OF run_IngestWithDebug run_append_messages]; (rule run run_rules)+)
  note [run] = this
  show ?thesis unfolding ingest_rest_def Let_def by (rule run run_rules run_branch)+
qed

lemma run_reload_rest:
  "tn_loader (sv_tn s) = Some (GetServerTuning env) \<Longrightarrow> store_run env w (snd (reload_rest io a r s w))"
  unfolding reload_rest_def Let_def by (rule run run_Reload run_rules | assumption)+

lemma run_patch_rest:
  "tn_loader (sv_tn s) = Some (GetServerTuning env) \<Longrightarrow> store_run env w (snd (patch_rest io env a r s w))"
  unfolding patch_rest_def Let_def by (rule run run_Reload run_rules run_branch | assumption)+

section \<open>Authentication\<close>

text \<open>What an authentication may change in the database: the sessions.\<close>

abbreviation no_sessions :: "db \<Rightarrow> db" where "no_sessions d \<equiv> d\<lparr>d_sessions := []\<rparr>"

interpretation auths: stepwise "\<lambda>w w'. no_sessions (w_db w') = no_sessions (w_db w)"
  by unfold_locales auto

lemmas auth_rules = auths.rules

lemma authing_reads [authing]: "w_db w' = w_db w \<Longrightarrow> no_sessions (w_db w') = no_sessions (w_db w)"
  by simp

lemma authing_calls [authing]:
  "no_sessions (w_db (snd (GetSessionByHash env th w))) = no_sessions (w_db w)"
  "no_sessions (w_db (snd (ValidActionToken env th w))) = no_sessions (w_db w)"
  "no_sessions (w_db (snd (GetVault env i w))) = no_sessions (w_db w)"
  "no_sessions (w_db (snd (now env w))) = no_sessions (w_db w)"
  "no_sessions (w_db (snd (DeleteSession env th w))) = no_sessions (w_db w)"
  "no_sessions (w_db (snd (TouchSession env th ls ex w))) = no_sessions (w_db w)"
  "no_sessions (w_db (drop_session env th m w)) = no_sessions (w_db w)"
  by (simp_all add: reading frame drop_session_def DeleteSession_def TouchSession_def exec_def)

lemma authing_prolong [authing]: "no_sessions (w_db (snd (prolong env tok ts s m w))) = no_sessions (w_db w)"
  unfolding prolong_def Let_def by (simp add: authing_calls)

lemma authing_Touch [authing]: "no_sessions (w_db (snd (Touch env tok ts m w))) = no_sessions (w_db w)"
  unfolding Touch_def Let_def by (rule authing_prolong authing_calls auth_rules auths.on_last)+

lemma authing_requireSession: "no_sessions (w_db (snd (requireSession env r m w))) = no_sessions (w_db w)"
  unfolding requireSession_def Let_def by (rule authing_Touch authing_calls auth_rules)+

lemma authing_requireVaultAuth: "no_sessions (w_db (snd (requireVaultAuth env r m w))) = no_sessions (w_db w)"
  unfolding requireVaultAuth_def action_auth_def actionTokenVault_def Let_def
  by (rule authing_requireSession authing_Touch authing_calls auth_rules)+

text \<open>The two ways of \<open>requireVaultAuth\<close>.\<close>

lemma vault_auth_bearer:
  "has_bearer env r \<Longrightarrow> requireVaultAuth env r m w =
     (case Touch env (bearer_of r) (ev_now env (w_tick w)) m (bump w) of
        ((Inr s, m1), w2) \<Rightarrow> ((Inr (s, ss_vault s), m1), w2)
      | ((Inl _, m1), w2) \<Rightarrow> ((fst (action_auth env (bearer_of r) w2), m1), snd (action_auth env (bearer_of r) w2)))"
  by (auto simp: requireVaultAuth_def now_def Let_def split: prod.split sum.split)

lemma vault_auth_plain:
  "\<not> has_bearer env r \<Longrightarrow> requireVaultAuth env r m w =
     (case requireSession env r m w of
        ((Inl e, m1), w1) \<Rightarrow> ((Inl e, m1), w1) | ((Inr s, m1), w1) \<Rightarrow> ((Inr (s, ss_vault s), m1), w1))"
  by (simp add: requireVaultAuth_def)

text \<open>The manager's settings are not touched.\<close>

definition mgr_settings :: "mgr \<Rightarrow> bool \<times> duration \<times> duration" where
  "mgr_settings m = (mg_store m, mg_idle m, mg_max m)"

lemma mgr_settings_Touch: "mgr_settings (snd (fst (Touch env tok ts m w))) = mgr_settings m"
  by (auto simp: Touch_def Let_def prolong_result mgr_settings_def split: option.split sum.split prod.split)

lemma mgr_settings_auth:
  "mgr_settings (snd (fst (requireSession env r m w))) = mgr_settings m"
  "mgr_settings (snd (fst (requireVaultAuth env r m w))) = mgr_settings m"
proof -
  show a: "mgr_settings (snd (fst (requireSession env r m w))) = mgr_settings m" for m w
    by (simp add: requireSession_def mgr_settings_Touch Let_def split: prod.split)
  show "mgr_settings (snd (fst (requireVaultAuth env r m w))) = mgr_settings m"
  proof (cases "has_bearer env r")
    case True
    then show ?thesis using mgr_settings_Touch [of env "bearer_of r" "ev_now env (w_tick w)" m "bump w"]
      by (auto simp: vault_auth_bearer split: prod.split sum.split)
  next
    case False
    then show ?thesis using a [of m w] by (auto simp: vault_auth_plain split: prod.split sum.split)
  qed
qed

locale guard =
  fixes auth :: "request \<Rightarrow> mgr \<Rightarrow> world \<Rightarrow> ('a res \<times> mgr) \<times> world" and env :: env
  assumes runs: "store_run env w (snd (auth r m w))"
    and sessions_only: "no_sessions (w_db (snd (auth r m w))) = no_sessions (w_db w)"
    and settings: "mgr_settings (snd (fst (auth r m w))) = mgr_settings m"
begin

text \<open>A caller who is not let in gets a 401, or a 500 when the database could not be asked, and changes nothing
  but sessions.\<close>

lemma denied:
  assumes "auth r (sv_mgr s) w = ((Inl e, m), w1)"
  shows "snd (guarded auth env rest r s w) = w1 \<and> no_sessions (w_db w1) = no_sessions (w_db w)
    \<and> server_of (guarded auth env rest r s w) = s\<lparr>sv_mgr := m\<rparr>
    \<and> (\<exists>a. fst (fst (guarded auth env rest r s w)) = Answer a
          \<and> rs_status a = (case e of EAuthBackend _ \<Rightarrow> 500 | _ \<Rightarrow> 401))"
  using assms sessions_only [of r "sv_mgr s" w] writeAuthProblem_answer [of env r e "s\<lparr>sv_mgr := m\<rparr>" w1]
  by (auto simp: guarded_def server_of_def)

lemma let_in:
  assumes "auth r (sv_mgr s) w = ((Inr a, m), w1)"
  shows "guarded auth env rest r s w = rest a r (s\<lparr>sv_mgr := m\<rparr>) w1"
  using assms by (simp add: guarded_def)

lemma run_guarded:
  assumes "\<And>a m w. store_run env w (snd (rest a r (s\<lparr>sv_mgr := m\<rparr>) w))"
  shows "store_run env w (snd (guarded auth env rest r s w))"
  unfolding guarded_def by (rule assms run runs runs.rules)+

lemma answered_guarded: "(\<And>a s w. well_answered (rest a r s w)) \<Longrightarrow> well_answered (guarded auth env rest r s w)"
  unfolding guarded_def by (rule answered answered_rules | assumption)+

lemma settings_kept:
  assumes "auth r (sv_mgr s) w = ((x, m), w1)" "server_ok env s" shows "server_ok env (s\<lparr>sv_mgr := m\<rparr>)"
  using settings [of r "sv_mgr s" w] assms by (simp add: server_ok_def mgr_settings_def)

lemma serving_guarded:
  assumes "server_ok env s" "\<And>a s w. server_ok env s \<Longrightarrow> server_ok env (server_of (rest a r s w))"
  shows "server_ok env (server_of (guarded auth env rest r s w))"
  using assms(2) settings_kept [OF _ assms(1)] by (simp add: guarded_def split: prod.split sum.split)

end

interpretation session_guard: guard "requireSession env" env for env
  by unfold_locales (simp_all add: run_requireSession authing_requireSession mgr_settings_auth)

interpretation vault_guard: guard "requireVaultAuth env" env for env
  by unfold_locales (simp_all add: run_requireVaultAuth authing_requireVaultAuth mgr_settings_auth)

section \<open>The contract with the middleware\<close>

lemma answered_success [answered]:
  "well_answered (writeJSON 200 v s w)" "well_answered (writeJSON 201 v s w)" "well_answered (status_only 204 s w)"
  by (simp_all add: answered_ends)

lemma answered_rests [answered]:
  "well_answered (create_vault env r b pw m s w)"
  "well_answered (open_session env r v dek ts s w)"
  "well_answered (mint_rest env sess r s w)"
  "well_answered (ingest_rest env a r s w)"
  "well_answered (retrieve_rest env a r s w)"
  "well_answered (get_rest env i a r s w)"
  "well_answered (delete_rest env i a r s w)"
  "well_answered (stats_rest env a r s w)"
  "well_answered (tuning_rest a r s w)"
  "well_answered (reload_rest io a r s w)"
  "well_answered (patch_rest io env a r s w)"
  unfolding create_vault_def open_session_def mint_rest_def ingest_rest_def ingest_store_def retrieve_rest_def
    run_query_def get_rest_def delete_rest_def stats_rest_def tuning_rest_def reload_rest_def patch_rest_def Let_def
  by (rule answered answered_rules)+

lemma answered_open [answered]:
  "well_answered (vaultInfo env r s w)"
  "well_answered (vaultInit env r s w)"
  "well_answered (vaultUnlock env r s w)"
  "well_answered (vaultLock env r s w)"
  unfolding vaultInfo_def vaultInit_def vaultUnlock_def vaultLock_def Let_def by (rule answered answered_rules)+

lemma answered_probes [answered]: "well_answered (healthz r s w)" "well_answered (readyz env r s w)"
  unfolding healthz_def readyz_def by (rule answered answered_rules; simp; fail | rule answered answered_rules)+

text \<open>Servers in order.\<close>

interpretation serves: branching "\<lambda>x. server_ok env (server_of x)" for env .

lemmas serving_rules = serves.rules

lemma serving_ends [serving]:
  "server_ok env s \<Longrightarrow> server_ok env (server_of (problem r st title d code s w))"
  "server_ok env s \<Longrightarrow> server_ok env (server_of (failed r st title e code s w))"
  "server_ok env s \<Longrightarrow> server_ok env (server_of (writeJSON st v s w))"
  "server_ok env s \<Longrightarrow> server_ok env (server_of (status_only st s w))"
  "server_ok env s \<Longrightarrow> server_ok env (server_of (writeAuthProblem env' r e s w))"
  "server_ok env s \<Longrightarrow> server_ok env (server_of ((x, ls, s), w))"
  by simp_all

lemma server_ok_mgr:
  "server_ok env s \<Longrightarrow> mgr_settings m = mgr_settings (sv_mgr s) \<Longrightarrow> server_ok env (s\<lparr>sv_mgr := m\<rparr>)"
  by (simp add: server_ok_def mgr_settings_def)

lemma mgr_settings_Create: "CreateSession env v dek ts m w = (y, w') \<Longrightarrow> y = (x, m') \<Longrightarrow> mgr_settings m' = mgr_settings m"
  by (auto simp: CreateSession_def mgr_settings_def Let_def split: sum.splits prod.splits)

lemma server_ok_reload:
  assumes "Reload io (sv_tn s) w = (y, w')" "y = (x, tn)" "server_ok env s" shows "server_ok env (s\<lparr>sv_tn := tn\<rparr>)"
proof -
  have "tn_loader tn = tn_loader (sv_tn s) \<and> tn_file tn = tn_file (sv_tn s)"
    using assms(1,2) by (auto simp: Reload_def split: sum.splits prod.splits)
  moreover have "tuning_inv tn"
    using assms Reload_Inl [of io "sv_tn s" w] Reload_Inr [of io "sv_tn s" w]
    by (cases x) (auto simp: server_ok_def tuning_inv_def)
  ultimately show ?thesis using assms(3) by (simp add: server_ok_def)
qed

lemma serving_rests [serving]:
  "server_ok env s \<Longrightarrow> server_ok env (server_of (create_vault env r b pw m s w))"
  "server_ok env s \<Longrightarrow> server_ok env (server_of (mint_rest env sess r s w))"
  "server_ok env s \<Longrightarrow> server_ok env (server_of (ingest_rest env a r s w))"
  "server_ok env s \<Longrightarrow> server_ok env (server_of (retrieve_rest env a r s w))"
  "server_ok env s \<Longrightarrow> server_ok env (server_of (get_rest env i a r s w))"
  "server_ok env s \<Longrightarrow> server_ok env (server_of (delete_rest env i a r s w))"
  "server_ok env s \<Longrightarrow> server_ok env (server_of (stats_rest env a r s w))"
  "server_ok env s \<Longrightarrow> server_ok env (server_of (tuning_rest a r s w))"
  unfolding create_vault_def mint_rest_def ingest_rest_def ingest_store_def retrieve_rest_def
    run_query_def get_rest_def delete_rest_def stats_rest_def tuning_rest_def Let_def
  by (rule serving serving_rules | assumption)+

lemma serving_tuning [serving]:
  "server_ok env s \<Longrightarrow> server_ok env (server_of (reload_rest io a r s w))"
  "server_ok env s \<Longrightarrow> server_ok env (server_of (patch_rest io env a r s w))"
  unfolding reload_rest_def patch_rest_def Let_def
  by (rule serving server_ok_reload serving_rules | assumption)+

lemma serving_session [serving]:
  "server_ok env s \<Longrightarrow> server_ok env (server_of (open_session env r v dek ts s w))"
  unfolding open_session_def by (rule serving serving_rules server_ok_mgr mgr_settings_Create | assumption)+

lemma serving_open [serving]:
  "server_ok env s \<Longrightarrow> server_ok env (server_of (healthz r s w))"
  "server_ok env s \<Longrightarrow> server_ok env (server_of (readyz env r s w))"
  "server_ok env s \<Longrightarrow> server_ok env (server_of (vaultInfo env r s w))"
  "server_ok env s \<Longrightarrow> server_ok env (server_of (vaultInit env r s w))"
  "server_ok env s \<Longrightarrow> server_ok env (server_of (vaultUnlock env r s w))"
  unfolding healthz_def readyz_def vaultInfo_def vaultInit_def vaultUnlock_def Let_def
  by (rule serving serving_rules | assumption)+

lemma serving_lock [serving]: "server_ok env s \<Longrightarrow> server_ok env (server_of (vaultLock env r s w))"
  by (auto simp: vaultLock_def Invalidate_def Let_def mgr_settings_def intro!: server_ok_mgr)

locale api_handler =
  fixes env :: env and h :: handler
  assumes runs: "server_ok env s \<Longrightarrow> store_run env w (snd (h r s w))"
    and serves: "server_ok env s \<Longrightarrow> server_ok env (server_of (h r s w))"
    and answers: "well_answered (h r s w)"
begin

lemma access_log:
  "snd (AccessLog b h r s w) = snd (h r s w)" "server_of (AccessLog b h r s w) = server_of (h r s w)"
  "fst (fst (AccessLog b h r s w)) = fst (fst (h r s w))"
  by (auto simp: AccessLog_def server_of_def split: prod.split outcome.split)

text \<open>Each layer hands the contract on.\<close>

lemma max_bytes: "api_handler env (MaxBytesTuning h)"
  by unfold_locales (simp_all add: MaxBytesTuning_def MaxBytes_def runs serves answers)

lemma access: "api_handler env (AccessLogTuning h)"
  using answers by unfold_locales (simp_all add: AccessLogTuning_def access_log runs serves well_answered_def)

lemma request_id: "api_handler env (RequestID env h)"
proof
  show "store_run env w (snd (RequestID env h r s w))" if "server_ok env s" for r s w
    unfolding RequestID_def Let_def by (rule run runs [OF that] run_rules)+
  show "server_ok env (server_of (RequestID env h r s w))" if "server_ok env s" for r s w
    using serves [OF that] by (simp add: RequestID_def Let_def split: prod.split)
  show "well_answered (RequestID env h r s w)" for r s w
    using answers by (simp add: RequestID_def Let_def split: prod.split)
qed

text \<open>Behind the outermost layer there are no panics left, and no failure of the server says why.\<close>

lemma recovered:
  assumes "Recoverer h r s w = ((a, ls, s'), w')"
  shows "500 \<le> rs_status a \<Longrightarrow> redacted_body (rs_body a)"
    and "server_ok env s \<Longrightarrow> store_run env w w' \<and> server_ok env s'"
proof -
  obtain x ls0 s0 w0 where h: "h r s w = ((x, ls0, s0), w0)" by (metis surj_pair)
  from h assms have e: "s0 = s'" "w0 = w'"
    by (auto simp: Recoverer_def WriteProblem_def Let_def split: outcome.splits)
  show "500 \<le> rs_status a \<Longrightarrow> redacted_body (rs_body a)"
    using answers [of r s w] assms h
    by (auto simp: Recoverer_def WriteProblem_def well_answered_def redacted_body_def Let_def split: outcome.splits)
  show "server_ok env s \<Longrightarrow> store_run env w w' \<and> server_ok env s'"
    using runs [of s w r] serves [of s r w] h e by (simp add: server_of_def)
qed

end

lemma routes_contract: "api_handler env (handler_for io env rt)"
proof
  show "store_run env w (snd (handler_for io env rt r s w))" if "server_ok env s" for r s w
  proof -
    have l: "tn_loader (sv_tn (s\<lparr>sv_mgr := m\<rparr>)) = Some (GetServerTuning env)" for m
      using that by (simp add: server_ok_def)
    show ?thesis
      unfolding handler_for_def healthz_def readyz_def vaultInfo_def mintActionToken_def ingest_def retrieve_def getChunk_def
        deleteChunk_def vaultStats_def getTuning_def postTuningReload_def patchTuning_def
      by (cases rt; simp only: route.case; (rule run run_rules vault_guard.run_guarded session_guard.run_guarded
            run_reload_rest [OF l] run_patch_rest [OF l])+)
  qed
  show "server_ok env (server_of (handler_for io env rt r s w))" if "server_ok env s" for r s w
    unfolding handler_for_def mintActionToken_def ingest_def retrieve_def getChunk_def
      deleteChunk_def vaultStats_def getTuning_def postTuningReload_def patchTuning_def
    by (cases rt; simp only: route.case; (rule that serving vault_guard.serving_guarded session_guard.serving_guarded | assumption)+)
  show "well_answered (handler_for io env rt r s w)" for r s w
    unfolding handler_for_def mintActionToken_def ingest_def retrieve_def getChunk_def
      deleteChunk_def vaultStats_def getTuning_def postTuningReload_def patchTuning_def
    by (cases rt; simp only: route.case; (rule answered vault_guard.answered_guarded session_guard.answered_guarded)+)
qed

interpretation router: api_handler env "\<lambda>r. handler_for io env (rq_route r) r" for env io
  by unfold_locales (auto intro: api_handler.runs [OF routes_contract] api_handler.serves [OF routes_contract]
      api_handler.answers [OF routes_contract])

interpretation stack: api_handler env
    "RequestID env (AccessLogTuning (MaxBytesTuning (\<lambda>r. handler_for io env (rq_route r) r)))" for env io
  by (rule api_handler.request_id api_handler.access router.max_bytes)+

end
