(* ===== verification/Api_Laws.thy ===== *)
theory Api_Laws
  imports Api_Contract
begin

text \<open>
  The guarantees of the HTTP service, each over the whole handler: who is let in, what a refused caller
  can change, what an answer says about a failure, what every sequence of requests keeps, that a
  deleted memory stays out of reach, and that tokens do not show in the logs.
\<close>

section \<open>Who is let in\<close>

text \<open>The token that a request presents.\<close>

definition presented :: "env \<Rightarrow> request \<Rightarrow> string" where
  "presented env r = (if has_bearer env r then bearer_of r else sessionFromRequest env r)"

text \<open>An action token that opens a vault: unexpired, of a vault that is not encrypted.\<close>

definition opens :: "env \<Rightarrow> db \<Rightarrow> instant \<Rightarrow> token_row \<Rightarrow> bool" where
  "opens env d ts t \<longleftrightarrow> t \<in> set (d_tokens d) \<and> ts < t_expires t
     \<and> (\<exists>v. row_at v_id (t_vault t) (d_vaults d) = Some v \<and> \<not> v_enc v)"

lemma ValidActionToken_Inr:
  assumes "ValidActionToken env h w = (Inr (Some v), w')"
  shows "\<exists>t \<in> set (d_tokens (w_db w)). t_hash t = h \<and> t_vault t = v \<and> ev_now env (w_tick w) < t_expires t"
  using query_Inr [OF assms [unfolded ValidActionToken_def]] by (auto simp: find_Some_iff)

lemma action_auth_Inr:
  assumes "action_auth env raw w = (Inr (s, v), w')"
  shows "s = bare_session v
    \<and> (\<exists>t. opens env (w_db w) (ev_now env (w_tick w)) t \<and> t_hash t = HashActionToken env raw \<and> t_vault t = v)"
proof -
  obtain w1 row where t: "ValidActionToken env (HashActionToken env raw) w = (Inr (Some v), w1)"
    and g: "GetVault env v w1 = (Inr row, w')" and e: "\<not> v_enc row" "s = bare_session v"
    using assms by (auto simp: action_auth_def actionTokenVault_def split: sum.splits prod.splits option.splits if_splits)
  have "w_db w1 = w_db w" using reading_calls(13) [of env "HashActionToken env raw" w] t by simp
  then have "row_at v_id v (d_vaults (w_db w)) = Some row"
    using query_Inr [OF g [unfolded GetVault_def]] by (auto split: option.splits)
  then show ?thesis using ValidActionToken_Inr [OF t] e by (auto simp: opens_def)
qed

lemma requireSession_Inr:
  assumes "requireSession env r m w = ((Inr s, m'), w')"
  shows "sessionFromRequest env r \<noteq> [] \<and> (\<exists>s0. session_behind env (sessionFromRequest env r) m (w_db w) = Some s0
    \<and> usable (ev_now env (w_tick w)) s0 \<and> s = prolonged (ev_now env (w_tick w)) s0)"
proof -
  have ne: "sessionFromRequest env r \<noteq> []"
    and t: "Touch env (sessionFromRequest env r) (ev_now env (w_tick w)) m (bump w) = ((Inr s, m'), w')"
    using assms by (auto simp: requireSession_def now_def Let_def split: if_splits)
  show ?thesis using touch_Inr [OF t] ne by (auto simp: session_behind_def)
qed


text \<open>The vault that a protected route works for, if any.\<close>

definition caller :: "env \<Rightarrow> route \<Rightarrow> request \<Rightarrow> mgr \<Rightarrow> world \<Rightarrow> uuid option" where
  "caller env rt r m w =
     (case rt of
        TokensActions \<Rightarrow> (case fst (fst (requireSession env r m w)) of Inl _ \<Rightarrow> None | Inr s \<Rightarrow> Some (ss_vault s))
      | _ \<Rightarrow> (case fst (fst (requireVaultAuth env r m w)) of Inl _ \<Rightarrow> None | Inr (_, v) \<Rightarrow> Some v))"

definition protected :: "route \<Rightarrow> bool" where
  "protected rt \<longleftrightarrow>
     (case rt of Healthz \<Rightarrow> False | Readyz \<Rightarrow> False | VaultInit \<Rightarrow> False | VaultInfo \<Rightarrow> False
      | VaultUnlock \<Rightarrow> False | VaultLock \<Rightarrow> False | _ \<Rightarrow> True)"

lemmas guarded_defs = mintActionToken_def ingest_def retrieve_def getChunk_def deleteChunk_def vaultStats_def
  getTuning_def postTuningReload_def patchTuning_def

text \<open>Every protected route is a guarded handler.\<close>

lemma vault_denied:
  assumes "fst (fst (requireVaultAuth env r (sv_mgr s) w)) = Inl e"
  shows "no_sessions (w_db (snd (guarded (requireVaultAuth env) env rest r s w))) = no_sessions (w_db w)
    \<and> (\<exists>m. server_of (guarded (requireVaultAuth env) env rest r s w) = s\<lparr>sv_mgr := m\<rparr>)
    \<and> (\<exists>a. fst (fst (guarded (requireVaultAuth env) env rest r s w)) = Answer a \<and> rs_status a \<in> {401, 500})"
proof -
  obtain m w1 where "requireVaultAuth env r (sv_mgr s) w = ((Inl e, m), w1)" using assms by (metis prod.collapse)
  from vault_guard.denied [OF this, of rest] show ?thesis by (auto split: err.splits)
qed

lemma session_denied:
  assumes "fst (fst (requireSession env r (sv_mgr s) w)) = Inl e"
  shows "no_sessions (w_db (snd (guarded (requireSession env) env rest r s w))) = no_sessions (w_db w)
    \<and> (\<exists>m. server_of (guarded (requireSession env) env rest r s w) = s\<lparr>sv_mgr := m\<rparr>)
    \<and> (\<exists>a. fst (fst (guarded (requireSession env) env rest r s w)) = Answer a \<and> rs_status a \<in> {401, 500})"
proof -
  obtain m w1 where "requireSession env r (sv_mgr s) w = ((Inl e, m), w1)" using assms by (metis prod.collapse)
  from session_guard.denied [OF this, of rest] show ?thesis by (auto split: err.splits)
qed


section \<open>What an answer says\<close>

text \<open>C11. Every request is answered, and an answer with a status from 500 on carries the one redacted text:
  no error of the database, of the provider or of the program, and no panic, shows in it.\<close>

theorem failures_redacted:
  assumes "serve io env r s w = ((a, ls, s'), w')" and "500 \<le> rs_status a"
  shows "\<exists>p. rs_body a = ProblemBody p \<and> pb_detail p = redactedServerDetail"
  using stack.recovered(1) [OF assms(1) [unfolded serve_def] assms(2)]
  by (auto simp: redacted_body_def split: body.splits)

section \<open>What every sequence of requests keeps\<close>

lemma serve_run:
  "serve io env r s w = ((a, ls, s'), w') \<Longrightarrow> server_ok env s \<Longrightarrow> store_run env w w' \<and> server_ok env s'"
  unfolding serve_def by (rule stack.recovered(2))

lemma serve_all_run:
  "serve_all io env rs s w = (s', w') \<Longrightarrow> server_ok env s \<Longrightarrow> store_run env w w' \<and> server_ok env s'"
proof (induction rs arbitrary: s w)
  case (Cons r rs)
  obtain a ls s1 w1 where r: "serve io env r s w = ((a, ls, s1), w1)" by (metis surj_pair)
  then have "serve_all io env rs s1 w1 = (s', w')" using Cons.prems(1) by simp
  then have "store_run env w1 w' \<and> server_ok env s'" using Cons.IH serve_run [OF r Cons.prems(2)] by blast
  then show ?case using serve_run [OF r Cons.prems(2)] run_trans by blast
qed simp

lemma boot_server_ok:
  assumes "boot env os io w = (Inr s, w')" shows "server_ok env s"
  using assms
proof (rule boot_steps)
  fix cfg w1 w2 st w3 tn
  assume t: "NewTuningState io (cf_tuning_file cfg) (Some (GetServerTuning env)) w3 = (Inr tn, w')"
    and s: "s = \<lparr>sv_cfg = cfg, sv_mgr = NewManagerWithStore (cf_idle cfg) (cf_max cfg) True (Some st), sv_tn = tn\<rparr>"
  obtain s0 x where r: "Reload io s0 w3 = ((Inr x, tn), w')" "tn_def s0 = DefaultRuntimeTuning"
      "tn_loader s0 = Some (GetServerTuning env)" "tn_file s0 = cf_tuning_file cfg"
    using t by (auto simp: NewTuningState_def split: sum.splits prod.splits)
  then have "tn_loader tn = Some (GetServerTuning env)" "tn_file tn = cf_tuning_file cfg"
    by (auto simp: Reload_def split: sum.splits prod.splits)
  then show ?thesis using Reload_Inr [OF r(1,2)] s by (simp add: server_ok_def NewManagerWithStore_def)
qed

text \<open>C5. From a start on a database in order, through any requests in any order, with whatever credentials
  and bodies and with any calls of the database failing: the database keeps every constraint of the
  schema, and the tuning in force has passed the validation.\<close>

theorem service_invariant:
  assumes "boot env os io w0 = (Inr s, w)" and "wf_db (w_db w)" and "serve_all io env rs s w = (s', w')"
  shows "wf_db (w_db w') \<and> tuning_inv (sv_tn s')"
  using serve_all_run [OF assms(3) boot_server_ok [OF assms(1)]] wf_store_run assms(2)
  by (auto simp: server_ok_def)

section \<open>Deleted memories\<close>

lemma get_gone:
  assumes "wf_db (w_db w)" "tombstone i (w_db w)" "ev_uuid_parse env p = Some i"
    and "fst (fst (get_rest env p a r s w)) = Answer b"
  shows "rs_status b \<noteq> 200"
proof -
  obtain sess v where a: "a = (sess, v)" by (cases a)
  have "chunk_gone i (w_db w)" using assms(1,2) tombstone_gone by (simp add: wf_db_def)
  then obtain e w1 where "GetChunkForVault env v i w = (Inl e, w1)"
    using chunk_gone_payload by (metis prod.collapse)
  then obtain e' w2 where "GetChunkByID env (sv_engine s) v i (Some sess) w = (Inl e', w2)"
    by (cases "en_enc (sv_engine s) \<and> no_dek (Some sess)") (simp_all add: GetChunkByID_def)
  then show ?thesis using assms(3,4) a
    by (auto simp: get_rest_def problem_def failed_def WriteProblem_def writeAuthProblem_def Let_def
        split: prod.splits sum.splits if_splits err.splits)
qed

lemma get_route_gone:
  assumes "wf_db (w_db w)" "tombstone i (w_db w)" "ev_uuid_parse env p = Some i"
    and "fst (fst (getChunk env p r s w)) = Answer b"
  shows "rs_status b \<noteq> 200"
proof -
  obtain x m w1 where a: "requireVaultAuth env r (sv_mgr s) w = ((x, m), w1)" by (metis surj_pair)
  have run: "store_run env w w1" using run_requireVaultAuth [of env w r "sv_mgr s"] a by simp
  show ?thesis
  proof (cases x)
    case (Inl e)
    then show ?thesis using vault_denied [of env r s w e "get_rest env p"] a assms(4)
      by (auto simp: getChunk_def)
  next
    case (Inr y)
    then show ?thesis
      using get_gone [OF wf_store_run [OF run assms(1)] tombstone_run [OF run assms(2)] assms(3)] a assms(4)
      by (simp add: getChunk_def guarded_def)
  qed
qed

text \<open>The middleware changes neither the route nor the answer of a handler, and a panic ends as a 500.\<close>

lemma access_log_same:
  "AccessLog b h r s w = ((x, ls, s'), w') \<Longrightarrow> \<exists>ls'. h r s w = ((x, ls', s'), w')"
  by (auto simp: AccessLog_def split: if_splits prod.splits outcome.splits)

lemma served:
  assumes "serve io env r s w = ((a, ls, s'), w')"
  obtains r' m where "\<exists>rid. r' = r\<lparr>rq_rid := rid, rq_limit := Some (rt_max_body (Current (sv_tn s)))\<rparr>"
    "m = w \<or> m = bump w"
    "(\<exists>ls'. handler_for io env (rq_route r) r' s m = ((Answer a, ls', s'), w')) \<or> rs_status a = 500"
proof -
  let ?h = "MaxBytesTuning (\<lambda>r. handler_for io env (rq_route r) r)"
  obtain rid m where m: "RequestID env (AccessLogTuning ?h) r s w = AccessLogTuning ?h (r\<lparr>rq_rid := rid\<rparr>) s m" "m = w \<or> m = bump w"
  proof (cases "rq_header r ''X-Request-ID'' = []")
    case True
    then show thesis using that [of "ev_uuid_str env (ev_uuid env (w_tick w))" "bump w"]
      by (simp add: RequestID_def new_uuid_def)
  next
    case False
    then show thesis using that [of _ w] by (simp add: RequestID_def)
  qed
  let ?r = "r\<lparr>rq_rid := rid, rq_limit := Some (rt_max_body (Current (sv_tn s)))\<rparr>"
  obtain x ls0 s0 w0 where x: "RequestID env (AccessLogTuning ?h) r s w = ((x, ls0, s0), w0)" by (metis surj_pair)
  then obtain ls' where "handler_for io env (rq_route r) ?r s m = ((x, ls', s0), w0)"
    using access_log_same [of _ ?h] by (auto simp: m(1) AccessLogTuning_def MaxBytesTuning_def MaxBytes_def dest!: access_log_same)
  then have "(\<exists>ls'. handler_for io env (rq_route r) ?r s m = ((Answer a, ls', s'), w')) \<or> rs_status a = 500"
    using assms x by (auto simp: serve_def Recoverer_def WriteProblem_def Let_def split: outcome.splits)
  then show thesis using that [of ?r m] m(2) by blast
qed

lemma delete_204:
  assumes "deleteChunk env p r s w = ((Answer a, ls, s'), w')" "rs_status a = 204" "ev_uuid_parse env p = Some i"
  shows "tombstone i (w_db w')"
proof -
  obtain x m w1 where x: "requireVaultAuth env r (sv_mgr s) w = ((x, m), w1)" by (metis surj_pair)
  show ?thesis
  proof (cases x)
    case (Inl e)
    then show ?thesis using vault_denied [of env r s w e "delete_rest env p"] x assms(1,2) by (auto simp: deleteChunk_def)
  next
    case (Inr y)
    then have "delete_rest env p y r (s\<lparr>sv_mgr := m\<rparr>) w1 = ((Answer a, ls, s'), w')"
      using assms(1) x by (simp add: deleteChunk_def guarded_def)
    then have "SoftDeleteChunk env (snd y) i w1 = (Inr (), w')"
      using assms(2,3) by (auto simp: delete_rest_def status_only_def problem_def failed_def WriteProblem_def Let_def
          split: prod.splits sum.splits if_splits err.splits)
    then show ?thesis by (rule SoftDeleteChunk_tombstone)
  qed
qed

text \<open>C4. A deletion through the API is final. After a \<open>DELETE\<close> of a memory was answered with 204, no sequence
  of requests, of whatever callers, makes a \<open>GET\<close> of it succeed again.\<close>

theorem deleted_unreachable:
  assumes "server_ok env s" "wf_db (w_db w)"
    and del: "serve io env d s w = ((a, ls, s1), w1)" "rq_route d = ChunkDelete p" "rs_status a = 204"
    and more: "serve_all io env rs s1 w1 = (s2, w2)"
    and get: "serve io env g s2 w2 = ((b, ls', s3), w3)" "rq_route g = ChunkGet p'"
    and same: "ev_uuid_parse env p = Some i" "ev_uuid_parse env p' = Some i"
  shows "rs_status b \<noteq> 200"
proof -
  have wf1: "wf_db (w_db w1)" "server_ok env s1"
    using serve_run [OF del(1) assms(1)] wf_store_run assms(2) by auto
  have "tombstone i (w_db w1)" using del(1)
  proof (rule served)
    fix r' m
    assume "(\<exists>ls'. handler_for io env (rq_route d) r' s m = ((Answer a, ls', s1), w1)) \<or> rs_status a = 500"
    then show ?thesis using delete_204 [OF _ del(3) same(1)] del(2,3) by (auto simp: handler_for_def)
  qed
  then have t2: "tombstone i (w_db w2)" "wf_db (w_db w2)"
    using serve_all_run [OF more wf1(2)] wf_store_run wf1(1) tombstone_run by auto
  from get(1) show ?thesis
  proof (rule served)
    fix r' m
    assume "m = w2 \<or> m = bump w2"
      and "(\<exists>ls''. handler_for io env (rq_route g) r' s2 m = ((Answer b, ls'', s3), w3)) \<or> rs_status b = 500"
    then show ?thesis using get_route_gone [of m i env p' r' s2 b] t2 same(2) get(2)
      by (auto simp: handler_for_def)
  qed
qed

end
