(* ===== verification/Api_Isolation.thy ===== *)
theory Api_Isolation
  imports Api_Laws
begin

text \<open>
  Vaults do not interfere. What a database holds for the other vaults (\<open>other_rows\<close>) is everything but
  the memories, documents, messages, events and tokens of one vault, the sessions, the vectors and the
  tuning. Every operation of the service is shown to keep it for the vault of its caller, call by
  call, with the same rules by which the runs of the store were composed.
\<close>

section \<open>The rows of the other vaults\<close>

definition other_rows :: "uuid \<Rightarrow> db \<Rightarrow> db" where
  "other_rows v d =
     d\<lparr>d_sessions := [], d_embeds := [], d_tuning := None,
       d_chunks := filter (\<lambda>c. c_vault c \<noteq> v) (d_chunks d),
       d_docs := filter (\<lambda>r. sd_vault r \<noteq> v) (d_docs d),
       d_msgs := filter (\<lambda>m. m_vault m \<noteq> v) (d_msgs d),
       d_hist := filter (\<lambda>h. h_vault h \<noteq> v) (d_hist d),
       d_tokens := filter (\<lambda>t. t_vault t \<noteq> v) (d_tokens d)\<rparr>"

interpretation others: stepwise "\<lambda>w w'. other_rows v (w_db w') = other_rows v (w_db w)" for v
  by unfold_locales auto

lemmas foreign_rules = others.rules

lemma kept_rows: "w_db w' = w_db w \<Longrightarrow> other_rows v (w_db w') = other_rows v (w_db w)"
  by simp

lemma auth_keeps: "no_sessions d' = no_sessions d \<Longrightarrow> other_rows v d' = other_rows v d"
  by (cases d; cases d') (simp add: other_rows_def)

lemmas foreign_reads [foreign] = reading [THEN kept_rows]

lemma foreign_exec:
  assumes "\<And>ts d d' x. f ts d = Inr (d', x) \<Longrightarrow> other_rows v d' = other_rows v d"
  shows "other_rows v (w_db (snd (exec env f w))) = other_rows v (w_db w)"
  by (rule exec_inv [of f "\<lambda>d. other_rows v d = other_rows v (w_db w)"]) (simp_all add: assms)

lemma foreign_InsertChunk: "ci_vault c = v \<Longrightarrow> other_rows v (w_db (snd (InsertChunk env c w))) = other_rows v (w_db w)"
proof -
  assume v: "ci_vault c = v"
  obtain r w' where r: "InsertChunk env c w = (r, w')" by (rule prod.exhaust)
  show ?thesis
  proof (cases r)
    case (Inl e)
    then show ?thesis using InsertChunk_Inl r by simp
  next
    case (Inr x)
    then obtain ts n where "w_db w' = chunk_inserted ts n c (w_db w)" using InsertChunk_Inr r by blast
    then show ?thesis using r v by (simp add: other_rows_def chunk_inserted_def new_chunk_row_def)
  qed
qed

lemma filter_soft_delete: "filter (\<lambda>c. c_vault c \<noteq> v) (soft_delete_rows ts v i cs) = filter (\<lambda>c. c_vault c \<noteq> v) cs"
  by (induction cs) (auto simp: soft_delete_rows_def)

lemma foreign_SoftDeleteChunk [foreign]:
  "other_rows v (w_db (snd (SoftDeleteChunk env v i w))) = other_rows v (w_db w)"
proof -
  have [foreign]: "other_rows v (w_db (snd (exec env (\<lambda>ts d. Inr (d\<lparr>d_chunks := soft_delete_rows ts v i (d_chunks d)\<rparr>, P d)) w)))
      = other_rows v (w_db w)" for w and P :: "db \<Rightarrow> bool"
    by (rule foreign_exec) (auto simp: other_rows_def filter_soft_delete)
  have [foreign]: "other_rows v (w_db (snd (exec env (\<lambda>_ d. Inr (d\<lparr>d_embeds := f d\<rparr>, ())) w))) = other_rows v (w_db w)" for w f
    by (rule foreign_exec) (auto simp: other_rows_def)
  show ?thesis
    unfolding SoftDeleteChunk_def by (rule foreign others.on_last foreign_rules)+
qed

lemma filter_prune: "filter (\<lambda>m. m_vault m \<noteq> v) (prune_rows v u k n ms) = filter (\<lambda>m. m_vault m \<noteq> v) ms"
proof -
  have "filter (\<lambda>m. m_vault m \<noteq> v) xs = filter (\<lambda>m. m_vault m \<noteq> v) (filter (\<lambda>m. \<not> in_conversation v u k m) xs)" for xs
    by (auto simp: in_conversation_def intro: filter_cong)
  then show ?thesis using prune_rows_others by metis
qed

lemma foreign_writes [foreign]:
  "other_rows v (w_db (snd (AppendSessionMessage env v u k role content w))) = other_rows v (w_db w)"
  "other_rows v (w_db (snd (PruneSessionMessages env v u k keep w))) = other_rows v (w_db w)"
  "other_rows v (w_db (snd (SetServerTuningOverrides env raw w))) = other_rows v (w_db w)"
  unfolding AppendSessionMessage_def PruneSessionMessages_def SetServerTuningOverrides_def
  by (rule foreign_exec; auto simp: other_rows_def filter_prune split: if_splits option.splits)+

lemma foreign_InsertActionToken [foreign]:
  "other_rows v (w_db (snd (InsertActionToken env v h sc ex w))) = other_rows v (w_db w)"
proof -
  have [foreign]: "other_rows v (w_db (snd (exec env (\<lambda>_ d.
      if row_at t_id i (d_tokens d) \<noteq> None then Inl e1 else if row_at v_id v (d_vaults d) = None then Inl e2
      else Inr (d\<lparr>d_tokens := d_tokens d @ [\<lparr>t_id = i, t_vault = v, t_hash = h, t_scopes = sc, t_expires = ex\<rparr>]\<rparr>, ())) w)))
      = other_rows v (w_db w)" for w i e1 e2
    by (rule foreign_exec) (auto simp: other_rows_def split: if_splits)
  show ?thesis unfolding InsertActionToken_def Let_def by (rule foreign foreign_rules)+
qed

lemma foreign_InsertSourceDocument:
  "sd_vault r = v \<Longrightarrow> other_rows v (w_db (snd (InsertSourceDocument env r w))) = other_rows v (w_db w)"
  unfolding InsertSourceDocument_def
  by (rule foreign_exec) (auto simp: other_rows_def insert_doc_row_def split: if_splits)

section \<open>Ingest\<close>

lemmas foreign_seal [foreign] = seal_payload_db [THEN kept_rows]

lemma foreign_insert_memory [foreign]:
  "other_rows (in_vault inp) (w_db (snd (insert_memory env e inp (memory_row inp i h m sv tsv vec k mt src) plain w)))
   = other_rows (in_vault inp) (w_db w)"
  unfolding insert_memory_def by (rule foreign foreign_InsertChunk foreign_rules memory_row_simps)+

lemma foreign_upsert [foreign]:
  "other_rows (in_vault inp) (w_db (snd (upsertSourceDocument env e inp txt title tn w))) = other_rows (in_vault inp) (w_db w)"
  unfolding upsertSourceDocument_def Let_def
  by (rule foreign foreign_rules foreign_InsertSourceDocument doc_row.select_convs)+

lemma foreign_attach [foreign]:
  "other_rows (in_vault inp) (w_db (snd (attachSharedSource env e inp work w))) = other_rows (in_vault inp) (w_db w)"
  unfolding attachSharedSource_def Let_def by (rule foreign foreign_rules)+

lemma foreign_persist [foreign]:
  "other_rows (in_vault inp) (w_db (snd (persistStructuredItem env e inp x h tn w))) = other_rows (in_vault inp) (w_db w)"
  "other_rows (in_vault inp) (w_db (snd (persistV1TextChunk env e inp f tn w))) = other_rows (in_vault inp) (w_db w)"
  unfolding persistStructuredItem_def persistV1TextChunk_def Let_def by (rule foreign foreign_rules)+

lemma foreign_structured_loop [foreign]:
  "other_rows (in_vault inp) (w_db (snd (structured_loop env e inp xs seen ins dbg w))) = other_rows (in_vault inp) (w_db w)"
proof (induction xs arbitrary: seen ins dbg w)
  case (Cons x xs)
  note [foreign] = Cons.IH
  show ?case unfolding structured_loop.simps Let_def by (rule foreign foreign_rules)+
qed simp

lemma foreign_text_loop [foreign]:
  "other_rows (in_vault inp) (w_db (snd (text_loop env e inp fs seen ins dbg w))) = other_rows (in_vault inp) (w_db w)"
proof (induction fs arbitrary: seen ins dbg w)
  case (Cons x xs)
  note [foreign] = Cons.IH
  show ?case unfolding text_loop.simps Let_def by (rule foreign foreign_rules)+
qed simp

lemma foreign_prune_after: "other_rows (in_vault inp) (w_db (prune_after env e inp w)) = other_rows (in_vault inp) (w_db w)"
  unfolding prune_after_def Let_def by (rule foreign)

lemma foreign_IngestWithDebug:
  "other_rows (in_vault inp) (w_db (snd (IngestWithDebug env e inp d w))) = other_rows (in_vault inp) (w_db w)"
proof -
  have [foreign]: "other_rows (in_vault inp) (w_db (snd (ingestStructuredWork env e inp work d w))) = other_rows (in_vault inp) (w_db w)"
    for work w unfolding ingestStructuredWork_def
    by (rule foreign others.on_last [OF foreign_prune_after] foreign_rules)+
  show ?thesis
    unfolding IngestWithDebug_def ingest_infer_def ingest_text_def Let_def
    by (rule foreign others.on_last [OF foreign_prune_after] foreign_rules)+
qed

lemma foreign_append: "other_rows v (w_db (append_messages env v u k ms w)) = other_rows v (w_db w)"
proof (induction ms arbitrary: w)
  case (Cons m ms)
  show ?case using Cons.IH foreign_writes(1) by (cases m) simp
qed simp

section \<open>The handlers\<close>

interpretation foreign_branches: branching "\<lambda>x. other_rows v (w_db (snd x)) = other_rows v d" for v d .

lemmas foreign_branch = foreign_branches.on_err foreign_branches.on_body

lemma foreign_ends [foreign]:
  "other_rows v (w_db (snd (problem r st title d code s w))) = other_rows v (w_db w)"
  "other_rows v (w_db (snd (failed r st title e code s w))) = other_rows v (w_db w)"
  "other_rows v (w_db (snd (writeJSON st j s w))) = other_rows v (w_db w)"
  "other_rows v (w_db (snd (status_only st s w))) = other_rows v (w_db w)"
  "other_rows v (w_db (snd (writeAuthProblem env r e s w))) = other_rows v (w_db w)"
  by simp_all

lemma foreign_ingest_store:
  "other_rows v (w_db (snd (ingest_store env sess v q r s w))) = other_rows v (w_db w)"
proof -
  let ?k = "if iq_session_key q = [] then ''default'' else iq_session_key q"
  have "other_rows v (w_db (snd (IngestWithDebug env (sv_engine s) (input_of q v ?k sess) dbg
      (append_messages env v (iq_user_id q) ?k (iq_messages q) w)))) = other_rows v (w_db w)" for dbg
    using foreign_IngestWithDebug [of "input_of q v ?k sess"] foreign_append by (simp add: input_of_def)
  note [foreign] = this
  show ?thesis unfolding ingest_store_def Let_def by (rule foreign foreign_rules)+
qed

lemma foreign_ingest: "other_rows (snd a) (w_db (snd (ingest_rest env a r s w))) = other_rows (snd a) (w_db w)"
proof -
  obtain sess v where a: "a = (sess, v)" by (cases a)
  have [foreign]: "other_rows v (w_db (snd (ingest_store env sess v' q r s w))) = other_rows v (w_db w)"
    if "\<not> v' \<noteq> v" for v' q using foreign_ingest_store that by simp
  show ?thesis unfolding a ingest_rest_def Let_def prod.case snd_conv
    by (rule foreign foreign_rules foreign_branch | assumption)+
qed

lemma foreign_rests [foreign]:
  "other_rows (ss_vault sess) (w_db (snd (mint_rest env sess r s w))) = other_rows (ss_vault sess) (w_db w)"
  "other_rows (snd a) (w_db (snd (delete_rest env i a r s w))) = other_rows (snd a) (w_db w)"
  "other_rows v (w_db (snd (retrieve_rest env a r s w))) = other_rows v (w_db w)"
  "other_rows v (w_db (snd (get_rest env i a r s w))) = other_rows v (w_db w)"
  "other_rows v (w_db (snd (stats_rest env a r s w))) = other_rows v (w_db w)"
  "other_rows v (w_db (snd (tuning_rest a r s w))) = other_rows v (w_db w)"
  unfolding mint_rest_def delete_rest_def retrieve_rest_def run_query_def get_rest_def stats_rest_def tuning_rest_def
    NewRandomToken_def Let_def
  by (rule foreign reading_RetrieveWithDebug [THEN kept_rows] reading_GetChunkByID [THEN kept_rows]
      foreign_rules foreign_branch)+

lemma foreign_tuning:
  assumes "tn_loader (sv_tn s) = Some (GetServerTuning env)"
  shows "other_rows v (w_db (snd (reload_rest io a r s w))) = other_rows v (w_db w)"
    and "other_rows v (w_db (snd (patch_rest io env a r s w))) = other_rows v (w_db w)"
proof -
  have [foreign]: "other_rows v (w_db (snd (Reload io (sv_tn s) w))) = other_rows v (w_db w)" for w
    unfolding Reload_def assms by simp (rule foreign foreign_rules)+
  show "other_rows v (w_db (snd (reload_rest io a r s w))) = other_rows v (w_db w)"
    and "other_rows v (w_db (snd (patch_rest io env a r s w))) = other_rows v (w_db w)"
    unfolding reload_rest_def patch_rest_def Let_def by (rule foreign foreign_rules foreign_branch)+
qed


end
