(* ===== verification/Api_Tuning.thy ===== *)
theory Api_Tuning
  imports Api_Contract
begin

text \<open>
  A change of the tuning over the API: what is stored, what is validated and what comes into force are
  one and the same, and a refused change leaves everything as it was.
\<close>

definition patch_of :: "request \<Rightarrow> raw_map" where
  "patch_of r = (case decode_body dec_raw_map None (rq_limit r) (rq_body r) of Decoded m \<Rightarrow> m | _ \<Rightarrow> None)"

definition stored_overrides :: "db \<Rightarrow> bytes" where
  "stored_overrides d = (case d_tuning d of None \<Rightarrow> ''{}'' | Some b \<Rightarrow> if b = [] then ''{}'' else b)"

lemma GetServerTuning_Inr:
  "GetServerTuning env w = (Inr b, w') \<Longrightarrow> b = stored_overrides (w_db w) \<and> w_db w' = w_db w"
  by (auto simp: GetServerTuning_def stored_overrides_def dest!: query_Inr)

lemma GetServerTuning_Inl: "GetServerTuning env w = (Inl e, w') \<Longrightarrow> w_db w' = w_db w"
  using reading_calls(14) [of env w] by simp

lemma SetServerTuning_Inr:
  "SetServerTuningOverrides env raw w = (Inr x, w') \<Longrightarrow> w_db w' = (w_db w)\<lparr>d_tuning := Some raw\<rparr>"
  by (auto simp: SetServerTuningOverrides_def dest!: exec_Inr split: option.splits)

lemma SetServerTuning_Inl: "SetServerTuningOverrides env raw w = (Inl e, w') \<Longrightarrow> w_db w' = w_db w"
  by (auto simp: SetServerTuningOverrides_def dest!: exec_Inl)

lemma merged_nonempty: "MergeTuningOverrideJSON b p = Inr raw \<Longrightarrow> raw \<noteq> []"
  by (auto simp: MergeTuningOverrideJSON_def marshal_raw_map_def split: sum.splits)

text \<open>A reload puts in force what the layers and the stored overrides make.\<close>

lemma Reload_force:
  assumes "Reload io tn w = ((Inr x, tn'), w')" "tn_loader tn = Some (GetServerTuning env)"
  shows "w_db w' = w_db w \<and> (\<exists>eff layer. MergeTuningFull io (tn_def tn) (tn_file tn) (stored_overrides (w_db w)) = Inr (eff, layer)
    \<and> tn' = tn\<lparr>tn_current := eff, tn_layer := layer, tn_db := stored_overrides (w_db w)\<rparr>)"
  using assms by (auto simp: Reload_def dest!: GetServerTuning_Inr split: sum.splits prod.splits)

lemma Reload_fails:
  assumes "Reload io tn w = ((Inl e, tn'), w')" "tn_loader tn = Some (GetServerTuning env)"
  shows "w_db w' = w_db w \<and> tn' = tn"
  using assms by (auto simp: Reload_def dest!: GetServerTuning_Inr GetServerTuning_Inl split: sum.splits prod.splits)

lemma patch_accepted:
  assumes "patch_rest io env a r s w = ((Answer b, ls, s'), w')" "rs_status b = 200"
    and l: "tn_loader (sv_tn s) = Some (GetServerTuning env)"
  shows "\<exists>raw eff layer. MergeTuningOverrideJSON (stored_overrides (w_db w)) (patch_of r) = Inr raw
    \<and> w_db w' = (w_db w)\<lparr>d_tuning := Some raw\<rparr>
    \<and> MergeTuningFull io (tn_def (sv_tn s)) (tn_file (sv_tn s)) raw = Inr (eff, layer)
    \<and> s' = s\<lparr>sv_tn := (sv_tn s)\<lparr>tn_current := eff, tn_layer := layer, tn_db := raw\<rparr>\<rparr>"
proof -
  have "\<exists>b0 w1 raw w2 tn. GetServerTuning env w = (Inr b0, w1) \<and> MergeTuningOverrideJSON b0 (patch_of r) = Inr raw
    \<and> SetServerTuningOverrides env raw w1 = (Inr (), w2) \<and> Reload io (sv_tn s) w2 = ((Inr (), tn), w')
    \<and> s' = s\<lparr>sv_tn := tn\<rparr>"
    using assms(1,2)
    apply (simp add: patch_rest_def patch_of_def problem_def WriteProblem_def writeJSON_def Let_def
        split: decoded.splits if_splits sum.splits prod.splits)
    apply clarsimp+
    done
  then obtain b0 w1 raw w2 tn where g: "GetServerTuning env w = (Inr b0, w1)"
    and m: "MergeTuningOverrideJSON b0 (patch_of r) = Inr raw"
    and u: "SetServerTuningOverrides env raw w1 = (Inr (), w2)"
    and rl: "Reload io (sv_tn s) w2 = ((Inr (), tn), w')" and s': "s' = s\<lparr>sv_tn := tn\<rparr>"
    by blast
  have d: "b0 = stored_overrides (w_db w)" "w_db w2 = (w_db w)\<lparr>d_tuning := Some raw\<rparr>"
    using GetServerTuning_Inr [OF g] SetServerTuning_Inr [OF u] by simp_all
  have "stored_overrides (w_db w2) = raw" using d(2) merged_nonempty [OF m] by (simp add: stored_overrides_def)
  with Reload_force [OF rl l] m d s' show ?thesis by auto
qed

lemma patch_refused:
  assumes "patch_rest io env a r s w = ((Answer b, ls, s'), w')" "rs_status b \<noteq> 200"
    and l: "tn_loader (sv_tn s) = Some (GetServerTuning env)"
  shows "s' = s \<and> (w_db w' = w_db w \<or> rs_status b = 500
    \<and> (\<exists>raw. w_db w' = (w_db w)\<lparr>d_tuning := Some raw\<rparr>))"
  using assms(1,2)
  by (auto simp: patch_rest_def problem_def WriteProblem_def writeJSON_def Let_def
      dest!: GetServerTuning_Inl GetServerTuning_Inr SetServerTuning_Inl SetServerTuning_Inr Reload_fails [OF _ l]
      split: decoded.splits if_splits sum.splits prod.splits)

text \<open>The handler of the route, authentication included.\<close>

lemma patch_route:
  assumes "patchTuning io env r s w = ((Answer b, ls, s'), w')" "server_ok env s"
  shows "(\<exists>m. rs_status b \<in> {401, 500} \<and> no_sessions (w_db w') = no_sessions (w_db w) \<and> s' = s\<lparr>sv_mgr := m\<rparr>)
    \<or> (\<exists>a m w1. no_sessions (w_db w1) = no_sessions (w_db w)
         \<and> patch_rest io env a r (s\<lparr>sv_mgr := m\<rparr>) w1 = ((Answer b, ls, s'), w'))"
proof -
  obtain x m w1 where a: "requireVaultAuth env r (sv_mgr s) w = ((x, m), w1)" by (metis surj_pair)
  show ?thesis
  proof (cases x)
    case (Inl e)
    from vault_guard.denied [OF a [unfolded Inl], of "patch_rest io env"] assms(1)
    show ?thesis by (auto simp: patchTuning_def server_of_def split: err.splits)
  next
    case (Inr y)
    have "no_sessions (w_db w1) = no_sessions (w_db w)"
      using authing_requireVaultAuth [of env r "sv_mgr s" w] a by simp
    moreover have "patch_rest io env y r (s\<lparr>sv_mgr := m\<rparr>) w1 = ((Answer b, ls, s'), w')"
      using vault_guard.let_in [OF a [unfolded Inr], of "patch_rest io env"] assms(1) by (simp add: patchTuning_def)
    ultimately show ?thesis by metis
  qed
qed

text \<open>C12. A change of the tuning is all or nothing. When it is answered with 200, what is stored is the old
  overrides with the entries of the body over them, and the tuning in force is what these overrides, the file
  and the defaults make, and passes the validation. On any other answer the tuning in force is the old one;
  the stored one too, unless a 500 reports that the new one was stored but could not be loaded.\<close>

theorem patch_all_or_nothing:
  assumes "patchTuning io env r s w = ((Answer b, ls, s'), w')" "server_ok env s"
  shows "if rs_status b = 200
    then \<exists>raw layer. MergeTuningOverrideJSON (stored_overrides (w_db w)) (patch_of r) = Inr raw
      \<and> d_tuning (w_db w') = Some raw
      \<and> MergeTuningFull io DefaultRuntimeTuning (cf_tuning_file (sv_cfg s)) raw = Inr (Current (sv_tn s'), layer)
      \<and> tuning_ok (Current (sv_tn s'))
    else sv_tn s' = sv_tn s \<and> (d_tuning (w_db w') = d_tuning (w_db w) \<or> rs_status b = 500)"
proof (cases "rs_status b = 200")
  case True
  then obtain a m w1 where n: "no_sessions (w_db w1) = no_sessions (w_db w)"
    and p: "patch_rest io env a r (s\<lparr>sv_mgr := m\<rparr>) w1 = ((Answer b, ls, s'), w')"
    using patch_route [OF assms] by auto
  have t: "d_tuning (w_db w1) = d_tuning (w_db w)" using n by (cases "w_db w1"; cases "w_db w") simp
  have l: "tn_loader (sv_tn (s\<lparr>sv_mgr := m\<rparr>)) = Some (GetServerTuning env)" "tn_def (sv_tn s) = DefaultRuntimeTuning"
      "tn_file (sv_tn s) = cf_tuning_file (sv_cfg s)"
    using assms(2) by (simp_all add: server_ok_def tuning_inv_def)
  obtain raw eff layer where r: "MergeTuningOverrideJSON (stored_overrides (w_db w1)) (patch_of r) = Inr raw"
      "w_db w' = (w_db w1)\<lparr>d_tuning := Some raw\<rparr>"
      "MergeTuningFull io DefaultRuntimeTuning (cf_tuning_file (sv_cfg s)) raw = Inr (eff, layer)"
      "Current (sv_tn s') = eff"
    using patch_accepted [OF p True l(1)] l(2,3) by (auto simp: Current_def)
  have "tuning_ok eff" using r(3) by (auto simp: MergeTuningFull_def Validate_iff split: sum.splits option.splits)
  then show ?thesis using r t True by (auto simp: stored_overrides_def)
next
  case False
  from patch_route [OF assms]
  show ?thesis
  proof (elim disjE exE conjE)
    fix m
    assume "no_sessions (w_db w') = no_sessions (w_db w)" "s' = s\<lparr>sv_mgr := m\<rparr>"
    then have "d_tuning (w_db w') = d_tuning (w_db w)" "sv_tn s' = sv_tn s" by (cases "w_db w'"; cases "w_db w"; simp)+
    then show ?thesis using False by simp
  next
    fix a m w1
    assume n: "no_sessions (w_db w1) = no_sessions (w_db w)"
      and p: "patch_rest io env a r (s\<lparr>sv_mgr := m\<rparr>) w1 = ((Answer b, ls, s'), w')"
    have t: "d_tuning (w_db w1) = d_tuning (w_db w)" using n by (cases "w_db w1"; cases "w_db w") simp
    have "tn_loader (sv_tn (s\<lparr>sv_mgr := m\<rparr>)) = Some (GetServerTuning env)"
      using assms(2) by (simp add: server_ok_def)
    from patch_refused [OF p False this] t False show ?thesis by auto
  qed
qed

end
