(* ===== verification/Api_Sample.thy ===== *)
theory Api_Sample
  imports Api_Isolation Api_Flows Api_Tuning Json_Struct_Laws
begin

text \<open>
  A concrete service: a vault that is not encrypted, with one memory and one action token, behind a
  server in order. The guarantees of the service are applied to requests that it really serves.
\<close>

section \<open>The service\<close>

definition api_env :: env where
  "api_env = demo_env\<lparr>ev_uuid_parse := \<lambda>s. if s = ''9'' then Some 9 else if s = ''7'' then Some 7 else None\<rparr>"

definition plain_vault :: vault_row where
  "plain_vault = demo_vault\<lparr>v_enc := False\<rparr>"

definition api_token :: token_row where
  "api_token = \<lparr>t_id = 5, t_vault = 7, t_hash = ''t'', t_scopes = [], t_expires = ns_hour\<rparr>"

definition api_chunk :: chunk_row where
  "api_chunk = \<lparr>c_id = 9, c_vault = 7, c_user = ''u'', c_ciphertext = None, c_nonce = None, c_key_id = None,
     c_body = Some ''text'', c_hash = ''h'', c_model = ''m'', c_schema = 1, c_tsv = ''text'', c_session_key = Some ''default'',
     c_kind = [], c_meta = None, c_source = None, c_created = 0, c_deleted = None\<rparr>"

definition api_world :: world where
  "api_world = \<lparr>w_db = empty_db\<lparr>d_vaults := [plain_vault], d_tokens := [api_token], d_chunks := [api_chunk]\<rparr>, w_tick = 0\<rparr>"

definition api_config :: config where
  "api_config = \<lparr>cf_http_addr = '':8080'', cf_tuning_file = ''x'', cf_debug_auth = False, cf_debug_full = False,
     cf_db_url = ''db'', cf_enc = EncryptionOff, cf_api_key = [], cf_base_url = [], cf_embed_url = [],
     cf_idle = ns_hour, cf_max = 12 * ns_hour, cf_dim = 1536\<rparr>"

definition api_server :: server where
  "api_server = \<lparr>sv_cfg = api_config, sv_mgr = NewManagerWithStore ns_hour (12 * ns_hour) True (Some no_vault_state),
     sv_tn = \<lparr>tn_def = DefaultRuntimeTuning, tn_file = ''x'', tn_layer = DefaultRuntimeTuning, tn_db = ''{}'',
       tn_current = DefaultRuntimeTuning, tn_loader = Some (GetServerTuning api_env)\<rparr>\<rparr>"

definition api_request :: "route \<Rightarrow> string \<Rightarrow> bytes \<Rightarrow> request" where
  "api_request rt auth body = \<lparr>rq_route = rt, rq_method = [], rq_path = [], rq_remote = [],
     rq_header = (\<lambda>k. if k = ''Authorization'' then auth else if k = ''X-Request-ID'' then ''r'' else []),
     rq_body = body, rq_limit = None, rq_rid = []\<rparr>"

lemma api_server_ok: "server_ok api_env api_server"
  by (simp add: server_ok_def api_server_def api_config_def NewManagerWithStore_def tuning_inv_def tuning_ok_default)

lemma api_world_ok: "wf_db (w_db api_world)"
  by (simp add: wf_defs api_world_def empty_db_def plain_vault_def demo_vault_def api_token_def api_chunk_def
      payload_xor_def auth_mode_check_def)

lemma bearer_t:
  assumes "rq_header r ''Authorization'' = ''bearer t''" shows "has_bearer env r" "bearer_of r = ''t''"
proof -
  have "has_prefix (map (\<lambda>c. chr (ascii_lower (byte c))) ''bearer t'') ''bearer ''" by code_simp
  moreover have "ascii ''bearer t''" by code_simp
  ultimately show "has_bearer env r" using assms by (simp add: has_bearer_def to_lower_ascii)
  have "trim_space (drop 7 ''bearer t'') = ''t''"
    using trim_space_ends [of "''t''" "CHR ''t''" "[]"] by (simp add: space_rune_def)
  then show "bearer_of r = ''t''" using assms by (simp add: bearer_of_def)
qed

lemma no_bearer: "\<not> has_bearer env (api_request rt [] b)" "sessionFromRequest env (api_request rt [] b) = []"
  by (simp_all add: has_bearer_def sessionFromRequest_def has_prefix_def api_request_def)

lemma token_lets_in:
  "rq_header r ''Authorization'' = ''bearer t'' \<Longrightarrow> requireVaultAuth api_env r (sv_mgr api_server) api_world
   = ((Inr (bare_session 7, 7), sv_mgr api_server), bump (bump (bump (bump api_world))))"
  by (simp add: vault_auth_bearer bearer_t Touch_def GetSessionByHash_def query_def action_auth_def actionTokenVault_def
      ValidActionToken_def GetVault_def api_env_def demo_env_def api_server_def NewManagerWithStore_def cache_get_def
      api_world_def empty_db_def row_at_def api_token_def plain_vault_def demo_vault_def HashActionToken_def Let_def)

lemma api_request_header [simp]: "rq_header (api_request rt au b) ''Authorization'' = au"
  by (simp add: api_request_def)

section \<open>The guarantees at work\<close>



lemma failures_redacted_witness:
  "\<exists>a ls s' w' p. serve example_io (api_env\<lparr>ev_fault := \<lambda>_. True\<rparr>) (api_request Readyz [] []) api_server api_world
      = ((a, ls, s'), w') \<and> rs_status a = 503 \<and> rs_body a = ProblemBody p \<and> pb_detail p = redactedServerDetail"
proof -
  obtain a ls s' w' where s: "serve example_io (api_env\<lparr>ev_fault := \<lambda>_. True\<rparr>) (api_request Readyz [] []) api_server api_world
      = ((a, ls, s'), w')" "rs_status a = 503"
    by (simp add: serve_def RequestID_def AccessLogTuning_def AccessLog_def MaxBytesTuning_def MaxBytes_def Recoverer_def
        handler_for_def readyz_def Ping_def query_def problem_def WriteProblem_def api_request_def Current_def
        api_server_def DefaultRuntimeTuning_def)
  then have "500 \<le> rs_status a" by simp
  with failures_redacted [OF s(1)] s show ?thesis by blast
qed

lemma service_invariant_witness:
  "\<exists>srv w. boot demo_env demo_os example_io demo_session_world = (Inr srv, w)
     \<and> wf_db (w_db (snd (serve_all example_io demo_env [api_request VaultInfo [] []] srv w)))"
proof -
  obtain srv w where b: "boot demo_env demo_os example_io demo_session_world = (Inr srv, w)"
      "w_db w = (w_db demo_session_world)\<lparr>d_sessions := []\<rparr>"
    using demo_session_boot by blast
  have "wf_db (w_db w)"
    by (simp add: b(2) wf_defs demo_session_world_def empty_db_def demo_vault_def auth_mode_check_def)
  from service_invariant [OF b(1) this, of "[api_request VaultInfo [] []]"] b(1) show ?thesis
    by (metis prod.collapse)
qed


text \<open>What the middleware makes of a handler's answer when there is no access log.\<close>

lemma serve_answer:
  assumes "handler_for io env (rq_route r) (r\<lparr>rq_rid := h, rq_limit := Some (rt_max_body (Current (sv_tn s)))\<rparr>) s w
      = ((Answer a, ls, s'), w')"
    and "rq_header r ''X-Request-ID'' = h" "h \<noteq> []" "\<not> rt_access_log (Current (sv_tn s))"
  shows "serve io env r s w = ((a, ls, s'), w')"
  using assms by (simp add: serve_def RequestID_def AccessLogTuning_def AccessLog_def MaxBytesTuning_def MaxBytes_def
      Recoverer_def Let_def)

lemma delete_served:
  "\<exists>a ls w'. serve example_io api_env (api_request (ChunkDelete ''9'') ''bearer t'' []) api_server api_world
     = ((a, ls, api_server), w') \<and> rs_status a = 204"
proof -
  let ?r = "api_request (ChunkDelete ''9'') ''bearer t'' []\<lparr>rq_rid := ''r'', rq_limit := Some (2 ^ 20)\<rparr>"
  have a: "requireVaultAuth api_env ?r (sv_mgr api_server) api_world
      = ((Inr (bare_session 7, 7), sv_mgr api_server), bump (bump (bump (bump api_world))))"
    by (rule token_lets_in) simp
  obtain w' where "SoftDeleteChunk api_env 7 9 (bump (bump (bump (bump api_world)))) = (Inr (), w')"
    by (simp add: SoftDeleteChunk_def exec_def api_env_def demo_env_def api_world_def empty_db_def api_chunk_def
        soft_delete_rows_def Let_def)
  moreover have "ev_uuid_parse api_env ''9'' = Some 9" by (simp add: api_env_def)
  ultimately have "deleteChunk api_env ''9'' ?r api_server api_world
      = ((Answer \<lparr>rs_status = 204, rs_body = NoBody\<rparr>, [], api_server), w')"
    using vault_guard.let_in [OF a] by (simp add: deleteChunk_def delete_rest_def status_only_def)
  then have "handler_for example_io api_env (ChunkDelete ''9'') ?r api_server api_world
      = ((Answer \<lparr>rs_status = 204, rs_body = NoBody\<rparr>, [], api_server), w')"
    by (simp add: handler_for_def)
  moreover have "\<not> rt_access_log (Current (sv_tn api_server))" "rt_max_body (Current (sv_tn api_server)) = 2 ^ 20"
    by (simp_all add: api_server_def Current_def DefaultRuntimeTuning_def)
  ultimately have "serve example_io api_env (api_request (ChunkDelete ''9'') ''bearer t'' []) api_server api_world
      = ((\<lparr>rs_status = 204, rs_body = NoBody\<rparr>, [], api_server), w')"
    by (intro serve_answer [where h = "''r''"]) (simp_all add: api_request_def)
  then show ?thesis by simp
qed

lemma deleted_unreachable_witness:
  "\<exists>a ls w1 b ls' s3 w3. serve example_io api_env (api_request (ChunkDelete ''9'') ''bearer t'' []) api_server api_world
     = ((a, ls, api_server), w1) \<and> rs_status a = 204
     \<and> serve example_io api_env (api_request (ChunkGet ''9'') ''bearer t'' []) api_server w1 = ((b, ls', s3), w3)
     \<and> rs_status b \<noteq> 200"
proof -
  obtain a ls w1 where d: "serve example_io api_env (api_request (ChunkDelete ''9'') ''bearer t'' []) api_server api_world
     = ((a, ls, api_server), w1)" "rs_status a = 204"
    using delete_served by blast
  obtain b ls' s3 w3 where g: "serve example_io api_env (api_request (ChunkGet ''9'') ''bearer t'' []) api_server w1
     = ((b, ls', s3), w3)"
    by (metis surj_pair)
  have "rs_status b \<noteq> 200"
    using deleted_unreachable [OF api_server_ok api_world_ok d(1) _ d(2), where rs = "[]" and p = "''9''"] g
    by (simp add: api_request_def api_env_def)
  with d g show ?thesis by blast
qed

text \<open>A password in a request, and a vault with a key.\<close>

definition pw_body :: bytes where
  "pw_body = jx_print (XObj [(''password'', XStr ''pw'')])"

lemma pw_fields:
  "dec_struct init_fields (XObj [(''password'', XStr ''pw'')]) no_init_body = Some \<lparr>ib_password = ''pw'', ib_auth_mode = []\<rparr>"
  "dec_struct unlock_fields (XObj [(''password'', XStr ''pw'')]) [] = Some ''pw''"
proof -
  show "dec_struct init_fields (XObj [(''password'', XStr ''pw'')]) no_init_body = Some \<lparr>ib_password = ''pw'', ib_auth_mode = []\<rparr>"
    "dec_struct unlock_fields (XObj [(''password'', XStr ''pw'')]) [] = Some ''pw''"
    by (simp_all add: dec_struct_def field_for_def init_fields_def unlock_fields_def setting_def no_init_body_def dec_string_field_def)
qed

lemma pw_decoded:
  "decode_body (dec_struct init_fields) no_init_body None pw_body = Decoded \<lparr>ib_password = ''pw'', ib_auth_mode = []\<rparr>"
  "decode_body (dec_struct unlock_fields) [] None pw_body = Decoded ''pw''"
proof -
  have "jx_ok json_max_depth (XObj [(''password'', XStr ''pw'')])" by (simp add: json_max_depth_def valid_utf8_ascii)
  note d = decode_printed [OF this, where mx = None, simplified option.case TrueI True_implies_equals, folded pw_body_def]
  show "decode_body (dec_struct init_fields) no_init_body None pw_body = Decoded \<lparr>ib_password = ''pw'', ib_auth_mode = []\<rparr>"
    "decode_body (dec_struct unlock_fields) [] None pw_body = Decoded ''pw''"
    by (simp_all add: d pw_fields)
qed

lemma pw_not_blank [simp]: "trim_space ''pw'' = ''pw''"
  by (rule trim_space_ends [OF refl]) (simp_all add: space_rune_def)

lemma pw_request:
  "init_request (api_request rt au pw_body) = \<lparr>ib_password = ''pw'', ib_auth_mode = []\<rparr>"
  "unlock_password (api_request rt au pw_body) = ''pw''"
  by (simp_all add: init_request_def unlock_password_def api_request_def pw_decoded)

definition locked_world :: world where
  "locked_world = \<lparr>w_db = empty_db\<lparr>d_vaults := [demo_auto_vault]\<rparr>, w_tick = 0\<rparr>"

lemma unlock_served:
  "\<exists>a ls s' w'. vaultUnlock demo_env (api_request VaultUnlock [] pw_body) api_server locked_world
     = ((Answer a, ls, s'), w') \<and> rs_status a = 200"
proof -
  obtain wr w1 where wr: "WrapDEK demo_env ''pw'' demo_auto_dek empty_world = (Inr wr, w1)"
      "row_wrapped_dek demo_auto_vault = Some wr"
    using demo_auto_key by blast
  have u: "UnwrapDEK demo_env ''pw'' wr = Inr demo_auto_dek" using unwrap_then [OF demo_env_ok(1,2) wr(1)] .
  have g: "GetAnyVault demo_env locked_world = (Inr (Some demo_auto_vault), bump locked_world)"
    by (simp add: GetAnyVault_def query_def demo_env_def locked_world_def)
  have v: "v_auth_mode demo_auto_vault \<noteq> AuthModeAPIKeys" "v_enc demo_auto_vault"
    by (simp_all add: demo_auto_vault_def demo_vault_def AuthModeAPIKeys_def)
  obtain tok m w2 where "CreateSession demo_env (v_id demo_auto_vault) demo_auto_dek (ev_now demo_env 1) (sv_mgr api_server)
      (bump (bump locked_world)) = ((Inr tok, m), w2)"
    by (simp add: CreateSession_def rand_bytes_def demo_env_def InsertSession_def exec_def insert_session_row_def
        api_server_def NewManagerWithStore_def locked_world_def empty_db_def row_at_def Let_def)
  then show ?thesis using g v u wr(2) pw_request(2) [of VaultUnlock "[]"]
    by (simp add: vaultUnlock_def unlock_password_def [symmetric] open_session_def writeJSON_def now_def locked_world_def Let_def)
qed

lemma unlock_sound_witness:
  "\<exists>a ls s' w' tok sess wd. vaultUnlock demo_env (api_request VaultUnlock [] pw_body) api_server locked_world
       = ((Answer a, ls, s'), w')
     \<and> cache_get tok (sv_mgr s') = Some sess \<and> row_wrapped_dek demo_auto_vault = Some wd
     \<and> UnwrapDEK demo_env ''pw'' wd = Inr (ss_dek sess)"
proof -
  obtain a ls s' w' where u: "vaultUnlock demo_env (api_request VaultUnlock [] pw_body) api_server locked_world
       = ((Answer a, ls, s'), w')" "rs_status a = 200"
    using unlock_served by blast
  have "first_vault (w_db locked_world) = Some demo_auto_vault" "v_enc demo_auto_vault"
    by (simp_all add: first_vault_def locked_world_def demo_auto_vault_def demo_vault_def)
  with unlock_sound [OF u] u(1) show ?thesis by (fastforce simp: pw_request)
qed

definition enc_server :: server where
  "enc_server = api_server\<lparr>sv_cfg := api_config\<lparr>cf_enc := EncryptionOn\<rparr>\<rparr>"

lemma init_served:
  "\<exists>a ls s' w'. vaultInit demo_env (api_request VaultInit [] pw_body) enc_server empty_world
     = ((Answer a, ls, s'), w') \<and> rs_status a = 201"
proof -
  have g: "GetAnyVault demo_env empty_world = (Inr None, bump empty_world)"
    by (simp add: GetAnyVault_def query_def demo_env_def empty_world_def empty_db_def)
  have "\<exists>dek wr i w1 w2 w3. NewDEK demo_env (bump empty_world) = (Inr dek, w1) \<and> WrapDEK demo_env ''pw'' dek w1 = (Inr wr, w2)
      \<and> InsertVault demo_env True AuthModeSession (Some (wd_salt wr)) (Some (wd_blob wr)) (sint (wd_time wr))
           (sint (wd_mem wr)) (uint (wd_par wr)) w2 = (Inr i, w3)"
    by (simp add: NewDEK_def WrapDEK_def rand_bytes_def demo_env_def argon_idkey_def new_aead_def argonTime_def argonThreads_def
        argonMemoryKB_def empty_world_def dekSize_def xNonceSize_def InsertVault_def new_uuid_def exec_def insert_vault_row_def
        auth_mode_check_def AuthModeSession_def empty_db_def row_at_def)
  moreover have "IsValidAuthMode AuthModeSession" "AuthModeSession \<noteq> AuthModeAPIKeys"
    by (simp_all add: IsValidAuthMode_def AuthModeSession_def AuthModeAPIKeys_def)
  ultimately show ?thesis using g
    by (auto simp: vaultInit_def api_request_def pw_decoded enc_server_def api_config_def create_vault_def writeJSON_def Let_def)
qed


lemma patch_all_or_nothing_witness:
  "\<exists>b ls s' w'. patchTuning example_io api_env (api_request TuningPatch ''bearer t'' []) api_server api_world
      = ((Answer b, ls, s'), w') \<and> sv_tn s' = sv_tn api_server \<and> rs_status b = 400"
proof -
  let ?r = "api_request TuningPatch ''bearer t'' []"
  have "decode_body dec_raw_map None None [] = Eof" by code_simp
  then obtain b ls s' w' where p: "patchTuning example_io api_env ?r api_server api_world = ((Answer b, ls, s'), w')"
      "rs_status b = 400"
    using vault_guard.let_in [OF token_lets_in [of ?r], of "patch_rest example_io api_env"]
    by (simp add: patchTuning_def patch_rest_def problem_def WriteProblem_def) (simp add: api_request_def Let_def problem_def WriteProblem_def)
  from patch_all_or_nothing [OF p(1) api_server_ok] p show ?thesis by simp
qed

end
