(* ===== verification/Bridge_Laws.thy ===== *)
theory Bridge_Laws
  imports Bridge Api_Sample Json_Struct_Laws
begin

text \<open>
  The bridge and the service speak the same language: what a tool of the MCP server puts into a request
  is what the handler of the service finds in it.
\<close>

section \<open>Fields left out\<close>

lemma dec_omit_str:
  assumes "field_for fs k = Some (setting dec_string_field get put)" "get x = []" "put [] x = x"
  shows "dec_members fs (omit_str k v) x = Some (put v x)"
  using assms by (simp add: omit_str_def setting_def dec_string_field_def)

lemma dec_omit_int:
  assumes "field_for fs k = Some (setting dec_int_field get put)" "put 0 x = x"
    and "- (2 ^ 63) \<le> n" "n < 2 ^ 63"
  shows "dec_members fs (omit_int k n) x = Some (put n x)"
  using assms(1,2) parse_show_int [OF assms(3,4)] by (simp add: omit_int_def setting_def dec_int_field_def)

lemma dec_omit_bool:
  assumes "field_for fs k = Some (setting dec_bool_field get put)" "put False x = x"
  shows "dec_members fs (omit_bool k b) x = Some (put b x)"
  using assms by (simp add: omit_bool_def setting_def dec_bool_field_def)

lemma dec_omit_list:
  assumes "field_for fs k = Some (setting (\<lambda>v _. dec_list_field f v) get put)" "put [] x = x" "dec_all f (map tree vs) = Some vs'"
  shows "dec_members fs (omit_list k (map tree vs)) x = Some (put vs' x)"
  using assms by (cases vs) (auto simp: omit_list_def setting_def dec_list_field_def split: option.splits)

lemma dec_omit_map:
  assumes "field_for fs k = Some (setting dec_map_field get put)" "put None x = x" "get x = None"
    and "jv_ok ff d (JObj (jmap_entries m))"
  shows "dec_members fs (omit_map ff k m) x = Some (put (meta_sorted m) x)"
  using assms dec_map_tree [OF assms(4)]
  by (simp add: omit_map_def meta_sorted_def setting_def del: to_jx.simps)

lemma dec_all_map: "(\<And>v. v \<in> set vs \<Longrightarrow> f (tree v) = Some (g v)) \<Longrightarrow> dec_all f (map tree vs) = Some (map g vs)"
  by (induction vs) simp_all

section \<open>Searching\<close>

definition int64 :: "int \<Rightarrow> bool" where "int64 n \<longleftrightarrow> - (2 ^ 63) \<le> n \<and> n < 2 ^ 63"

definition search_fits :: "search_in \<Rightarrow> bool" where
  "search_fits a \<longleftrightarrow> list_all valid_utf8 [si_vault a, si_user a, si_query a, si_session_key a, si_session_mode a, si_content_mode a]
     \<and> int64 (si_max_chunks a) \<and> int64 (si_max_tokens a)"

definition search_req :: "search_in \<Rightarrow> retrieve_req" where
  "search_req a = \<lparr>tq_vault_id = si_vault a, tq_user_id = si_user a, tq_query = si_query a,
     tq_max_chunks = si_max_chunks a, tq_max_tokens = si_max_tokens a, tq_session_key = si_session_key a,
     tq_session_mode = si_session_mode a, tq_content_mode = si_content_mode a, tq_debug = False\<rparr>"

lemma retrieve_plain: "list_all (\<lambda>f. plain_name (fst f)) retrieve_fields"
  by (simp add: retrieve_fields_def plain_name_def)

lemma retrieve_field:
  "field_for retrieve_fields ''vault_id'' = Some (setting dec_string_field tq_vault_id (\<lambda>y b. b\<lparr>tq_vault_id := y\<rparr>))"
  "field_for retrieve_fields ''user_id'' = Some (setting dec_string_field tq_user_id (\<lambda>y b. b\<lparr>tq_user_id := y\<rparr>))"
  "field_for retrieve_fields ''query'' = Some (setting dec_string_field tq_query (\<lambda>y b. b\<lparr>tq_query := y\<rparr>))"
  "field_for retrieve_fields ''max_chunks'' = Some (setting dec_int_field tq_max_chunks (\<lambda>y b. b\<lparr>tq_max_chunks := y\<rparr>))"
  "field_for retrieve_fields ''max_tokens'' = Some (setting dec_int_field tq_max_tokens (\<lambda>y b. b\<lparr>tq_max_tokens := y\<rparr>))"
  "field_for retrieve_fields ''session_key'' = Some (setting dec_string_field tq_session_key (\<lambda>y b. b\<lparr>tq_session_key := y\<rparr>))"
  "field_for retrieve_fields ''session_mode'' = Some (setting dec_string_field tq_session_mode (\<lambda>y b. b\<lparr>tq_session_mode := y\<rparr>))"
  "field_for retrieve_fields ''content_mode'' = Some (setting dec_string_field tq_content_mode (\<lambda>y b. b\<lparr>tq_content_mode := y\<rparr>))"
  by (subst field_for_plain [OF retrieve_plain]; simp add: plain_name_def retrieve_fields_def)+

lemma search_decoded:
  assumes "search_fits a"
  shows "dec_struct retrieve_fields (search_tree a) no_retrieve_req = Some (search_req a)"
proof -
  have i: "int64 (si_max_chunks a)" "int64 (si_max_tokens a)" using assms by (simp_all add: search_fits_def)
  show ?thesis
    using i [unfolded int64_def]
    by (simp add: dec_struct_def search_tree_def dec_members_append no_retrieve_req_def search_req_def
        dec_omit_str [OF retrieve_field(1)] dec_omit_str [OF retrieve_field(2)] dec_omit_int [OF retrieve_field(4)]
        dec_omit_int [OF retrieve_field(5)] dec_omit_str [OF retrieve_field(6)] dec_omit_str [OF retrieve_field(7)]
        dec_omit_str [OF retrieve_field(8)] retrieve_field(3) setting_def dec_string_field_def)
qed

lemma search_tree_ok:
  assumes "search_fits a" shows "jx_ok json_max_depth (search_tree a)"
proof -
  have d: "jx_ok n (XStr s) = valid_utf8 s" "jx_ok n (XNum t) = num_literal t" for n s t by simp_all
  have "0 < json_max_depth" by (simp add: json_max_depth_def)
  then show ?thesis using assms num_literal_show_int
    by (auto simp: search_tree_def search_fits_def omit_str_def omit_int_def valid_utf8_ascii)
qed

interpretation search_wire: wire search_tree retrieve_fields no_retrieve_req search_fits search_req
  by unfold_locales (rule search_tree_ok search_decoded, assumption)+

text \<open>The header that carries the token.\<close>

lemma bearer_header:
  assumes "rq_header r ''Authorization'' = ''Bearer '' @ tok" "ascii tok" "trim_space tok = tok"
  shows "has_bearer env r" "bearer_of r = tok"
proof -
  have "ascii (''Bearer '' @ tok)" using assms(2) by simp
  then show "has_bearer env r" using assms(1)
    by (simp add: has_bearer_def to_lower_ascii has_prefix_def ascii_lower_def) code_simp
  show "bearer_of r = tok" using assms(1,3) by (simp add: bearer_of_def)
qed

lemma bearer_trimmed: "trim_space (bearerForGV os c) = bearerForGV os c"
  by (simp add: bearerForGV_def Let_def split: sum.split)

text \<open>The request as it reaches the server, with the header that the bridge has set.\<close>

definition with_auth :: "string \<Rightarrow> request \<Rightarrow> request" where
  "with_auth v r = r\<lparr>rq_header := (\<lambda>k. if k = ''Authorization'' then v else rq_header r k)\<rparr>"

lemma auth_arrives:
  "ascii (bearerForGV os c) \<Longrightarrow> has_bearer env (with_auth (''Bearer '' @ bearerForGV os c) r)
     \<and> bearer_of (with_auth (''Bearer '' @ bearerForGV os c) r) = bearerForGV os c"
  using bearer_header [OF _ _ bearer_trimmed, of "with_auth (''Bearer '' @ bearerForGV os c) r"] by (simp add: with_auth_def)

text \<open>A search reaches the service as it was asked for. The one request that \<open>memory_search\<close> makes goes to
  the route of the retrieval; the service finds in its header the token that the bridge has read, and its handler
  decodes the very arguments of the tool, with the defaults of the bridge for the vault and the user, no
  debug output, and the zero value for all that was left out.\<close>

lemma search_arrives:
  assumes "(v, u) = applyVaultUserDefaults c (si_vault a) (si_user a)" and "search_fits (a\<lparr>si_vault := v, si_user := u\<rparr>)"
    and "ascii (bearerForGV os c)"
    and "\<And>n. mx = Some n \<Longrightarrow> int (length (marshal_search (a\<lparr>si_vault := v, si_user := u\<rparr>))) \<le> n"
  shows "\<exists>call. memory_search env os c tr a w = tool_answer (bridge_send env os tr (bearerForGV os c) call w)
    \<and> hc_method call = ''POST'' \<and> hc_url call = bridge_base c @ ''/v1/retrieve''
    \<and> decode_body (dec_struct retrieve_fields) no_retrieve_req mx (hc_body call)
        = Decoded (search_req (a\<lparr>si_vault := v, si_user := u\<rparr>))
    \<and> has_bearer env' (with_auth (hc_authorization call) r)
    \<and> bearer_of (with_auth (hc_authorization call) r) = bearerForGV os c"
proof -
  let ?a = "a\<lparr>si_vault := v, si_user := u\<rparr>" and ?tok = "bearerForGV os c"
  let ?call = "\<lparr>hc_method = ''POST'', hc_url = bridge_base c @ ''/v1/retrieve'', hc_authorization = ''Bearer '' @ ?tok,
      hc_content_type = ''application/json'', hc_body = marshal_search ?a\<rparr>"
  have m: "memory_search env os c tr a w = tool_answer (bridge_send env os tr ?tok ?call w)"
    using assms(1) [symmetric] by (simp add: memory_search_def post_def Let_def)
  note d = search_wire.body_read [OF assms(2), of mx, folded marshal_search_def, OF assms(4)]
  show ?thesis
    by (intro exI [of _ ?call] conjI m) (use d auth_arrives [OF assms(3)] in simp_all)
qed

section \<open>Saving\<close>

definition meta_ok :: "(f64 \<Rightarrow> string) \<Rightarrow> nat \<Rightarrow> jmap \<Rightarrow> bool" where
  "meta_ok ff d m \<longleftrightarrow> jv_ok ff d (JObj (jmap_entries m)) \<and> jv_finite (JObj (jmap_entries m))"

definition save_ok :: "(f64 \<Rightarrow> string) \<Rightarrow> save_in \<Rightarrow> bool" where
  "save_ok ff a \<longleftrightarrow> list_all valid_utf8 [ma_vault a, ma_user a, ma_session_key a, ma_text a, ma_abstract a, ma_kind a,
       ma_infer_target a, ma_idempotency a]
     \<and> meta_ok ff (json_max_depth - 1) (ma_meta a)
     \<and> list_all (\<lambda>i. list_all valid_utf8 [it_abstract i, it_text i, it_body i, it_kind i]
          \<and> meta_ok ff (json_max_depth - 3) (it_meta i)) (ma_items a)
     \<and> list_all (\<lambda>(x, y). valid_utf8 x \<and> valid_utf8 y) (ma_messages a)
     \<and> (case ma_source a of None \<Rightarrow> True | Some (x, y) \<Rightarrow> valid_utf8 x \<and> valid_utf8 y)"

definition save_req :: "save_in \<Rightarrow> ingest_req" where
  "save_req a = \<lparr>iq_vault_id = ma_vault a, iq_user_id = ma_user a, iq_session_key = ma_session_key a, iq_text = ma_text a,
     iq_abstract = ma_abstract a, iq_kind = ma_kind a, iq_meta = meta_sorted (ma_meta a),
     iq_items = map (\<lambda>i. i\<lparr>it_meta := meta_sorted (it_meta i)\<rparr>) (ma_items a), iq_source = ma_source a, iq_infer = ma_infer a,
     iq_infer_target = ma_infer_target a, iq_messages = ma_messages a, iq_idempotency = ma_idempotency a, iq_debug = False\<rparr>"

lemma item_field:
  "field_for item_fields ''abstract'' = Some (setting dec_string_field it_abstract (\<lambda>y b. b\<lparr>it_abstract := y\<rparr>))"
  "field_for item_fields ''text'' = Some (setting dec_string_field it_text (\<lambda>y b. b\<lparr>it_text := y\<rparr>))"
  "field_for item_fields ''body'' = Some (setting dec_string_field it_body (\<lambda>y b. b\<lparr>it_body := y\<rparr>))"
  "field_for item_fields ''kind'' = Some (setting dec_string_field it_kind (\<lambda>y b. b\<lparr>it_kind := y\<rparr>))"
  "field_for item_fields ''metadata'' = Some (setting dec_map_field it_meta (\<lambda>y b. b\<lparr>it_meta := y\<rparr>))"
  by (subst field_for_plain; simp add: plain_name_def item_fields_def)+

lemma pair_field:
  assumes "plain_name a" "plain_name b" "a \<noteq> b"
  shows "field_for (pair_fields a b) a = Some (setting dec_string_field fst (\<lambda>y p. (y, snd p)))"
    and "field_for (pair_fields a b) b = Some (setting dec_string_field snd (\<lambda>y p. (fst p, y)))"
  using assms by (subst field_for_plain; simp add: pair_fields_def)+

lemma ingest_plain: "list_all (\<lambda>f. plain_name (fst f)) ingest_fields"
  by (simp add: ingest_fields_def plain_name_def)

lemma ingest_field:
  "field_for ingest_fields ''vault_id'' = Some (setting dec_string_field iq_vault_id (\<lambda>y b. b\<lparr>iq_vault_id := y\<rparr>))"
  "field_for ingest_fields ''user_id'' = Some (setting dec_string_field iq_user_id (\<lambda>y b. b\<lparr>iq_user_id := y\<rparr>))"
  "field_for ingest_fields ''session_key'' = Some (setting dec_string_field iq_session_key (\<lambda>y b. b\<lparr>iq_session_key := y\<rparr>))"
  "field_for ingest_fields ''text'' = Some (setting dec_string_field iq_text (\<lambda>y b. b\<lparr>iq_text := y\<rparr>))"
  "field_for ingest_fields ''abstract'' = Some (setting dec_string_field iq_abstract (\<lambda>y b. b\<lparr>iq_abstract := y\<rparr>))"
  "field_for ingest_fields ''kind'' = Some (setting dec_string_field iq_kind (\<lambda>y b. b\<lparr>iq_kind := y\<rparr>))"
  "field_for ingest_fields ''metadata'' = Some (setting dec_map_field iq_meta (\<lambda>y b. b\<lparr>iq_meta := y\<rparr>))"
  "field_for ingest_fields ''items'' = Some (setting (\<lambda>v _. dec_list_field (\<lambda>x. dec_struct item_fields x no_item) v) iq_items
     (\<lambda>y b. b\<lparr>iq_items := y\<rparr>))"
  "field_for ingest_fields ''source_document'' = Some (setting (dec_ptr_field ([], []) (dec_struct (pair_fields ''text'' ''title'')))
     iq_source (\<lambda>y b. b\<lparr>iq_source := y\<rparr>))"
  "field_for ingest_fields ''infer'' = Some (setting dec_bool_field iq_infer (\<lambda>y b. b\<lparr>iq_infer := y\<rparr>))"
  "field_for ingest_fields ''infer_target'' = Some (setting dec_string_field iq_infer_target (\<lambda>y b. b\<lparr>iq_infer_target := y\<rparr>))"
  "field_for ingest_fields ''messages'' = Some (setting (\<lambda>v _. dec_list_field (\<lambda>x. dec_struct (pair_fields ''role'' ''content'') x ([], [])) v)
     iq_messages (\<lambda>y b. b\<lparr>iq_messages := y\<rparr>))"
  "field_for ingest_fields ''idempotency_key'' = Some (setting dec_string_field iq_idempotency (\<lambda>y b. b\<lparr>iq_idempotency := y\<rparr>))"
  by (subst field_for_plain [OF ingest_plain]; simp add: plain_name_def ingest_fields_def)+

lemma item_decoded:
  assumes "jv_ok ff d (JObj (jmap_entries (it_meta i)))"
  shows "dec_struct item_fields (item_tree ff i) no_item = Some (i\<lparr>it_meta := meta_sorted (it_meta i)\<rparr>)"
  by (simp add: dec_struct_def item_tree_def dec_members_append no_item_def dec_omit_str [OF item_field(1)]
      dec_omit_str [OF item_field(2)] dec_omit_str [OF item_field(3)] dec_omit_str [OF item_field(4)]
      dec_omit_map [OF item_field(5) _ _ assms])

lemma message_decoded: "dec_struct (pair_fields ''role'' ''content'') (message_tree m) ([], []) = Some m"
proof -
  have n: "plain_name ''role''" "plain_name ''content''" by (simp_all add: plain_name_def)
  show ?thesis using pair_field [OF n]
    by (simp add: dec_struct_def message_tree_def setting_def dec_string_field_def)
qed

lemma source_decoded: "dec_struct (pair_fields ''text'' ''title'') (source_tree m) ([], []) = Some m"
proof -
  have n: "plain_name ''text''" "plain_name ''title''" "''text'' \<noteq> ''title''" by (simp_all add: plain_name_def)
  show ?thesis
    by (simp add: dec_struct_def source_tree_def dec_members_append dec_omit_str [OF pair_field(1) [OF n]]
        dec_omit_str [OF pair_field(2) [OF n]])
qed

lemma source_member:
  "iq_source x = None \<Longrightarrow> dec_members ingest_fields (case m of None \<Rightarrow> [] | Some s \<Rightarrow> [(''source_document'', source_tree s)]) x
     = Some (x\<lparr>iq_source := m\<rparr>)"
proof (cases m)
  case (Some s)
  have "dec_ptr_field ([], []) (dec_struct (pair_fields ''text'' ''title'')) (source_tree s) None = Some (Some s)"
    using source_decoded [of s] by (simp add: dec_ptr_field_def source_tree_def)
  then show "iq_source x = None \<Longrightarrow> ?thesis" using Some by (simp add: ingest_field(9) setting_def)
qed simp

lemma save_decoded:
  assumes "save_ok ff a"
  shows "dec_struct ingest_fields (save_tree ff a) no_ingest_req = Some (save_req a)"
proof -
  have m: "jv_ok ff (json_max_depth - 1) (JObj (jmap_entries (ma_meta a)))"
    using assms unfolding save_ok_def meta_ok_def by blast
  have i: "dec_all (\<lambda>x. dec_struct item_fields x no_item) (map (item_tree ff) (ma_items a))
      = Some (map (\<lambda>i. i\<lparr>it_meta := meta_sorted (it_meta i)\<rparr>) (ma_items a))"
    by (rule dec_all_map) (use assms item_decoded in \<open>auto simp: save_ok_def meta_ok_def list_all_iff simp del: jv_ok.simps\<close>)
  have ms: "dec_all (\<lambda>x. dec_struct (pair_fields ''role'' ''content'') x ([], [])) (map message_tree (ma_messages a))
      = Some (ma_messages a)"
    using dec_all_map [of "ma_messages a" _ message_tree id] message_decoded by simp
  show ?thesis
    by (simp add: dec_struct_def save_tree_def dec_members_append no_ingest_req_def save_req_def
        dec_omit_str [OF ingest_field(1)] dec_omit_str [OF ingest_field(2)] dec_omit_str [OF ingest_field(3)]
        dec_omit_str [OF ingest_field(4)] dec_omit_str [OF ingest_field(5)] dec_omit_str [OF ingest_field(6)]
        dec_omit_map [OF ingest_field(7) _ _ m] dec_omit_list [OF ingest_field(8) _ i] source_member
        dec_omit_bool [OF ingest_field(10)] dec_omit_str [OF ingest_field(11)] dec_omit_list [OF ingest_field(12) _ ms]
        dec_omit_str [OF ingest_field(13)])
qed

text \<open>Members whose names and values JSON can carry, at depth \<open>d\<close>.\<close>

definition members_ok :: "nat \<Rightarrow> (string \<times> jx) list \<Rightarrow> bool" where
  "members_ok d ms \<longleftrightarrow> (\<forall>m \<in> set ms. valid_utf8 (fst m) \<and> jx_ok d (snd m))"

lemma obj_ok: "jx_ok (Suc d) (XObj ms) \<longleftrightarrow> members_ok d ms"
  by (simp add: members_ok_def)

lemma members_ok_simps [simp]:
  "members_ok d []"
  "members_ok d (m # ms) \<longleftrightarrow> valid_utf8 (fst m) \<and> jx_ok d (snd m) \<and> members_ok d ms"
  "members_ok d (ms @ ns) \<longleftrightarrow> members_ok d ms \<and> members_ok d ns"
  by (auto simp: members_ok_def)

lemma omit_ok:
  assumes "ascii k"
  shows "valid_utf8 v \<Longrightarrow> members_ok d (omit_str k v)"
    and "members_ok d (omit_bool k b)"
    and "(\<And>x. x \<in> set vs \<Longrightarrow> jx_ok d (f x)) \<Longrightarrow> members_ok (Suc d) (omit_list k (map f vs))"
    and "meta_ok ff d m \<Longrightarrow> members_ok d (omit_map ff k m)"
  using valid_utf8_ascii [OF assms] to_jx_ok [of ff d "JObj (jmap_entries m)"]
  by (simp_all add: omit_str_def omit_bool_def omit_list_def omit_map_def meta_ok_def del: to_jx.simps jv_ok.simps)

lemma item_tree_ok:
  assumes "list_all valid_utf8 [it_abstract i, it_text i, it_body i, it_kind i]" "meta_ok ff d (it_meta i)"
  shows "jx_ok (Suc d) (item_tree ff i)"
  unfolding item_tree_def obj_ok using assms by (simp add: omit_ok)

lemma pairs_ok:
  assumes "valid_utf8 (fst m)" "valid_utf8 (snd m)"
  shows "jx_ok (Suc d) (message_tree m)" "jx_ok (Suc d) (source_tree m)"
  unfolding message_tree_def source_tree_def obj_ok using assms by (simp_all add: omit_ok valid_utf8_ascii)

lemma save_tree_ok:
  assumes "save_ok ff a" shows "jx_ok json_max_depth (save_tree ff a)"
proof -
  obtain d where d: "json_max_depth = Suc (Suc (Suc d))"
    using le_Suc_ex [of 3 json_max_depth] by (auto simp: json_max_depth_def numeral_3_eq_3)
  then have d3: "json_max_depth - 3 = d" and d1: "json_max_depth - Suc 0 = Suc (Suc d)" by simp_all
  have i: "jx_ok (Suc d) (item_tree ff x)" if "x \<in> set (ma_items a)" for x
    using assms that by (intro item_tree_ok) (auto simp: save_ok_def list_all_iff d3)
  have ms: "jx_ok (Suc d) (message_tree x)" if "x \<in> set (ma_messages a)" for x
    using assms that by (intro pairs_ok) (auto simp: save_ok_def list_all_iff)
  have src: "jx_ok (Suc (Suc d)) (source_tree x)" if "ma_source a = Some x" for x
    using assms that by (intro pairs_ok) (auto simp: save_ok_def split: prod.splits)
  have meta: "meta_ok ff (Suc (Suc d)) (ma_meta a)" using assms by (simp add: save_ok_def d1)
  have strs: "list_all valid_utf8 [ma_vault a, ma_user a, ma_session_key a, ma_text a, ma_abstract a, ma_kind a,
       ma_infer_target a, ma_idempotency a]" using assms by (simp add: save_ok_def)
  have srcs: "members_ok (Suc (Suc d)) (case ma_source a of None \<Rightarrow> [] | Some s \<Rightarrow> [(''source_document'', source_tree s)])"
    using src by (simp add: valid_utf8_ascii split: option.split)
  show ?thesis
    unfolding d save_tree_def obj_ok members_ok_simps
    using strs by (intro conjI omit_ok meta i ms srcs) simp_all
qed

interpretation save_wire: wire "save_tree ff" ingest_fields no_ingest_req "save_ok ff" save_req for ff
  by unfold_locales (rule save_tree_ok save_decoded, assumption)+

text \<open>What is saved through the bridge is what was said. \<open>memory_save\<close> makes one request, to the route of
  the ingest; the handler decodes the very arguments of the tool from its body: the texts, the items with
  their metadata, the messages, the document. The entries of the metadata come in the order of their
  keys, which is all that changes.\<close>

lemma save_arrives:
  assumes "(v, u) = applyVaultUserDefaults c (ma_vault a) (ma_user a)"
    and "save_ok (ev_fmt_f64 env) (a\<lparr>ma_vault := v, ma_user := u\<rparr>)"
    and "ascii (bearerForGV os c)"
    and "\<And>n. mx = Some n \<Longrightarrow> int (length (jx_print (save_tree (ev_fmt_f64 env) (a\<lparr>ma_vault := v, ma_user := u\<rparr>)))) \<le> n"
  shows "\<exists>call. memory_save env os c tr a w = tool_answer (bridge_send env os tr (bearerForGV os c) call w)
    \<and> hc_method call = ''POST'' \<and> hc_url call = bridge_base c @ ''/v1/ingest''
    \<and> decode_body (dec_struct ingest_fields) no_ingest_req mx (hc_body call)
        = Decoded (save_req (a\<lparr>ma_vault := v, ma_user := u\<rparr>))
    \<and> has_bearer env' (with_auth (hc_authorization call) r)
    \<and> bearer_of (with_auth (hc_authorization call) r) = bearerForGV os c"
proof -
  let ?a = "a\<lparr>ma_vault := v, ma_user := u\<rparr>" and ?tok = "bearerForGV os c" and ?ff = "ev_fmt_f64 env"
  let ?call = "\<lparr>hc_method = ''POST'', hc_url = bridge_base c @ ''/v1/ingest'', hc_authorization = ''Bearer '' @ ?tok,
      hc_content_type = ''application/json'', hc_body = jx_print (save_tree ?ff ?a)\<rparr>"
  have "marshal_save ?ff ?a = Inr (jx_print (save_tree ?ff ?a))"
    using assms(2) by (auto simp: marshal_save_def save_ok_def meta_ok_def list_all_iff simp del: jv_finite.simps)
  then have m: "memory_save env os c tr a w = tool_answer (bridge_send env os tr ?tok ?call w)"
    using assms(1) [symmetric] by (simp add: memory_save_def post_def Let_def)
  note d = save_wire.body_read [OF assms(2,4)]
  show ?thesis
    by (intro exI [of _ ?call] conjI m) (use d auth_arrives [OF assms(3)] in simp_all)
qed

section \<open>The guarantees at work\<close>

definition demo_bridge :: bridge_config where
  "demo_bridge = \<lparr>bc_base = ''http://g/'', bc_bearer = ''t'', bc_reload = [], bc_vault = ''7'', bc_user = ''u''\<rparr>"

lemma demo_trim: "trim_space ''t'' = ''t''" "trim_space ''u'' = ''u''" "trim_space ''7'' = ''7''"
  by (rule trim_space_ends [OF refl]; simp add: space_rune_def)+

lemma demo_bridge_works:
  "applyVaultUserDefaults demo_bridge [] [] = (''7'', ''u'')" "ascii (bearerForGV os demo_bridge)"
  by (simp_all add: applyVaultUserDefaults_def bearerForGV_def demo_bridge_def demo_trim)

lemma search_arrives_witness:
  "\<forall>os (tr :: unit transport) w. \<exists>call.
      memory_search api_env os demo_bridge tr (no_search\<lparr>si_query := ''q'', si_max_chunks := 3\<rparr>) w
        = tool_answer (bridge_send api_env os tr (bearerForGV os demo_bridge) call w)
    \<and> decode_body (dec_struct retrieve_fields) no_retrieve_req (Some 100) (hc_body call)
        = Decoded (no_retrieve_req\<lparr>tq_vault_id := ''7'', tq_user_id := ''u'', tq_query := ''q'', tq_max_chunks := 3\<rparr>)"
proof (intro allI)
  fix os and tr :: "unit transport" and w
  let ?a = "no_search\<lparr>si_query := ''q'', si_max_chunks := 3\<rparr>"
  let ?b = "?a\<lparr>si_vault := ''7'', si_user := ''u''\<rparr>"
  have d: "(''7'', ''u'') = applyVaultUserDefaults demo_bridge (si_vault ?a) (si_user ?a)"
    using demo_bridge_works(1) by (simp add: no_search_def)
  have f: "search_fits ?b" by (simp add: search_fits_def no_search_def int64_def valid_utf8_ascii)
  have "length (marshal_search ?b) \<le> 100" by code_simp
  then have l: "\<And>n. Some 100 = Some n \<Longrightarrow> int (length (marshal_search ?b)) \<le> n" by simp
  have r: "search_req ?b = no_retrieve_req\<lparr>tq_vault_id := ''7'', tq_user_id := ''u'', tq_query := ''q'', tq_max_chunks := 3\<rparr>"
    by (simp add: search_req_def no_search_def no_retrieve_req_def)
  show "\<exists>call. memory_search api_env os demo_bridge tr ?a w
        = tool_answer (bridge_send api_env os tr (bearerForGV os demo_bridge) call w)
    \<and> decode_body (dec_struct retrieve_fields) no_retrieve_req (Some 100) (hc_body call)
        = Decoded (no_retrieve_req\<lparr>tq_vault_id := ''7'', tq_user_id := ''u'', tq_query := ''q'', tq_max_chunks := 3\<rparr>)"
    using search_arrives [where os = os and env = api_env and tr = tr and w = w and mx = "Some 100", OF d f demo_bridge_works(2) l]
    unfolding r by blast
qed

lemma save_arrives_witness:
  "\<forall>os (tr :: unit transport) w. \<exists>call.
      memory_save api_env os demo_bridge tr (no_save\<lparr>ma_text := ''x'', ma_messages := [(''user'', ''x'')]\<rparr>) w
        = tool_answer (bridge_send api_env os tr (bearerForGV os demo_bridge) call w)
    \<and> decode_body (dec_struct ingest_fields) no_ingest_req None (hc_body call)
        = Decoded (no_ingest_req\<lparr>iq_vault_id := ''7'', iq_user_id := ''u'', iq_text := ''x'', iq_messages := [(''user'', ''x'')]\<rparr>)"
proof (intro allI)
  fix os and tr :: "unit transport" and w
  let ?a = "no_save\<lparr>ma_text := ''x'', ma_messages := [(''user'', ''x'')]\<rparr>"
  let ?b = "?a\<lparr>ma_vault := ''7'', ma_user := ''u''\<rparr>"
  have d: "(''7'', ''u'') = applyVaultUserDefaults demo_bridge (ma_vault ?a) (ma_user ?a)"
    using demo_bridge_works(1) by (simp add: no_save_def)
  have f: "save_ok (ev_fmt_f64 api_env) ?b"
    by (simp add: save_ok_def meta_ok_def no_save_def valid_utf8_ascii jmap_entries_def json_max_depth_def)
  have l: "\<And>n. None = Some n \<Longrightarrow> int (length (jx_print (save_tree (ev_fmt_f64 api_env) ?b))) \<le> n" by simp
  have r: "save_req ?b = no_ingest_req\<lparr>iq_vault_id := ''7'', iq_user_id := ''u'', iq_text := ''x'', iq_messages := [(''user'', ''x'')]\<rparr>"
    by (simp add: save_req_def no_save_def no_ingest_req_def meta_sorted_def jmap_nonempty_def jmap_entries_def)
  show "\<exists>call. memory_save api_env os demo_bridge tr ?a w
        = tool_answer (bridge_send api_env os tr (bearerForGV os demo_bridge) call w)
    \<and> decode_body (dec_struct ingest_fields) no_ingest_req None (hc_body call)
        = Decoded (no_ingest_req\<lparr>iq_vault_id := ''7'', iq_user_id := ''u'', iq_text := ''x'', iq_messages := [(''user'', ''x'')]\<rparr>)"
    using save_arrives [where os = os and env = api_env and tr = tr and w = w and mx = None, OF d f demo_bridge_works(2) l]
    unfolding r by blast
qed

end
