(* ===== verification/Mcp_Sample.thy ===== *)
theory Mcp_Sample
  imports Mcp_Laws Bridge_Laws
begin

text \<open>
  A concrete authorization server and a concrete service behind the clients: the guarantees of the MCP
  server and of the command line client, applied.
\<close>

section \<open>The settings\<close>

definition demo_oauth :: oauth_http where
  "demo_oauth = \<lparr>oh_issuer = ''https://as'', oh_resource = ''https://me'', oh_metadata = ''https://me/m'', oh_intro = ''i'',
     oh_client_id = [], oh_client_secret = [], oh_required = [], oh_supported = [], oh_authorize = ''a'', oh_token = ''t'',
     oh_register = ''r'', oh_audience = ''u''\<rparr>"

text \<open>Every URL is one path, with the query \<open>x=1\<close>.\<close>

definition demo_parse :: url_parse where
  "demo_parse s = Inr \<lparr>up_scheme = ''https'', up_host = ''h'', up_query = ''x=1'', up_with_query = (\<lambda>q. s @ ''?'' @ q)\<rparr>"

definition introspected :: jx where
  "introspected = XObj [(''active'', XBool True), (''exp'', XNum ''0''), (''sub'', XStr ''me'')]"

definition demo_upstream :: "unit upstream" where
  "demo_upstream call w = (Inr \<lparr>ua_status = 200, ua_headers = [], ua_body = jx_print introspected\<rparr>, w)"

lemma sample_trim:
  "trim_space ''a'' = ''a''" "trim_space ''i'' = ''i''" "trim_space ''f'' = ''f''" "trim_space ''k'' = ''k''"
  "trim_space ''t'' = ''t''" "trim_space ''u'' = ''u''" "trim_space '':1'' = '':1''" "trim_space ''b'' = ''b''"
  by (rule trim_space_ends [OF refl]; simp add: space_rune_def)+

lemma digit_0: "num_literal ''0''" "parse_float ''0'' = Some (Fin 0)"
proof -
  show "num_literal ''0''" unfolding num_literal_def by code_simp
  have "num_value ''0'' = 0" by code_simp
  then show "parse_float ''0'' = Some (Fin 0)" by (simp add: parse_float_def)
qed

lemma introspected_read: "introspection_map (take max_introspection (jx_print introspected))
    = Some (map_of [(''sub'', XStr ''me''), (''exp'', XNum ''0''), (''active'', XBool True)])"
proof -
  have "jx_ok json_max_depth introspected" using digit_0(1)
    by (simp add: introspected_def json_max_depth_def valid_utf8_ascii)
  from first_value_printed [OF this, of None] have "first_value None (jx_print introspected) = Decoded introspected" by simp
  moreover have "length (jx_print introspected) \<le> 100" by code_simp
  then have "take max_introspection (jx_print introspected) = jx_print introspected"
    by (simp add: max_introspection_def)
  ultimately show ?thesis by (simp add: introspection_map_def introspected_def)
qed

section \<open>The guarantees at work\<close>

lemma verify_sound_witness:
  "\<exists>t. VerifyToken demo_parse demo_upstream demo_oauth ''k'' () = (Inr t, ()) \<and> ti_user t = ''me'' \<and> ti_expires t = 0"
proof -
  have z: "int64_of_f64 (Fin 0) = 0" by (simp add: int64_of_f64_def)
  obtain t where t: "VerifyToken demo_parse demo_upstream demo_oauth ''k'' () = (Inr t, ())"
    using introspected_read by (simp add: VerifyToken_def demo_parse_def demo_upstream_def demo_oauth_def sample_trim
        token_of_map_def oauthExpFromIntrospectionMap_def digit_0)
  then show ?thesis using verify_sound [OF t] introspected_read
    by (auto simp: demo_upstream_def oauthExpFromIntrospectionMap_def digit_0 z string_at_def)
qed

definition demo_ask :: frequest where
  "demo_ask = \<lparr>fr_method = ''GET'', fr_query = ''Audience=z&s=2'', fr_content_type = [], fr_authorization = [], fr_body = [],
     fr_fault = None\<rparr>"


definition demo_exchange :: frequest where
  "demo_exchange = \<lparr>fr_method = ''POST'', fr_query = [], fr_content_type = ''application/x-www-form-urlencoded'',
     fr_authorization = ''Basic x'', fr_body = ''code=7&audience=z'', fr_fault = None\<rparr>"

lemma lower_id: "list_all (\<lambda>c. ascii_lower (byte c) = byte c) s \<Longrightarrow> map (\<lambda>c. chr (ascii_lower (byte c))) s = s"
  by (induction s) simp_all


definition demo_flags :: command_line where
  "demo_flags = [''base-url'' \<mapsto> ''b'', ''bearer'' \<mapsto> ''k'', ''listen'' \<mapsto> '':1'', ''oauth-introspection-url'' \<mapsto> ''i'',
     ''oauth-auth-server-issuer'' \<mapsto> ''a'', ''oauth-resource'' \<mapsto> ''t'', ''oauth-metadata-url'' \<mapsto> ''u'']"

definition mcp_os :: os where
  "mcp_os = demo_os\<lparr>os_env := \<lambda>_. []\<rparr>"

lemma introspection_guards_tools_witness:
  "\<exists>cfg srv oauth. run mcp_os (\<lambda>_. False) demo_flags = Inr (Streamable '':1'' cfg srv oauth)
     \<and> (\<exists>o'. oauth = Some o' \<and> mux oauth ''/'' = ToolsGuarded (oh_metadata o') [])"
proof -
  obtain cfg srv oauth where r: "run mcp_os (\<lambda>_. False) demo_flags = Inr (Streamable '':1'' cfg srv oauth)"
    by (simp add: run_def bridge_of_flags_def env_flag_def demo_flags_def sample_trim BearerFromEnvAndFile_def
        NewMCPServer_def RegisterTools_def bridge_base_def oauth_of_flags_def NewOAuthHTTP_def Let_def)
  moreover have "splitCommaScopes (env_flag mcp_os demo_flags ''oauth-scopes'' ''GHOSTVAULT_OAUTH_SCOPES'') = []"
    by (simp add: splitCommaScopes_def comma_names_def env_flag_def demo_flags_def mcp_os_def)
  ultimately show ?thesis
    using introspection_guards_tools [OF r, of "''/''"]
    by (fastforce simp: env_flag_def demo_flags_def sample_trim)
qed

definition demo_given :: given where
  "demo_given = \<lparr>gv_str = [''write-token-file'' \<mapsto> ''f''], gv_int = Map.empty, gv_bool = (\<lambda>_. False)\<rparr>"

definition unlocked :: jx where
  "unlocked = XObj [(''session_token'', XStr ''k''), (''vault_id'', XStr ''7'')]"

definition demo_service :: "unit transport" where
  "demo_service call w = (Inr (200, jx_print unlocked), w)"

definition demo_disk :: disk where
  "demo_disk = \<lparr>dk_abs = Inr, dk_write = (\<lambda>_ _. Inr ())\<rparr>"

lemma unlocked_read:
  "json_parse (jx_print unlocked) = Some unlocked" "dec_struct unlock_out_fields unlocked ([], []) = Some (''k'', ''7'')"
proof -
  have "jx_ok json_max_depth unlocked" by (simp add: unlocked_def json_max_depth_def valid_utf8_ascii)
  then show "json_parse (jx_print unlocked) = Some unlocked" by (rule json_parse_print)
  have n: "list_all (\<lambda>f. plain_name (fst f)) unlock_out_fields" by (simp add: unlock_out_fields_def plain_name_def)
  have "field_for unlock_out_fields ''session_token'' = Some (setting dec_string_field fst (\<lambda>y p. (y, snd p)))"
    "field_for unlock_out_fields ''vault_id'' = Some (setting dec_string_field snd (\<lambda>y p. (fst p, y)))"
    by (subst field_for_plain [OF n]; simp add: plain_name_def unlock_out_fields_def)+
  then show "dec_struct unlock_out_fields unlocked ([], []) = Some (''k'', ''7'')"
    by (simp add: dec_struct_def unlocked_def setting_def dec_string_field_def)
qed

lemma unlock_reaches_bridge_witness:
  "\<exists>answer. memory_stats demo_env (mcp_os\<lparr>os_file := \<lambda>_. Inr ''k''\<rparr>) (demo_bridge\<lparr>bc_reload := ''f''\<rparr>) demo_service ()
      = tool_answer (bridge_send demo_env (mcp_os\<lparr>os_file := \<lambda>_. Inr ''k''\<rparr>) demo_service ''k'' answer ())
    \<and> hc_authorization answer = ''Bearer k''"
proof -
  obtain r where g: "gvctl demo_env mcp_os demo_disk demo_service [''unlock''] demo_given () = (r, ())"
    and r: "re_code r = 0" "re_files r = [(''f'', ''k'')]"
    using unlocked_read
    by (simp add: gvctl_def unlock_cmd_def postJSON_def checked_def demo_service_def demo_given_def flag_or_def sample_trim
        write_token_def demo_disk_def print_unlocked_def ended_def Let_def)
  have "\<exists>p tok code raw vid call answer. re_files r = [(p, tok)]
    \<and> demo_service call () = (Inr (code, raw), ()) \<and> 200 \<le> code \<and> code < 300
    \<and> Option.bind (json_parse raw) (\<lambda>v. dec_struct unlock_out_fields v ([], [])) = Some (tok, vid)
    \<and> memory_stats demo_env (mcp_os\<lparr>os_file := \<lambda>_. Inr ''k''\<rparr>) (demo_bridge\<lparr>bc_reload := ''f''\<rparr>) demo_service ()
        = tool_answer (bridge_send demo_env (mcp_os\<lparr>os_file := \<lambda>_. Inr ''k''\<rparr>) demo_service (trim_space tok) answer ())
    \<and> hc_authorization answer = ''Bearer '' @ trim_space tok"
    by (rule unlock_reaches_bridge [OF g r(1)])
       (simp_all add: r(2) demo_given_def flag_or_def sample_trim)
  then show ?thesis using r(2) by (auto simp: sample_trim)
qed

end
