(* ===== verification/Reply_Json.thy ===== *)
theory Reply_Json
  imports Bridge
begin

text \<open>
  The bytes of every answer: the trees that \<open>encoding/json\<close> prints for the structs and maps of
  \<open>internal/api\<close>, \<open>internal/core\<close> and \<open>internal/store\<close> (\<open>omitempty\<close>, nil slices as \<open>null\<close>, the keys of maps sorted),
  the text of an instant, and a raw message as the encoder compacts it. A field of a struct stands where the source declares it.
\<close>

section \<open>Instants\<close>

text \<open>
  \<open>time.RFC3339Nano\<close>. An instant counts the nanoseconds since 1970 in UTC; \<open>zone\<close> is the offset in seconds of the
  location that a time carries. The date is that of the proleptic Gregorian calendar: 400 years have
  146097 days, and a year is counted from March.
\<close>

definition civil_date :: "int \<Rightarrow> int \<times> int \<times> int" where
  "civil_date days =
     (let z = days + 719468; era = z div 146097; doe = z mod 146097;
          yoe = (doe - doe div 1460 + doe div 36524 - doe div 146096) div 365;
          doy = doe - (365 * yoe + yoe div 4 - yoe div 100); mp = (5 * doy + 2) div 153;
          m = (if mp < 10 then mp + 3 else mp - 9)
      in (yoe + era * 400 + (if m \<le> 2 then 1 else 0), m, doy - (153 * mp + 2) div 5 + 1))"

definition padded :: "nat \<Rightarrow> int \<Rightarrow> string" where
  "padded k n = (let ds = show_nat (nat \<bar>n\<bar>) in (if n < 0 then ''-'' else []) @ replicate (k - length ds) (CHR ''0'') @ ds)"

definition fraction_text :: "int \<Rightarrow> string" where
  "fraction_text ns = (if ns = 0 then [] else ''.'' @ trim_right_char (CHR ''0'') (padded 9 ns))"

definition zone_text :: "int \<Rightarrow> string" where
  "zone_text off =
     (if off = 0 then ''Z''
      else (let m = \<bar>off\<bar> div 60 in (if off < 0 then ''-'' else ''+'') @ padded 2 (m div 60) @ '':'' @ padded 2 (m mod 60)))"

definition rfc3339nano :: "int \<Rightarrow> instant \<Rightarrow> string" where
  "rfc3339nano zone t =
     (let loc = t + zone * ns_second; secs = loc div ns_second; sod = secs mod 86400; (y, m, d) = civil_date (secs div 86400)
      in padded 4 y @ ''-'' @ padded 2 m @ ''-'' @ padded 2 d @ ''T'' @ padded 2 (sod div 3600) @ '':''
         @ padded 2 (sod mod 3600 div 60) @ '':'' @ padded 2 (sod mod 60) @ fraction_text (loc mod ns_second) @ zone_text zone)"

section \<open>Pieces\<close>

text \<open>What the bytes depend on outside the source: \<open>Error()\<close> of an error, \<open>strconv.Quote\<close>, the local time zone.\<close>

record wire_texts =
  wx_error :: "err \<Rightarrow> string"
  wx_quote :: "string \<Rightarrow> string"
  wx_zone :: "instant \<Rightarrow> int"

definition x_int :: "int \<Rightarrow> jx" where
  "x_int n = XNum (show_int n)"

definition x_float :: "env \<Rightarrow> f64 \<Rightarrow> jx" where
  "x_float env x = XNum (ev_fmt_f64 env x)"

text \<open>A slice: \<open>null\<close> when it is nil, as it is when nothing was appended to it.\<close>

definition x_slice :: "('a \<Rightarrow> jx) \<Rightarrow> 'a list \<Rightarrow> jx" where
  "x_slice f xs = (if xs = [] then XNull else XArr (map f xs))"

text \<open>A map: keys sorted.\<close>

definition x_map :: "(string \<times> jx) list \<Rightarrow> jx" where
  "x_map es = XObj (sort_key fst es)"

section \<open>Vaults, tokens, problems\<close>

definition init_tree :: "env \<Rightarrow> uuid \<Rightarrow> bool \<Rightarrow> string \<Rightarrow> jx" where
  "init_tree env vid enc mode = XObj
     [(''auth_mode'', XStr mode), (''encryption_enabled'', XBool enc), (''vault_id'', XStr (ev_uuid_str env vid))]"

definition unlock_tree :: "env \<Rightarrow> string \<Rightarrow> uuid \<Rightarrow> bool \<Rightarrow> string \<Rightarrow> jx" where
  "unlock_tree env tok vid enc mode = XObj
     [(''auth_mode'', XStr mode), (''encryption_enabled'', XBool enc), (''session_token'', XStr tok),
      (''vault_id'', XStr (ev_uuid_str env vid))]"

definition token_tree :: "string \<Rightarrow> int \<Rightarrow> jx" where
  "token_tree tok secs = XObj [(''expires_in_seconds'', x_int secs), (''token'', XStr tok)]"

definition detail_text :: "wire_texts \<Rightarrow> detail \<Rightarrow> string" where
  "detail_text tx d = (case d of DText s \<Rightarrow> s | DErr e \<Rightarrow> wx_error tx e)"

text \<open>\<open>Type\<close> and \<open>Instance\<close> are never set.\<close>

definition problem_tree :: "wire_texts \<Rightarrow> problem \<Rightarrow> jx" where
  "problem_tree tx p = XObj
     ([(''title'', XStr (pb_title p)), (''status'', x_int (int (pb_status p)))]
      @ omit_str ''detail'' (detail_text tx (pb_detail p)) @ omit_str ''code'' (pb_code p))"

section \<open>Ingest\<close>

definition summary_text :: "wire_texts \<Rightarrow> item_summary \<Rightarrow> string" where
  "summary_text tx sm =
     (case sm of Summary k e t \<Rightarrow> ''kind='' @ wx_quote tx k @ '' embed='' @ show_nat e @ '' tsv='' @ show_nat t)"

definition ingest_debug_tree :: "wire_texts \<Rightarrow> ingest_debug \<Rightarrow> jx" where
  "ingest_debug_tree tx d = XObj
     (omit_list ''segments'' (map XStr (id_segments d)) @ omit_list ''extracted_facts'' (map XStr (id_facts d))
      @ omit_list ''structured_summary'' (map (\<lambda>x. XStr (summary_text tx x)) (id_summary d)))"

definition ingest_tree :: "wire_texts \<Rightarrow> string list \<Rightarrow> ingest_debug option \<Rightarrow> jx" where
  "ingest_tree tx ids dbg = XObj
     ((''chunk_ids'', XArr (map XStr ids)) # (case dbg of None \<Rightarrow> [] | Some d \<Rightarrow> [(''debug'', ingest_debug_tree tx d)]))"

section \<open>Retrieval\<close>

definition snippet_tree :: "env \<Rightarrow> snippet \<Rightarrow> jx" where
  "snippet_tree env x = XObj
     ([(''chunk_id'', XStr (sp_id x)), (''text'', XStr (sp_text x)), (''score'', x_float env (sp_score x))]
      @ omit_str ''abstract'' (sp_abstract x) @ omit_str ''full_text'' (sp_full x)
      @ [(''full_available'', XBool (sp_available x))] @ omit_str ''kind'' (sp_kind x))"

definition params_tree :: "env \<Rightarrow> retrieve_params \<Rightarrow> jx" where
  "params_tree env p = XObj
     ([(''semantic_threshold'', x_float env (rp_sem_threshold p)), (''fusion_lexical_weight'', x_float env (rp_lex_weight p)),
       (''embedding_model'', XStr (rp_model p)), (''k_dense'', x_int (rp_k_dense p)), (''max_chunks'', x_int (rp_max_chunks p)),
       (''max_tokens'', x_int (rp_max_tokens p)), (''session_mode'', XStr (rp_session_mode p))]
      @ omit_str ''session_key'' (rp_session_key p) @ omit_str ''content_mode'' (rp_content_mode p))"

definition dense_row_tree :: "env \<Rightarrow> dense_debug_row \<Rightarrow> jx" where
  "dense_row_tree env x = XObj
     [(''chunk_id'', XStr (dd_id x)), (''semantic_score'', x_float env (dd_sem x)), (''passed_threshold'', XBool (dd_passed x))]"

definition lexical_row_tree :: "env \<Rightarrow> lexical_debug_row \<Rightarrow> jx" where
  "lexical_row_tree env x = XObj
     [(''chunk_id'', XStr (ld_id x)), (''raw_lex_rank'', x_float env (ld_raw x)), (''lexical_norm'', x_float env (ld_norm x))]"

definition fused_row_tree :: "env \<Rightarrow> fused_debug_row \<Rightarrow> jx" where
  "fused_row_tree env x = XObj
     [(''chunk_id'', XStr (fd_id x)), (''semantic_score'', x_float env (fd_sem x)), (''lexical_norm'', x_float env (fd_lex x)),
      (''fused_score'', x_float env (fd_fused x)), (''session_boost_applied'', XBool (fd_boosted x)),
      (''score_after_session'', x_float env (fd_final x))]"

definition included_tree :: "string \<times> int \<Rightarrow> jx" where
  "included_tree x = XObj [(''chunk_id'', XStr (fst x)), (''estimated_tokens'', x_int (snd x))]"

definition skip_tree :: "string \<times> int \<Rightarrow> jx" where
  "skip_tree x = XObj
     [(''chunk_id'', XStr (fst x)), (''estimated_tokens'', x_int (snd x)),
      (''reason'', XStr ''exceeds max_tokens budget with prior snippets'')]"

definition packing_tree :: "packing_debug \<Rightarrow> jx" where
  "packing_tree p = XObj
     [(''included'', x_slice included_tree (pk_included p)),
      (''skipped_due_to_token_budget'', x_slice skip_tree (pk_over_budget p)),
      (''skipped_due_to_max_chunks'', x_slice XStr (pk_over_count p)), (''stopped_due_to_max_chunks'', XBool (pk_stopped p))]"

definition retrieve_debug_tree :: "env \<Rightarrow> retrieve_debug \<Rightarrow> jx" where
  "retrieve_debug_tree env d = XObj
     [(''params'', params_tree env (rd_params d)), (''dense_candidates'', x_slice (dense_row_tree env) (rd_dense d)),
      (''lexical_candidates'', x_slice (lexical_row_tree env) (rd_lexical d)),
      (''fused_ranked'', x_slice (fused_row_tree env) (rd_fused d)), (''packing'', packing_tree (rd_packing d))]"

definition meta_tree :: "nat \<Rightarrow> string option \<Rightarrow> jx" where
  "meta_tree n hint = XObj
     ((case hint of None \<Rightarrow> [] | Some h \<Rightarrow> [(''hint'', XStr h)]) @ [(''result_count'', x_int (int n))])"

definition retrieve_tree :: "env \<Rightarrow> snippet list \<Rightarrow> nat \<Rightarrow> string option \<Rightarrow> retrieve_debug option \<Rightarrow> jx" where
  "retrieve_tree env snips n hint dbg = XObj
     ((case dbg of None \<Rightarrow> [] | Some d \<Rightarrow> [(''debug'', retrieve_debug_tree env d)])
      @ [(''meta'', meta_tree n hint), (''results'', x_slice (snippet_tree env) snips)])"

section \<open>One memory, the statistics\<close>

definition chunk_tree :: "env \<Rightarrow> wire_texts \<Rightarrow> chunk_get_result \<Rightarrow> jx" where
  "chunk_tree env tx c = XObj
     ([(''chunk_id'', XStr (cg_id c)), (''user_id'', XStr (cg_user c)), (''text'', XStr (cg_text c))]
      @ omit_str ''abstract'' (cg_abstract c) @ omit_str ''kind'' (cg_kind c) @ omit_map (ev_fmt_f64 env) ''metadata'' (cg_meta c)
      @ omit_str ''source_document_id'' (cg_source c)
      @ [(''embedding_model_id'', XStr (cg_model c)),
         (''created_at'', XStr (rfc3339nano (wx_zone tx (cg_created c)) (cg_created c)))]
      @ (case cg_session_key c of None \<Rightarrow> [] | Some k \<Rightarrow> [(''ingest_session_key'', XStr k)])
      @ [(''chunk_schema_version'', x_int (cg_schema c))])"

definition stat_tree :: "stat_value \<Rightarrow> jx" where
  "stat_tree v = (case v of SVNat n \<Rightarrow> x_int (int n) | SVStr s \<Rightarrow> XStr s | SVTime t \<Rightarrow> XStr (rfc3339nano 0 t))"

definition counts_tree :: "(string \<times> nat) list \<Rightarrow> jx" where
  "counts_tree cs = x_map (map (\<lambda>(u, n). (u, x_int (int n))) cs)"

definition stats_tree :: "env \<Rightarrow> uuid \<Rightarrow> bool \<Rightarrow> vault_stats \<Rightarrow> (string \<times> stat_value) list list \<Rightarrow> jx" where
  "stats_tree env vid enc st recent = x_map
     [(''vault_id'', XStr (ev_uuid_str env vid)), (''encryption_enabled'', XBool enc),
      (''chunks_total'', x_int (int (st_chunks_total st))), (''chunks_by_user'', counts_tree (st_chunks_by_user st)),
      (''ingest_events'', x_map [(''total'', x_int (int (st_events_total st))), (''last_24h'', x_int (int (st_events_24h st))),
         (''last_7d'', x_int (int (st_events_7d st)))]),
      (''session_messages'', x_map [(''total'', x_int (int (st_msgs_total st))), (''by_user'', counts_tree (st_msgs_by_user st))]),
      (''recent_activity'', XArr (map (\<lambda>m. x_map (map (\<lambda>(k, v). (k, stat_tree v)) m)) recent))]"

section \<open>The tuning\<close>

text \<open>
  A raw message is compacted: white space outside of strings goes, and the characters that HTML
  minds are escaped; nothing else of it changes. The flag says that the scan is inside of a string.
\<close>

fun compact :: "bool \<Rightarrow> bytes \<Rightarrow> bytes" where
  "compact q [] = []"
| "compact q (c # s) =
     (if q \<and> byte c = 92 then c # (case s of [] \<Rightarrow> [] | d # t \<Rightarrow> d # compact True t)
      else if byte c = 34 then c # compact (\<not> q) s
      else if \<not> q \<and> json_ws c then compact q s
      else if byte c = 226 \<and> take 2 s = [chr 128, chr 168] then u_escape 8232 @ compact q (drop 2 s)
      else if byte c = 226 \<and> take 2 s = [chr 128, chr 169] then u_escape 8233 @ compact q (drop 2 s)
      else (if c \<in> {CHR ''<'', CHR ''>'', CHR ''&''} then u_escape (byte c) else [c]) @ compact q s)"

definition tuning_value_tree :: "env \<Rightarrow> tuning_value \<Rightarrow> jx" where
  "tuning_value_tree env v =
     (case v of TVFloat x \<Rightarrow> x_float env x | TVInt n \<Rightarrow> x_int n | TVStr s \<Rightarrow> XStr s | TVBool b \<Rightarrow> XBool b)"

definition tuning_text ::
  "env \<Rightarrow> (string \<times> tuning_value) list \<Rightarrow> (string \<times> string) list \<Rightarrow> string \<Rightarrow> bytes \<Rightarrow> string option \<Rightarrow> bytes" where
  "tuning_text env t sources path raw flag =
     (let members = [(''tuning'', jx_print (x_map (map (\<lambda>(k, v). (k, tuning_value_tree env v)) t))),
           (''sources'', jx_print (x_map (map (\<lambda>(k, v). (k, XStr v)) sources))), (''tuning_file'', json_str path),
           (''overrides'', if raw = [] then ''null'' else compact False raw)]
         @ (case flag of None \<Rightarrow> [] | Some k \<Rightarrow> [(k, ''true'')])
      in ''{'' @ join '','' (map (\<lambda>(k, b). json_str k @ '':'' @ b) (sort_key fst members)) @ ''}'')"

section \<open>Every answer\<close>

definition reply_text :: "env \<Rightarrow> wire_texts \<Rightarrow> reply \<Rightarrow> bytes" where
  "reply_text env tx v =
     (case v of
        RInitialized \<Rightarrow> jx_print (XObj [(''initialized'', XBool True)])
      | RInit vid enc mode \<Rightarrow> jx_print (init_tree env vid enc mode)
      | RUnlock tok vid enc mode \<Rightarrow> jx_print (unlock_tree env tok vid enc mode)
      | RToken tok secs \<Rightarrow> jx_print (token_tree tok secs)
      | RIngest ids dbg \<Rightarrow> jx_print (ingest_tree tx ids dbg)
      | RRetrieve snips n hint dbg \<Rightarrow> jx_print (retrieve_tree env snips n hint dbg)
      | RChunk c \<Rightarrow> jx_print (chunk_tree env tx c)
      | RStats vid enc st recent \<Rightarrow> jx_print (stats_tree env vid enc st recent)
      | RTuning t sources path raw flag \<Rightarrow> tuning_text env t sources path raw flag)"

text \<open>\<open>json.Encoder\<close> ends a value with a line end.\<close>

definition body_bytes :: "env \<Rightarrow> wire_texts \<Rightarrow> body \<Rightarrow> bytes" where
  "body_bytes env tx b =
     (case b of
        NoBody \<Rightarrow> []
      | Plain s \<Rightarrow> s
      | ProblemBody p \<Rightarrow> jx_print (problem_tree tx p) @ [chr 10]
      | ReplyBody v \<Rightarrow> reply_text env tx v @ [chr 10])"

end
