(* ===== verification/Reply_Laws.thy ===== *)
theory Reply_Laws
  imports Api Reply_Json Json_Struct_Laws
begin

text \<open>
  The answers read back: an agent that parses the bytes of an answer as JSON sees the values that the engine returned.
\<close>

section \<open>Reading a line of JSON\<close>

lemma json_parse_line:
  assumes "jx_ok json_max_depth x" shows "json_parse (jx_print x @ [chr 10]) = Some x"
proof -
  have p: "p_value n json_max_depth (jx_print x @ [chr 10]) = Some (x, [chr 10])" if "2 * length (jx_print x) \<le> n" for n
    using reads_ok [OF assms] that unfolding reads_def by (auto simp: stops_def is_digit_def simp del: p_value.simps)
  show ?thesis by (simp add: json_parse_def p skip_ws_def del: p_value.simps)
qed

text \<open>The contract of an answer: a value that fits is printed as a tree, and whoever parses the line into a plain JSON value
  is shown what is meant.\<close>

locale answer =
  fixes tree :: "'a \<Rightarrow> jx" and fits :: "'a \<Rightarrow> bool" and shown :: "'a \<Rightarrow> jv"
  assumes tree_ok: "fits a \<Longrightarrow> jx_ok json_max_depth (tree a)"
    and tree_shown: "fits a \<Longrightarrow> to_any (tree a) = Some (shown a)"
begin

lemma line_read: "fits a \<Longrightarrow> Option.bind (json_parse (jx_print (tree a) @ [chr 10])) to_any = Some (shown a)"
  using json_parse_line [OF tree_ok] tree_shown by simp

lemma text_read: "fits a \<Longrightarrow> Option.bind (json_parse (jx_print (tree a))) to_any = Some (shown a)"
  using json_parse_print [OF tree_ok] tree_shown by simp

lemma text_inj: "fits a \<Longrightarrow> fits b \<Longrightarrow> jx_print (tree a) = jx_print (tree b) \<Longrightarrow> shown a = shown b"
  using text_read [of a] text_read [of b] by simp

end

lemma num_value_show_nat: "num_value (show_nat n) = of_nat n"
proof -
  obtain c t where s: "show_nat n = c # t" "is_digit c" "list_all is_digit (show_nat n)"
    using digits_show_nat [of n] by (cases "show_nat n") auto
  moreover have "byte c \<noteq> 45" using s(2) by (auto simp: is_digit_def)
  ultimately show ?thesis
    using digits_show_nat [of n]
    by (simp add: num_value_def Let_def list_all_iff takeWhile_eq_all_conv [THEN iffD2] dropWhile_eq_Nil_conv [THEN iffD2])
qed

lemma parse_float_count: "n < 2 ^ 53 \<Longrightarrow> parse_float (show_int (int n)) = Some (Fin (of_nat n))"
  using fround_dyadic [of "int n" 0] by (simp add: parse_float_def show_int_def num_value_show_nat)

section \<open>What a reader sees\<close>

definition str_member :: "string \<Rightarrow> string \<Rightarrow> (string \<times> jv) list" where
  "str_member k s = (if s = [] then [] else [(k, JStr s)])"

definition snippet_value :: "snippet \<Rightarrow> jv" where
  "snippet_value x = JObj
     ([(''chunk_id'', JStr (sp_id x)), (''text'', JStr (sp_text x)), (''score'', JNum (sp_score x))]
      @ str_member ''abstract'' (sp_abstract x) @ str_member ''full_text'' (sp_full x)
      @ [(''full_available'', JBool (sp_available x))] @ str_member ''kind'' (sp_kind x))"

definition results_value :: "snippet list \<Rightarrow> jv" where
  "results_value snips = (if snips = [] then JNull else JArr (map snippet_value snips))"

definition search_value :: "string option \<Rightarrow> snippet list \<Rightarrow> jv" where
  "search_value hint snips = JObj
     [(''meta'', JObj ((case hint of None \<Rightarrow> [] | Some h \<Rightarrow> [(''hint'', JStr h)])
         @ [(''result_count'', JNum (Fin (of_nat (length snips))))])),
      (''results'', results_value snips)]"

definition saved_value :: "string list \<Rightarrow> jv" where
  "saved_value ids = JObj [(''chunk_ids'', JArr (map JStr ids))]"

text \<open>Texts in UTF-8, and scores that the number format prints so that they are read back.\<close>

definition snippet_prints :: "env \<Rightarrow> snippet \<Rightarrow> bool" where
  "snippet_prints env x \<longleftrightarrow>
     list_all valid_utf8 [sp_id x, sp_text x, sp_abstract x, sp_full x, sp_kind x]
     \<and> num_literal (ev_fmt_f64 env (sp_score x)) \<and> parse_float (ev_fmt_f64 env (sp_score x)) = Some (sp_score x)"

definition search_prints :: "env \<Rightarrow> snippet list \<Rightarrow> bool" where
  "search_prints env snips \<longleftrightarrow> list_all (snippet_prints env) snips \<and> length snips < 2 ^ 53"

lemma snippet_read:
  assumes "snippet_prints env x"
  shows "2 \<le> d \<Longrightarrow> jx_ok d (snippet_tree env x)" "to_any (snippet_tree env x) = Some (snippet_value x)"
  using assms by (auto simp: snippet_prints_def snippet_tree_def snippet_value_def x_float_def omit_str_def str_member_def
      valid_utf8_ascii)

lemma hint_ascii: "snd (buildRetrieveMeta n) = Some h \<Longrightarrow> valid_utf8 h"
  by (auto simp: buildRetrieveMeta_def intro!: valid_utf8_ascii split: if_splits)

interpretation search_answer: answer
  "\<lambda>(snips, hint). retrieve_tree env snips (length snips) hint None"
  "\<lambda>(snips, hint). search_prints env snips \<and> (\<forall>h. hint = Some h \<longrightarrow> valid_utf8 h)"
  "\<lambda>(snips, hint). search_value hint snips" for env
proof (unfold_locales; clarify)
  fix snips :: "snippet list" and hint
  assume p: "search_prints env snips" and h: "\<forall>h. hint = Some h \<longrightarrow> valid_utf8 h"
  let ?x = "retrieve_tree env snips (length snips) hint None"
  have e: "\<forall>x \<in> set snips. snippet_prints env x" "length snips < 2 ^ 53" using p by (auto simp: search_prints_def list_all_iff)
  show "jx_ok json_max_depth ?x"
    using e h snippet_read(1)
    by (auto simp: retrieve_tree_def meta_tree_def x_slice_def x_int_def json_max_depth_def num_literal_show_int valid_utf8_ascii
        split: option.splits)
  have "to_any_list (map (snippet_tree env) snips) = Some (map snippet_value snips)"
    using e(1) snippet_read(2) by (intro to_any_list_map) blast
  then show "to_any ?x = Some (search_value hint snips)"
    using parse_float_count [OF e(2)] parse_float_count [of 0]
    by (simp add: retrieve_tree_def meta_tree_def x_slice_def x_int_def search_value_def results_value_def split: option.splits)
qed

interpretation saved_answer: answer "\<lambda>ids. ingest_tree tx ids None" "list_all valid_utf8" saved_value for tx
proof unfold_locales
  fix ids
  assume u: "list_all valid_utf8 ids"
  then show "jx_ok json_max_depth (ingest_tree tx ids None)"
    by (auto simp: ingest_tree_def json_max_depth_def list_all_iff valid_utf8_ascii)
  have "to_any_list (map XStr ids) = Some (map JStr ids)" by (intro to_any_list_map) simp
  then show "to_any (ingest_tree tx ids None) = Some (saved_value ids)" by (simp add: ingest_tree_def saved_value_def)
qed

lemmas save_read = saved_answer.line_read

lemma search_read:
  assumes "search_prints env snips" "n = length snips" "\<And>h. hint = Some h \<Longrightarrow> valid_utf8 h"
  shows "Option.bind (json_parse (jx_print (retrieve_tree env snips n hint None) @ [chr 10])) to_any
    = Some (search_value hint snips)"
  using search_answer.line_read [of env "(snips, hint)"] assms by simp

text \<open>The API description requires an array of results; a search that finds nothing is answered with \<open>null\<close>.\<close>

lemma nothing_found_is_null:
  "\<exists>m. Option.bind (json_parse (reply_text env tx (RRetrieve [] 0 (snd (buildRetrieveMeta 0)) None) @ [chr 10])) to_any
    = Some (JObj [(''meta'', m), (''results'', JNull)])"
proof -
  have "search_prints env []" by (simp add: search_prints_def)
  from search_read [OF this, of 0 "snd (buildRetrieveMeta 0)"] hint_ascii show ?thesis
    by (auto simp: reply_text_def search_value_def results_value_def)
qed

end
