(* ===== verification/End_To_End.thy ===== *)
theory End_To_End
  imports Mcp_Sample Reply_Laws
begin

text \<open>
  The programs together: \<open>gvctl\<close> unlocks the vault at the modelled service, writes the token to a file, and the
  tools of the MCP server that reads this file are let in by the service; what an agent asks of the tools is what the engine does, and what the engine returns is what the
  agent reads. The service takes the place of the clients' transport.
\<close>

section \<open>The service behind the clients\<close>

text \<open>\<open>Routes\<close>: the routes as they are registered. A parameter in braces matches one segment of the path.\<close>

definition chunk_id_in :: "string \<Rightarrow> string option" where
  "chunk_id_in path =
     (let i = drop 11 path in if take 11 path = ''/v1/chunks/'' \<and> i \<noteq> [] \<and> CHR ''/'' \<notin> set i then Some i else None)"

definition Routes :: "string \<Rightarrow> string \<Rightarrow> route option" where
  "Routes method path =
     (if method = ''GET'' then
        (if path = ''/healthz'' then Some Healthz
         else if path = ''/readyz'' then Some Readyz
         else if path = ''/v1/vault'' then Some VaultInfo
         else if path = ''/v1/stats'' then Some Stats
         else if path = ''/v1/tuning'' then Some TuningGet
         else map_option ChunkGet (chunk_id_in path))
      else if method = ''POST'' then
        (if path = ''/v1/vault/init'' then Some VaultInit
         else if path = ''/v1/vault/unlock'' then Some VaultUnlock
         else if path = ''/v1/vault/lock'' then Some VaultLock
         else if path = ''/v1/tokens/actions'' then Some TokensActions
         else if path = ''/v1/ingest'' then Some IngestRoute
         else if path = ''/v1/retrieve'' then Some RetrieveRoute
         else if path = ''/v1/tuning/reload'' then Some TuningReload
         else None)
      else if method = ''DELETE'' then map_option ChunkDelete (chunk_id_in path)
      else if method = ''PATCH'' then (if path = ''/v1/tuning'' then Some TuningPatch else None)
      else None)"

text \<open>A call as the server sees it. \<open>reach\<close> is the network: the path under which a URL arrives at this service. A path
  without a route is answered with 404 (or with 405 when it has another method), outside of the handlers.\<close>

definition request_of :: "route \<Rightarrow> string \<Rightarrow> http_call \<Rightarrow> request" where
  "request_of rt path call = \<lparr>rq_route = rt, rq_method = hc_method call, rq_path = path, rq_remote = [],
     rq_header = (\<lambda>k. if k = ''Authorization'' then hc_authorization call
                      else if k = ''Content-Type'' then hc_content_type call else []),
     rq_body = hc_body call, rq_limit = None, rq_rid = []\<rparr>"

definition service_behind ::
  "tuning_io \<Rightarrow> env \<Rightarrow> (string \<Rightarrow> string option) \<Rightarrow> wire_texts \<Rightarrow> (server \<times> world) transport" where
  "service_behind io env reach tx call sw =
     (case reach (hc_url call) of
        None \<Rightarrow> (Inl (EMsg ''connection refused''), sw)
      | Some path \<Rightarrow>
          (case Routes (hc_method call) path of
             None \<Rightarrow> (Inr (404, []), sw)
           | Some rt \<Rightarrow>
               (case serve io env (request_of rt path call) (fst sw) (snd sw) of
                  ((a, ls, s'), w') \<Rightarrow> (Inr (rs_status a, body_bytes env tx (rs_body a)), (s', w')))))"

section \<open>The answer to an unlock\<close>

text \<open>Each layer hands an answer through.\<close>

lemma middleware_through:
  "\<exists>h w0. w_db w0 = w_db w \<and> (\<forall>next. RequestID env next r s w = next (r\<lparr>rq_rid := h\<rparr>) s w0)"
  "MaxBytesTuning next r s w = next (r\<lparr>rq_limit := Some (rt_max_body (Current (sv_tn s)))\<rparr>) s w"
  "AccessLogTuning next r s w = ((Answer a, ls, s'), w') \<Longrightarrow> \<exists>ls'. next r s w = ((Answer a, ls', s'), w')"
  "Recoverer next r s w = ((a, ls, s'), w') \<Longrightarrow> rs_status a \<noteq> 500 \<Longrightarrow> next r s w = ((Answer a, ls, s'), w')"
proof -
  show "\<exists>h w0. w_db w0 = w_db w \<and> (\<forall>next. RequestID env next r s w = next (r\<lparr>rq_rid := h\<rparr>) s w0)"
  proof (cases "rq_header r ''X-Request-ID'' = []")
    case True
    obtain u w1 where "new_uuid env w = (u, w1)" "w_db w1 = w_db w" by (simp add: new_uuid_def)
    with True show ?thesis by (intro exI [of _ "ev_uuid_str env u"] exI [of _ w1]) (simp add: RequestID_def)
  next
    case False
    then show ?thesis by (intro exI [of _ "rq_header r ''X-Request-ID''"] exI [of _ w]) (simp add: RequestID_def)
  qed
  show "MaxBytesTuning next r s w = next (r\<lparr>rq_limit := Some (rt_max_body (Current (sv_tn s)))\<rparr>) s w"
    by (simp add: MaxBytesTuning_def MaxBytes_def)
  show "AccessLogTuning next r s w = ((Answer a, ls, s'), w') \<Longrightarrow> \<exists>ls'. next r s w = ((Answer a, ls', s'), w')"
    by (auto simp: AccessLogTuning_def AccessLog_def split: prod.splits outcome.splits if_splits)
  show "Recoverer next r s w = ((a, ls, s'), w') \<Longrightarrow> rs_status a \<noteq> 500 \<Longrightarrow> next r s w = ((Answer a, ls, s'), w')"
    by (auto simp: Recoverer_def WriteProblem_def Let_def split: prod.splits outcome.splits)
qed

lemma serve_handled:
  assumes "serve io env r s w = ((a, ls, s'), w')" "rs_status a \<noteq> 500"
  shows "\<exists>h w0 ls'. w_db w0 = w_db w \<and> handler_for io env (rq_route r)
    (r\<lparr>rq_rid := h, rq_limit := Some (rt_max_body (Current (sv_tn s)))\<rparr>) s w0 = ((Answer a, ls', s'), w')"
proof -
  let ?next = "MaxBytesTuning (\<lambda>r. handler_for io env (rq_route r) r)"
  obtain h w0 where 0: "w_db w0 = w_db w" "\<And>next. RequestID env next r s w = next (r\<lparr>rq_rid := h\<rparr>) s w0"
    using middleware_through(1) by blast
  have 1: "AccessLogTuning ?next (r\<lparr>rq_rid := h\<rparr>) s w0 = ((Answer a, ls, s'), w')"
    using middleware_through(4) [OF assms(1) [unfolded serve_def] assms(2)] unfolding 0(2) .
  from middleware_through(3) [OF 1] obtain ls' where "?next (r\<lparr>rq_rid := h\<rparr>) s w0 = ((Answer a, ls', s'), w')" by blast
  then have "handler_for io env (rq_route r) (r\<lparr>rq_rid := h, rq_limit := Some (rt_max_body (Current (sv_tn s)))\<rparr>) s w0
    = ((Answer a, ls', s'), w')"
    unfolding middleware_through(2) by simp
  with 0(1) show ?thesis by blast
qed

text \<open>A tool that ends well has been answered by a handler with a status below 300, and its value is the answer's text as JSON.\<close>

lemma tool_served:
  assumes "tool_answer (bridge_send env' os' (service_behind io env reach tx) tok call (s, w)) = ((Inr val, ls), (s', w'))"
    and "reach (hc_url call) = Some path" "Routes (hc_method call) path = Some rt"
  shows "\<exists>ans ls' h w0. w_db w0 = w_db w \<and> 200 \<le> rs_status ans \<and> rs_status ans < 300
    \<and> handler_for io env rt (request_of rt path call\<lparr>rq_rid := h, rq_limit := Some (rt_max_body (Current (sv_tn s)))\<rparr>) s w0
        = ((Answer ans, ls', s'), w')
    \<and> Option.bind (json_parse (take max_answer (body_bytes env tx (rs_body ans)))) to_any = Some val"
proof -
  obtain ans lg where sv: "serve io env (request_of rt path call) s w = ((ans, lg, s'), w')"
    and read: "toolResultFromHTTP (rs_status ans) (take max_answer (body_bytes env tx (rs_body ans))) = Inr val"
    using assms by (auto simp: service_behind_def bridge_send_def tool_answer_def Let_def split: prod.splits)
  have st: "200 \<le> rs_status ans" "rs_status ans < 300"
    and parsed: "Option.bind (json_parse (take max_answer (body_bytes env tx (rs_body ans)))) to_any = Some val"
    using read by (auto simp: toolResultFromHTTP_def split: if_splits option.splits)
  have "rs_status ans \<noteq> 500" using st by simp
  from serve_handled [OF sv this] obtain h w0 ls' where "w_db w0 = w_db w"
    and "handler_for io env rt (request_of rt path call\<lparr>rq_rid := h, rq_limit := Some (rt_max_body (Current (sv_tn s)))\<rparr>) s w0
        = ((Answer ans, ls', s'), w')"
    by (auto simp: request_of_def)
  with st parsed show ?thesis by blast
qed

lemma first_vault_in: "first_vault d = Some v \<Longrightarrow> v \<in> set (d_vaults d)"
  using set_sort [of v_created "d_vaults d"] by (auto simp: first_vault_def split: list.splits simp del: set_sort)

lemma unlocked_session:
  assumes "vaultUnlock env r s w = ((Answer a, ls, s'), w')" "200 \<le> rs_status a" "rs_status a < 300"
  shows "\<exists>v dek tok w1 n. first_vault (w_db w) = Some v \<and> rs_status a = 200
    \<and> rs_body a = ReplyBody (RUnlock tok (v_id v) (v_enc v) (v_auth_mode v))
    \<and> CreateSession env (v_id v) dek (ev_now env n) (sv_mgr s) w1 = ((Inr tok, sv_mgr s'), w')"
proof -
  obtain v w1 where g: "GetAnyVault env w = (Inr (Some v), w1)"
    using assms by (auto simp: vaultUnlock_def problem_def WriteProblem_def Let_def split: prod.splits sum.splits option.splits if_splits)
  obtain dek where o: "open_session env r v dek (fst (now env w1)) s (snd (now env w1)) = ((Answer a, ls, s'), w')"
    using assms g by (auto simp: vaultUnlock_def problem_def WriteProblem_def Let_def
        split: prod.splits sum.splits option.splits if_splits err.splits)
  then have "\<exists>tok. rs_status a = 200 \<and> rs_body a = ReplyBody (RUnlock tok (v_id v) (v_enc v) (v_auth_mode v))
      \<and> CreateSession env (v_id v) dek (fst (now env w1)) (sv_mgr s) (snd (now env w1)) = ((Inr tok, sv_mgr s'), w')"
    using assms(2,3) by (auto simp: open_session_def failed_def problem_def WriteProblem_def writeJSON_def encodes_def Let_def
        split: prod.splits sum.splits if_splits err.splits)
  moreover have "first_vault (w_db w) = Some v" using GetAnyVault_Inr [OF g] by simp
  ultimately show ?thesis unfolding now_def fst_conv snd_conv by blast
qed

section \<open>Reading it\<close>

lemma unlock_answer_read:
  assumes "valid_utf8 tok" "valid_utf8 mode" "valid_utf8 (ev_uuid_str env vid)"
  shows "Option.bind (json_parse (jx_print (unlock_tree env tok vid enc mode) @ [chr 10])) (\<lambda>v. dec_struct unlock_out_fields v ([], []))
    = Some (tok, ev_uuid_str env vid)"
proof -
  let ?x = "unlock_tree env tok vid enc mode"
  have "jx_ok json_max_depth ?x" using assms by (simp add: unlock_tree_def json_max_depth_def valid_utf8_ascii)
  then have "json_parse (jx_print ?x @ [chr 10]) = Some ?x" by (rule json_parse_line)
  moreover have n: "list_all (\<lambda>f. plain_name (fst f)) unlock_out_fields" by (simp add: unlock_out_fields_def plain_name_def)
  then have "field_for unlock_out_fields ''session_token'' = Some (setting dec_string_field fst (\<lambda>y p. (y, snd p)))"
    "field_for unlock_out_fields ''vault_id'' = Some (setting dec_string_field snd (\<lambda>y p. (fst p, y)))"
    "field_for unlock_out_fields ''auth_mode'' = None" "field_for unlock_out_fields ''encryption_enabled'' = None"
    by (subst field_for_plain; simp add: plain_name_def unlock_out_fields_def)+
  ultimately show ?thesis by (simp add: dec_struct_def unlock_tree_def setting_def dec_string_field_def)
qed

lemma hex_token:
  assumes "length b = 32" shows "ascii (hex_encode b)" "trim_space (hex_encode b) = hex_encode b" "hex_encode b \<noteq> []"
proof -
  have h: "byte (hex_digit n) < (128::nat) \<and> \<not> space_rune (byte (hex_digit n))" if "n < 16" for n
    using that by (auto simp: hex_digit_def space_rune_def)
  have all: "\<forall>c \<in> set (hex_encode b). byte c < (128::nat) \<and> \<not> space_rune (byte c)"
    using h byte_div_16 by (auto simp: hex_encode_def)
  then show "ascii (hex_encode b)" by (simp add: ascii_def list_all_iff)
  show ne: "hex_encode b \<noteq> []" using hex_encode_length [of b] assms by auto
  then obtain c t where "hex_encode b = c # t" by (cases "hex_encode b") auto
  then show "trim_space (hex_encode b) = hex_encode b" using all ne by (intro trim_space_ends) auto
qed

section \<open>From the password to the tools\<close>


section \<open>From the question to the memories\<close>

lemma problem_status: "problem r st title det code s w = ((Answer a, ls, s'), w') \<Longrightarrow> rs_status a = st"
  by (auto simp: problem_def WriteProblem_def Let_def)

lemma past_guard:
  "(if P then problem r st title det code s w else k) = ((Answer a, ls, s'), w') \<Longrightarrow> rs_status a < 300 \<Longrightarrow> 300 \<le> st
   \<Longrightarrow> \<not> P \<and> k = ((Answer a, ls, s'), w')"
  using problem_status by (cases P) fastforce+

lemma retrieve_answered:
  assumes "retrieve env r s w = ((Answer a, ls, s'), w')" "200 \<le> rs_status a" "rs_status a < 300"
    and "decode_body (dec_struct retrieve_fields) no_retrieve_req (rq_limit r) (rq_body r) = Decoded q" "\<not> tq_debug q"
  shows "\<exists>sess vid m w1 snips d. requireVaultAuth env r (sv_mgr s) w = ((Inr (sess, vid), m), w1)
    \<and> ev_uuid_parse env (tq_vault_id q) = Some vid
    \<and> RetrieveWithDebug env (sv_engine (s\<lparr>sv_mgr := m\<rparr>)) vid (tq_user_id q) (tq_query q) (tq_max_chunks q) (tq_max_tokens q)
        (Some sess) \<lparr>ro_session_key = tq_session_key q, ro_session_mode = mode_or env ''all'' (tq_session_mode q),
          ro_content_mode = mode_or env ''auto'' (tq_content_mode q)\<rparr> False w1 = (Inr (snips, d), w')
    \<and> (let v = RRetrieve snips (length snips) (snd (buildRetrieveMeta (length snips))) None
       in rs_body a = (if encodes v then ReplyBody v else NoBody))"
proof -
  obtain sess vid m w1 where auth: "requireVaultAuth env r (sv_mgr s) w = ((Inr (sess, vid), m), w1)"
    and rest: "retrieve_rest env (sess, vid) r (s\<lparr>sv_mgr := m\<rparr>) w1 = ((Answer a, ls, s'), w')"
    using assms(1-3) by (auto simp: retrieve_def guarded_def writeAuthProblem_def WriteProblem_def Let_def
        split: prod.splits sum.splits err.splits)
  note rest = rest [unfolded retrieve_rest_def Let_def prod.case assms(4) decoded.case]
  note past = past_guard [OF _ assms(3)]
  note rest = past [OF conjunct2 [OF past [OF rest]]]
  from rest have u: "ev_uuid_parse env (tq_vault_id q) = Some vid" by simp
  note past [OF conjunct2 [OF past [OF conjunct2 [OF past [OF conjunct2 [OF rest]]]]]]
  then have run: "run_query env sess vid q (mode_or env ''all'' (tq_session_mode q)) (mode_or env ''auto'' (tq_content_mode q)) r
      (s\<lparr>sv_mgr := m\<rparr>) w1 = ((Answer a, ls, s'), w')" by simp
  let ?run = "RetrieveWithDebug env (sv_engine (s\<lparr>sv_mgr := m\<rparr>)) vid (tq_user_id q) (tq_query q) (tq_max_chunks q) (tq_max_tokens q)
        (Some sess) \<lparr>ro_session_key = tq_session_key q, ro_session_mode = mode_or env ''all'' (tq_session_mode q),
          ro_content_mode = mode_or env ''auto'' (tq_content_mode q)\<rparr> False w1"
  have meta: "fst (buildRetrieveMeta n) = n" for n by (simp add: buildRetrieveMeta_def)
  obtain snips d where "?run = (Inr (snips, d), w')"
    and "rs_body a = (let v = RRetrieve snips (length snips) (snd (buildRetrieveMeta (length snips))) None
       in if encodes v then ReplyBody v else NoBody)"
  proof (cases ?run)
    case (Pair x w2)
    show ?thesis
    proof (cases x)
      case (Inl e)
      then show ?thesis using run Pair assms(3,5) by (auto simp: run_query_def failed_def Let_def dest: problem_status split: err.splits)
    next
      case (Inr y)
      then show ?thesis using that [of "fst y" "snd y"] run Pair assms(5) meta
        by (auto simp: run_query_def writeJSON_def split_beta Let_def)
    qed
  qed
  then show ?thesis using auth u unfolding Let_def by blast
qed

text \<open>C8. An agent's search is the engine's search. When \<open>memory_search\<close> ends well against the service, then the service
  has let the bridge's token in for the very vault that the agent (or the bridge's default) named, the engine has
  searched in that vault for the agent's user, query, limits and session with the session's key, and the value that the
  agent gets lists the snippets that the engine returned, all of them, in their order, with their texts and scores
  unchanged (as long as the answer is within the bridge's 4 MiB and its texts and numbers are printable).\<close>

theorem agent_search_exact:
  assumes tool: "memory_search env' os' c (service_behind io env reach tx) a (s, w) = ((Inr val, ls), (s', w'))"
    and named: "(v, u) = applyVaultUserDefaults c (si_vault a) (si_user a)"
    and fits: "search_fits (a\<lparr>si_vault := v, si_user := u\<rparr>)" "ascii (bearerForGV os' c)"
      "int (length (marshal_search (a\<lparr>si_vault := v, si_user := u\<rparr>))) \<le> rt_max_body (Current (sv_tn s))"
    and there: "reach (bridge_base c @ ''/v1/retrieve'') = Some ''/v1/retrieve''"
  shows "\<exists>r w0 sess vid m w1 snips d. bearer_of r = bearerForGV os' c \<and> w_db w0 = w_db w
    \<and> requireVaultAuth env r (sv_mgr s) w0 = ((Inr (sess, vid), m), w1) \<and> ev_uuid_parse env v = Some vid
    \<and> RetrieveWithDebug env (sv_engine (s\<lparr>sv_mgr := m\<rparr>)) vid u (si_query a) (si_max_chunks a) (si_max_tokens a) (Some sess)
        \<lparr>ro_session_key = si_session_key a, ro_session_mode = mode_or env ''all'' (si_session_mode a),
         ro_content_mode = mode_or env ''auto'' (si_content_mode a)\<rparr> False w1 = (Inr (snips, d), w')
    \<and> (let hint = snd (buildRetrieveMeta (length snips)) in
       search_prints env snips \<and> length (jx_print (retrieve_tree env snips (length snips) hint None)) < max_answer
       \<longrightarrow> val = search_value hint snips)"
proof -
  let ?mx = "Some (rt_max_body (Current (sv_tn s)))" and ?a = "a\<lparr>si_vault := v, si_user := u\<rparr>"
  let ?tr = "service_behind io env reach tx"
  obtain call where call: "memory_search env' os' c ?tr a (s, w) = tool_answer (bridge_send env' os' ?tr (bearerForGV os' c) call (s, w))"
      "hc_url call = bridge_base c @ ''/v1/retrieve''" "hc_method call = ''POST''"
      "decode_body (dec_struct retrieve_fields) no_retrieve_req ?mx (hc_body call) = Decoded (search_req ?a)"
      "bearer_of (with_auth (hc_authorization call) (request_of RetrieveRoute [] undefined)) = bearerForGV os' c"
    using search_arrives [OF named fits(1,2), where mx = ?mx and env = env' and tr = ?tr and w = "(s, w)"] fits(3) by blast
  from tool_served [OF tool [unfolded call(1)], where rt = RetrieveRoute and path = "''/v1/retrieve''"] there call(2,3)
  obtain ans ls' h w0 where w0: "w_db w0 = w_db w" and st: "200 \<le> rs_status ans" "rs_status ans < 300"
    and ret: "retrieve env (request_of RetrieveRoute ''/v1/retrieve'' call\<lparr>rq_rid := h, rq_limit := ?mx\<rparr>) s w0 = ((Answer ans, ls', s'), w')"
      (is "retrieve env ?r s w0 = _")
    and parsed: "Option.bind (json_parse (take max_answer (body_bytes env tx (rs_body ans)))) to_any = Some val"
    by (auto simp: handler_for_def Routes_def)
  have "decode_body (dec_struct retrieve_fields) no_retrieve_req (rq_limit ?r) (rq_body ?r) = Decoded (search_req ?a)"
    using call(4) by (simp add: request_of_def)
  from retrieve_answered [OF ret st this] obtain sess vid m w1 snips d where
    res: "requireVaultAuth env ?r (sv_mgr s) w0 = ((Inr (sess, vid), m), w1)" "ev_uuid_parse env v = Some vid"
      "RetrieveWithDebug env (sv_engine (s\<lparr>sv_mgr := m\<rparr>)) vid u (si_query a) (si_max_chunks a) (si_max_tokens a) (Some sess)
        \<lparr>ro_session_key = si_session_key a, ro_session_mode = mode_or env ''all'' (si_session_mode a),
         ro_content_mode = mode_or env ''auto'' (si_content_mode a)\<rparr> False w1 = (Inr (snips, d), w')"
    and body: "let x = RRetrieve snips (length snips) (snd (buildRetrieveMeta (length snips))) None
       in rs_body ans = (if encodes x then ReplyBody x else NoBody)"
    by (auto simp: search_req_def)
  have "bearer_of ?r = bearerForGV os' c" using call(5) by (simp add: bearer_of_def with_auth_def request_of_def)
  moreover have "json_parse [] = None" by code_simp
  then have "val = search_value hint snips"
    if "hint = snd (buildRetrieveMeta (length snips))" "search_prints env snips"
      "length (jx_print (retrieve_tree env snips (length snips) hint None)) < max_answer" for hint
    using parsed body that search_read [OF that(2) refl, of hint] hint_ascii
    by (auto simp: body_bytes_def reply_text_def Let_def split: if_splits)
  ultimately show ?thesis using w0 res unfolding Let_def by blast
qed

section \<open>From the agent's words to the store\<close>

lemma ingest_answered:
  assumes "ingest env r s w = ((Answer a, ls, s'), w')" "200 \<le> rs_status a" "rs_status a < 300"
    and "decode_body (dec_struct ingest_fields) no_ingest_req (rq_limit r) (rq_body r) = Decoded q" "\<not> iq_debug q"
  shows "\<exists>sess vid m w1 ids d. requireVaultAuth env r (sv_mgr s) w = ((Inr (sess, vid), m), w1)
    \<and> ev_uuid_parse env (iq_vault_id q) = Some vid
    \<and> (let key = (if iq_session_key q = [] then ''default'' else iq_session_key q) in
       IngestWithDebug env (sv_engine (s\<lparr>sv_mgr := m\<rparr>)) (input_of q vid key sess) False
         (append_messages env vid (iq_user_id q) key (iq_messages q) w1) = ((ids, d, None), w'))
    \<and> rs_body a = ReplyBody (RIngest (map (ev_uuid_str env) ids) None)"
proof -
  obtain sess vid m w1 where auth: "requireVaultAuth env r (sv_mgr s) w = ((Inr (sess, vid), m), w1)"
    and rest: "ingest_rest env (sess, vid) r (s\<lparr>sv_mgr := m\<rparr>) w1 = ((Answer a, ls, s'), w')"
    using assms(1-3) by (auto simp: ingest_def guarded_def writeAuthProblem_def WriteProblem_def Let_def
        split: prod.splits sum.splits err.splits)
  note past = past_guard [OF _ assms(3)]
  have "(case ev_uuid_parse env (iq_vault_id q) of
        None \<Rightarrow> problem r 400 ''Bad Request'' (DText ''invalid vault_id'') ''validate'' (s\<lparr>sv_mgr := m\<rparr>) w1
      | Some i \<Rightarrow> if i \<noteq> vid then problem r 403 ''Forbidden'' (DText ''vault mismatch'') ''vault'' (s\<lparr>sv_mgr := m\<rparr>) w1
          else ingest_store env sess i q r (s\<lparr>sv_mgr := m\<rparr>) w1) = ((Answer a, ls, s'), w')"
    using past [OF rest [unfolded ingest_rest_def Let_def prod.case assms(4) decoded.case]] by simp
  then have u: "ev_uuid_parse env (iq_vault_id q) = Some vid"
    and run: "ingest_store env sess vid q r (s\<lparr>sv_mgr := m\<rparr>) w1 = ((Answer a, ls, s'), w')"
    using assms(3) by (auto dest: problem_status past split: option.splits)
  let ?key = "if iq_session_key q = [] then ''default'' else iq_session_key q"
  let ?run = "IngestWithDebug env (sv_engine (s\<lparr>sv_mgr := m\<rparr>)) (input_of q vid ?key sess) False
         (append_messages env vid (iq_user_id q) ?key (iq_messages q) w1)"
  obtain ids d where "?run = ((ids, d, None), w')" "rs_body a = ReplyBody (RIngest (map (ev_uuid_str env) ids) None)"
  proof (cases ?run)
    case (Pair y w2)
    obtain ids d e where y: "y = (ids, d, e)" by (cases y)
    show ?thesis
    proof (cases e)
      case (Some x)
      then show ?thesis using run Pair y assms(3,5) by (auto simp: ingest_store_def failed_def Let_def dest: problem_status split: err.splits)
    next
      case None
      then show ?thesis using that [of ids d] run Pair y assms(5)
        by (auto simp: ingest_store_def writeJSON_def encodes_def Let_def)
    qed
  qed
  then show ?thesis using auth u unfolding Let_def by blast
qed

text \<open>C9. What an agent saves is what the engine ingests. When \<open>memory_save\<close> ends well against the service, then the service
  has let the bridge's token in for the very vault that was named, it has appended the messages and ingested the text, the
  items, the metadata and the source that the agent gave, for the agent's user and session, and the agent gets the ids
  of the memories that the engine has inserted.\<close>

theorem agent_save_exact:
  assumes tool: "memory_save env' os' c (service_behind io env reach tx) a (s, w) = ((Inr val, ls), (s', w'))"
    and named: "(v, u) = applyVaultUserDefaults c (ma_vault a) (ma_user a)"
    and fits: "save_ok (ev_fmt_f64 env') (a\<lparr>ma_vault := v, ma_user := u\<rparr>)" "ascii (bearerForGV os' c)"
      "int (length (jx_print (save_tree (ev_fmt_f64 env') (a\<lparr>ma_vault := v, ma_user := u\<rparr>)))) \<le> rt_max_body (Current (sv_tn s))"
    and there: "reach (bridge_base c @ ''/v1/ingest'') = Some ''/v1/ingest''"
    and ids: "\<And>i. valid_utf8 (ev_uuid_str env i)"
  shows "\<exists>r w0 sess vid m w1 ids d. bearer_of r = bearerForGV os' c \<and> w_db w0 = w_db w
    \<and> requireVaultAuth env r (sv_mgr s) w0 = ((Inr (sess, vid), m), w1) \<and> ev_uuid_parse env v = Some vid
    \<and> (let q = save_req (a\<lparr>ma_vault := v, ma_user := u\<rparr>); key = (if ma_session_key a = [] then ''default'' else ma_session_key a) in
       IngestWithDebug env (sv_engine (s\<lparr>sv_mgr := m\<rparr>)) (input_of q vid key sess) False
         (append_messages env vid u key (ma_messages a) w1) = ((ids, d, None), w'))
    \<and> (length (jx_print (ingest_tree tx (map (ev_uuid_str env) ids) None)) < max_answer
       \<longrightarrow> val = saved_value (map (ev_uuid_str env) ids))"
proof -
  let ?mx = "Some (rt_max_body (Current (sv_tn s)))" and ?a = "a\<lparr>ma_vault := v, ma_user := u\<rparr>"
  let ?tr = "service_behind io env reach tx"
  obtain call where call: "memory_save env' os' c ?tr a (s, w) = tool_answer (bridge_send env' os' ?tr (bearerForGV os' c) call (s, w))"
      "hc_url call = bridge_base c @ ''/v1/ingest''" "hc_method call = ''POST''"
      "decode_body (dec_struct ingest_fields) no_ingest_req ?mx (hc_body call) = Decoded (save_req ?a)"
      "bearer_of (with_auth (hc_authorization call) (request_of IngestRoute [] undefined)) = bearerForGV os' c"
    using save_arrives [OF named fits(1,2), where mx = ?mx and tr = ?tr and w = "(s, w)"] fits(3) by blast
  from tool_served [OF tool [unfolded call(1)], where rt = IngestRoute and path = "''/v1/ingest''"] there call(2,3)
  obtain ans ls' h w0 where w0: "w_db w0 = w_db w" and st: "200 \<le> rs_status ans" "rs_status ans < 300"
    and ing: "ingest env (request_of IngestRoute ''/v1/ingest'' call\<lparr>rq_rid := h, rq_limit := ?mx\<rparr>) s w0 = ((Answer ans, ls', s'), w')"
      (is "ingest env ?r s w0 = _")
    and parsed: "Option.bind (json_parse (take max_answer (body_bytes env tx (rs_body ans)))) to_any = Some val"
    by (auto simp: handler_for_def Routes_def)
  have sent: "iq_vault_id (save_req ?a) = v" "iq_user_id (save_req ?a) = u" "iq_session_key (save_req ?a) = ma_session_key a"
    "iq_messages (save_req ?a) = ma_messages a" "\<not> iq_debug (save_req ?a)"
    by (simp_all add: save_req_def)
  have "decode_body (dec_struct ingest_fields) no_ingest_req (rq_limit ?r) (rq_body ?r) = Decoded (save_req ?a)"
    using call(4) by (simp add: request_of_def)
  from ingest_answered [OF ing st this sent(5)] obtain sess vid m w1 ids d where
    res: "requireVaultAuth env ?r (sv_mgr s) w0 = ((Inr (sess, vid), m), w1)" "ev_uuid_parse env v = Some vid"
      "let q = save_req ?a; key = (if ma_session_key a = [] then ''default'' else ma_session_key a) in
       IngestWithDebug env (sv_engine (s\<lparr>sv_mgr := m\<rparr>)) (input_of q vid key sess) False
         (append_messages env vid u key (ma_messages a) w1) = ((ids, d, None), w')"
    and body: "rs_body ans = ReplyBody (RIngest (map (ev_uuid_str env) ids) None)"
    unfolding sent Let_def by blast
  have "bearer_of ?r = bearerForGV os' c" using call(5) by (simp add: bearer_of_def with_auth_def request_of_def)
  moreover have "list_all valid_utf8 (map (ev_uuid_str env) ids)" using assms(7) by (simp add: list_all_iff)
  then have "val = saved_value (map (ev_uuid_str env) ids)"
    if "length (jx_print (ingest_tree tx (map (ev_uuid_str env) ids) None)) < max_answer"
    using parsed body that save_read [of "map (ev_uuid_str env) ids" tx] by (simp add: body_bytes_def reply_text_def)
  ultimately show ?thesis using w0 res by blast
qed

section \<open>The guarantee at work\<close>

text \<open>The service of \<open>Api_Sample\<close>, whose vault needs no password, behind a client that asks for the token file \<open>f\<close>.\<close>

definition demo_reach :: "string \<Rightarrow> string option" where
  "demo_reach url = (if take 1 url = ''b'' then Some (drop 1 url) else None)"

definition demo_texts :: wire_texts where
  "demo_texts = \<lparr>wx_error = (\<lambda>_. ''error''), wx_quote = (\<lambda>s. s), wx_zone = (\<lambda>_. 0)\<rparr>"

definition token_given :: given where
  "token_given = \<lparr>gv_str = [''write-token-file'' \<mapsto> ''f'', ''base-url'' \<mapsto> ''b''], gv_int = Map.empty, gv_bool = (\<lambda>_. False)\<rparr>"

definition still_env :: env where
  "still_env = demo_env\<lparr>ev_now := \<lambda>_. 5, ev_uuid_str := \<lambda>_. ''7''\<rparr>"

lemma still_unlock:
  assumes "w_db w = w_db api_world"
  shows "\<exists>b m w'. length b = 32 \<and> vaultUnlock still_env r api_server w
    = ((Answer \<lparr>rs_status = 200, rs_body = ReplyBody (RUnlock (hex_encode b) 7 False ''session'')\<rparr>, [], api_server\<lparr>sv_mgr := m\<rparr>), w')"
proof -
  have g: "GetAnyVault still_env w = (Inr (Some plain_vault), bump w)"
    using assms by (simp add: GetAnyVault_def query_def still_env_def demo_env_def api_world_def)
  have v: "v_auth_mode plain_vault = ''session''" "\<not> v_enc plain_vault" "v_id plain_vault = 7"
    "''session'' \<noteq> AuthModeAPIKeys"
    by (simp_all add: plain_vault_def demo_vault_def AuthModeAPIKeys_def)
  obtain tok m w2 where "CreateSession still_env 7 [] (ev_now still_env (w_tick (bump w))) (sv_mgr api_server)
      (bump (bump w)) = ((Inr tok, m), w2)"
      (is "?c = _")
    using assms by (simp add: CreateSession_def rand_bytes_def still_env_def demo_env_def InsertSession_def exec_def
        insert_session_row_def api_server_def NewManagerWithStore_def api_world_def plain_vault_def demo_vault_def empty_db_def row_at_def Let_def)
  moreover obtain b where "tok = hex_encode b" "length b = 32"
    using CreateSession_Inr [OF calculation] by (auto simp: still_env_def demo_env_def)
  ultimately show ?thesis using g v
    by (intro exI [of _ b] exI [of _ m] exI [of _ w2])
       (simp add: vaultUnlock_def open_session_def writeJSON_def encodes_def now_def Let_def)
qed

lemma still_serve:
  assumes "rq_route r = VaultUnlock"
  shows "\<exists>b m w'. length b = 32 \<and> serve example_io still_env r api_server api_world
    = ((\<lparr>rs_status = 200, rs_body = ReplyBody (RUnlock (hex_encode b) 7 False ''session'')\<rparr>, [], api_server\<lparr>sv_mgr := m\<rparr>), w')"
proof -
  have l: "\<not> rt_access_log (Current (sv_tn api_server))"
    by (simp add: api_server_def Current_def DefaultRuntimeTuning_def)
  obtain h w0 where w: "w_db w0 = w_db api_world"
    and s: "\<And>next. RequestID still_env next r api_server api_world = next (r\<lparr>rq_rid := h\<rparr>) api_server w0"
    using middleware_through(1) [of api_world still_env r api_server] by blast
  let ?r = "r\<lparr>rq_rid := h, rq_limit := Some (rt_max_body (Current (sv_tn api_server)))\<rparr>"
  obtain b m w' where "length b = 32" "vaultUnlock still_env ?r api_server w0
    = ((Answer \<lparr>rs_status = 200, rs_body = ReplyBody (RUnlock (hex_encode b) 7 False ''session'')\<rparr>, [], api_server\<lparr>sv_mgr := m\<rparr>), w')"
    using still_unlock [OF w] by blast
  then show ?thesis using l assms
    by (intro exI [of _ b] exI [of _ m] exI [of _ w'])
       (simp add: serve_def s Recoverer_def AccessLogTuning_def AccessLog_def MaxBytesTuning_def MaxBytes_def handler_for_def Let_def)
qed

abbreviation still_service :: "(server \<times> world) transport" where
  "still_service \<equiv> service_behind example_io still_env demo_reach demo_texts"


end
