(* ===== verification/Agent_Sample.thy ===== *)
theory Agent_Sample
  imports End_To_End
begin

text \<open>
  An agent at work: the tools of the bridge against a concrete service, whose vault has one memory
  with its embedding; a search that finds it, and a text that is saved.
\<close>

section \<open>The service\<close>

definition agent_env :: env where
  "agent_env = api_env\<lparr>ev_now := \<lambda>_. 5, ev_knn := \<lambda>_ _ rows. map (\<lambda>(i, _). (i, Fin 0)) rows, ev_fts := \<lambda>_ _ _. [],
     ev_uuid := \<lambda>_. 11, ev_uuid_str := \<lambda>_. ''9''\<rparr>"

definition agent_world :: world where
  "agent_world = \<lparr>w_db = empty_db\<lparr>d_vaults := [plain_vault], d_tokens := [api_token], d_chunks := [api_chunk],
     d_embeds := [\<lparr>e_chunk = 9, e_vec = replicate 1536 (Fin 0), e_model = ''text-embedding-3-small''\<rparr>]\<rparr>, w_tick = 0\<rparr>"

definition open_tuning :: runtime_tuning where
  "open_tuning = DefaultRuntimeTuning\<lparr>rt_semantic_threshold := Fin 0, rt_fusion_lexical_weight := Fin 0\<rparr>"

definition agent_server :: server where
  "agent_server = api_server\<lparr>sv_cfg := api_config\<lparr>cf_api_key := ''k''\<rparr>, sv_tn := (sv_tn api_server)\<lparr>tn_current := open_tuning\<rparr>\<rparr>"

definition agent_reach :: "string \<Rightarrow> string option" where
  "agent_reach url = (if take 8 url = ''http://g'' then Some (drop 8 url) else None)"

abbreviation agent_service :: "(server \<times> world) transport" where
  "agent_service \<equiv> service_behind example_io agent_env agent_reach demo_texts"

lemma agent_fault [simp]: "\<not> ev_fault agent_env t"
  by (simp add: agent_env_def api_env_def demo_env_def)

lemma agent_server_simps [simp]:
  "sv_mgr agent_server = sv_mgr api_server" "Current (sv_tn agent_server) = open_tuning" "\<not> rt_access_log open_tuning"
  "\<not> rt_debug open_tuning" "rt_max_body open_tuning = 2 ^ 20" "rt_embedding_model open_tuning = ''text-embedding-3-small''"
  "rt_semantic_threshold open_tuning = Fin 0" "rt_fusion_lexical_weight open_tuning = Fin 0"
  by (simp_all add: agent_server_def Current_def open_tuning_def DefaultRuntimeTuning_def)

lemma agent_server_same [simp]: "agent_server\<lparr>sv_mgr := sv_mgr api_server\<rparr> = agent_server"
  by (simp add: agent_server_def)

lemma agent_engine: "sv_engine agent_server = \<lparr>en_enc = False, en_key = ''k'', en_oa = True, en_tuning = Some (sv_tn agent_server)\<rparr>"
  by (simp add: sv_engine_def agent_server_def api_config_def)

lemma agent_let_in:
  assumes "w_db w = w_db agent_world" "has_bearer agent_env r" "bearer_of r = ''t''"
  shows "requireVaultAuth agent_env r (sv_mgr api_server) w
    = ((Inr (bare_session 7, 7), sv_mgr api_server), bump (bump (bump (bump w))))"
  using assms by (simp add: vault_auth_bearer Touch_def GetSessionByHash_def query_def action_auth_def actionTokenVault_def
      ValidActionToken_def GetVault_def agent_env_def api_env_def demo_env_def api_server_def NewManagerWithStore_def cache_get_def
      agent_world_def empty_db_def row_at_def api_token_def plain_vault_def demo_vault_def HashActionToken_def Let_def)

text \<open>The tool ends with what the handler answers.\<close>

lemma agent_tool:
  assumes "reach (hc_url call) = Some path" "Routes (hc_method call) path = Some rt" "\<not> rt_access_log (Current (sv_tn s))"
    and "\<And>h w0. w_db w0 = w_db w \<Longrightarrow> \<exists>ls s' w'.
      handler_for io env rt (request_of rt path call\<lparr>rq_rid := h, rq_limit := Some (rt_max_body (Current (sv_tn s)))\<rparr>) s w0
      = ((Answer \<lparr>rs_status = 200, rs_body = ReplyBody v\<rparr>, ls, s'), w')"
    and "Option.bind (json_parse (reply_text env tx v @ [chr 10])) to_any = Some val" "length (reply_text env tx v) < max_answer"
  shows "\<exists>ls s' w'. tool_answer (bridge_send env' os' (service_behind io env reach tx) tok call (s, w)) = ((Inr val, ls), (s', w'))"
proof -
  let ?r = "request_of rt path call"
  obtain h w0 where w0: "w_db w0 = w_db w" and id: "\<And>next. RequestID env next ?r s w = next (?r\<lparr>rq_rid := h\<rparr>) s w0"
    using middleware_through(1) by blast
  from assms(4) [OF w0, of h] obtain ls s' w' where
    "handler_for io env rt (?r\<lparr>rq_rid := h, rq_limit := Some (rt_max_body (Current (sv_tn s)))\<rparr>) s w0
      = ((Answer \<lparr>rs_status = 200, rs_body = ReplyBody v\<rparr>, ls, s'), w')" by blast
  moreover have "rq_route ?r = rt" by (simp add: request_of_def)
  ultimately have "serve io env ?r s w = ((\<lparr>rs_status = 200, rs_body = ReplyBody v\<rparr>, ls, s'), w')"
    using assms(3) by (simp add: serve_def Recoverer_def id AccessLogTuning_def AccessLog_def middleware_through(2) Let_def)
  moreover have "take max_answer (reply_text env tx v @ [chr 10]) = reply_text env tx v @ [chr 10]" using assms(6) by simp
  ultimately show ?thesis
    using assms(1,2,5) by (simp add: service_behind_def bridge_send_def tool_answer_def toolResultFromHTTP_def body_bytes_def Let_def)
qed

section \<open>A search\<close>

definition agent_snippet :: snippet where
  "agent_snippet = \<lparr>sp_id = ''9'', sp_text = ''text'', sp_score = Fin 0, sp_abstract = [], sp_full = [], sp_available = False, sp_kind = []\<rparr>"

lemma agent_rank:
  "RankChunksFusionDetail us [\<lparr>cc_id = 9, cc_sem = Fin 0, cc_lex = Fin 0, cc_raw = Fin 0\<rparr>] [] (Fin 0) (Fin 0)
    = [\<lparr>fr_id = 9, fr_sem = Fin 0, fr_lex = Fin 0, fr_fused = Fin 0\<rparr>]"
proof -
  have "fround 1 = Fin 1" using fround_dyadic [of 1 0] by simp
  then have "fused_score (Fin 0) (Fin 0) (Fin 0) = Fin 0" by (simp add: fused_score_def fsub_def)
  then show ?thesis
    by (simp add: RankChunksFusionDetail_def fusion_step_def no_maps_def lex_norms_def clamp_weight_def flt_def
        fusion_rows_def map_get_def exchange_sort_def exchange_row_def Let_def)
qed

lemma agent_dense:
  assumes "w_db w = w_db agent_world"
  shows "SearchDense agent_env 7 ''u'' ''text-embedding-3-small'' q 60 [] False w
    = (Inr [\<lparr>cc_id = 9, cc_sem = Fin 0, cc_lex = Fin 0, cc_raw = Fin 0\<rparr>], bump w)"
proof -
  have "dense_rows 7 ''u'' ''text-embedding-3-small'' [] False (w_db agent_world) = [(9, replicate 1536 (Fin 0))]"
    by (simp add: dense_rows_def agent_world_def empty_db_def api_chunk_def live_chunk_def)
  then show ?thesis using assms by (simp add: SearchDense_def query_def) (simp add: agent_env_def)
qed

lemma agent_payload:
  assumes "w_db w = w_db agent_world"
  shows "GetChunkPayload agent_env 9 w = (Inr (payload_of api_chunk), bump w)"
    "payloadToChunkBody agent_env e sess (payload_of api_chunk) w = (Inr (ParseChunkPlaintext ''text''), w)"
proof -
  show "GetChunkPayload agent_env 9 w = (Inr (payload_of api_chunk), bump w)"
    using assms by (simp add: GetChunkPayload_def query_def agent_world_def empty_db_def) (simp add: api_chunk_def)
  have "merge_meta (payload_of api_chunk) cb = cb" for cb
    by (simp add: merge_meta_def payload_of_def api_chunk_def jmap_nonempty_def jmap_entries_def)
  then show "payloadToChunkBody agent_env e sess (payload_of api_chunk) w = (Inr (ParseChunkPlaintext ''text''), w)"
    by (simp add: payloadToChunkBody_def decryptPayloadString_def payload_of_def api_chunk_def)
qed

lemma agent_words:
  "trim_space ''text'' = ''text''" "trim_space ''all'' = ''all''" "trim_space ''auto'' = ''auto''" "trim_space ''q'' = ''q''"
  "trim_space ''http://g/'' = ''http://g/''" "trim_space ''full'' = ''full''" "trim_space ''x'' = ''x''"
  by (rule trim_space_ends [OF refl]; simp add: space_rune_def)+

lemma agent_lower: "list_all (\<lambda>c. ascii_lower (byte c) = byte c) s \<Longrightarrow> ascii s \<Longrightarrow> to_lower f s = s"
  by (simp add: to_lower_ascii lower_id)

lemma agent_modes:
  "to_lower f ''all'' = ''all''" "to_lower f ''auto'' = ''auto''" "to_lower f ''full'' = ''full''" "to_lower f ''x'' = ''x''"
  by (rule agent_lower; simp add: ascii_lower_def)+

lemma agent_text: "ParseChunkPlaintext ''text'' = legacy_body ''text''"
  by (simp add: ParseChunkPlaintext_def agent_words Let_def)

lemma agent_search_run:
  assumes "w_db w = w_db agent_world"
  shows "\<exists>w'. RetrieveWithDebug agent_env (sv_engine agent_server) 7 ''u'' ''q'' 3 0 sess
      \<lparr>ro_session_key = [], ro_session_mode = ''all'', ro_content_mode = ''auto''\<rparr> False w = (Inr ([agent_snippet], None), w')"
proof -
  obtain w1 where o: "oa_embed agent_env ''text-embedding-3-small'' [''q''] w = (Inr [replicate 1536 (Fin 0)], w1)"
      "w_db w1 = w_db agent_world"
    using assms by (simp add: oa_embed_def agent_env_def api_env_def demo_env_def)
  have sl: "SearchLexical agent_env 7 ''u'' ''q'' 60 [] False (bump w1) = (Inr [], bump (bump w1))"
    by (simp add: SearchLexical_def query_def) (simp add: agent_env_def)
  have k: "k_dense open_tuning 3 = 60" by (simp add: k_dense_def open_tuning_def DefaultRuntimeTuning_def i64_def)
  have mode: "resolveRetrieveContentMode (ev_lower agent_env) ''auto'' (legacy_body ''text'') = ''full''"
    by (simp add: resolveRetrieveContentMode_def agent_words agent_modes legacy_body_def Let_def)
  have "buildRetrieveSnippet ''9'' (legacy_body ''text'') (Fin 0) ''full'' = agent_snippet"
    by (simp add: buildRetrieveSnippet_def agent_snippet_def legacy_body_def Let_def)
  moreover have "ev_uuid_str agent_env i = ''9''" for i by (simp add: agent_env_def)
  ultimately obtain pk where p: "pack_loop agent_env (sv_engine agent_server) sess ''auto'' 3 0 [\<lparr>sc_id = 9, sc_score = Fin 0\<rparr>] 0 []
      no_packing (bump (bump w1)) = (Inr ([agent_snippet], pk), bump (bump (bump w1)))"
    using agent_payload o(2) mode by (simp add: agent_text)
  show ?thesis
    using o(1) agent_dense [OF o(2)] sl k p
    by (simp add: RetrieveWithDebug_def Let_def agent_engine en_tn_def agent_words agent_modes or_default_def agent_rank
        effective_max_chunks_def prefer_session_def)
qed

definition agent_question :: search_in where
  "agent_question = no_search\<lparr>si_query := ''q'', si_max_chunks := 3\<rparr>"

definition agent_asked :: search_in where
  "agent_asked = agent_question\<lparr>si_vault := ''7'', si_user := ''u''\<rparr>"

lemma agent_question_fits:
  "(''7'', ''u'') = applyVaultUserDefaults demo_bridge (si_vault agent_question) (si_user agent_question)"
  "search_fits agent_asked" "length (marshal_search agent_asked) \<le> 100"
  "search_req agent_asked = no_retrieve_req\<lparr>tq_vault_id := ''7'', tq_user_id := ''u'', tq_query := ''q'', tq_max_chunks := 3\<rparr>"
proof -
  show "(''7'', ''u'') = applyVaultUserDefaults demo_bridge (si_vault agent_question) (si_user agent_question)"
    using demo_bridge_works(1) by (simp add: agent_question_def no_search_def)
  show "search_fits agent_asked"
    by (simp add: search_fits_def agent_asked_def agent_question_def no_search_def int64_def valid_utf8_ascii)
  show "length (marshal_search agent_asked) \<le> 100" by code_simp
  show "search_req agent_asked = no_retrieve_req\<lparr>tq_vault_id := ''7'', tq_user_id := ''u'', tq_query := ''q'', tq_max_chunks := 3\<rparr>"
    by (simp add: search_req_def no_search_def no_retrieve_req_def agent_asked_def agent_question_def)
qed

lemma agent_retrieve:
  assumes "w_db w = w_db agent_world" "has_bearer agent_env r" "bearer_of r = ''t''"
    and "decode_body (dec_struct retrieve_fields) no_retrieve_req (rq_limit r) (rq_body r) = Decoded (search_req agent_asked)"
  shows "\<exists>w'. retrieve agent_env r agent_server w
    = ((Answer \<lparr>rs_status = 200, rs_body = ReplyBody (RRetrieve [agent_snippet] 1 None None)\<rparr>, [], agent_server), w')"
proof -
  note a = agent_let_in [OF assms(1-3)]
  have "mode_or agent_env ''all'' [] = ''all''" "mode_or agent_env ''auto'' [] = ''auto''"
    by (simp_all add: mode_or_def to_lower_ascii)
  moreover have "ev_uuid_parse agent_env ''7'' = Some 7" by (simp add: agent_env_def api_env_def)
  moreover have "w_db (bump (bump (bump (bump w)))) = w_db agent_world" using assms(1) by simp
  from agent_search_run [OF this, of "Some (bare_session 7)"] obtain w' where
    "RetrieveWithDebug agent_env (sv_engine agent_server) 7 ''u'' ''q'' 3 0 (Some (bare_session 7))
      \<lparr>ro_session_key = [], ro_session_mode = ''all'', ro_content_mode = ''auto''\<rparr> False (bump (bump (bump (bump w))))
      = (Inr ([agent_snippet], None), w')" by blast
  ultimately show ?thesis
    using a assms(4) agent_question_fits(4)
    by (simp add: retrieve_def guarded_def retrieve_rest_def no_retrieve_req_def run_query_def agent_words buildRetrieveMeta_def
        writeJSON_def encodes_def agent_snippet_def finite_f64_def Let_def)
qed

lemma agent_prints: "search_prints agent_env [agent_snippet]"
proof -
  have "ev_fmt_f64 agent_env (Fin 0) = ''0''" by (simp add: agent_env_def api_env_def demo_env_def)
  then show ?thesis by (simp add: search_prints_def snippet_prints_def agent_snippet_def digit_0 valid_utf8_ascii)
qed

lemma agent_search_exact_witness:
  "\<exists>ls s' w' r w0 sess m w1 snips d. memory_search api_env mcp_os demo_bridge agent_service agent_question (agent_server, agent_world)
       = ((Inr (search_value None [agent_snippet]), ls), (s', w'))
     \<and> requireVaultAuth agent_env r (sv_mgr agent_server) w0 = ((Inr (sess, 7), m), w1)
     \<and> RetrieveWithDebug agent_env (sv_engine (agent_server\<lparr>sv_mgr := m\<rparr>)) 7 ''u'' ''q'' 3 0 (Some sess)
         \<lparr>ro_session_key = [], ro_session_mode = mode_or agent_env ''all'' [], ro_content_mode = mode_or agent_env ''auto'' []\<rparr>
         False w1 = (Inr (snips, d), w')"
proof -
  let ?call = "\<lparr>hc_method = ''POST'', hc_url = ''http://g/v1/retrieve'', hc_authorization = ''Bearer t'',
      hc_content_type = ''application/json'', hc_body = marshal_search agent_asked\<rparr>"
  have base: "bridge_base demo_bridge = ''http://g''" "bearerForGV mcp_os demo_bridge = ''t''"
    by (simp_all add: bridge_base_def demo_bridge_def bearerForGV_def demo_trim agent_words)
  have there: "agent_reach (bridge_base demo_bridge @ ''/v1/retrieve'') = Some ''/v1/retrieve''"
    by (simp add: base agent_reach_def)
  have tool: "memory_search api_env mcp_os demo_bridge agent_service agent_question (agent_server, agent_world)
      = tool_answer (bridge_send api_env mcp_os agent_service ''t'' ?call (agent_server, agent_world))"
    using agent_question_fits(1) [symmetric]
    by (simp add: memory_search_def post_def base agent_asked_def Let_def)
  have fits: "int (length (marshal_search agent_asked)) \<le> rt_max_body (Current (sv_tn agent_server))"
    using agent_question_fits(3) by simp
  let ?tree = "retrieve_tree agent_env [agent_snippet] 1 None None"
  have small: "length (jx_print ?tree) < 1000" by code_simp
  have "\<exists>ls s' w'. tool_answer (bridge_send api_env mcp_os agent_service ''t'' ?call (agent_server, agent_world))
      = ((Inr (search_value None [agent_snippet]), ls), (s', w'))"
  proof (rule agent_tool [where v = "RRetrieve [agent_snippet] 1 None None" and path = "''/v1/retrieve''" and rt = RetrieveRoute])
    show "length (reply_text agent_env demo_texts (RRetrieve [agent_snippet] 1 None None)) < max_answer"
      using small by (simp add: reply_text_def max_answer_def)
    show "Option.bind (json_parse (reply_text agent_env demo_texts (RRetrieve [agent_snippet] 1 None None) @ newline)) to_any
        = Some (search_value None [agent_snippet])"
      using search_read [OF agent_prints, of 1 None] by (simp add: reply_text_def)
    fix h and w0 :: world
    assume w0: "w_db w0 = w_db agent_world"
    let ?r = "request_of RetrieveRoute ''/v1/retrieve'' ?call\<lparr>rq_rid := h, rq_limit := Some (rt_max_body (Current (sv_tn agent_server)))\<rparr>"
    have "has_bearer agent_env ?r" "bearer_of ?r = ''t''"
      using bearer_header [of ?r "''t''"] by (simp_all add: request_of_def demo_trim)
    moreover have "decode_body (dec_struct retrieve_fields) no_retrieve_req (rq_limit ?r) (rq_body ?r) = Decoded (search_req agent_asked)"
      using search_wire.body_read [OF agent_question_fits(2), of "Some (2 ^ 20)", folded marshal_search_def] fits
      by (simp add: request_of_def)
    ultimately show "\<exists>ls s' w'. handler_for example_io agent_env RetrieveRoute ?r agent_server w0
      = ((Answer \<lparr>rs_status = 200, rs_body = ReplyBody (RRetrieve [agent_snippet] 1 None None)\<rparr>, ls, s'), w')"
      using agent_retrieve [OF w0, of ?r] by (auto simp: handler_for_def)
  qed (simp_all add: agent_reach_def Routes_def)
  then obtain ls s' w' where run: "memory_search api_env mcp_os demo_bridge agent_service agent_question (agent_server, agent_world)
      = ((Inr (search_value None [agent_snippet]), ls), (s', w'))"
    unfolding tool by blast
  have p: "ev_uuid_parse agent_env ''7'' = Some 7" by (simp add: agent_env_def api_env_def)
  from agent_search_exact [OF run agent_question_fits(1) agent_question_fits(2) [unfolded agent_asked_def] demo_bridge_works(2)
      fits [unfolded agent_asked_def] there] p
  obtain r w0 sess m w1 snips d where "requireVaultAuth agent_env r (sv_mgr agent_server) w0 = ((Inr (sess, 7), m), w1)"
    "RetrieveWithDebug agent_env (sv_engine (agent_server\<lparr>sv_mgr := m\<rparr>)) 7 ''u'' (si_query agent_question)
       (si_max_chunks agent_question) (si_max_tokens agent_question) (Some sess) \<lparr>ro_session_key = si_session_key agent_question,
         ro_session_mode = mode_or agent_env ''all'' (si_session_mode agent_question),
         ro_content_mode = mode_or agent_env ''auto'' (si_content_mode agent_question)\<rparr> False w1 = (Inr (snips, d), w')"
    by (metis option.inject)
  moreover have "si_query agent_question = ''q''" "si_max_chunks agent_question = 3" "si_max_tokens agent_question = 0"
    "si_session_key agent_question = []" "si_session_mode agent_question = []" "si_content_mode agent_question = []"
    by (simp_all add: agent_question_def no_search_def)
  ultimately show ?thesis using run by metis
qed

section \<open>A text\<close>

definition agent_note :: save_in where
  "agent_note = no_save\<lparr>ma_text := ''x''\<rparr>"

definition agent_said :: save_in where
  "agent_said = agent_note\<lparr>ma_vault := ''7'', ma_user := ''u''\<rparr>"

lemma agent_note_fits:
  "(''7'', ''u'') = applyVaultUserDefaults demo_bridge (ma_vault agent_note) (ma_user agent_note)"
  "save_ok (ev_fmt_f64 api_env) agent_said" "length (jx_print (save_tree (ev_fmt_f64 api_env) agent_said)) \<le> 100"
  "save_req agent_said = no_ingest_req\<lparr>iq_vault_id := ''7'', iq_user_id := ''u'', iq_text := ''x''\<rparr>"
proof -
  show "(''7'', ''u'') = applyVaultUserDefaults demo_bridge (ma_vault agent_note) (ma_user agent_note)"
    using demo_bridge_works(1) by (simp add: agent_note_def no_save_def)
  show "save_ok (ev_fmt_f64 api_env) agent_said"
    by (simp add: save_ok_def meta_ok_def agent_said_def agent_note_def no_save_def valid_utf8_ascii jmap_entries_def json_max_depth_def)
  show "length (jx_print (save_tree (ev_fmt_f64 api_env) agent_said)) \<le> 100" by code_simp
  show "save_req agent_said = no_ingest_req\<lparr>iq_vault_id := ''7'', iq_user_id := ''u'', iq_text := ''x''\<rparr>"
    by (simp add: save_req_def agent_said_def agent_note_def no_save_def no_ingest_req_def meta_sorted_def jmap_nonempty_def jmap_entries_def)
qed

lemma agent_stored:
  assumes "w_db w = w_db agent_world" "in_vault inp = 7" "in_user inp = ''u''" "in_kind inp = []" "in_meta inp = None"
  shows "\<exists>i w'. persistV1TextChunk agent_env (sv_engine agent_server) inp ''x'' open_tuning w = (Inr i, w') \<and> i \<noteq> uuid_nil"
  using assms
  by (simp add: persistV1TextChunk_def Let_def too_big_def ChunkExistsHash_def query_def oa_embed_def agent_engine
      new_uuid_def first_vec_def insert_memory_def seal_payload_def InsertChunk_def tx_exec_def exec_def insert_chunk_row_def
      insert_embed_row_def insert_hist_row_def payload_xor_def vector_dim_def
      session_key_of_def memory_row_def jmap_entries_def agent_env_def api_env_def demo_env_def agent_world_def empty_db_def
      plain_vault_def demo_vault_def api_chunk_def agent_words agent_modes)

lemma agent_save_run:
  assumes "w_db w = w_db agent_world"
  shows "\<exists>i w'. IngestWithDebug agent_env (sv_engine agent_server) (input_of (save_req agent_said) 7 ''default'' sess) False w
    = (([i], None, None), w')"
proof -
  let ?inp = "input_of (save_req agent_said) 7 ''default'' sess"
  have f: "in_vault ?inp = 7" "in_user ?inp = ''u''" "in_kind ?inp = []" "in_meta ?inp = None" "in_text ?inp = ''x''"
    "in_items ?inp = []" "in_abstract ?inp = []" "in_infer ?inp = False" "in_source ?inp = None"
    by (simp_all add: agent_note_fits(4) input_of_def no_ingest_req_def)
  obtain i w1 where "persistV1TextChunk agent_env (sv_engine agent_server) ?inp ''x'' open_tuning w = (Inr i, w1)" "i \<noteq> uuid_nil"
    using agent_stored [OF assms f(1-4)] by blast
  moreover have "en_tn (sv_engine agent_server) = open_tuning" by (simp add: agent_engine en_tn_def)
  moreover have "collectExplicitStructuredWork ?inp = []"
    by (simp add: collectExplicitStructuredWork_def f jmap_nonempty_def jmap_entries_def)
  moreover have "rt_chunk_rune_size open_tuning = 2000" by (simp add: open_tuning_def DefaultRuntimeTuning_def)
  then have "chunkText ''x'' (if rt_chunk_rune_size open_tuning < 1 then 2000 else rt_chunk_rune_size open_tuning) ov = [''x'']" for ov
    by (simp add: chunkText_def runes_ascii)
  ultimately show ?thesis
    by (simp add: IngestWithDebug_def agent_engine ingest_text_def f agent_words Let_def)
qed

lemma agent_ingest:
  assumes "w_db w = w_db agent_world" "has_bearer agent_env r" "bearer_of r = ''t''"
    and "decode_body (dec_struct ingest_fields) no_ingest_req (rq_limit r) (rq_body r) = Decoded (save_req agent_said)"
  shows "\<exists>w'. ingest agent_env r agent_server w
    = ((Answer \<lparr>rs_status = 200, rs_body = ReplyBody (RIngest [''9''] None)\<rparr>, [], agent_server), w')"
proof -
  note a = agent_let_in [OF assms(1-3)]
  have q: "iq_vault_id (save_req agent_said) = ''7''" "iq_user_id (save_req agent_said) = ''u''" "iq_session_key (save_req agent_said) = []"
    "iq_messages (save_req agent_said) = []" "\<not> iq_debug (save_req agent_said)"
    by (simp_all add: agent_note_fits(4) no_ingest_req_def)
  have e: "ev_uuid_parse agent_env ''7'' = Some 7" "\<And>i. ev_uuid_str agent_env i = ''9''" by (simp_all add: agent_env_def api_env_def)
  have "w_db (bump (bump (bump (bump w)))) = w_db agent_world" using assms(1) by simp
  from agent_save_run [OF this, of "bare_session 7"] obtain i w' where
    "IngestWithDebug agent_env (sv_engine agent_server) (input_of (save_req agent_said) 7 ''default'' (bare_session 7)) False
      (bump (bump (bump (bump w)))) = (([i], None, None), w')" by blast
  then show ?thesis
    using a assms(4) e
    by (simp add: ingest_def guarded_def ingest_rest_def q ingest_store_def writeJSON_def encodes_def Let_def)
qed

lemma agent_save_exact_witness:
  "\<exists>ls s' w' r w0 sess m w1 ids d. memory_save api_env mcp_os demo_bridge agent_service agent_note (agent_server, agent_world)
       = ((Inr (saved_value [''9'']), ls), (s', w'))
     \<and> requireVaultAuth agent_env r (sv_mgr agent_server) w0 = ((Inr (sess, 7), m), w1)
     \<and> IngestWithDebug agent_env (sv_engine (agent_server\<lparr>sv_mgr := m\<rparr>)) (input_of (save_req agent_said) 7 ''default'' sess) False w1
         = ((ids, d, None), w')"
proof -
  let ?call = "\<lparr>hc_method = ''POST'', hc_url = ''http://g/v1/ingest'', hc_authorization = ''Bearer t'',
      hc_content_type = ''application/json'', hc_body = jx_print (save_tree (ev_fmt_f64 api_env) agent_said)\<rparr>"
  have base: "bridge_base demo_bridge = ''http://g''" "bearerForGV mcp_os demo_bridge = ''t''"
    by (simp_all add: bridge_base_def demo_bridge_def bearerForGV_def demo_trim agent_words)
  have there: "agent_reach (bridge_base demo_bridge @ ''/v1/ingest'') = Some ''/v1/ingest''"
    by (simp add: base agent_reach_def)
  have "marshal_save (ev_fmt_f64 api_env) agent_said = Inr (jx_print (save_tree (ev_fmt_f64 api_env) agent_said))"
    by (simp add: marshal_save_def agent_said_def agent_note_def no_save_def jmap_entries_def)
  then have tool: "memory_save api_env mcp_os demo_bridge agent_service agent_note (agent_server, agent_world)
      = tool_answer (bridge_send api_env mcp_os agent_service ''t'' ?call (agent_server, agent_world))"
    using agent_note_fits(1) [symmetric] by (simp add: memory_save_def post_def base agent_said_def [symmetric] Let_def)
  have fits: "int (length (jx_print (save_tree (ev_fmt_f64 api_env) agent_said))) \<le> rt_max_body (Current (sv_tn agent_server))"
    using agent_note_fits(3) by simp
  have u: "valid_utf8 (ev_uuid_str agent_env i)" for i by (simp add: agent_env_def valid_utf8_ascii)
  have small: "length (jx_print (ingest_tree demo_texts [''9''] None)) < 1000" by code_simp
  have "\<exists>ls s' w'. tool_answer (bridge_send api_env mcp_os agent_service ''t'' ?call (agent_server, agent_world))
      = ((Inr (saved_value [''9'']), ls), (s', w'))"
  proof (rule agent_tool [where v = "RIngest [''9''] None" and path = "''/v1/ingest''" and rt = IngestRoute])
    show "length (reply_text agent_env demo_texts (RIngest [''9''] None)) < max_answer"
      using small by (simp add: reply_text_def max_answer_def)
    show "Option.bind (json_parse (reply_text agent_env demo_texts (RIngest [''9''] None) @ newline)) to_any
        = Some (saved_value [''9''])"
      using save_read [of "[''9'']" demo_texts] by (simp add: reply_text_def valid_utf8_ascii)
    fix h and w0 :: world
    assume w0: "w_db w0 = w_db agent_world"
    let ?r = "request_of IngestRoute ''/v1/ingest'' ?call\<lparr>rq_rid := h, rq_limit := Some (rt_max_body (Current (sv_tn agent_server)))\<rparr>"
    have "has_bearer agent_env ?r" "bearer_of ?r = ''t''"
      using bearer_header [of ?r "''t''"] by (simp_all add: request_of_def demo_trim)
    moreover have "decode_body (dec_struct ingest_fields) no_ingest_req (rq_limit ?r) (rq_body ?r) = Decoded (save_req agent_said)"
      using save_wire.body_read [OF agent_note_fits(2), of "Some (2 ^ 20)"] fits by (simp add: request_of_def)
    ultimately show "\<exists>ls s' w'. handler_for example_io agent_env IngestRoute ?r agent_server w0
      = ((Answer \<lparr>rs_status = 200, rs_body = ReplyBody (RIngest [''9''] None)\<rparr>, ls, s'), w')"
      using agent_ingest [OF w0, of ?r] by (auto simp: handler_for_def)
  qed (simp_all add: agent_reach_def Routes_def)
  then obtain ls s' w' where run: "memory_save api_env mcp_os demo_bridge agent_service agent_note (agent_server, agent_world)
      = ((Inr (saved_value [''9'']), ls), (s', w'))"
    unfolding tool by blast
  have p: "ev_uuid_parse agent_env ''7'' = Some 7" by (simp add: agent_env_def api_env_def)
  have n: "ma_session_key agent_note = []" "ma_messages agent_note = []" by (simp_all add: agent_note_def no_save_def)
  from agent_save_exact [OF run agent_note_fits(1) agent_note_fits(2) [unfolded agent_said_def] demo_bridge_works(2)
      fits [unfolded agent_said_def] there u, folded agent_said_def, unfolded n Let_def] p
  obtain r w0 sess m w1 ids d where "requireVaultAuth agent_env r (sv_mgr agent_server) w0 = ((Inr (sess, 7), m), w1)"
    "IngestWithDebug agent_env (sv_engine (agent_server\<lparr>sv_mgr := m\<rparr>)) (input_of (save_req agent_said) 7 ''default'' sess) False w1
       = ((ids, d, None), w')"
    by auto
  then show ?thesis using run by metis
qed

end
