(* ===== verification/Auth_Race.thy ===== *)
theory Auth_Race
  imports Auth_Laws
begin

text \<open>
  \<open>Touch\<close> and \<open>Invalidate\<close> of one token running at the same time. The manager's mutex covers
  each access of the map, not the whole call: a thread is a program counter between the locked
  sections and the database calls of \<open>session.go\<close>, and a run interleaves the two threads in any
  order. The touching thread holds a pointer to the session object, so prolonging it changes
  the cached session only while the map still holds it.
\<close>

datatype touch_pc =
    TStart                     \<comment> \<open>before the look-up in the map\<close>
  | TMiss                      \<comment> \<open>not in the map, about to read the row\<close>
  | TRow session_row           \<comment> \<open>the row is read, the map not yet filled\<close>
  | THave session              \<comment> \<open>the session is at hand\<close>
  | TWrite session             \<comment> \<open>prolonged, the row not yet written\<close>
  | TExpired                   \<comment> \<open>dropped from the map, the row not yet deleted\<close>
  | TDone "session res"

datatype lock_pc = LStart | LDelete | LDone

record race =
  r_mgr :: mgr
  r_world :: world
  r_touch :: touch_pc
  r_lock :: lock_pc

text \<open>\<open>env\<close>, the token and the time of the call are fixed; both threads use the store.\<close>

inductive race_step :: "env \<Rightarrow> string \<Rightarrow> instant \<Rightarrow> race \<Rightarrow> race \<Rightarrow> bool" for env tok ts where
  hit: "r_touch r = TStart \<Longrightarrow> cache_get tok (r_mgr r) = Some s \<Longrightarrow>
     race_step env tok ts r (r\<lparr>r_touch := THave s\<rparr>)"
| miss: "r_touch r = TStart \<Longrightarrow> cache_get tok (r_mgr r) = None \<Longrightarrow>
     race_step env tok ts r (r\<lparr>r_touch := TMiss\<rparr>)"
| read_fail: "r_touch r = TMiss \<Longrightarrow>
     GetSessionByHash env (hashToken env tok) (r_world r) = (Inl e, w1) \<Longrightarrow>
     race_step env tok ts r (r\<lparr>r_world := w1, r_touch := TDone (Inl EUnauthorized)\<rparr>)"
| read_row: "r_touch r = TMiss \<Longrightarrow>
     GetSessionByHash env (hashToken env tok) (r_world r) = (Inr row, w1) \<Longrightarrow>
     race_step env tok ts r (r\<lparr>r_world := w1, r_touch := TRow row\<rparr>)"
| row_expired: "r_touch r = TRow row \<Longrightarrow>
     s_max_until row < ts \<or> mg_idle (r_mgr r) < time_sub ts (s_last_seen row) \<Longrightarrow>
     race_step env tok ts r (r\<lparr>r_world := snd (DeleteSession env (hashToken env tok) (r_world r)),
                              r_touch := TDone (Inl EVaultLocked)\<rparr>)"
| rehydrate: "r_touch r = TRow row \<Longrightarrow>
     \<not> (s_max_until row < ts \<or> mg_idle (r_mgr r) < time_sub ts (s_last_seen row)) \<Longrightarrow>
     s = session_of_row row (hashToken env tok) (r_mgr r) \<Longrightarrow>
     race_step env tok ts r (r\<lparr>r_mgr := cache_put tok s (r_mgr r), r_touch := THave s\<rparr>)"
| expired: "r_touch r = THave s \<Longrightarrow> \<not> usable ts s \<Longrightarrow>
     race_step env tok ts r (r\<lparr>r_mgr := cache_del tok (r_mgr r), r_touch := TExpired\<rparr>)"
| drop_row: "r_touch r = TExpired \<Longrightarrow>
     race_step env tok ts r (r\<lparr>r_world := snd (DeleteSession env (hashToken env tok) (r_world r)),
                              r_touch := TDone (Inl EVaultLocked)\<rparr>)"
| extend: "r_touch r = THave s \<Longrightarrow> usable ts s \<Longrightarrow>
     race_step env tok ts r
       (r\<lparr>r_mgr := (if cache_get tok (r_mgr r) = None then r_mgr r
                    else cache_put tok (prolonged ts s) (r_mgr r)),
          r_touch := TWrite (prolonged ts s)\<rparr>)"
| write_row: "r_touch r = TWrite s \<Longrightarrow>
     race_step env tok ts r
       (r\<lparr>r_world := snd (TouchSession env (hashToken env tok) (ss_last s) (ss_expires s) (r_world r)),
          r_touch := TDone (Inr s)\<rparr>)"
| lock_map: "r_lock r = LStart \<Longrightarrow>
     race_step env tok ts r (r\<lparr>r_mgr := cache_del tok (r_mgr r), r_lock := LDelete\<rparr>)"
| lock_row: "r_lock r = LDelete \<Longrightarrow>
     race_step env tok ts r
       (r\<lparr>r_world := snd (DeleteSession env (hashToken env tok) (r_world r)), r_lock := LDone\<rparr>)"

inductive_cases race_stepE: "race_step env tok ts r r'"

abbreviation race_run :: "env \<Rightarrow> string \<Rightarrow> instant \<Rightarrow> race \<Rightarrow> race \<Rightarrow> bool" where
  "race_run env tok ts \<equiv> (race_step env tok ts)\<^sup>*\<^sup>*"

definition race_start :: "mgr \<Rightarrow> world \<Rightarrow> race" where
  "race_start m w = \<lparr>r_mgr = m, r_world = w, r_touch = TStart, r_lock = LStart\<rparr>"

section \<open>A touch that finds the token in the map\<close>

text \<open>Past the look-up, the thread never puts the token back; deletes only remove.\<close>

definition past_lookup :: "touch_pc \<Rightarrow> bool" where
  "past_lookup p \<longleftrightarrow> (case p of TStart \<Rightarrow> False | TMiss \<Rightarrow> False | TRow _ \<Rightarrow> False | _ \<Rightarrow> True)"

lemma past_lookup_simps [simp]:
  "\<not> past_lookup TStart" "\<not> past_lookup TMiss" "\<not> past_lookup (TRow row)" "past_lookup (THave s)"
  "past_lookup (TWrite s)" "past_lookup TExpired" "past_lookup (TDone x)"
  by (simp_all add: past_lookup_def)

definition no_row :: "bytes \<Rightarrow> world \<Rightarrow> bool" where
  "no_row h w \<longleftrightarrow> (\<forall>r \<in> set (d_sessions (w_db w)). s_hash r \<noteq> h)"

lemma no_row_from: "no_row h w \<Longrightarrow> rows_from w w' \<Longrightarrow> no_row h w'"
  unfolding no_row_def rows_from_def by fastforce

lemma no_row_DeleteSession: "\<not> ev_fault env (w_tick w) \<Longrightarrow> no_row h (snd (DeleteSession env h w))"
  by (simp add: no_row_def DeleteSession_def exec_def)

lemma race_locked_step:
  assumes "race_step env tok ts r r'" and "past_lookup (r_touch r)" and "\<forall>n. \<not> ev_fault env n"
    and "r_lock r \<noteq> LStart \<longrightarrow> cache_get tok (r_mgr r) = None"
    and "r_lock r = LDone \<longrightarrow> no_row (hashToken env tok) (r_world r)"
  shows "past_lookup (r_touch r')
    \<and> (r_lock r' \<noteq> LStart \<longrightarrow> cache_get tok (r_mgr r') = None)
    \<and> (r_lock r' = LDone \<longrightarrow> no_row (hashToken env tok) (r_world r'))"
  using assms(1)
proof cases
  case drop_row
  then show ?thesis using assms(4,5) no_row_from [OF _ rows_from_calls(1)] by auto
next
  case (write_row s)
  then show ?thesis using assms(4,5) no_row_from [OF _ rows_from_calls(2)] by auto
next
  case lock_row
  then show ?thesis using assms(2-4) no_row_DeleteSession by auto
qed (use assms(2-5) in auto)

lemma race_locked_run:
  assumes "race_run env tok ts r r'" and "\<forall>n. \<not> ev_fault env n"
    and "past_lookup (r_touch r)" "r_lock r = LStart"
  shows "past_lookup (r_touch r')
    \<and> (r_lock r' \<noteq> LStart \<longrightarrow> cache_get tok (r_mgr r') = None)
    \<and> (r_lock r' = LDone \<longrightarrow> no_row (hashToken env tok) (r_world r'))"
  using assms(1)
proof (induction rule: rtranclp_induct)
  case base
  then show ?case using assms(3,4) by simp
next
  case (step r1 r2)
  then show ?case using race_locked_step [OF step.hyps(2) _ assms(2)] by blast
qed

lemma no_row_behind: "no_row (hashToken env tok) w \<Longrightarrow> cache_get tok m = None \<Longrightarrow>
    session_behind env tok m (w_db w) = None"
  by (auto simp: session_behind_def no_row_def row_at_None)

text \<open>C33. A lock that runs beside a touch which has already found its session ends the session, in
  every interleaving: when the lock is done nothing stands behind the token any more.\<close>

theorem lock_beats_cached_touch:
  assumes "race_run env tok ts r r'" and "\<forall>n. \<not> ev_fault env n"
    and "r_touch r = THave s" "r_lock r = LStart" "r_lock r' = LDone"
  shows "session_behind env tok (r_mgr r') (w_db (r_world r')) = None"
  using race_locked_run [OF assms(1,2)] assms(3-5) by (simp add: no_row_behind)

section \<open>A touch that reads the row\<close>

text \<open>When the map does not hold the token, the touch reads the row, and a lock that completes
  before the touch fills the map is lost: both calls succeed, the row is gone, and the locked
  token stands in the map as a live session.\<close>

theorem lock_lost_to_rehydration:
  assumes "cache_get tok m = None" and "\<forall>n. \<not> ev_fault env n"
    and "row_at s_hash (hashToken env tok) (d_sessions (w_db w)) = Some row"
    and "ts \<le> s_max_until row" "time_sub ts (s_last_seen row) \<le> mg_idle m"
  shows "\<exists>r s. race_run env tok ts (race_start m w) r \<and> r_lock r = LDone \<and> r_touch r = TDone (Inr s)
    \<and> session_behind env tok (r_mgr r) (w_db (r_world r)) = Some s
    \<and> no_row (hashToken env tok) (r_world r)"
proof -
  let ?h = "hashToken env tok"
  have f: "\<not> ev_fault env n" for n using assms(2) by blast
  let ?r1 = "(race_start m w)\<lparr>r_touch := TMiss\<rparr>"
  have 1: "race_step env tok ts (race_start m w) ?r1"
    using assms(1) by (intro miss) (simp_all add: race_start_def)
  have g: "GetSessionByHash env ?h w = (Inr row, bump w)"
    using assms(3) f by (simp add: GetSessionByHash_def query_def)
  let ?r2 = "?r1\<lparr>r_world := bump w, r_touch := TRow row\<rparr>"
  have 2: "race_step env tok ts ?r1 ?r2"
    using g by (intro read_row) (simp_all add: race_start_def)
  let ?m3 = "cache_del tok m"
  let ?r3 = "?r2\<lparr>r_mgr := ?m3, r_lock := LDelete\<rparr>"
  have 3: "race_step env tok ts ?r2 ?r3"
    using lock_map [of ?r2 env tok ts] by (simp add: race_start_def)
  let ?w4 = "snd (DeleteSession env ?h (bump w))"
  let ?r4 = "?r3\<lparr>r_world := ?w4, r_lock := LDone\<rparr>"
  have 4: "race_step env tok ts ?r3 ?r4"
    using lock_row [of ?r3 env tok ts] by (simp add: race_start_def)
  let ?s = "session_of_row row ?h ?m3"
  have u: "usable ts ?s" unfolding session_of_row_usable using assms(4,5) by simp
  let ?r5 = "?r4\<lparr>r_mgr := cache_put tok ?s ?m3, r_touch := THave ?s\<rparr>"
  have 5: "race_step env tok ts ?r4 ?r5"
    using rehydrate [of ?r4 row ts ?s env tok] u [unfolded session_of_row_usable]
    by (simp add: race_start_def)
  let ?p = "prolonged ts ?s"
  let ?r6 = "?r5\<lparr>r_mgr := cache_put tok ?p (cache_put tok ?s ?m3), r_touch := TWrite ?p\<rparr>"
  have 6: "race_step env tok ts ?r5 ?r6"
    using extend [of ?r5 ?s ts env tok] u by (simp add: race_start_def)
  let ?w7 = "snd (TouchSession env ?h (ss_last ?p) (ss_expires ?p) ?w4)"
  let ?r7 = "?r6\<lparr>r_world := ?w7, r_touch := TDone (Inr ?p)\<rparr>"
  have 7: "race_step env tok ts ?r6 ?r7"
    using write_row [of ?r6 ?p env tok ts] by (simp add: race_start_def)
  have run: "race_run env tok ts (race_start m w) ?r7"
    using 1 2 3 4 5 6 7 by (meson converse_rtranclp_into_rtranclp rtranclp.rtrancl_refl)
  have "no_row ?h ?w4" using f no_row_DeleteSession by blast
  then have "no_row ?h ?w7" using no_row_from rows_from_calls(2) by blast
  with run show ?thesis
    by (intro exI [of _ ?r7] exI [of _ ?p]) (simp add: race_start_def session_behind_def)
qed

section \<open>Witnesses\<close>

lemma demo_row: "row_at s_hash (hashToken demo_env demo_tok) (d_sessions (w_db demo_world1))
    = Some \<lparr>s_hash = demo_tok, s_vault = 7, s_created = 0, s_last_seen = 0,
       s_expires = ns_hour, s_max_until = 12 * ns_hour\<rparr>"
proof -
  have "insert_session_row \<lparr>s_hash = demo_tok, s_vault = 7, s_created = 0, s_last_seen = 0,
       s_expires = ns_hour, s_max_until = 12 * ns_hour\<rparr> (w_db demo_world) = Inr (w_db demo_world1, ())"
    using CreateSession_Inr [OF demo_create] by (auto simp: demo_store demo_tok_hash)
  from insert_session_row_lookup [OF this, of demo_tok] show ?thesis by (simp add: demo_tok_hash)
qed

lemma demo_faultless: "\<forall>n. \<not> ev_fault demo_env n"
  by (simp add: demo_env_def)

lemma lock_lost_to_rehydration_witness:
  "\<exists>r s. race_run demo_env demo_tok 1 (race_start demo_mgr demo_world1) r \<and> r_lock r = LDone
    \<and> session_behind demo_env demo_tok (r_mgr r) (w_db (r_world r)) = Some s"
proof -
  have "cache_get demo_tok demo_mgr = None" "mg_idle demo_mgr = ns_hour"
    by (simp_all add: cache_get_def demo_mgr_def NewManagerWithStore_def)
  with lock_lost_to_rehydration [OF _ demo_faultless demo_row, of demo_mgr 1] show ?thesis
    by (auto simp: time_sub_def)
qed

lemma lock_beats_cached_touch_witness:
  "\<exists>r :: race. r_lock r = LDone \<and> session_behind demo_env demo_tok (r_mgr r) (w_db (r_world r)) = None"
proof -
  let ?s = "session_of_row \<lparr>s_hash = demo_tok, s_vault = 7, s_created = 0, s_last_seen = 0,
       s_expires = ns_hour, s_max_until = 12 * ns_hour\<rparr> demo_tok demo_mgr"
  let ?r0 = "\<lparr>r_mgr = demo_mgr1, r_world = demo_world1, r_touch = THave ?s, r_lock = LStart\<rparr>"
  let ?r1 = "?r0\<lparr>r_mgr := cache_del demo_tok demo_mgr1, r_lock := LDelete\<rparr>"
  let ?r2 = "?r1\<lparr>r_world := snd (DeleteSession demo_env (hashToken demo_env demo_tok) demo_world1), r_lock := LDone\<rparr>"
  have "race_step demo_env demo_tok 1 ?r0 ?r1" "race_step demo_env demo_tok 1 ?r1 ?r2"
    using lock_map [of ?r0 demo_env demo_tok 1] lock_row [of ?r1 demo_env demo_tok 1] by simp_all
  then have run: "race_run demo_env demo_tok 1 ?r0 ?r2"
    by (meson converse_rtranclp_into_rtranclp rtranclp.rtrancl_refl)
  have "session_behind demo_env demo_tok (r_mgr ?r2) (w_db (r_world ?r2)) = None"
    by (rule lock_beats_cached_touch [OF run demo_faultless, of ?s]) simp_all
  moreover have "r_lock ?r2 = LDone" by simp
  ultimately show ?thesis by blast
qed

end
