(* ===== verification/Auth_Spec.thy ===== *)
theory Auth_Spec
  imports Auth_Laws
begin

text \<open>
  What the session manager promises, without caches, hashes and rows: a table of leases. A lease has a
  vault, the time of its last use and an absolute end; it is granted, used and revoked, and a use that
  comes too late ends it. The manager of \<open>session.go\<close> with its map and the sessions table is shown
  to implement this table, restarts of the process included, for any set of tokens whose hashes differ.
\<close>

section \<open>The table of leases\<close>

record lease =
  l_vault :: uuid
  l_last :: instant
  l_end :: instant

type_synonym leases = "string \<Rightarrow> lease option"

datatype use_result = Used uuid | Expired | Unknown

definition lease_alive :: "duration \<Rightarrow> instant \<Rightarrow> lease \<Rightarrow> bool" where
  "lease_alive idle t l \<longleftrightarrow> t \<le> l_end l \<and> time_sub t (l_last l) \<le> idle"

definition use_lease :: "duration \<Rightarrow> string \<Rightarrow> instant \<Rightarrow> leases \<Rightarrow> use_result \<times> leases" where
  "use_lease idle tok t M =
     (case M tok of
        None \<Rightarrow> (Unknown, M)
      | Some l \<Rightarrow>
          if lease_alive idle t l then (Used (l_vault l), M(tok \<mapsto> l\<lparr>l_last := t\<rparr>))
          else (Expired, M(tok := None)))"

text \<open>What a client or an operator sees of a step.\<close>

datatype event = Granted string uuid instant | Use string instant use_result | Revoked string | Hidden

inductive lease_step :: "duration \<Rightarrow> duration \<Rightarrow> leases \<Rightarrow> event \<Rightarrow> leases \<Rightarrow> bool" for idle mx where
  grant: "M tok = None \<Longrightarrow>
     lease_step idle mx M (Granted tok v t) (M(tok \<mapsto> \<lparr>l_vault = v, l_last = t, l_end = t + mx\<rparr>))"
| use_it: "use_lease idle tok t M = (r, M') \<Longrightarrow> lease_step idle mx M (Use tok t r) M'"
| revoke: "lease_step idle mx M (Revoked tok) (M(tok := None))"
| hidden: "lease_step idle mx M Hidden M"

section \<open>The manager's steps\<close>

definition result_of :: "session res \<Rightarrow> use_result" where
  "result_of r = (case r of Inr s \<Rightarrow> Used (ss_vault s) | Inl e \<Rightarrow> if e = EVaultLocked then Expired else Unknown)"

text \<open>\<open>T\<close> holds the tokens that are in use; a restart makes a new manager with the same settings.\<close>

inductive mgr_step :: "env \<Rightarrow> string set \<Rightarrow> mgr \<times> world \<Rightarrow> event \<Rightarrow> mgr \<times> world \<Rightarrow> bool" for env T where
  create: "CreateSession env v dek t m w = ((Inr tok, m'), w') \<Longrightarrow> tok \<in> T \<Longrightarrow>
     mgr_step env T (m, w) (Granted tok v t) (m', w')"
| create_fails: "CreateSession env v dek t m w = ((Inl e, m'), w') \<Longrightarrow> mgr_step env T (m, w) Hidden (m', w')"
| touch: "Touch env tok t m w = ((r, m'), w') \<Longrightarrow> tok \<in> T \<Longrightarrow>
     mgr_step env T (m, w) (Use tok t (result_of r)) (m', w')"
| lock: "Invalidate env tok m w = (m', w') \<Longrightarrow> tok \<in> T \<Longrightarrow> mgr_step env T (m, w) (Revoked tok) (m', w')"
| shut_down: "mgr_step env T (m, w) Hidden (InvalidateAll m, w)"
| restart: "mgr_step env T (m, w) Hidden (NewManagerWithStore (mg_idle m) (mg_max m) True st, w)"
| other: "d_sessions (w_db w') = d_sessions (w_db w) \<Longrightarrow> mgr_step env T (m, w) Hidden (m, w')"

section \<open>The abstraction\<close>

definition row_lease :: "session_row \<Rightarrow> lease" where
  "row_lease r = \<lparr>l_vault = s_vault r, l_last = s_last_seen r, l_end = s_max_until r\<rparr>"

definition leases_of :: "env \<Rightarrow> string set \<Rightarrow> mgr \<times> world \<Rightarrow> leases" where
  "leases_of env T s tok =
     (if tok \<in> T \<and> tok \<noteq> [] then map_option row_lease (row_at s_hash (hashToken env tok) (d_sessions (w_db (snd s)))) else None)"

text \<open>The map agrees with the table: a cached session is its row, with the manager's idle period.\<close>

definition synced :: "env \<Rightarrow> string set \<Rightarrow> mgr \<times> world \<Rightarrow> bool" where
  "synced env T s \<longleftrightarrow> mg_store (fst s)
     \<and> (\<forall>tok x. tok \<in> T \<longrightarrow> cache_get tok (fst s) = Some x \<longrightarrow> ss_idle x = mg_idle (fst s)
          \<and> (\<exists>row. row_at s_hash (hashToken env tok) (d_sessions (w_db (snd s))) = Some row
               \<and> row_lease row = \<lparr>l_vault = ss_vault x, l_last = ss_last x, l_end = ss_max x\<rparr>))"

lemma leases_of_db: "d_sessions (w_db w) = d_sessions (w_db w') \<Longrightarrow> leases_of env T (m, w) = leases_of env T (m', w')"
  by (simp add: leases_of_def fun_eq_iff)

lemma row_at_filter: "row_at s_hash h (filter (\<lambda>s. s_hash s \<noteq> h') rows) = (if h = h' then None else row_at s_hash h rows)"
  by (induction rows) (auto simp: row_at_def)

lemma row_at_touched:
  "row_at s_hash h (touch_session_rows h' l e rows) =
     (if h = h' then map_option (\<lambda>r. r\<lparr>s_last_seen := l, s_expires := e\<rparr>) (row_at s_hash h rows) else row_at s_hash h rows)"
  by (induction rows) (auto simp: row_at_def touch_session_rows_def)

text \<open>A session that is put into the map together with its row.\<close>

lemma prolong_step:
  assumes up: "\<And>n. \<not> ev_fault env n" and inj: "inj_on (hashToken env) T" "tok \<in> T" "tok \<noteq> []"
    and st: "mg_store m" and row: "row_at s_hash (hashToken env tok) (d_sessions (w_db w)) = Some row"
    and s: "row_lease row = \<lparr>l_vault = ss_vault s, l_last = ss_last s, l_end = ss_max s\<rparr>" "ss_idle s = mg_idle m"
    and others: "\<And>tok' x. tok' \<in> T \<Longrightarrow> tok' \<noteq> tok \<Longrightarrow> cache_get tok' m = Some x \<Longrightarrow> ss_idle x = mg_idle m
          \<and> (\<exists>row. row_at s_hash (hashToken env tok') (d_sessions (w_db w)) = Some row
               \<and> row_lease row = \<lparr>l_vault = ss_vault x, l_last = ss_last x, l_end = ss_max x\<rparr>)"
    and p: "prolong env tok t s m w = ((r, m'), w')"
  shows "use_lease (mg_idle m) tok t (leases_of env T (m, w)) = (result_of r, leases_of env T (m', w'))
    \<and> synced env T (m', w') \<and> mg_idle m' = mg_idle m \<and> mg_max m' = mg_max m"
proof -
  have l: "leases_of env T (m, w) tok = Some (row_lease row)"
    using inj row by (simp add: leases_of_def)
  have ne: "hashToken env tok' \<noteq> hashToken env tok" if "tok' \<in> T" "tok' \<noteq> tok" for tok'
    using inj that by (auto dest: inj_onD)
  have al: "lease_alive (mg_idle m) t (row_lease row) \<longleftrightarrow> usable t s"
    using s by (simp add: lease_alive_def usable_def)
  show ?thesis
  proof (cases "usable t s")
    case True
    then have r: "r = Inr (prolonged t s)" "m' = cache_put tok (prolonged t s) m"
      and d: "d_sessions (w_db w') = touch_session_rows (hashToken env tok) t (t + ss_idle s) (d_sessions (w_db w))"
      using p st up by (auto simp: prolong_def usable_def prolonged_def TouchSession_def exec_def Let_def)
    have "leases_of env T (m', w') = (leases_of env T (m, w))(tok \<mapsto> (row_lease row)\<lparr>l_last := t\<rparr>)"
      using row inj ne by (auto simp: leases_of_def fun_eq_iff d row_at_touched row_lease_def)
    moreover have "synced env T (m', w')"
      using st others ne row s by (auto simp: synced_def r d row_at_touched prolonged_def row_lease_def)
    ultimately show ?thesis using True l al s r by (simp add: use_lease_def result_of_def prolonged_def row_lease_def)
  next
    case False
    then have r: "r = Inl EVaultLocked" "m' = cache_del tok m"
      and d: "d_sessions (w_db w') = filter (\<lambda>s. s_hash s \<noteq> hashToken env tok) (d_sessions (w_db w))"
      using p st up by (auto simp: prolong_def usable_def drop_session_def DeleteSession_def exec_def Let_def split: if_splits)
    have "leases_of env T (m', w') = (leases_of env T (m, w))(tok := None)"
      using ne by (auto simp: leases_of_def fun_eq_iff d row_at_filter)
    moreover have "synced env T (m', w')"
      using st others ne by (auto simp: synced_def r d row_at_filter)
    ultimately show ?thesis using False l al r by (simp add: use_lease_def result_of_def)
  qed
qed

text \<open>When the manager is expected to implement the table.\<close>

definition in_service :: "env \<Rightarrow> string set \<Rightarrow> duration \<Rightarrow> duration \<Rightarrow> mgr \<times> world \<Rightarrow> bool" where
  "in_service env T idle mx s \<longleftrightarrow> (\<forall>n. \<not> ev_fault env n) \<and> rand_ok env \<and> inj_on (hashToken env) T
     \<and> synced env T s \<and> mg_idle (fst s) = idle \<and> mg_max (fst s) = mx"

lemma touch_step:
  assumes "in_service env T idle mx (m, w)" "tok \<in> T" and t: "Touch env tok t m w = ((r, m'), w')"
  shows "use_lease idle tok t (leases_of env T (m, w)) = (result_of r, leases_of env T (m', w'))
    \<and> synced env T (m', w') \<and> mg_idle m' = mg_idle m \<and> mg_max m' = mg_max m"
proof -
  have up: "\<not> ev_fault env n" for n using assms(1) by (simp add: in_service_def)
  have inj: "inj_on (hashToken env) T" and sy: "synced env T (m, w)" and i: "mg_idle m = idle"
    using assms(1) by (simp_all add: in_service_def)
  have st: "mg_store m"
    and syn: "\<And>tok x. tok \<in> T \<Longrightarrow> cache_get tok m = Some x \<Longrightarrow> ss_idle x = mg_idle m
          \<and> (\<exists>row. row_at s_hash (hashToken env tok) (d_sessions (w_db w)) = Some row
               \<and> row_lease row = \<lparr>l_vault = ss_vault x, l_last = ss_last x, l_end = ss_max x\<rparr>)"
    using sy by (auto simp: synced_def)
  show ?thesis
  proof (cases "tok = []")
    case True
    then show ?thesis using t sy by (auto simp: Touch_def use_lease_def leases_of_def result_of_def)
  next
    case ne: False
    show ?thesis
    proof (cases "cache_get tok m")
      case (Some s)
      obtain row where row: "row_at s_hash (hashToken env tok) (d_sessions (w_db w)) = Some row"
          "row_lease row = \<lparr>l_vault = ss_vault s, l_last = ss_last s, l_end = ss_max s\<rparr>" "ss_idle s = mg_idle m"
        using syn [OF assms(2) Some] by blast
      have "prolong env tok t s m w = ((r, m'), w')" using t ne Some by (simp add: Touch_def)
      from prolong_step [OF up inj assms(2) ne st row syn this] i show ?thesis by simp
    next
      case None
      show ?thesis
      proof (cases "row_at s_hash (hashToken env tok) (d_sessions (w_db w))")
        case no_row: None
        then have "r = Inl EUnauthorized" "m' = m" "w_db w' = w_db w"
          using t ne None st up by (auto simp: Touch_def GetSessionByHash_def query_def Let_def)
        then show ?thesis using no_row sy by (auto simp: use_lease_def leases_of_def result_of_def synced_def)
      next
        case (Some row)
        let ?s = "session_of_row row (hashToken env tok) m" and ?m = "cache_put tok (session_of_row row (hashToken env tok) m) m"
        have g: "GetSessionByHash env (hashToken env tok) w = (Inr row, bump w)"
          using Some up by (simp add: GetSessionByHash_def query_def)
        have l: "leases_of env T (m, w) tok = Some (row_lease row)" using Some assms(2) ne by (simp add: leases_of_def)
        show ?thesis
        proof (cases "s_max_until row < t \<or> mg_idle m < time_sub t (s_last_seen row)")
          case True
          then have r: "r = Inl EVaultLocked" "m' = m"
            and d: "d_sessions (w_db w') = filter (\<lambda>s. s_hash s \<noteq> hashToken env tok) (d_sessions (w_db w))"
            using t ne None st g up by (auto simp: Touch_def DeleteSession_def exec_def Let_def)
          have dif: "hashToken env tok' \<noteq> hashToken env tok" if "tok' \<in> T" "tok' \<noteq> tok" for tok'
            using inj assms(2) that by (auto dest: inj_onD)
          have "leases_of env T (m', w') = (leases_of env T (m, w))(tok := None)"
            using dif by (auto simp: leases_of_def fun_eq_iff d row_at_filter)
          moreover have "synced env T (m', w')"
            using st syn dif None by (fastforce simp: synced_def r d row_at_filter)
          moreover have "\<not> lease_alive idle t (row_lease row)" using True i by (auto simp: lease_alive_def row_lease_def)
          ultimately show ?thesis using l r by (simp add: use_lease_def result_of_def)
        next
          case False
          then have p: "prolong env tok t ?s ?m (bump w) = ((r, m'), w')"
            using t ne None st g by (simp add: Touch_def Let_def)
          have "use_lease (mg_idle ?m) tok t (leases_of env T (?m, bump w)) = (result_of r, leases_of env T (m', w'))
              \<and> synced env T (m', w') \<and> mg_idle m' = mg_idle ?m \<and> mg_max m' = mg_max ?m"
            by (rule prolong_step [OF up inj assms(2) ne _ _ _ _ _ p])
              (use st syn Some in \<open>auto simp: session_of_row_def row_lease_def\<close>)
          then show ?thesis using i leases_of_db [of "bump w" w env T ?m m] by simp
        qed
      qed
    qed
  qed
qed

lemma create_step:
  assumes "in_service env T idle mx (m, w)" "tok \<in> T" and c: "CreateSession env v dek t m w = ((Inr tok, m'), w')"
  shows "leases_of env T (m, w) tok = None
    \<and> leases_of env T (m', w') = (leases_of env T (m, w))(tok \<mapsto> \<lparr>l_vault = v, l_last = t, l_end = t + mx\<rparr>)
    \<and> synced env T (m', w') \<and> mg_idle m' = mg_idle m \<and> mg_max m' = mg_max m"
proof -
  have inj: "inj_on (hashToken env) T" and sy: "synced env T (m, w)" and i: "mg_max m = mx" and ro: "rand_ok env"
    using assms(1) by (simp_all add: in_service_def)
  let ?row = "\<lparr>s_hash = hashToken env tok, s_vault = v, s_created = t, s_last_seen = t, s_expires = t + mg_idle m,
      s_max_until = t + mg_max m\<rparr>"
  have st: "mg_store m" using sy by (simp add: synced_def)
  obtain b where b: "ev_rand env (w_tick w) 32 = Some b" "tok = hex_encode b"
    and new: "cache_get tok m' = Some \<lparr>ss_vault = v, ss_dek = dek, ss_expires = t + mg_idle m,
        ss_max = t + mg_max m, ss_last = t, ss_idle = mg_idle m, ss_hash = hashToken env tok\<rparr>"
    and m': "mg_store m'" "mg_idle m' = mg_idle m"
    and ins: "insert_session_row ?row (w_db w) = Inr (w_db w', ())"
    using CreateSession_Inr [OF c] st by auto
  have "length b = 32" using b(1) ro by (auto simp: rand_ok_def)
  then have ne: "tok \<noteq> []" using b(2) hex_encode_length [of b] by auto
  have fresh: "row_at s_hash (hashToken env tok) (d_sessions (w_db w)) = None"
    using ins by (auto simp: insert_session_row_def split: if_splits)
  note look = insert_session_row_lookup [OF ins]
  have dif: "hashToken env tok' \<noteq> hashToken env tok" if "tok' \<in> T" "tok' \<noteq> tok" for tok'
    using inj assms(2) that by (auto dest: inj_onD)
  have "leases_of env T (m', w') = (leases_of env T (m, w))(tok \<mapsto> \<lparr>l_vault = v, l_last = t, l_end = t + mx\<rparr>)"
    using look dif ne assms(2) i by (auto simp: leases_of_def fun_eq_iff row_lease_def)
  moreover have "ss_idle x = mg_idle m'
      \<and> (\<exists>row. row_at s_hash (hashToken env tok') (d_sessions (w_db w')) = Some row
          \<and> row_lease row = \<lparr>l_vault = ss_vault x, l_last = ss_last x, l_end = ss_max x\<rparr>)"
    if x: "tok' \<in> T" "cache_get tok' m' = Some x" for tok' x
  proof (cases "tok' = tok")
    case True
    then show ?thesis using x new m' look [of "hashToken env tok"] by (auto simp: row_lease_def)
  next
    case False
    then have "cache_get tok' m = Some x" using x(2) CreateSession_other(1) [OF c] by simp
    then show ?thesis using sy x(1) m' look dif [OF x(1) False] by (simp add: synced_def)
  qed
  then have "synced env T (m', w')" using m'(1) by (auto simp: synced_def)
  moreover have "mg_max m' = mg_max m"
    using c by (auto simp: CreateSession_def Let_def split: sum.splits prod.splits)
  ultimately show ?thesis using fresh m' by (simp add: leases_of_def)
qed

text \<open>Steps that clients do not see: rows and settings stay, the map may lose entries.\<close>

lemma hidden_step:
  assumes "in_service env T idle mx (m, w)" "d_sessions (w_db w') = d_sessions (w_db w)"
    and "\<And>tok x. cache_get tok m' = Some x \<Longrightarrow> cache_get tok m = Some x"
    and "mg_store m'" "mg_idle m' = mg_idle m" "mg_max m' = mg_max m"
  shows "lease_step idle mx (leases_of env T (m, w)) Hidden (leases_of env T (m', w')) \<and> in_service env T idle mx (m', w')"
proof
  show "lease_step idle mx (leases_of env T (m, w)) Hidden (leases_of env T (m', w'))"
    using lease_step.hidden leases_of_db [of w w' env T m m'] assms(2) by metis
  show "in_service env T idle mx (m', w')"
    using assms by (simp add: in_service_def synced_def)
qed

section \<open>Simulation\<close>

inductive run_of :: "('s \<Rightarrow> 'e \<Rightarrow> 's \<Rightarrow> bool) \<Rightarrow> 's \<Rightarrow> 'e list \<Rightarrow> 's \<Rightarrow> bool" for step where
  stop: "run_of step s [] s"
| go: "step s e s1 \<Longrightarrow> run_of step s1 es s2 \<Longrightarrow> run_of step s (e # es) s2"

locale simulation =
  fixes concrete :: "'s \<Rightarrow> 'e \<Rightarrow> 's \<Rightarrow> bool" and abstract :: "'a \<Rightarrow> 'e \<Rightarrow> 'a \<Rightarrow> bool"
    and abs :: "'s \<Rightarrow> 'a" and ok :: "'s \<Rightarrow> bool"
  assumes forward: "concrete s e s' \<Longrightarrow> ok s \<Longrightarrow> abstract (abs s) e (abs s') \<and> ok s'"
begin

lemma runs: "run_of concrete s es s' \<Longrightarrow> ok s \<Longrightarrow> run_of abstract (abs s) es (abs s') \<and> ok s'"
  by (induction rule: run_of.induct) (auto intro: run_of.intros dest: forward)

end

lemma mgr_step_simulates:
  assumes "mgr_step env T s e s'" "in_service env T idle mx s"
  shows "lease_step idle mx (leases_of env T s) e (leases_of env T s') \<and> in_service env T idle mx s'"
  using assms
proof (induction rule: mgr_step.induct)
  case (create v dek t m w tok m' w')
  note c = create_step [OF create.prems create.hyps(2,1)]
  have "lease_step idle mx (leases_of env T (m, w)) (Granted tok v t) (leases_of env T (m', w'))"
    using lease_step.grant [of "leases_of env T (m, w)" tok idle mx v t] c by metis
  moreover have "in_service env T idle mx (m', w')" using c create.prems by (simp add: in_service_def)
  ultimately show ?case ..
next
  case (create_fails v dek t m w e m' w')
  then have "m' = m \<and> w_db w' = w_db w"
    by (auto simp: CreateSession_def rand_bytes_def InsertSession_def exec_def Let_def
        split: sum.splits prod.splits option.splits if_splits)
  then show ?case using create_fails.prems by (intro hidden_step) (auto simp: in_service_def synced_def)
next
  case (touch tok t m w r m' w')
  then show ?case using touch_step [OF touch.prems touch.hyps(2,1)]
    by (auto simp: in_service_def intro: lease_step.use_it)
next
  case (lock tok m w m' w')
  have st: "mg_store m" "\<not> ev_fault env n" for n using lock.prems by (auto simp: in_service_def synced_def)
  have r: "m' = cache_del tok m"
    and d: "d_sessions (w_db w') = filter (\<lambda>s. s_hash s \<noteq> hashToken env tok) (d_sessions (w_db w))"
    using lock.hyps(1) st by (auto simp: Invalidate_def drop_session_def DeleteSession_def exec_def Let_def)
  have dif: "hashToken env tok' \<noteq> hashToken env tok" if "tok' \<in> T" "tok' \<noteq> tok" for tok'
    using lock.prems lock.hyps(2) that by (auto simp: in_service_def dest: inj_onD)
  have "leases_of env T (m', w') = (leases_of env T (m, w))(tok := None)"
    using dif by (auto simp: leases_of_def fun_eq_iff d row_at_filter)
  moreover have "in_service env T idle mx (m', w')"
    using lock.prems dif by (auto simp: in_service_def synced_def r d row_at_filter)
  ultimately show ?case using lease_step.revoke [of idle mx "leases_of env T (m, w)" tok] by metis
next
  case (shut_down m w)
  then show ?case
    by (intro hidden_step) (auto simp: in_service_def synced_def InvalidateAll_def cache_get_def)
next
  case (restart m w st)
  then show ?case
    by (intro hidden_step) (auto simp: NewManagerWithStore_def cache_get_def)
next
  case (other w' w m)
  then show ?case by (intro hidden_step) (auto simp: in_service_def synced_def)
qed

interpretation manager: simulation "mgr_step env T" "lease_step idle mx" "leases_of env T" "in_service env T idle mx"
  for env T idle mx
  by unfold_locales (rule mgr_step_simulates)



end
