(* ===== verification/Edges.thy ===== *)
theory Edges
  imports Reply_Laws Gvmcp
begin

text \<open>
  What stands at the edges of the program: the text form in which a vector goes to PostgreSQL, the recorder that
  tells the access log the status of an answer, and the end of the MCP server's HTTP service.
\<close>

section \<open>The text of a vector\<close>

text \<open>\<open>pgvectorVec\<close>; \<open>ff\<close> is the verb \<open>%g\<close> of \<open>fmt\<close>. The loop writes a comma before every element but the first.\<close>

fun vector_elems :: "(f64 \<Rightarrow> string) \<Rightarrow> bool \<Rightarrow> f64 list \<Rightarrow> string" where
  "vector_elems ff first [] = []"
| "vector_elems ff first (x # xs) = (if first then [] else '','') @ ff x @ vector_elems ff False xs"

definition pgvectorVec :: "(f64 \<Rightarrow> string) \<Rightarrow> f64 list \<Rightarrow> string" where
  "pgvectorVec ff v = (if v = [] then ''[]'' else ''['' @ vector_elems ff True v @ '']'')"

lemma vector_elems_rest: "xs \<noteq> [] \<Longrightarrow> vector_elems ff False xs = '','' @ join '','' (map ff xs)"
proof (induction xs)
  case (Cons x xs)
  then show ?case by (cases xs) auto
qed simp

lemma vector_elems_join: "vector_elems ff True xs = join '','' (map ff xs)"
proof (cases xs)
  case (Cons y ys)
  then show ?thesis using vector_elems_rest [of ys ff] by (cases ys) auto
qed simp

definition vector_prints :: "(f64 \<Rightarrow> string) \<Rightarrow> f64 list \<Rightarrow> bool" where
  "vector_prints ff v \<longleftrightarrow> list_all (\<lambda>x. num_literal (ff x) \<and> parse_float (ff x) = Some x) v"

interpretation vector_answer: answer "\<lambda>v. XArr (map (\<lambda>x. XNum (ff x)) v)" "vector_prints ff" "\<lambda>v. JArr (map JNum v)" for ff
proof unfold_locales
  fix v
  assume p: "vector_prints ff v"
  then show "jx_ok json_max_depth (XArr (map (\<lambda>x. XNum (ff x)) v))"
    by (auto simp: vector_prints_def list_all_iff json_max_depth_def)
  have "to_any_list (map (\<lambda>x. XNum (ff x)) v) = Some (map JNum v)"
    using p by (intro to_any_list_map) (auto simp: vector_prints_def list_all_iff)
  then show "to_any (XArr (map (\<lambda>x. XNum (ff x)) v)) = Some (JArr (map JNum v))" by simp
qed

lemma vector_text: "pgvectorVec ff v = jx_print (XArr (map (\<lambda>x. XNum (ff x)) v))"
  by (simp add: pgvectorVec_def vector_elems_join o_def)

text \<open>When the verb prints every element as a number that denotes it, then the text is the array of exactly these
  numbers, so that two vectors with the same text are the same.\<close>

lemma vector_text_read:
  "vector_prints ff v \<Longrightarrow> Option.bind (json_parse (pgvectorVec ff v)) to_any = Some (JArr (map JNum v))"
  unfolding vector_text by (rule vector_answer.text_read)

lemma vector_text_inj:
  assumes "vector_prints ff v" "vector_prints ff u" "pgvectorVec ff v = pgvectorVec ff u" shows "v = u"
  using vector_answer.text_inj [OF assms(1,2)] assms(3) by (simp add: vector_text inj_map_eq_map inj_def del: jx_print.simps)

section \<open>The recorder of the status\<close>

record status_recorder =
  sr_code :: nat
  sr_header :: bool

definition fresh_recorder :: status_recorder where
  "fresh_recorder = \<lparr>sr_code = 200, sr_header = False\<rparr>"

definition recorder_WriteHeader :: "nat \<Rightarrow> status_recorder \<Rightarrow> status_recorder" where
  "recorder_WriteHeader code s = (if \<not> sr_header s then s\<lparr>sr_code := code, sr_header := True\<rparr> else s)"

definition recorder_Write :: "status_recorder \<Rightarrow> status_recorder" where
  "recorder_Write s = (if \<not> sr_header s then s\<lparr>sr_code := 200, sr_header := True\<rparr> else s)"

text \<open>What a handler does to a response writer, and what \<open>net/http\<close> sends: the first status counts, a first write sends 200,
  and a handler that does neither sends 200 at its end.\<close>

datatype write_event = HeaderWritten nat | BytesWritten bytes

definition recorder_step :: "write_event \<Rightarrow> status_recorder \<Rightarrow> status_recorder" where
  "recorder_step e = (case e of HeaderWritten c \<Rightarrow> recorder_WriteHeader c | BytesWritten _ \<Rightarrow> recorder_Write)"

fun status_sent :: "write_event list \<Rightarrow> nat" where
  "status_sent [] = 200"
| "status_sent (HeaderWritten c # es) = c"
| "status_sent (BytesWritten b # es) = 200"

lemma recorder_settled: "sr_header s \<Longrightarrow> fold recorder_step es s = s"
  by (induction es) (auto simp: recorder_step_def recorder_WriteHeader_def recorder_Write_def split: write_event.split)

text \<open>The access log shows the status that the client got, whatever the handler wrote and in whatever order.\<close>

lemma recorder_right: "sr_code (fold recorder_step es fresh_recorder) = status_sent es"
proof (cases es)
  case (Cons e es')
  have "sr_header (recorder_step e fresh_recorder)" and "sr_code (recorder_step e fresh_recorder) = status_sent [e]"
    by (auto simp: recorder_step_def recorder_WriteHeader_def recorder_Write_def fresh_recorder_def split: write_event.split)
  then show ?thesis using Cons recorder_settled by (cases e) simp_all
qed (simp add: fresh_recorder_def)

section \<open>The end of the MCP server\<close>

datatype http_event = ContextDone | Served err

definition server_closed :: err where
  "server_closed = EMsg ''http: Server closed''"

text \<open>The last \<open>select\<close> of \<open>runHTTP\<close>, and the version that the program tells.\<close>

definition http_ended :: "http_event \<Rightarrow> unit res" where
  "http_ended ev = (case ev of ContextDone \<Rightarrow> Inr () | Served e \<Rightarrow> if e = server_closed then Inr () else Inl e)"

definition version :: "string option \<Rightarrow> string" where
  "version build = (case build of None \<Rightarrow> ''devel'' | Some v \<Rightarrow> if v \<noteq> [] \<and> v \<noteq> ''(devel)'' then v else ''devel'')"

end
