(* ===== verification/Findings.thy ===== *)
theory Findings
  imports Mcp_Sample Tuning_Laws
begin

text \<open>
  Where the code does not do what it means to: each lemma exhibits the behaviour that a finding of the
  manifest describes, in the model of the very operation.
\<close>

section \<open>Vaults\<close>

lemma created_adds_row:
  assumes "create_vault env r enc pw mode s w = ((Answer a, ls, s'), w')" "rs_status a = 201"
  shows "\<exists>v. d_vaults (w_db w') = d_vaults (w_db w) @ [v]"
proof (cases enc)
  case False
  then obtain i where "InsertVault env False mode None None 0 0 0 w = (Inr i, w')"
    using assms by (auto simp: create_vault_def failed_def problem_def WriteProblem_def writeJSON_def Let_def
        split: prod.splits sum.splits err.splits)
  from InsertVault_Inr [OF this] show ?thesis by auto
next
  case True
  then obtain dek w1 wr w2 i where n: "NewDEK env w = (Inr dek, w1)" and wr: "WrapDEK env pw dek w1 = (Inr wr, w2)"
    and i: "InsertVault env True mode (Some (wd_salt wr)) (Some (wd_blob wr)) (sint (wd_time wr)) (sint (wd_mem wr))
        (uint (wd_par wr)) w2 = (Inr i, w')"
    using assms by (auto simp: create_vault_def failed_def problem_def WriteProblem_def writeJSON_def Let_def
        split: prod.splits sum.splits err.splits)
  have "w_db w2 = w_db w" using crypto_db(1) [of env w] crypto_db(2) [of env pw dek w1] n wr by simp
  then show ?thesis using InsertVault_Inr [OF i] by auto
qed

text \<open>Two first requests that both look before either of them inserts: both are answered 201, and two vaults are there, of which
  every later request sees one only.\<close>

lemma two_first_vaults:
  assumes "GetAnyVault env w = (Inr None, w1)" "GetAnyVault env w1 = (Inr None, w2)"
    and "create_vault env r enc pw mode s w2 = ((Answer a, ls, s1), w3)" "rs_status a = 201"
    and "create_vault env r' enc' pw' mode' s1 w3 = ((Answer b, ls', s2), w4)" "rs_status b = 201"
  shows "length (d_vaults (w_db w4)) = 2"
proof -
  have "d_vaults (w_db w2) = []"
    using assms(1,2) GetAnyVault_Inr [OF assms(1)] GetAnyVault_Inr [OF assms(2)] no_vault [of "w_db w"] by auto
  then show ?thesis using created_adds_row [OF assms(3,4)] created_adds_row [OF assms(5,6)] by auto
qed

text \<open>A lost database is told as a vault that was never made.\<close>

lemma unlock_hides_lost_database:
  assumes "ev_fault env (w_tick w)"
  shows "\<exists>a ls w'. vaultUnlock env r s w = ((Answer a, ls, s), w') \<and> rs_status a = 404"
  using assms by (simp add: vaultUnlock_def GetAnyVault_def query_def problem_def WriteProblem_def Let_def)

section \<open>Action tokens\<close>

text \<open>A lifetime beyond 292 years wraps and becomes one hour.\<close>

lemma long_life_wraps: "token_ttl 9223372037 = ns_hour"
  by (simp add: token_ttl_def i64_def)

text \<open>The scopes of a token are not read by the check that lets a caller in.\<close>

lemma scopes_unread:
  assumes "d' = d\<lparr>d_tokens := map (\<lambda>t. t\<lparr>t_scopes := f t\<rparr>) (d_tokens d)\<rparr>"
  shows "fst (ValidActionToken env h \<lparr>w_db = d', w_tick = n\<rparr>) = fst (ValidActionToken env h \<lparr>w_db = d, w_tick = n\<rparr>)"
proof -
  have "map_option t_vault (find P (map (\<lambda>t. t\<lparr>t_scopes := f t\<rparr>) ts)) = map_option t_vault (find P ts)"
    if "\<And>t. P (t\<lparr>t_scopes := f t\<rparr>) = P t" for P ts
    by (induction ts) (simp_all add: that)
  then show ?thesis by (simp add: ValidActionToken_def query_def assms)
qed

text \<open>A token is minted for a vault that could not be looked up, an encrypted one included.\<close>

lemma minted_unseen:
  assumes "GetVault env (ss_vault sess) w = (Inl e, w1)"
    and "decode_body (dec_struct mint_fields) no_mint_body (rq_limit r) (rq_body r) = Decoded b"
    and "NewRandomToken env w1 = (Inr raw, w2)"
    and "InsertActionToken env (ss_vault sess) (HashActionToken env raw)
       (if mb_scopes b = [] then [''retrieve'', ''ingest''] else mb_scopes b) (fst (now env w2) + token_ttl (mb_ttl b)) (snd (now env w2))
      = (Inr u, w4)"
  shows "\<exists>a. mint_rest env sess r s w = ((Answer a, [], s), w4) \<and> rs_status a = 201"
proof -
  obtain ts w3 where "now env w2 = (ts, w3)" by (cases "now env w2")
  then show ?thesis using assms by (simp add: mint_rest_def writeJSON_def encodes_def Let_def split: if_splits)
qed

section \<open>Requests\<close>

text \<open>The key that should make a repeated request harmless is read and not used.\<close>

lemma idempotency_unused:
  "ingest_store env sess vid (q\<lparr>iq_idempotency := k\<rparr>) r s w = ingest_store env sess vid q r s w"
  by (simp add: ingest_store_def input_of_def)

text \<open>The log line of a panic has neither the panic's text nor the id that the request was given further inside.\<close>

lemma panic_logged_without_id:
  assumes "next r s w = ((Panic m, ls, s1), w1)" "rq_rid r = []"
  shows "\<exists>a. Recoverer next r s w = ((a, ls @ [LogProblem 500 ''internal'' [] (DText ''panic recovered'')], s1), w1)"
  using assms by (simp add: Recoverer_def WriteProblem_def Let_def)

section \<open>Numbers\<close>

text \<open>A threshold that is not a number passes the validation.\<close>

lemma nan_is_valid: "Validate io t = None \<Longrightarrow> Validate io (t\<lparr>rt_semantic_threshold := NaN, rt_fusion_lexical_weight := NaN\<rparr>) = None"
  by (simp add: Validate_def flt_def split: if_splits)

text \<open>A score that is not a number: the status is out, the body is empty.\<close>

lemma nan_score_empties_answer:
  "sp_score x = NaN \<Longrightarrow> writeJSON 200 (RRetrieve [x] n hint dbg) s w = ((Answer \<lparr>rs_status = 200, rs_body = NoBody\<rparr>, [], s), w)"
  by (simp add: writeJSON_def encodes_def finite_f64_def)

section \<open>The clients\<close>

text \<open>The token endpoint removes \<open>audience\<close> in this spelling only.\<close>

lemma other_spelling_stays:
  "form_get (token_form o' [(''Audience'', [x])]) ''Audience'' = [x]"
  by (simp add: token_form_def form_set_def form_del_def form_get_def Let_def)

text \<open>With both of its flags, \<open>gvctl unlock\<close> has the service open a session before it refuses.\<close>

lemma refused_after_unlock:
  assumes "gv_bool g ''token-only''" "gv_bool g ''vault-id-only''"
    and "postJSON tr (join_url (flag_or g ''base-url'' (defaultBase os)) ''/v1/vault/unlock'')
        (Some (XObj [(''password'', XStr (flag_or g ''password'' (os_env os ''GHOSTVAULT_PASSWORD'')))])) [] w = (Inr raw, w1)"
  shows "\<exists>r. unlock_cmd env os dk tr g w = (r, w1) \<and> re_code r = 1 \<and> re_out r = [] \<and> re_files r = []"
  using assms by (simp add: unlock_cmd_def fatal_def Let_def)

end
