(* ===== verification/Ingest_Loop.thy ===== *)
theory Ingest_Loop
  imports Ingest "HOL-Library.While_Combinator"
begin

text \<open>
  The loop of \<open>chunkText\<close> as the code has it, with its index, its output and its \<open>break\<close>: it ends with
  the windows of the functional definition, and it would not end for a size of zero, which the callers
  exclude.
\<close>

type_synonym chunk_state = "nat \<times> rune list list \<times> bool"

definition loop_goes_on :: "rune list \<Rightarrow> chunk_state \<Rightarrow> bool" where
  "loop_goes_on rs st = (case st of (i, out, brk) \<Rightarrow> \<not> brk \<and> i < length rs)"

definition loop_body :: "nat \<Rightarrow> nat \<Rightarrow> rune list \<Rightarrow> chunk_state \<Rightarrow> chunk_state" where
  "loop_body sz step rs st =
     (case st of (i, out, brk) \<Rightarrow>
        let stop = (if length rs < i + sz then length rs else i + sz);
            out' = out @ [take (stop - i) (drop i rs)]
        in if stop = length rs then (i, out', True) else (i + step, out', False))"

definition chunk_loop :: "nat \<Rightarrow> nat \<Rightarrow> rune list \<Rightarrow> rune list list option" where
  "chunk_loop sz step rs =
     map_option (\<lambda>(i, out, brk). out) (while_option (loop_goes_on rs) (loop_body sz step rs) (0, [], False))"

lemma goes_on [simp]: "loop_goes_on rs (i, out, brk) \<longleftrightarrow> \<not> brk \<and> i < length rs"
  by (simp add: loop_goes_on_def)

lemma loop_from:
  assumes "0 < step"
  shows "map_option (\<lambda>(i, out, brk). out) (while_option (loop_goes_on rs) (loop_body sz step rs) (i, out, False))
    = Some (out @ chunk_windows sz step i rs)"
  using assms
proof (induction sz step i rs arbitrary: out rule: chunk_windows.induct)
  case (1 sz step i rs)
  consider "length rs \<le> i" | "i < length rs" "length rs \<le> i + sz" | "i < length rs" "i + sz < length rs" by linarith
  then show ?case
  proof cases
    case 1
    then show ?thesis by (simp add: while_option_unfold chunk_windows.simps [of sz step i])
  next
    case 2
    then have "loop_body sz step rs (i, out, False) = (i, out @ [drop i rs], True)"
      by (auto simp: loop_body_def)
    moreover have "while_option (loop_goes_on rs) (loop_body sz step rs) (i, o', True) = Some (i, o', True)" for o'
      by (simp add: while_option_unfold)
    moreover have "chunk_windows sz step i rs = [drop i rs]"
      using 2 1(2) by (simp add: chunk_windows.simps [of sz step i] Let_def min_absorb2)
    ultimately show ?thesis using 2
      by (subst while_option_unfold) simp
  next
    case 3
    then have b: "loop_body sz step rs (i, out, False) = (i + step, out @ [take sz (drop i rs)], False)"
      by (simp add: loop_body_def)
    have "min (i + sz) (length rs) \<noteq> length rs" "\<not> (step = 0 \<or> length rs \<le> i)" using 3 1(2) by simp_all
    note ih = 1(1) [OF this(2) refl this(1) 1(2), of "out @ [take sz (drop i rs)]"]
    have "chunk_windows sz step i rs = take sz (drop i rs) # chunk_windows sz step (i + step) rs"
      using 3 1(2) by (simp add: chunk_windows.simps [of sz step i] Let_def)
    then show ?thesis using ih b 3(1)
      by (subst while_option_unfold) simp
  qed
qed

lemma loop_stuck:
  assumes "sz < length rs"
  shows "chunk_loop sz 0 rs = None"
proof (rule ccontr)
  assume "chunk_loop sz 0 rs \<noteq> None"
  then obtain x where w: "while_option (loop_goes_on rs) (loop_body sz 0 rs) (0, [], False) = Some x"
    by (auto simp: chunk_loop_def)
  have "(case x of (i, out, brk) \<Rightarrow> i = 0 \<and> \<not> brk)"
    by (rule while_option_rule [OF _ w]) (use assms in \<open>auto simp: loop_body_def Let_def split: if_splits\<close>)
  with while_option_stop [OF w] assms show False by (cases x) auto
qed

text \<open>C32. The loop that cuts a text into pieces ends for every size from 1 on and every overlap, too large
  and negative ones included, and gives the pieces of \<open>chunkText\<close>. With a size of 0 and an overlap that is not
  negative it would append empty pieces for ever; \<open>IngestWithDebug\<close> replaces such a size before the call.\<close>

theorem chunk_loop_ends:
  assumes "0 \<le> sz" "sz < int (length (runes s))"
  shows "chunk_loop (nat sz) (nat (if sz - ov < 1 then sz else sz - ov)) (runes s) =
    (if sz = 0 \<and> sz - ov < 1 then None else Some (chunk_windows (nat sz) (nat (if sz - ov < 1 then sz else sz - ov)) 0 (runes s)))
    \<and> (1 \<le> sz \<longrightarrow> map_option (map of_runes) (chunk_loop (nat sz) (nat (if sz - ov < 1 then sz else sz - ov)) (runes s))
          = Some (chunkText s sz ov))"
proof (cases "sz = 0 \<and> sz - ov < 1")
  case True
  then show ?thesis using loop_stuck [of 0 "runes s"] assms by simp
next
  case False
  let ?st = "nat (if sz - ov < 1 then sz else sz - ov)"
  have "0 < ?st" using False assms(1) by auto
  from loop_from [OF this, of "runes s" "nat sz" 0 "[]"]
  have l: "chunk_loop (nat sz) ?st (runes s) = Some (chunk_windows (nat sz) ?st 0 (runes s))"
    by (simp add: chunk_loop_def)
  have "s \<noteq> []" using assms by auto
  then have "chunkText s sz ov = map of_runes (chunk_windows (nat sz) ?st 0 (runes s))"
    using assms(2) by (simp add: chunkText_def Let_def)
  then show ?thesis using l False by auto
qed

lemma chunk_loop_ends_witness:
  "map_option (map of_runes) (chunk_loop 2 1 (runes ''abc'')) = Some (chunkText ''abc'' 2 1)"
proof -
  have "length (runes ''abc'') = 3" by (simp add: runes_ascii)
  then show ?thesis using chunk_loop_ends [of 2 "''abc''" 1] by auto
qed

end
