(* ===== verification/Provider.thy ===== *)
theory Provider
  imports Bridge Json_Struct_Laws
begin

text \<open>
  The client of the model provider, \<open>internal/providers/openai.go\<close>: the requests it makes, and what it
  takes from the answers. The HTTP client is an argument; a body that breaks off is taken as far as
  it came, as the code does. With \<open>provider_env\<close> the client takes the place of the two parameters by which the
  engine knows the provider.
\<close>

section \<open>The client\<close>

record openai =
  oc_base :: string
  oc_embeddings :: string
  oc_key :: string

definition NewOpenAI :: "string \<Rightarrow> string \<Rightarrow> openai" where
  "NewOpenAI base key = \<lparr>oc_base = trim_right_char CHR ''/'' base, oc_embeddings = [], oc_key = key\<rparr>"

definition embeddingsEndpoint :: "openai \<Rightarrow> string" where
  "embeddingsEndpoint c =
     (let u = trim_space (oc_embeddings c)
      in if u \<noteq> [] then trim_right_char CHR ''/'' u else oc_base c @ ''/embeddings'')"

definition provider_call :: "openai \<Rightarrow> string \<Rightarrow> jx \<Rightarrow> http_call" where
  "provider_call c url body =
     \<lparr>hc_method = ''POST'', hc_url = url, hc_authorization = ''Bearer '' @ oc_key c,
      hc_content_type = ''application/json'', hc_body = jx_print body\<rparr>"

definition str_list :: "string list \<Rightarrow> jx" where
  "str_list ss = XArr (map XStr ss)"

section \<open>Embeddings\<close>

text \<open>\<open>float32(x)\<close>: 24 bits, from \<open>2^128\<close> on an infinity.\<close>

definition round32_pos :: "rat \<Rightarrow> rat" where
  "round32_pos x = (let e = max (ilog2 x) (- 126) - 23 in of_int (rne (x / pow2 e)) * pow2 e)"

definition to_float32 :: "f64 \<Rightarrow> f64" where
  "to_float32 a =
     (case a of
        Fin x \<Rightarrow>
          (if x = 0 then Fin 0
           else if 0 < x then (if 2 ^ 128 \<le> round32_pos x then PInf else Fin (round32_pos x))
           else (if 2 ^ 128 \<le> round32_pos (- x) then NInf else Fin (- round32_pos (- x))))
      | _ \<Rightarrow> a)"

definition float_elem :: "jx \<Rightarrow> f64 option" where
  "float_elem v = (case v of XNull \<Rightarrow> Some (Fin 0) | XNum s \<Rightarrow> parse_float s | _ \<Rightarrow> None)"

definition data_fields :: "f64 list field list" where
  "data_fields = [(''embedding'', setting (\<lambda>v _. dec_list_field float_elem v) id (\<lambda>y _. y))]"

definition embed_fields :: "f64 list list field list" where
  "embed_fields = [(''data'', setting (\<lambda>v _. dec_list_field (\<lambda>x. dec_struct data_fields x []) v) id (\<lambda>y _. y))]"

definition embed_body :: "string \<Rightarrow> string list \<Rightarrow> jx" where
  "embed_body model texts = XObj [(''input'', str_list texts), (''model'', XStr model)]"

definition embeddings_of :: "bytes \<Rightarrow> vec list res" where
  "embeddings_of b =
     (case Option.bind (json_parse b) (\<lambda>v. dec_struct embed_fields v []) of
        None \<Rightarrow> Inl (EUpstream ''json'')
      | Some vs \<Rightarrow> Inr (map (map to_float32) vs))"

definition Embed :: "'w transport \<Rightarrow> openai \<Rightarrow> string \<Rightarrow> string list \<Rightarrow> 'w \<Rightarrow> vec list res \<times> 'w" where
  "Embed tr c model texts w =
     (case tr (provider_call c (embeddingsEndpoint c) (embed_body model texts)) w of
        (Inl e, w1) \<Rightarrow> (Inl e, w1)
      | (Inr (code, b), w1) \<Rightarrow>
          (if 300 \<le> code then Inl (EUpstream (''embeddings POST '' @ embeddingsEndpoint c @ '': '' @ show_nat code @ '': '' @ b))
           else embeddings_of b, w1))"

section \<open>Extraction\<close>

abbreviation q2 :: string where "q2 \<equiv> [ch_quote]"

definition extractionSystem :: string where
  "extractionSystem =
     ''You extract stable, factual memories from conversation. Output JSON only: {'' @ q2 @ ''memory'' @ q2 @ '':['' @ q2
     @ ''fact1'' @ q2 @ '', ...]} additive only, no updates or deletes. Empty list if nothing to store.''"

definition chat_body :: "string \<Rightarrow> string \<Rightarrow> jx" where
  "chat_body model payload = XObj
     [(''messages'', XArr [XObj [(''content'', XStr extractionSystem), (''role'', XStr ''system'')],
                           XObj [(''content'', XStr payload), (''role'', XStr ''user'')]]),
      (''model'', XStr model), (''temperature'', XNum ''0.2'')]"

definition content_fields :: "string field list" where
  "content_fields = [(''content'', setting dec_string_field id (\<lambda>y _. y))]"

definition choice_fields :: "string field list" where
  "choice_fields = [(''message'', dec_struct content_fields)]"

definition chat_fields :: "string list field list" where
  "chat_fields = [(''choices'', setting (\<lambda>v _. dec_list_field (\<lambda>x. dec_struct choice_fields x []) v) id (\<lambda>y _. y))]"

definition memory_fields :: "string list field list" where
  "memory_fields = [(''memory'', setting (\<lambda>v _. dec_list_field (\<lambda>x. dec_string_field x []) v) id (\<lambda>y _. y))]"

text \<open>Three backquotes.\<close>

definition fence :: string where "fence = replicate 3 (chr 96)"

definition unfence :: "string \<Rightarrow> string" where
  "unfence s = trim_space (trim_suffix (trim_prefix (trim_prefix (trim_space s) (fence @ ''json'')) fence) fence)"

definition memories_in :: "string \<Rightarrow> string list res" where
  "memories_in content =
     (case Option.bind (json_parse (unfence content)) (\<lambda>v. dec_struct memory_fields v []) of
        None \<Rightarrow> Inl (EUpstream ''parse extraction json'')
      | Some ms \<Rightarrow> Inr ms)"

definition memories_of :: "bytes \<Rightarrow> string list res" where
  "memories_of b =
     (case Option.bind (json_parse b) (\<lambda>v. dec_struct chat_fields v []) of
        None \<Rightarrow> Inl (EUpstream ''json'')
      | Some [] \<Rightarrow> Inr []
      | Some (content # _) \<Rightarrow> memories_in content)"

definition ExtractMemories :: "'w transport \<Rightarrow> openai \<Rightarrow> string \<Rightarrow> string \<Rightarrow> 'w \<Rightarrow> string list res \<times> 'w" where
  "ExtractMemories tr c model payload w =
     (case tr (provider_call c (oc_base c @ ''/chat/completions'') (chat_body model payload)) w of
        (Inl e, w1) \<Rightarrow> (Inl e, w1)
      | (Inr (code, b), w1) \<Rightarrow>
          (if 300 \<le> code then Inl (EUpstream (''chat: '' @ show_nat code @ '': '' @ b)) else memories_of b, w1))"

text \<open>The engine with this client behind it: the state of the provider is what it does at each tick.\<close>

definition provider_env :: "(nat \<Rightarrow> unit transport) \<Rightarrow> openai \<Rightarrow> env \<Rightarrow> env" where
  "provider_env tr c env = env\<lparr>ev_embed := \<lambda>n model texts. fst (Embed (tr n) c model texts ()),
     ev_extract := \<lambda>n model payload. fst (ExtractMemories (tr n) c model payload ())\<rparr>"

end
