(* ===== verification/Provider_Laws.thy ===== *)
theory Provider_Laws
  imports Provider
begin

text \<open>
  The facts that the model writes are the facts that are stored: an answer is read the same with and without
  the code fence around it.
\<close>

section \<open>Printed strings\<close>

lemma valid_utf8_Cons: "byte c < (128::nat) \<Longrightarrow> valid_utf8 s \<Longrightarrow> valid_utf8 (c # s)"
  using valid_utf8_append [of "[c]" s] valid_utf8_ascii [of "[c]"] by simp

lemmas valid_parts = valid_utf8_append valid_utf8_Cons valid_utf8_ascii [of "[]", simplified]

lemma ascii_u_escape: "r = 8232 \<or> r = 8233 \<Longrightarrow> ascii (u_escape r)"
  by (auto simp: u_escape_def hex_digit_def)

lemma ascii_esc: "r < 128 \<Longrightarrow> ascii (esc_ascii (chr r))"
proof -
  assume r: "r < 128"
  have "hex_digit n = chr (48 + n) \<and> n < 10 \<or> hex_digit n = chr (87 + n) \<and> n < 16" if "n < 16" for n
    using that by (simp add: hex_digit_def)
  then have h: "byte (hex_digit n) < (128::nat)" if "n < 16" for n using that by (auto simp: hex_digit_def)
  have "ascii (u_escape r)" using r h [of "r div 4096"] h [of "r div 256 mod 16"] h [of "r div 16 mod 16"] h [of "r mod 16"]
    by (simp add: u_escape_def)
  then show ?thesis using r by (simp add: esc_ascii_def Let_def)
qed

lemma esc_valid: "list_all scalar rs \<Longrightarrow> valid_utf8 (esc_str (of_runes rs))"
proof (induction rs)
  case (Cons r rs)
  then have r: "scalar r" and ih: "valid_utf8 (esc_str (of_runes rs))" by simp_all
  have o: "of_runes (r # rs) = encode_scalar r @ of_runes rs" using r by (simp add: of_runes_def encode_rune_def)
  have "valid_utf8 (encode_scalar r)" using valid_utf8_of_runes [of "[r]"] r by (simp add: of_runes_def encode_rune_def)
  then show ?case
    using ih valid_utf8_ascii [OF ascii_esc, of r] valid_utf8_ascii [OF ascii_u_escape, of r]
    by (simp add: o esc_str_encode [OF r] valid_utf8_append)
qed (simp add: esc_str.simps valid_utf8_ascii)

lemma json_str_valid: "valid_utf8 s \<Longrightarrow> valid_utf8 (json_str s)"
  using esc_valid [OF runes_scalar, of s]
  by (simp add: json_str_def valid_utf8_def [of s] valid_parts)

lemma join_valid: "valid_utf8 sep \<Longrightarrow> \<forall>s \<in> set ss. valid_utf8 s \<Longrightarrow> valid_utf8 (join sep ss)"
  by (induction sep ss rule: join.induct) (simp_all add: valid_parts)

section \<open>Fences\<close>

lemma trim_lines:
  assumes "s = a # t" "byte a < (128::nat)" "\<not> space_rune (byte a)" "byte (last s) < (128::nat)" "\<not> space_rune (byte (last s))"
  shows "trim_space (chr 10 # s @ [chr 10]) = s"
proof -
  have sp: "space_rune 10" by (simp add: space_rune_def)
  have "trim_left (chr 10 # s @ [chr 10]) = trim_left (s @ [chr 10])"
    using sp by (simp add: trim_left.simps [of "chr 10 # _"] decode_rune_def)
  also have "\<dots> = s @ [chr 10]" using assms(1-3) by (intro trim_left_id) (simp add: decode_rune_def)
  finally have "trim_space (chr 10 # s @ [chr 10]) = trim_right (s @ [chr 10])" by (simp add: trim_space_def)
  also have "\<dots> = trim_right s" using sp by (simp add: trim_right.simps [of "s @ [chr 10]"] decode_last_rune_def)
  also have "\<dots> = s" using assms by (intro trim_right_id) (simp add: decode_last_rune_def)
  finally show ?thesis .
qed

lemma trim_fenced: "trim_space (fence @ s @ fence) = fence @ s @ fence"
  by (rule trim_space_ends [of _ "chr 96" "replicate 2 (chr 96) @ s @ fence"])
     (simp_all add: fence_def numeral_3_eq_3 numeral_2_eq_2 space_rune_def)

lemma suffix_fence: "trim_suffix (s @ fence) fence = s"
  by (simp add: trim_suffix_def has_suffix_def)

text \<open>An object is not a fence.\<close>

lemma unfence_plain:
  assumes "s = CHR ''{'' # m @ ''}''"
  shows "unfence s = s"
proof -
  have t: "trim_space s = s" using assms by (intro trim_space_ends [OF assms]) (simp_all add: space_rune_def)
  have "CHR ''{'' \<noteq> chr 96" by code_simp
  then have "\<not> has_prefix s (fence @ x)" for x using assms by (simp add: has_prefix_def fence_def numeral_3_eq_3)
  from this this [of "[]"] have p: "trim_prefix s (fence @ x) = s" "trim_prefix s fence = s" for x
    by (simp_all add: trim_prefix_def)
  have "\<not> has_suffix s fence"
  proof
    assume "has_suffix s fence"
    then obtain u where "s = u @ fence" by (auto simp: has_suffix_def) (metis append_take_drop_id)
    then have "last s = chr 96" by (simp add: fence_def numeral_3_eq_3)
    moreover have "CHR ''}'' \<noteq> chr 96" by code_simp
    ultimately show False using assms by simp
  qed
  then show ?thesis by (simp add: unfence_def t p trim_suffix_def)
qed

lemma unfence_fenced:
  assumes "s = CHR ''{'' # m @ ''}''"
  shows "unfence (fence @ ''json'' @ chr 10 # s @ chr 10 # fence) = s" and "unfence (fence @ chr 10 # s @ chr 10 # fence) = s"
proof -
  let ?b = "chr 10 # s @ [chr 10]"
  have t: "trim_space ?b = s" by (rule trim_lines [OF assms]) (simp_all add: assms space_rune_def)
  have tf: "trim_space (fence @ x @ ?b @ fence) = fence @ x @ ?b @ fence" for x using trim_fenced [of "x @ ?b"] by simp
  have j: "trim_prefix (fence @ ''json'' @ y) (fence @ ''json'') = y" "trim_prefix (fence @ y) fence = y" for y
    by (simp_all add: trim_prefix_def has_prefix_def)
  have "\<not> has_prefix (?b @ fence) fence" by (simp add: has_prefix_def fence_def numeral_3_eq_3)
  then have nf: "trim_prefix (?b @ fence) fence = ?b @ fence" unfolding trim_prefix_def by simp
  have "chr 10 \<noteq> CHR ''j''" by code_simp
  then have "\<not> has_prefix (fence @ ?b @ fence) (fence @ ''json'')" by (simp add: has_prefix_def fence_def numeral_3_eq_3)
  then have nj: "trim_prefix (fence @ ?b @ fence) (fence @ ''json'') = fence @ ?b @ fence" unfolding trim_prefix_def by simp
  have "unfence (fence @ ''json'' @ ?b @ fence) = s" unfolding unfence_def tf j nf suffix_fence t ..
  then show "unfence (fence @ ''json'' @ chr 10 # s @ chr 10 # fence) = s" by simp
  have "unfence (fence @ [] @ ?b @ fence) = s" unfolding unfence_def append_Nil tf [of "[]", unfolded append_Nil] nj j suffix_fence t ..
  then show "unfence (fence @ chr 10 # s @ chr 10 # fence) = s" by simp
qed

section \<open>Extraction\<close>

definition memory_tree :: "string list \<Rightarrow> jx" where
  "memory_tree ms = XObj [(''memory'', str_list ms)]"

definition chat_answer :: "string \<Rightarrow> jx" where
  "chat_answer content = XObj [(''choices'', XArr [XObj [(''message'', XObj [(''role'', XStr ''assistant''), (''content'', XStr content)])]])]"

lemma one_field:
  "field_for memory_fields ''memory'' = Some (setting (\<lambda>v _. dec_list_field (\<lambda>x. dec_string_field x []) v) id (\<lambda>y _. y))"
  "field_for chat_fields ''choices'' = Some (setting (\<lambda>v _. dec_list_field (\<lambda>x. dec_struct choice_fields x []) v) id (\<lambda>y _. y))"
  "field_for choice_fields ''message'' = Some (dec_struct content_fields)"
  "field_for content_fields ''content'' = Some (setting dec_string_field id (\<lambda>y _. y))"
  "field_for content_fields ''role'' = None"
  by (subst field_for_plain; simp add: plain_name_def memory_fields_def chat_fields_def choice_fields_def content_fields_def)+

lemma dec_all_str: "dec_all (\<lambda>x. dec_string_field x []) (map XStr ms) = Some ms"
  by (induction ms) (simp_all add: dec_string_field_def)

lemma memory_text: "jx_print (memory_tree ms) = CHR ''{'' # (json_str ''memory'' @ '':['' @ join '','' (map json_str ms) @ '']'') @ ''}''"
  by (simp add: memory_tree_def str_list_def o_def)

interpretation memory_wire: wire memory_tree memory_fields "[]" "list_all valid_utf8" id
  by unfold_locales (simp_all add: memory_tree_def str_list_def json_max_depth_def valid_utf8_ascii list_all_iff dec_struct_def
      one_field setting_def dec_list_field_def dec_all_str)

interpretation chat_wire: wire chat_answer chat_fields "[]" valid_utf8 "\<lambda>content. [content]"
  by unfold_locales (simp_all add: chat_answer_def json_max_depth_def valid_utf8_ascii dec_struct_def one_field setting_def
      dec_list_field_def dec_string_field_def)

lemma memories_read:
  assumes "list_all valid_utf8 ms" "unfence content = jx_print (memory_tree ms)"
  shows "memories_in content = Inr ms"
  using memory_wire.text_read [OF assms(1)] by (simp add: memories_in_def assms(2))

lemma content_read: "valid_utf8 content \<Longrightarrow> memories_of (jx_print (chat_answer content)) = memories_in content"
  using chat_wire.text_read [of content] by (simp add: memories_of_def)

text \<open>C31. Extracted facts come through. When the provider answers with a chat completion whose content is a list of
  facts as JSON, bare or in a code fence with or without its language, \<open>ExtractMemories\<close> returns exactly
  these facts, whatever text they hold.\<close>

theorem extracted_facts_exact:
  assumes "list_all valid_utf8 ms" and "code < 300"
    and "content \<in> {jx_print (memory_tree ms), fence @ ''json'' @ chr 10 # jx_print (memory_tree ms) @ chr 10 # fence,
           fence @ chr 10 # jx_print (memory_tree ms) @ chr 10 # fence}"
    and "tr (provider_call c (oc_base c @ ''/chat/completions'') (chat_body model payload)) w
           = (Inr (code, jx_print (chat_answer content)), w')"
  shows "ExtractMemories tr c model payload w = (Inr ms, w')"
proof -
  have "unfence content = jx_print (memory_tree ms)"
    using assms(3) unfence_plain [OF memory_text] unfence_fenced [OF memory_text] by auto
  from memories_read [OF assms(1) this] have m: "memories_in content = Inr ms" .
  have "valid_utf8 (jx_print (memory_tree ms))" unfolding memory_text
    using assms(1) by (intro valid_parts join_valid) (auto simp: valid_parts json_str_valid valid_utf8_ascii list_all_iff)
  then have "valid_utf8 content" using assms(3)
    by (auto simp: fence_def numeral_3_eq_3 valid_parts)
  then show ?thesis using m assms(2,4) by (simp add: ExtractMemories_def content_read)
qed

lemma extracted_facts_exact_witness:
  "ExtractMemories (\<lambda>_ w. (Inr (200, jx_print (chat_answer (fence @ chr 10 # jx_print (memory_tree [''a'', ''b'']) @ chr 10 # fence))), w))
     (NewOpenAI ''https://p/'' ''k'') ''m'' ''x'' () = (Inr [''a'', ''b''], ())"
  by (rule extracted_facts_exact) (simp_all add: valid_utf8_ascii)

end
