(* ===== verification/Spec2Isabelle.thy ===== *)
theory Spec2Isabelle
  imports Agent_Sample Auth_Race Auth_Spec Edges Findings Ingest_Loop Provider_Laws
begin

text \<open>
  GhostVault: an encrypted memory store for language-model agents, with its service, its MCP server and
  its command line client. The development models the Go program under \<^verbatim>\<open>src/\<close> (tests, dashboard and
  scripts apart) as functions and step relations over explicit states, and proves what makes it
  correct. Definitions carry the names of the source; where a name is taken in Isabelle it has a suffix.

  \<^bold>\<open>The program and its parts.\<close> \<open>gvsvd\<close> (\<open>cmd/gvsvd\<close>) reads its settings (\<open>internal/config/config.go\<close>), opens PostgreSQL
  (\<open>internal/store\<close>), loads the runtime tuning, may unlock the vault with a configured password, and serves HTTP
  (\<open>internal/api\<close>). A request passes the middleware, is authenticated by the session manager (\<open>internal/auth\<close>) with
  a session or an action token, and is handled: a memory is cut, sealed (\<open>internal/crypto\<close>), embedded by the model
  provider (\<open>internal/providers\<close>) and stored, or searched for by vector and text, fused, ranked and opened
  (\<open>internal/core\<close>). \<open>gvmcp\<close> (\<open>cmd/gvmcp\<close>, \<open>internal/mcpbridge\<close>) offers three of these operations as MCP tools, over standard
  input or HTTP, there behind OAuth; \<open>gvctl\<close> (\<open>cmd/gvctl\<close>) is a client of the same API.

  \<^bold>\<open>State.\<close> \<open>World\<close> has the database as lists of rows per table (\<open>db\<close>) and a counter of calls to the outside; \<open>env\<close> has
  what the outside answers at each count: failing calls, clock, random bytes, UUIDs, the cipher, the provider, the
  search operators of PostgreSQL. So a failure, a slow clock or a bad answer can happen at any call, and a
  theorem over all \<open>env\<close> holds for all of them. \<open>mgr\<close> is the session manager with its map, \<open>tuning_state\<close> the
  tuning in force, \<open>server\<close> the two and the settings. An operation takes the states it changes and returns
  them; a Go error is the left of a sum (\<open>'a res\<close>), a panic the error \<open>EPanic\<close>.

  \<^bold>\<open>Theories and sources.\<close>
  \<^item> \<open>Prelude\<close>, \<open>Gostr\<close>, \<open>F64\<close>, \<open>Json\<close>, \<open>Json_Roundtrip\<close>, \<open>Json_Struct\<close>, \<open>Json_Struct_Laws\<close>, \<open>Form\<close>: what the program uses of Go and its
    library: 64-bit integers that wrap, UTF-8 and \<open>strings\<close>, binary64, \<open>encoding/json\<close> down to the bytes, struct
    decoding, the forms of \<open>net/url\<close>. Laws: round trips of each.
  \<^item> \<open>World\<close>, \<open>Store\<close>: every method of \<open>store.go\<close> with the constraints of \<open>db/migrations\<close>; \<open>Store_Inv\<close>, \<open>Store_Client\<close>,
    \<open>Store_Laws\<close>: well-formed databases, runs of the store, atomic inserts, final deletes.
  \<^item> \<open>Vault_Crypto\<close> (\<open>crypto/vault.go\<close>), \<open>Chunk_Body\<close>, \<open>Chunk_Codec\<close> (\<open>core/chunkbody.go\<close>), \<open>Scoring\<close> (\<open>core/scoring.go\<close>).
  \<^item> \<open>Tuning\<close>, \<open>Tuning_Laws\<close> (\<open>config/tuning.go\<close>, \<open>tuning_state.go\<close>): layers, validation, overrides, sources.
  \<^item> \<open>Auth\<close> (\<open>auth/session.go\<close>, \<open>credential.go\<close>), \<open>Auth_Laws\<close>: when a token is good; \<open>Auth_Spec\<close>: the manager as a refinement of a
    table of leases; \<open>Auth_Race\<close>: a touch and a lock interleaved.
  \<^item> \<open>Ingest\<close>, \<open>Ingest_Loop\<close>, \<open>Ingest_Laws\<close> (\<open>core/ingest_work.go\<close>, \<open>engine.go\<close>); \<open>Retrieve\<close>, \<open>Retrieve_Laws\<close> (\<open>engine.go\<close>).
  \<^item> \<open>Boot\<close>, \<open>Boot_Laws\<close> (\<open>config/config.go\<close>, \<open>cmd/gvsvd/main.go\<close>).
  \<^item> \<open>Http\<close> (\<open>api/middleware.go\<close>, \<open>problem.go\<close>, \<open>authdebug/mask.go\<close>), \<open>Api\<close> (\<open>api/handlers.go\<close>, \<open>tuning_handlers.go\<close>);
    \<open>Api_Contract\<close> (the contracts between guards, handlers and middleware), \<open>Api_Laws\<close>, \<open>Api_Isolation\<close>, \<open>Api_Flows\<close>,
    \<open>Api_Tuning\<close>: the guarantees of the service.
  \<^item> \<open>Provider\<close>, \<open>Provider_Laws\<close> (\<open>providers/openai.go\<close>).
  \<^item> \<open>Bridge\<close> (\<open>mcpbridge/bridge.go\<close>, \<open>bearer.go\<close>), \<open>Bridge_Laws\<close>: what the tools send is what the handlers decode; \<open>OAuth\<close>,
    \<open>OAuth_Facade\<close> (\<open>oauth.go\<close>, \<open>oauth_facade.go\<close>), \<open>Gvmcp\<close> (\<open>cmd/gvmcp\<close>), \<open>Gvctl\<close> (\<open>cmd/gvctl\<close>), \<open>Mcp_Laws\<close>.
  \<^item> \<open>Sample\<close>, \<open>Api_Sample\<close>, \<open>Mcp_Sample\<close>: concrete environments in which the theorems are applied.
  \<^item> \<open>Reply_Json\<close>: the bytes of every answer of the service, from the struct tags of \<open>core/engine.go\<close> and the maps of
    \<open>api/handlers.go\<close>; \<open>Reply_Laws\<close>: read back, they are the engine's values.
  \<^item> \<open>End_To_End\<close>: the programs together, the modelled service (with its routing table) as the transport of the command line
    client and of the bridge; \<open>Agent_Sample\<close>: an agent that searches and saves there.
  \<^item> \<open>Edges\<close>: the text of a vector for PostgreSQL, the recorder of the status for the access log, the end of \<open>gvmcp\<close>;
    \<open>Findings\<close>: behaviour of the code that is not what it means to do, each exhibited in its operation.

  \<^bold>\<open>Interfaces.\<close> \<open>keyed_table\<close> (a table with a key, for six tables of the database), \<open>stepwise\<close> (a relation that holds over a run when
  it holds over each call; for runs of the store, for reads, for authentication, for the rows of other
  vaults), \<open>store_client\<close> (a component that changes the database only through the store), \<open>ranking\<close> and \<open>slice_order\<close> (the
  two sorts), \<open>branching\<close>, \<open>guard\<close> and \<open>api_handler\<close> (handlers between authentication and middleware), \<open>simulation\<close> (the
  manager and its table), \<open>wire\<close> (a printed tree and the struct that reads it: search, save, the
  provider's answers), \<open>answer\<close> (a printed answer and what a reader is shown of it). Each is interpreted on the model's own operations, and the properties rest on these facts.

  \<^bold>\<open>What is shown.\<close> Nobody is let in without a live session or action token, and a refused caller changes nothing but
  expired sessions; vaults do not see or change each other; a deleted memory stays deleted; the
  schema's constraints hold after every sequence of requests, whichever calls fail; locks are final
  (but for the race and the lost error that \<open>Auth_Race\<close> and \<open>Auth_Laws\<close> exhibit); the manager, its cache and its
  rows are one table of leases; what is sealed, printed, encoded or sent is read back; the ranking is the
  sorted fusion of the scores; answers stay in their bounds; server errors are redacted; a change of
  the tuning is all or nothing; a start is consistent with the vault it finds; the bridge speaks the
  service's language; the MCP server with introspection never serves the tools unguarded;
  a token that \<open>gvctl\<close> fetches lets the tools of the MCP server in; what an agent asks of the tools
  is what the engine searches or stores, in the vault of the token, and what the engine returns is what the agent reads.

  \<^bold>\<open>Bounds and fuel.\<close> The JSON parser has fuel of twice the length of its input and two, proved to be enough for every printed
  tree, and the scanner's nesting limit of 10000. All other loops are structural or have a measure; the loop
  of \<open>chunkText\<close> is also given as a \<open>while\<close>, with the proof that it ends for every size from 1 on. Integers are
  unbounded except where the code can reach the limits: durations, token lifetimes, counts of the
  settings, chunk budgets and the expiry of tokens, which wrap or clip as on a 64-bit platform.

  \<^bold>\<open>Not modelled.\<close> Third-party code: the matching of the chi router (the route it chose is part of the request; \<open>Routes\<close> is its table), the YAML parser, goose, pgx and PostgreSQL's
  search operators, Argon2id and XChaCha20-Poly1305, the MCP library with its check of the bearer
  header: parameters, with their documented promises as hypotheses where one is needed. Of the standard library, the parsing of
  URLs and of flags, the Unicode tables outside ASCII and the shortest decimal form of a float are parameters
  too. Pure I/O: the connection pool (\<open>NewPool\<close>, \<open>Close\<close>), listening and shutdown of the HTTP
  servers, response headers of the service, the failure of the encoder on a year beyond 9999, timeouts (they appear as failing calls), the texts of some errors, the usage text
  of \<open>gvctl\<close>. A request is one step of the service; only the touch and the lock of a session
  are interleaved, and a tuning reload in the middle of a call is left out. The decoder's reuse of the
  memory of earlier array elements is left out. \<open>db/embed.go\<close> has no logic; the dashboard and the scripts
  are not Go.
\<close>

end
